(* ===== verification/TJ_Prelude.thy ===== *)
theory TJ_Prelude
  imports Main
begin

text \<open>
  Shared ground of the development: the values a JavaScript expression can have besides an
  ordinary one (\<open>undefined\<close>, \<open>null\<close>), computations that may throw, the loops of the front end
  over such computations, and the list lemmas several components need.
\<close>

named_theorems js_unfold \<open>definitions that unfold to plain HOL operations\<close>

section \<open>undefined, null and values\<close>

datatype 'a jsval = Undefined | Null | Val (the_val: 'a)

primrec is_val :: "'a jsval \<Rightarrow> bool" where
  "is_val Undefined = False"
| "is_val Null = False"
| "is_val (Val _) = True"

primrec map_jsval :: "('a \<Rightarrow> 'b) \<Rightarrow> 'a jsval \<Rightarrow> 'b jsval" where
  "map_jsval f Undefined = Undefined"
| "map_jsval f Null = Null"
| "map_jsval f (Val x) = Val (f x)"

lemma is_val_iff: "is_val v \<longleftrightarrow> (\<exists>x. v = Val x)"
  by (cases v) auto

section \<open>Exceptions\<close>

text \<open>
  The only exception the modelled code can raise by itself is the TypeError of reading a property
  of \<open>undefined\<close> or \<open>null\<close> (or of calling a method that is not there).
\<close>

datatype js_error = TypeError

type_synonym 'a throws = "js_error + 'a"

definition bindE :: "'e + 'a \<Rightarrow> ('a \<Rightarrow> 'e + 'b) \<Rightarrow> 'e + 'b" where
  "bindE m f = (case m of Inl e \<Rightarrow> Inl e | Inr x \<Rightarrow> f x)"

lemma bindE_simps [simp]:
  "bindE (Inl e) f = Inl e"
  "bindE (Inr x) f = f x"
  by (simp_all add: bindE_def)

lemma bindE_assoc: "bindE (bindE m f) g = bindE m (\<lambda>x. bindE (f x) g)"
  by (cases m) auto

lemma bindE_Inr_id: "bindE m Inr = m"
  by (cases m) auto

lemma bindE_eq_Inr: "bindE m f = Inr y \<longleftrightarrow> (\<exists>x. m = Inr x \<and> f x = Inr y)"
  by (cases m) auto

lemma bindE_InrE:
  assumes "bindE m f = Inr y"
  obtains x where "m = Inr x" and "f x = Inr y"
  using assms by (auto simp: bindE_eq_Inr)

lemma bindE_eq_Inl: "bindE m f = Inl e \<longleftrightarrow> m = Inl e \<or> (\<exists>x. m = Inr x \<and> f x = Inl e)"
  by (cases m) auto

lemma bindE_cong [fundef_cong]:
  "m = m' \<Longrightarrow> (\<And>x. m' = Inr x \<Longrightarrow> f x = g x) \<Longrightarrow> bindE m f = bindE m' g"
  by (cases m') auto

text \<open>\<open>xs.map(f)\<close>, \<open>xs.filter(p)\<close> and \<open>xs.find(p)\<close> for callbacks that may throw.\<close>

fun mapE :: "('a \<Rightarrow> 'e + 'b) \<Rightarrow> 'a list \<Rightarrow> 'e + 'b list" where
  "mapE f [] = Inr []"
| "mapE f (x # xs) = bindE (f x) (\<lambda>y. bindE (mapE f xs) (\<lambda>ys. Inr (y # ys)))"

fun filterE :: "('a \<Rightarrow> 'e + bool) \<Rightarrow> 'a list \<Rightarrow> 'e + 'a list" where
  "filterE p [] = Inr []"
| "filterE p (x # xs) =
     bindE (p x) (\<lambda>b. bindE (filterE p xs) (\<lambda>ys. Inr (if b then x # ys else ys)))"

fun findE :: "('a \<Rightarrow> 'e + bool) \<Rightarrow> 'a list \<Rightarrow> 'e + 'a option" where
  "findE p [] = Inr None"
| "findE p (x # xs) = bindE (p x) (\<lambda>b. if b then Inr (Some x) else findE p xs)"

lemma mapE_total:
  "(\<And>x. x \<in> set xs \<Longrightarrow> f x = Inr (g x)) \<Longrightarrow> mapE f xs = Inr (map g xs)"
  by (induction xs) auto

lemma filterE_total:
  "(\<And>x. x \<in> set xs \<Longrightarrow> p x = Inr (q x)) \<Longrightarrow> filterE p xs = Inr (filter q xs)"
  by (induction xs) auto

lemma findE_total:
  "(\<And>x. x \<in> set xs \<Longrightarrow> p x = Inr (q x)) \<Longrightarrow> findE p xs = Inr (List.find q xs)"
  by (induction xs) auto

lemma filterE_eq_Inr:
  "filterE p xs = Inr ys \<longleftrightarrow>
     (\<forall>x \<in> set xs. \<exists>b. p x = Inr b) \<and> ys = filter (\<lambda>x. p x = Inr True) xs"
proof (induction xs arbitrary: ys)
  case Nil
  then show ?case by auto
next
  case (Cons x xs)
  show ?case
  proof (cases "p x")
    case (Inl e)
    then show ?thesis by simp
  next
    case (Inr b)
    then show ?thesis by (auto simp: bindE_eq_Inr Cons.IH)
  qed
qed

lemma mapE_eq_Inr:
  "mapE f xs = Inr ys \<longleftrightarrow> (\<forall>x \<in> set xs. \<exists>y. f x = Inr y) \<and> ys = map (\<lambda>x. projr (f x)) xs"
proof (induction xs arbitrary: ys)
  case Nil
  then show ?case by auto
next
  case (Cons x xs)
  show ?case
  proof (cases "f x")
    case (Inl e)
    then show ?thesis by simp
  next
    case (Inr y)
    then show ?thesis by (auto simp: bindE_eq_Inr Cons.IH)
  qed
qed

lemma filterE_TypeError:
  fixes p :: "'a \<Rightarrow> bool throws"
  shows "filterE p xs = Inl TypeError \<longleftrightarrow> (\<exists>x \<in> set xs. p x = Inl TypeError)"
proof (induction xs)
  case Nil
  then show ?case by simp
next
  case (Cons x xs)
  show ?case
  proof (cases "p x")
    case (Inl e)
    then show ?thesis by (cases e) simp
  next
    case (Inr b)
    then show ?thesis by (simp add: bindE_eq_Inl Cons.IH)
  qed
qed

lemma mapE_cong [fundef_cong]:
  "xs = ys \<Longrightarrow> (\<And>x. x \<in> set ys \<Longrightarrow> f x = g x) \<Longrightarrow> mapE f xs = mapE g ys"
  by (induction xs arbitrary: ys) (auto intro: bindE_cong)

lemma mapE_of_map: "mapE f (map g xs) = mapE (\<lambda>x. f (g x)) xs"
  by (induction xs) simp_all

lemma mapE_length: "mapE f xs = Inr ys \<Longrightarrow> length ys = length xs"
  by (induction xs arbitrary: ys) (auto simp: bindE_eq_Inr)

lemma mapE_nth: "mapE f xs = Inr ys \<Longrightarrow> i < length xs \<Longrightarrow> f (xs ! i) = Inr (ys ! i)"
proof (induction xs arbitrary: ys i)
  case Nil
  then show ?case by simp
next
  case (Cons x xs)
  then show ?case by (cases i) (auto simp: bindE_eq_Inr)
qed

lemma mapE_Inl: "mapE f xs = Inl e \<longleftrightarrow>
    (\<exists>ys x zs. xs = ys @ x # zs \<and> f x = Inl e \<and> (\<forall>y \<in> set ys. \<exists>v. f y = Inr v))"
proof (induction xs)
  case Nil
  then show ?case by simp
next
  case (Cons a xs)
  show ?case
  proof (cases "f a")
    case (Inl e')
    have "e' = e \<Longrightarrow> \<exists>ys x zs. a # xs = ys @ x # zs \<and> f x = Inl e \<and> (\<forall>y \<in> set ys. \<exists>v. f y = Inr v)"
      using Inl by (intro exI [of _ "[]"]) auto
    with Inl show ?thesis by (auto simp: Cons_eq_append_conv)
  next
    case (Inr v)
    have *: "(\<exists>ys x zs. a # xs = ys @ x # zs \<and> f x = Inl e \<and> (\<forall>y \<in> set ys. \<exists>v. f y = Inr v)) \<longleftrightarrow>
        (\<exists>ys x zs. xs = ys @ x # zs \<and> f x = Inl e \<and> (\<forall>y \<in> set ys. \<exists>v. f y = Inr v))"
      using Inr by (auto simp: Cons_eq_append_conv) (metis list.set_intros set_ConsD)+
    show ?thesis unfolding * using Inr by (simp add: bindE_eq_Inl Cons.IH)
  qed
qed

section \<open>Lists\<close>

lemma foldl_invariant:
  "P s \<Longrightarrow> (\<And>s x. x \<in> set xs \<Longrightarrow> P s \<Longrightarrow> P (f s x)) \<Longrightarrow> P (foldl f s xs)"
  by (induction xs arbitrary: s) auto

lemma filter_ident: "(\<And>x. x \<in> set xs \<Longrightarrow> P x) \<Longrightarrow> filter P xs = xs"
  by (induction xs) auto

text \<open>\<open>xs.find(p)\<close> and \<open>xs.filter(p)[0]\<close> pick the same element.\<close>

lemma find_filter: "List.find P xs = (case filter P xs of [] \<Rightarrow> None | y # _ \<Rightarrow> Some y)"
  by (induction xs) auto

end
