(* ===== verification/JsString.thy ===== *)
theory JsString
  imports TJ_Prelude
begin

text \<open>
  The string methods of JavaScript the front end calls. A string is a list of code units; the
  model keeps the code units below 256 (Isabelle's \<open>char\<close>), so white space and letter case are
  those of Latin-1.
\<close>

section \<open>Searching and cutting\<close>

text \<open>\<open>s.indexOf(c)\<close> for a one-character string: the first position, or -1.\<close>

fun indexOf :: "string \<Rightarrow> char \<Rightarrow> int" where
  "indexOf [] c = - 1"
| "indexOf (x # xs) c =
     (if x = c then 0 else (let i = indexOf xs c in if i < 0 then - 1 else i + 1))"

text \<open>\<open>s.substr(i)\<close> and \<open>s.substr(i, n)\<close> for \<open>0 \<le> i\<close>.\<close>

definition substr :: "string \<Rightarrow> nat \<Rightarrow> string" where
  [js_unfold]: "substr s i = drop i s"

definition substr2 :: "string \<Rightarrow> nat \<Rightarrow> nat \<Rightarrow> string" where
  [js_unfold]: "substr2 s i n = take n (drop i s)"

definition startsWith :: "string \<Rightarrow> string \<Rightarrow> bool" where
  [js_unfold]: "startsWith s p \<longleftrightarrow> take (length p) s = p"

text \<open>\<open>s.charAt(0)\<close> and \<open>s.slice(-1)\<close>: strings of at most one character.\<close>

definition charAt0 :: "string \<Rightarrow> string" where
  [js_unfold]: "charAt0 s = take 1 s"

definition slice_last :: "string \<Rightarrow> string" where
  [js_unfold]: "slice_last s = drop (length s - 1) s"

fun str_includes :: "string \<Rightarrow> string \<Rightarrow> bool" where
  "str_includes [] p \<longleftrightarrow> p = []"
| "str_includes (x # xs) p \<longleftrightarrow> startsWith (x # xs) p \<or> str_includes xs p"

lemma indexOf_bounds: "- 1 \<le> indexOf s c \<and> indexOf s c < int (length s)"
  by (induction s) (auto simp: Let_def)

lemma indexOf_neg: "indexOf s c < 0 \<longleftrightarrow> c \<notin> set s"
  by (induction s) (auto simp: Let_def)

lemma indexOf_append: "c \<notin> set a \<Longrightarrow> indexOf (a @ c # b) c = int (length a)"
  by (induction a) (auto simp: Let_def)

lemma indexOf_split:
  assumes "0 \<le> indexOf s c"
  shows "s = take (nat (indexOf s c)) s @ c # drop (Suc (nat (indexOf s c))) s"
    and "c \<notin> set (take (nat (indexOf s c)) s)"
proof -
  from assms have "c \<in> set s" using indexOf_neg [of s c] by linarith
  then obtain a b where s: "s = a @ c # b" and c: "c \<notin> set a"
    by (auto dest: split_list_first)
  then have i: "nat (indexOf s c) = length a" by (simp add: indexOf_append)
  show "s = take (nat (indexOf s c)) s @ c # drop (Suc (nat (indexOf s c))) s"
    unfolding i using s by simp
  show "c \<notin> set (take (nat (indexOf s c)) s)"
    unfolding i using s c by simp
qed

lemma startsWith_append [simp]: "startsWith (p @ s) p"
  by (simp add: startsWith_def)

lemma startsWith_iff: "startsWith s p \<longleftrightarrow> (\<exists>t. s = p @ t)"
  by (metis append_eq_conv_conj append_take_drop_id startsWith_def)

lemma str_includes_iff: "str_includes s p \<longleftrightarrow> (\<exists>a b. s = a @ p @ b)"
proof (induction s)
  case Nil
  then show ?case by auto
next
  case (Cons x xs)
  have "(\<exists>a b. x # xs = a @ p @ b) \<longleftrightarrow> (\<exists>b. x # xs = p @ b) \<or> (\<exists>a b. xs = a @ p @ b)"
    by (auto simp: Cons_eq_append_conv)
  then show ?case by (simp add: Cons.IH startsWith_iff)
qed

lemma slice_last_eq: "s \<noteq> [] \<Longrightarrow> slice_last s = [last s]"
  by (induction s rule: rev_induct) (auto simp: slice_last_def)

lemma charAt0_eq: "s \<noteq> [] \<Longrightarrow> charAt0 s = [hd s]"
  by (cases s) (auto simp: charAt0_def)

section \<open>Splitting and joining\<close>

text \<open>\<open>s.split(c)\<close> for a one-character separator; the empty string splits into \<open>[""]\<close>.\<close>

fun split_on :: "char \<Rightarrow> string \<Rightarrow> string list" where
  "split_on c [] = [[]]"
| "split_on c (x # xs) =
     (if x = c then [] # split_on c xs
      else (case split_on c xs of [] \<Rightarrow> [[x]] | w # ws \<Rightarrow> (x # w) # ws))"

text \<open>\<open>xs.join(sep)\<close>; \<open>xs.toString()\<close> on an array is \<open>xs.join(",")\<close>.\<close>

fun join :: "string \<Rightarrow> string list \<Rightarrow> string" where
  "join sep [] = []"
| "join sep [x] = x"
| "join sep (x # y # ys) = x @ sep @ join sep (y # ys)"

definition array_toString :: "string list \<Rightarrow> string" where
  [js_unfold]: "array_toString xs = join '','' xs"

lemma split_on_nonempty [simp]: "split_on c s \<noteq> []"
  by (induction s) (auto split: list.splits)

lemma join_split_on: "join [c] (split_on c s) = s"
proof (induction s)
  case Nil
  then show ?case by simp
next
  case (Cons x xs)
  obtain w ws where w: "split_on c xs = w # ws"
    by (cases "split_on c xs") auto
  with Cons show ?case by (cases ws) auto
qed

lemma split_on_no_sep: "c \<notin> set s \<Longrightarrow> split_on c s = [s]"
  by (induction s) auto

lemma split_on_append_sep: "c \<notin> set a \<Longrightarrow> split_on c (a @ c # b) = a # split_on c b"
  by (induction a) auto

lemma split_on_join:
  "xs \<noteq> [] \<Longrightarrow> \<forall>x \<in> set xs. c \<notin> set x \<Longrightarrow> split_on c (join [c] xs) = xs"
  by (induction "[c]" xs rule: join.induct) (auto simp: split_on_no_sep split_on_append_sep)

lemma split_on_parts: "w \<in> set (split_on c s) \<Longrightarrow> c \<notin> set w"
proof (induction s arbitrary: w)
  case Nil
  then show ?case by simp
next
  case (Cons x xs)
  then show ?case by (cases "split_on c xs") (auto split: if_splits)
qed

section \<open>Trimming, case and replacement\<close>

definition is_space :: "char \<Rightarrow> bool" where
  "is_space c \<longleftrightarrow> (let n = (of_char c :: nat) in (9 \<le> n \<and> n \<le> 13) \<or> n = 32 \<or> n = 160)"

definition trim :: "string \<Rightarrow> string" where
  "trim s = rev (dropWhile is_space (rev (dropWhile is_space s)))"

definition lower_char :: "char \<Rightarrow> char" where
  "lower_char c = (let n = (of_char c :: nat) in
     if (65 \<le> n \<and> n \<le> 90) \<or> (192 \<le> n \<and> n \<le> 222 \<and> n \<noteq> 215) then char_of (n + 32) else c)"

definition toLowerCase :: "string \<Rightarrow> string" where
  "toLowerCase s = map lower_char s"

definition upper_ascii :: "char \<Rightarrow> char" where
  "upper_ascii c = (let n = (of_char c :: nat) in
     if 97 \<le> n \<and> n \<le> 122 then char_of (n - 32) else c)"

text \<open>\<open>s.replace(/a/g, b)\<close> for single characters.\<close>

definition replace_all :: "char \<Rightarrow> char \<Rightarrow> string \<Rightarrow> string" where
  [js_unfold]: "replace_all a b s = map (\<lambda>c. if c = a then b else c) s"

lemma trim_ends:
  assumes "trim s \<noteq> []"
  shows "\<not> is_space (hd (trim s))" and "\<not> is_space (last (trim s))"
proof -
  let ?t = "dropWhile is_space s"
  obtain u where u: "?t = trim s @ u"
    using takeWhile_dropWhile_id [of is_space "rev ?t"]
    by (metis rev_append rev_rev_ident trim_def)
  with assms have "hd (trim s) = hd ?t" and t: "?t \<noteq> []" by auto
  then show "\<not> is_space (hd (trim s))" using hd_dropWhile [of is_space s] by simp
  show "\<not> is_space (last (trim s))"
    using assms hd_dropWhile [of is_space "rev ?t"] by (simp add: trim_def last_rev)
qed

lemma trim_id:
  assumes "s = [] \<or> (\<not> is_space (hd s) \<and> \<not> is_space (last s))"
  shows "trim s = s"
proof (cases "s = []")
  case True
  then show ?thesis by (simp add: trim_def)
next
  case False
  with assms have "dropWhile is_space s = s" "dropWhile is_space (rev s) = rev s"
    by (metis dropWhile_eq_self_iff, metis dropWhile_eq_self_iff hd_rev)
  then show ?thesis by (simp add: trim_def)
qed

lemma trim_idem [simp]: "trim (trim s) = trim s"
  by (rule trim_id) (use trim_ends [of s] in blast)

lemma set_trim: "set (trim s) \<subseteq> set s"
  by (auto simp: trim_def dest!: set_dropWhileD)

section \<open>Decimal numerals\<close>

text \<open>\<open>n.toString()\<close> for a natural number.\<close>

fun nat_toString :: "nat \<Rightarrow> string" where
  "nat_toString n =
     (if n < 10 then [char_of (48 + n)] else nat_toString (n div 10) @ [char_of (48 + n mod 10)])"

declare nat_toString.simps [simp del]

lemma nat_toString_nonempty [simp]: "nat_toString n \<noteq> []"
  by (subst nat_toString.simps) simp

end
