(* ===== verification/JsNumber.thy ===== *)
theory JsNumber
  imports Complex_Main JsString
begin

text \<open>
  JavaScript numbers as the front end meets them: the result of \<open>Number(s)\<close> and
  \<open>parseInt(s, 10)\<close> on the text of an input field, and the numbers of the API's JSON. The
  finite ones are exact rationals, so the rounding of doubles (and the overflow of a literal
  beyond \<open>1.8e308\<close> to Infinity) is not modelled; NaN and the infinities are.
\<close>

datatype jsnum = NaN | PosInf | NegInf | Fin rat

primrec isNaN :: "jsnum \<Rightarrow> bool" where
  "isNaN NaN = True"
| "isNaN PosInf = False"
| "isNaN NegInf = False"
| "isNaN (Fin q) = False"

abbreviation num :: "int \<Rightarrow> jsnum" where
  "num i \<equiv> Fin (of_int i)"

text \<open>Multiplication by a positive constant, \<open>Math.floor\<close> and the comparisons.\<close>

primrec times_pos :: "jsnum \<Rightarrow> rat \<Rightarrow> jsnum" where
  "times_pos NaN k = NaN"
| "times_pos PosInf k = PosInf"
| "times_pos NegInf k = NegInf"
| "times_pos (Fin q) k = Fin (q * k)"

primrec math_floor :: "jsnum \<Rightarrow> jsnum" where
  "math_floor NaN = NaN"
| "math_floor PosInf = PosInf"
| "math_floor NegInf = NegInf"
| "math_floor (Fin q) = Fin (of_int \<lfloor>q\<rfloor>)"

fun num_le :: "jsnum \<Rightarrow> jsnum \<Rightarrow> bool" where
  "num_le NaN y = False"
| "num_le x NaN = False"
| "num_le NegInf y = True"
| "num_le x PosInf = True"
| "num_le (Fin p) (Fin q) = (p \<le> q)"
| "num_le x y = False"

fun num_lt :: "jsnum \<Rightarrow> jsnum \<Rightarrow> bool" where
  "num_lt NaN y = False"
| "num_lt x NaN = False"
| "num_lt x NegInf = False"
| "num_lt PosInf y = False"
| "num_lt (Fin p) (Fin q) = (p < q)"
| "num_lt x y = True"

lemma num_lt_le: "num_lt x y \<Longrightarrow> num_le x y"
  by (cases x; cases y) auto

lemma num_le_iff: "\<not> isNaN x \<Longrightarrow> \<not> isNaN y \<Longrightarrow> num_le x y \<longleftrightarrow> \<not> num_lt y x"
  by (cases x; cases y) auto

lemma num_le_NaN [simp]: "\<not> num_le x NaN" "\<not> num_lt x NaN"
  by (cases x; simp)+

section \<open>Number of a string\<close>

definition digit_val :: "char \<Rightarrow> nat option" where
  "digit_val c = (let n = (of_char c :: nat) in
     if 48 \<le> n \<and> n \<le> 57 then Some (n - 48)
     else if 97 \<le> n \<and> n \<le> 102 then Some (n - 87)
     else if 65 \<le> n \<and> n \<le> 70 then Some (n - 55) else None)"

text \<open>A non-empty run of digits below the base \<open>b\<close>; \<open>acc\<close> is the value read so far.\<close>

fun digits_from :: "nat \<Rightarrow> nat \<Rightarrow> string \<Rightarrow> nat option" where
  "digits_from b acc [] = Some acc"
| "digits_from b acc (c # s) =
     (case digit_val c of
        Some d \<Rightarrow> if d < b then digits_from b (acc * b + d) s else None
      | None \<Rightarrow> None)"

definition digits :: "nat \<Rightarrow> string \<Rightarrow> nat option" where
  "digits b s = (if s = [] then None else digits_from b 0 s)"

definition is_digit :: "char \<Rightarrow> bool" where
  "is_digit c = (let n = (of_char c :: nat) in 48 \<le> n \<and> n \<le> 57)"

fun split_sign :: "string \<Rightarrow> bool \<times> string" where
  "split_sign (CHR ''+'' # s) = (False, s)"
| "split_sign (CHR ''-'' # s) = (True, s)"
| "split_sign s = (False, s)"

text \<open>\<open>10 ^ e\<close> for an integer exponent and the exponent part after \<open>e\<close> or \<open>E\<close>.\<close>

definition pow10 :: "bool \<Rightarrow> nat \<Rightarrow> rat" where
  "pow10 neg e = (if neg then 1 / 10 ^ e else 10 ^ e)"

definition exponent :: "string \<Rightarrow> rat option" where
  "exponent s =
     (case s of [] \<Rightarrow> Some 1
      | _ # t \<Rightarrow> (let (neg, u) = split_sign t in map_option (pow10 neg) (digits 10 u)))"

definition unsigned_decimal :: "string \<Rightarrow> rat option" where
  "unsigned_decimal s =
     (let m = takeWhile (\<lambda>c. c \<noteq> CHR ''e'' \<and> c \<noteq> CHR ''E'') s;
          x = drop (length m) s;
          i = takeWhile (\<lambda>c. c \<noteq> CHR ''.'') m;
          f = drop (length i + 1) m
      in case (digits 10 (i @ f), exponent x) of
           (Some n, Some e) \<Rightarrow> Some (of_nat n / 10 ^ length f * e)
         | _ \<Rightarrow> None)"

text \<open>\<open>Number(s)\<close>: the StringToNumber grammar of ECMAScript.\<close>

fun radix_prefix :: "string \<Rightarrow> nat option" where
  "radix_prefix (CHR ''0'' # c # s) =
     (if c = CHR ''x'' \<or> c = CHR ''X'' then Some 16
      else if c = CHR ''o'' \<or> c = CHR ''O'' then Some 8
      else if c = CHR ''b'' \<or> c = CHR ''B'' then Some 2 else None)"
| "radix_prefix s = None"

definition Number :: "string \<Rightarrow> jsnum" where
  "Number str =
     (let s = trim str in
      if s = [] then Fin 0
      else case radix_prefix s of
        Some b \<Rightarrow> (case digits b (drop 2 s) of Some n \<Rightarrow> Fin (of_nat n) | None \<Rightarrow> NaN)
      | None \<Rightarrow>
          (let (neg, u) = split_sign s in
           if u = ''Infinity'' then (if neg then NegInf else PosInf)
           else case unsigned_decimal u of
             Some q \<Rightarrow> Fin (if neg then - q else q)
           | None \<Rightarrow> NaN))"

text \<open>\<open>parseInt(s, 10)\<close>: the longest run of digits at the start.\<close>

definition parseInt10 :: "string \<Rightarrow> jsnum" where
  "parseInt10 str =
     (let (neg, u) = split_sign (dropWhile is_space str) in
      case digits 10 (takeWhile is_digit u) of
        Some n \<Rightarrow> Fin (if neg then - of_nat n else of_nat n)
      | None \<Rightarrow> NaN)"

section \<open>Decimal numerals are read back\<close>

lemma digits_from_append:
  "digits_from b acc (s @ t) =
     (case digits_from b acc s of Some n \<Rightarrow> digits_from b n t | None \<Rightarrow> None)"
  by (induction s arbitrary: acc) (auto split: option.splits)

lemma of_char_digit: "n < 10 \<Longrightarrow> (of_char (char_of (48 + n) :: char) :: nat) = 48 + n"
  by (simp add: of_char_of)

lemma digit_val_char: "n < 10 \<Longrightarrow> digit_val (char_of (48 + n :: nat)) = Some n"
  by (simp add: digit_val_def of_char_digit Let_def)

lemma is_digit_char: "n < 10 \<Longrightarrow> is_digit (char_of (48 + n :: nat))"
  by (simp add: is_digit_def of_char_digit Let_def)

lemma digits_from_nat_toString:
  "digits_from 10 acc (nat_toString n) = Some (acc * 10 ^ length (nat_toString n) + n)"
proof (induction n arbitrary: acc rule: nat_toString.induct)
  case (1 n)
  show ?case
  proof (cases "n < 10")
    case True
    then show ?thesis by (simp add: nat_toString.simps digit_val_char)
  next
    case False
    have "n div 10 * 10 + n mod 10 = n" by simp
    then show ?thesis
      using False 1 [of acc]
      by (subst (1 2) nat_toString.simps)
         (simp add: digits_from_append digit_val_char algebra_simps)
  qed
qed

lemma digits_nat_toString [simp]: "digits 10 (nat_toString n) = Some n"
  by (simp add: digits_def digits_from_nat_toString)

lemma nat_toString_digits: "\<forall>c \<in> set (nat_toString n). is_digit c"
proof (induction n rule: nat_toString.induct)
  case (1 n)
  then show ?case
    by (cases "n < 10"; subst nat_toString.simps) (auto simp: is_digit_char)
qed

lemma nat_toString_hd: "is_digit (hd (nat_toString n))" "is_digit (last (nat_toString n))"
  using nat_toString_digits [of n] by (metis hd_in_set last_in_set nat_toString_nonempty)+

lemma is_digit_not_space: "is_digit c \<Longrightarrow> \<not> is_space c"
  by (auto simp: is_digit_def is_space_def Let_def)

lemma trim_nat_toString [simp]: "trim (nat_toString n) = nat_toString n"
  by (rule trim_id) (use nat_toString_hd [of n] is_digit_not_space in blast)

lemma is_digit_ne:
  "is_digit c \<Longrightarrow> c \<noteq> CHR ''+'' \<and> c \<noteq> CHR ''-'' \<and> c \<noteq> CHR ''e'' \<and> c \<noteq> CHR ''E'' \<and> c \<noteq> CHR ''.''
    \<and> c \<noteq> CHR ''I'' \<and> c \<noteq> CHR ''x'' \<and> c \<noteq> CHR ''X'' \<and> c \<noteq> CHR ''o'' \<and> c \<noteq> CHR ''O''
    \<and> c \<noteq> CHR ''b'' \<and> c \<noteq> CHR ''B''"
  by (auto simp: is_digit_def)

lemma split_sign_digit:
  assumes "s \<noteq> []" "is_digit (hd s)"
  shows "split_sign s = (False, s)"
  using assms is_digit_ne [of "hd s"] by (cases s rule: split_sign.cases) auto

lemma radix_prefix_digits: "\<forall>c \<in> set s. is_digit c \<Longrightarrow> radix_prefix s = None"
  using is_digit_ne by (cases s rule: radix_prefix.cases) auto

lemma unsigned_decimal_digits:
  assumes "\<forall>c \<in> set s. is_digit c" and "digits 10 s = Some n"
  shows "unsigned_decimal s = Some (of_nat n)"
proof -
  have 1: "takeWhile (\<lambda>c. c \<noteq> CHR ''e'' \<and> c \<noteq> CHR ''E'') s = s"
    using assms(1) is_digit_ne by (auto simp: takeWhile_eq_all_conv)
  have 2: "takeWhile (\<lambda>c. c \<noteq> CHR ''.'') s = s"
    using assms(1) is_digit_ne by (auto simp: takeWhile_eq_all_conv)
  show ?thesis
    unfolding unsigned_decimal_def Let_def 1 2 using assms(2) by (simp add: exponent_def)
qed

lemma Number_nat_toString: "Number (nat_toString n) = Fin (of_nat n)"
proof -
  have "nat_toString n \<noteq> ''Infinity''"
    using nat_toString_digits [of n] is_digit_ne [of "CHR ''I''"] by auto
  then show ?thesis
    using nat_toString_digits [of n] nat_toString_hd [of n]
    by (simp add: Number_def radix_prefix_digits split_sign_digit unsigned_decimal_digits)
qed

lemma parseInt10_prefix:
  assumes "r = [] \<or> \<not> is_digit (hd r)"
  shows "parseInt10 (nat_toString n @ r) = Fin (of_nat n)"
proof -
  have ne: "nat_toString n @ r \<noteq> []" by simp
  have hd: "hd (nat_toString n @ r) = hd (nat_toString n)" by simp
  have "dropWhile is_space (nat_toString n @ r) = nat_toString n @ r"
    using ne hd nat_toString_hd(1) [of n] is_digit_not_space
    by (metis dropWhile_eq_self_iff)
  moreover have "takeWhile is_digit (nat_toString n @ r) = nat_toString n"
    using assms nat_toString_digits [of n]
    by (cases r) (auto simp: takeWhile_append takeWhile_eq_all_conv)
  ultimately show ?thesis
    using split_sign_digit [OF ne] nat_toString_hd(1) [of n] hd
    by (simp add: parseInt10_def)
qed

end
