(* ===== verification/ApiTypes.thy ===== *)
theory ApiTypes
  imports JsNumber
begin

text \<open>
  The data the front end exchanges with the Tornjak API (src/frontend/src/components/types.ts),
  one record per interface. A field the API's JSON can leave out (the Go structs are marshalled
  with \<open>omitempty\<close>, and an uploaded file need not have it) and the code tests against
  \<open>undefined\<close> is an option; the others are the declared types. A record's fields carry a
  prefix where two interfaces use the same name.
\<close>

section \<open>SPIFFE ids, selectors, agents\<close>

record SPIFFEID =
  trust_domain :: "string option"
  path :: "string option"

record Selector =
  selector_type :: string
  selector_value :: string

record AgentsList =
  agent_id :: SPIFFEID
  attetstation_type :: string
  x509svid_serial_number :: string
  x509svid_expires_at :: "jsnum option"
  agent_selectors :: "Selector list option"
  banned :: bool

record AgentsWorkLoadAttestorInfo =
  info_spiffeid :: string
  info_plugin :: string
  info_cluster :: string

section \<open>Clusters and federations\<close>

record ClustersList =
  cluster_name :: string
  editedName :: string
  creationTime :: string
  domainName :: string
  managedBy :: string
  platformType :: string
  agentsList :: "string list"

record FederationProfileSpiffeResponse =
  endpoint_spiffe_id :: string

text \<open>\<open>HttpsWeb?: object\<close> has no field the code reads.\<close>

record BundleEndpointProfile =
  HttpsSpiffe :: "FederationProfileSpiffeResponse option"
  HttpsWeb :: "unit option"

record x509Authority =
  asn1 :: string

record JwtAuthority =
  public_key :: string
  key_id :: string

record TrustDomainBundle =
  bundle_trust_domain :: string
  x509_authorities :: "x509Authority list"
  jwt_authorities :: "JwtAuthority list"

record FederationsList =
  fed_trust_domain :: string
  bundle_endpoint_url :: string
  fed_BundleEndpointProfile :: BundleEndpointProfile
  fed_trust_domain_bundle :: TrustDomainBundle

section \<open>Entries\<close>

record EntriesList =
  entry_id :: string
  spiffe_id :: "SPIFFEID option"
  parent_id :: "SPIFFEID option"
  entry_selectors :: "Selector list option"
  jwt_svid_ttl :: "jsnum option"
  x509_svid_ttl :: "jsnum option"
  federates_with :: "string list option"
  admin :: "bool option"
  downstream :: "bool option"
  expires_at :: "jsnum option"
  dns_names :: "string list option"
  revision_number :: "jsnum option"
  store_svid :: "bool option"

section \<open>Servers\<close>

record DebugSvid =
  svid_id :: SPIFFEID
  svid_expires_at :: jsnum
  svid_subject :: string

record DebugServerInfo =
  svid_chain :: "DebugSvid list option"
  uptime :: "jsnum option"
  federated_bundles_count :: "jsnum option"

record ServerPlugins =
  DataStore :: "string list"
  KeyManager :: "string list"
  NodeAttestor :: "string list"
  NodeResolver :: "string list"
  Notifier :: "string list"

record TornjakServerInfo =
  plugins :: "ServerPlugins option"
  tsi_trustDomain :: string
  verboseConfig :: string

record ServerInfo =
  trustDomain :: string
  nodeAttestorPlugin :: string

record SpireHealthCheckFreq =
  SpireHealtCheckTime :: jsnum
  SpireHealthCheckFreqDisplay :: string

record ServersList =
  server_name :: string
  address :: string
  mtls :: string
  tls :: string

section \<open>Labels and charts\<close>

record StringLabels =
  label :: string

type_synonym AgentLabels = StringLabels
type_synonym SelectorLabels = StringLabels

text \<open>
  An object with string keys is an association list in the order the keys were inserted, which
  is the order \<open>Object.keys\<close> and a rendered list show.
\<close>

type_synonym StringLabelsWithIndexStrings = "(string \<times> StringLabels list) list"
type_synonym SelectorInfoLabels = StringLabelsWithIndexStrings
type_synonym WorkloadSelectorInfoLabels = StringLabelsWithIndexStrings

record PieChartEntry =
  group :: string
  pie_value :: nat

text \<open>The role list of the access token (\<open>realm_access.roles\<close>); the code reads no other field.\<close>

record AccessToken =
  realm_access_roles :: "string list"

end
