(* ===== verification/AppData.thy ===== *)
theory AppData
  imports ApiTypes
begin

text \<open>
  The constant tables of src/frontend/src/data/data.ts: the cluster types and the selectors the
  forms recommend, per node attestor and per workload attestor plugin.
\<close>

definition label_of :: "string \<Rightarrow> StringLabels" where
  [js_unfold]: "label_of s = \<lparr>label = s\<rparr>"

definition clusterType :: "string list" where
  "clusterType = [''Kubernetes'', ''VMs'']"

definition selectors :: SelectorInfoLabels where
  "selectors =
    [(''aws_iid'',
      [label_of ''aws_iid:tag:name'',
       label_of ''aws_iid:sg:id'',
       label_of ''aws_iid:sg:name'',
       label_of ''aws_iid:iamrole:arn:aws:iam'']),
     (''gcp_iit'',
      [label_of ''gcp_iit:project-id'',
       label_of ''gcp_iit:zone'',
       label_of ''gcp_iit:instance-name'',
       label_of ''gcp_iit:tag'',
       label_of ''gcp_iit:sa'',
       label_of ''gcp_iit:label'',
       label_of ''gcp_iit:metadata'']),
     (''k8s_psat'',
      [label_of ''k8s_psat:cluster'',
       label_of ''k8s_psat:agent_ns'',
       label_of ''k8s_psat:agent_sa'',
       label_of ''k8s_psat:agent_pod_name'',
       label_of ''k8s_psat:agent_pod_uid'',
       label_of ''k8s_psat:agent_pod_label'',
       label_of ''k8s_psat:agent_node_ip'',
       label_of ''k8s_psat:agent_node_name'',
       label_of ''k8s_psat:agent_node_uid'',
       label_of ''k8s_psat:agent_node_label''])]"

definition workloadSelectors :: WorkloadSelectorInfoLabels where
  "workloadSelectors =
    [(''Docker'',
      [label_of ''docker:label'',
       label_of ''docker:env'',
       label_of ''docker:image_id'']),
     (''Kubernetes'',
      [label_of ''k8s:ns'',
       label_of ''k8s:sa'',
       label_of ''k8s:container-image'',
       label_of ''k8s:container-name'',
       label_of ''k8s:node-name'',
       label_of ''k8s:pod-label'',
       label_of ''k8s:pod-owner'',
       label_of ''k8s:pod-owner-uid'',
       label_of ''k8s:pod-uid'',
       label_of ''k8s:pod-name'',
       label_of ''k8s:pod-image'',
       label_of ''k8s:pod-image-count'',
       label_of ''k8s:pod-init-image'',
       label_of ''k8s:pod-init-image-count'']),
     (''Unix'',
      [label_of ''unix:uid'',
       label_of ''unix:user'',
       label_of ''unix:gid'',
       label_of ''unix:group'',
       label_of ''unix:supplementary_gid'',
       label_of ''unix:supplementary_group'',
       label_of ''unix:path'',
       label_of ''unix:sha256''])]"

text \<open>\<open>o[k]\<close> on such a table: \<open>undefined\<close> for a missing key.\<close>

definition index_labels :: "StringLabelsWithIndexStrings \<Rightarrow> string \<Rightarrow> StringLabels list option" where
  "index_labels t k = map_of t k"

text \<open>
  Every recommended label is \<open>plugin:name...\<close>: a colon after a non-empty type, no comma or line
  break and no space at either end, so that a form that splits and trims a list of them gets each
  one back.
\<close>

definition label_plain :: "StringLabels \<Rightarrow> bool" where
  "label_plain l \<longleftrightarrow> 0 < indexOf (label l) (CHR '':'') \<and> CHR '','' \<notin> set (label l) \<and>
     CHR 0x0A \<notin> set (label l) \<and> \<not> is_space (hd (label l))"

definition table_plain :: "StringLabelsWithIndexStrings \<Rightarrow> bool" where
  "table_plain t \<longleftrightarrow> list_all (\<lambda>(k, ls). list_all label_plain ls) t"

lemma tables_plain: "table_plain selectors" "table_plain workloadSelectors"
  by (simp_all add: table_plain_def selectors_def workloadSelectors_def label_plain_def
      label_of_def is_space_def)

lemma tables_distinct: "distinct (map fst selectors)" "distinct (map fst workloadSelectors)"
  by (simp_all add: selectors_def workloadSelectors_def)

definition offered_label :: "StringLabels \<Rightarrow> bool" where
  "offered_label l \<longleftrightarrow>
     list_ex (\<lambda>(k, ls). l \<in> set ls) selectors \<or> list_ex (\<lambda>(k, ls). l \<in> set ls) workloadSelectors"

lemma offered_plain: "offered_label l \<Longrightarrow> label_plain l"
  using tables_plain by (fastforce simp: offered_label_def table_plain_def list_all_iff list_ex_iff)

lemma index_offered:
  "index_labels selectors k = Some ls \<Longrightarrow> l \<in> set ls \<Longrightarrow> offered_label l"
  "index_labels workloadSelectors k = Some ls \<Longrightarrow> l \<in> set ls \<Longrightarrow> offered_label l"
  by (force simp: index_labels_def offered_label_def list_ex_iff dest!: map_of_SomeD)+

end
