(* ===== verification/Backend.thy ===== *)
theory Backend
  imports AppData
begin

text \<open>
  The ground between the components and the outside: the environment the bundle is configured
  with (env.ts, helpers.ts, is_manager.ts, apiConfig.ts), the outcome of a request as axios
  delivers it, and the notifications of error-api.tsx.

  The package url-join is a parameter (\<open>urljoin\<close>). A request is an output of the model and its
  outcome an input, so the back end may answer anything, in any order, or never.
\<close>

section \<open>Configuration\<close>

text \<open>
  \<open>env\<close> is \<open>process.env\<close> overlaid with \<open>window.env\<close>; a variable that is not set is None.
  \<open>thrown\<close> is the error object of a TypeError raised inside a promise callback: its texts are
  the engine's, and it has no \<open>response\<close>.
\<close>

record app_env =
  REACT_APP_API_SERVER_URI :: "string option"
  REACT_APP_API_VERSION :: "string option"
  REACT_APP_TORNJAK_MANAGER :: "string option"
  REACT_APP_AUTH_SERVER_URI :: "string option"
  urljoin :: "string \<Rightarrow> string \<Rightarrow> string"
  thrown_message :: string
  thrown_string :: string

type_synonym env_vars = "string \<rightharpoonup> string"

definition merge_env :: "env_vars \<Rightarrow> env_vars \<Rightarrow> env_vars" where
  "merge_env process_env window_env = process_env ++ window_env"

definition truthy :: "string option \<Rightarrow> bool" where
  [js_unfold]: "truthy v \<longleftrightarrow> (case v of None \<Rightarrow> False | Some s \<Rightarrow> s \<noteq> [])"

definition GetApiServerUri :: "app_env \<Rightarrow> string \<Rightarrow> string" where
  "GetApiServerUri env uri =
     urljoin env
       (if truthy (REACT_APP_API_SERVER_URI env) then the (REACT_APP_API_SERVER_URI env) else ''/'')
       uri"

definition IsManager :: "app_env \<Rightarrow> bool" where
  "IsManager env \<longleftrightarrow>
     (case REACT_APP_TORNJAK_MANAGER env of
        None \<Rightarrow> False
      | Some v \<Rightarrow> map upper_ascii v \<noteq> ''FALSE'')"

text \<open>A template literal prints a missing variable as \<open>undefined\<close>.\<close>

definition template :: "string option \<Rightarrow> string" where
  [js_unfold]: "template v = (case v of None \<Rightarrow> ''undefined'' | Some s \<Rightarrow> s)"

definition API_BASE_URL :: "app_env \<Rightarrow> string" where
  "API_BASE_URL env = ''/api/'' @ template (REACT_APP_API_VERSION env)"

datatype api =
    spireServerInfoApi | spireHealthCheckApi | spireAgentsApi | spireAgentsBanApi
  | spireJoinTokenApi | spireEntriesApi | spireFederationsApi | tornjakServerInfoApi
  | tornjakSelectorsApi | tornjakAgentsApi | tornjakClustersApi

fun api_path :: "api \<Rightarrow> string" where
  "api_path spireServerInfoApi = ''/spire/serverinfo''"
| "api_path spireHealthCheckApi = ''/spire/healthcheck''"
| "api_path spireAgentsApi = ''/spire/agents''"
| "api_path spireAgentsBanApi = ''/spire/agents/ban''"
| "api_path spireJoinTokenApi = ''/spire/agents/jointoken''"
| "api_path spireEntriesApi = ''/spire/entries''"
| "api_path spireFederationsApi = ''/spire/federations''"
| "api_path tornjakServerInfoApi = ''/tornjak/serverinfo''"
| "api_path tornjakSelectorsApi = ''/tornjak/selectors''"
| "api_path tornjakAgentsApi = ''/tornjak/agents''"
| "api_path tornjakClustersApi = ''/tornjak/clusters''"

definition apiEndpoints :: "app_env \<Rightarrow> api \<Rightarrow> string" where
  "apiEndpoints env a = API_BASE_URL env @ api_path a"

definition api_uri :: "app_env \<Rightarrow> api \<Rightarrow> string" where
  [js_unfold]: "api_uri env a = GetApiServerUri env (apiEndpoints env a)"

lemma api_path_inject [simp]: "api_path a = api_path b \<longleftrightarrow> a = b"
  by (cases a; cases b; simp)

lemma apiEndpoints_inject [simp]: "apiEndpoints env a = apiEndpoints env b \<longleftrightarrow> a = b"
  by (simp add: apiEndpoints_def)

section \<open>Requests and their outcome\<close>

record axios_error =
  err_message :: string
  err_string :: string
  err_response :: "(string \<times> int) option"

datatype 'd outcome =
    Resolved (res_status: int) (res_statusText: string) (res_data: 'd)
  | Rejected (res_error: axios_error)

definition thrown :: "app_env \<Rightarrow> axios_error" where
  "thrown env =
     \<lparr>err_message = thrown_message env, err_string = thrown_string env, err_response = None\<rparr>"

datatype http_method = GET | POST | DELETE | PATCH

text \<open>
  \<open>promise.then(f).catch(g)\<close>: an exception thrown by \<open>f\<close> reaches \<open>g\<close>, and what \<open>f\<close> did before it
  threw stays done. A handler is a list of things done and whether it threw.
\<close>

type_synonym 'a handler = "'a list \<times> bool"

definition then_catch ::
  "app_env \<Rightarrow> (int \<Rightarrow> string \<Rightarrow> 'd \<Rightarrow> 'a handler) \<Rightarrow> (axios_error \<Rightarrow> 'a list) \<Rightarrow> 'd outcome \<Rightarrow> 'a list"
where
  "then_catch env f g out =
     (case out of
        Resolved st tx d \<Rightarrow> (let (done, threw) = f st tx d in if threw then done @ g (thrown env) else done)
      | Rejected e \<Rightarrow> g e)"

lemma then_catch_simps [simp]:
  "then_catch env f g (Rejected e) = g e"
  "then_catch env f g (Resolved st tx d) =
     (if snd (f st tx d) then fst (f st tx d) @ g (thrown env) else fst (f st tx d))"
  by (simp_all add: then_catch_def split: prod.splits)

section \<open>Notifications\<close>

record toast =
  toast_title :: string
  toast_caption :: string

definition int_toString :: "int \<Rightarrow> string" where
  "int_toString i = (if i < 0 then CHR ''-'' # nat_toString (nat (- i)) else nat_toString (nat i))"

definition showToast :: "string \<Rightarrow> toast" where
  "showToast cap = \<lparr>toast_title = ''Notification'', toast_caption = cap\<rparr>"

definition defaultResponseProps :: "axios_error \<Rightarrow> toast" where
  "defaultResponseProps e =
     (case err_response e of
        None \<Rightarrow> \<lparr>toast_title = ''Network Error'', toast_caption = ''Could not connect to backend''\<rparr>
      | Some (data, status) \<Rightarrow>
          \<lparr>toast_title = ''Error '' @ int_toString status, toast_caption = data\<rparr>)"

text \<open>\<open>showResponseToast(err, {caption})\<close>: the caller's caption replaces the default one.\<close>

definition showResponseToast :: "axios_error \<Rightarrow> string option \<Rightarrow> toast" where
  "showResponseToast e cap =
     (case cap of
        None \<Rightarrow> defaultResponseProps e
      | Some c \<Rightarrow> (defaultResponseProps e)\<lparr>toast_caption := c\<rparr>)"

text \<open>A configuration in manager mode, for witnesses.\<close>

definition manager_env :: app_env where
  "manager_env =
     \<lparr>REACT_APP_API_SERVER_URI = None, REACT_APP_API_VERSION = None,
      REACT_APP_TORNJAK_MANAGER = Some ''true'', REACT_APP_AUTH_SERVER_URI = None, urljoin = (@),
      thrown_message = ''m'', thrown_string = ''TypeError: m''\<rparr>"

definition local_env :: app_env where
  "local_env = manager_env\<lparr>REACT_APP_TORNJAK_MANAGER := None\<rparr>"

lemma local_env_simps [simp]:
  "\<not> IsManager local_env" "IsManager manager_env" "api_uri local_env a \<noteq> []"
  by (simp_all add: local_env_def manager_env_def IsManager_def upper_ascii_def js_unfold
      GetApiServerUri_def apiEndpoints_def API_BASE_URL_def)

end
