(* ===== verification/ReduxStore.thy ===== *)
theory ReduxStore
  imports Backend
begin

text \<open>
  The redux store (redux/actions, redux/reducers, redux/store.ts): one record per slice, one
  action constructor per action type with its payload, the seven reducers, their combination
  and the copy of the state in the browser's session storage.

  A list that comes straight from a response may be \<open>undefined\<close> or \<open>null\<close>, whatever its declared
  type says, so the store holds \<open>jsval\<close>s there. \<open>globalNewEntries\<close> is the address of an array:
  the upload form shares that array with the store and edits it in place (theory EntryUpload
  holds the arrays). The error message is a string or, in one handler, an error object.
\<close>

type_synonym array_ref = nat

datatype tornjak_message = Message string | ErrorObject axios_error | NoMessage

section \<open>Slices\<close>

record AuthReducerState =
  globalIsAuthenticated :: bool
  globalAccessToken :: "string option"
  globalUserRoles :: "string list jsval"

record AgentsReducerState =
  globalAgentsList :: "AgentsList list jsval"
  globalAgentsWorkLoadAttestorInfo :: "AgentsWorkLoadAttestorInfo list jsval"

record FederationsReducerState =
  globalFederationsList :: "FederationsList list jsval"

record ClustersReducerState =
  globalClustersList :: "ClustersList list jsval"
  globalClusterTypeInfo :: "string list"

record EntriesReducerState =
  globalEntriesList :: "EntriesList list jsval"
  globalNewEntries :: "array_ref option"
  globalEntryExpiryTime :: jsnum

record ServersReducerState =
  globalServerSelected :: string
  globalServerInfo :: ServerInfo
  globalTornjakServerInfo :: "TornjakServerInfo jsval"
  globalServersList :: "ServersList list jsval"
  globalSelectorInfo :: SelectorInfoLabels
  globalWorkloadSelectorInfo :: WorkloadSelectorInfoLabels
  globalSpireHealthCheck :: bool
  globalSpireHealthChecking :: bool
  globalSpireHealthTime :: SpireHealthCheckFreq
  globalDebugServerInfo :: "DebugServerInfo jsval"

record TornjakReducerState =
  globalErrorMessage :: tornjak_message
  globalClickedDashboardTable :: string

section \<open>Actions\<close>

text \<open>\<open>OtherAction\<close> is any action of another type, redux' own \<open>@@redux/INIT\<close> among them.\<close>

datatype action =
     GLOBAL_IS_AUTHENTICATED bool
  | GLOBAL_ACCESS_TOKEN "string option"
  | GLOBAL_USER_ROLES "string list jsval"
  | GLOBAL_AGENTS_LIST "AgentsList list jsval"
  | GLOBAL_AGENTS_WORKLOADATTESTOR_INFO "AgentsWorkLoadAttestorInfo list jsval"
  | GLOBAL_FEDERATIONS_LIST "FederationsList list jsval"
  | GLOBAL_CLUSTERS_LIST "ClustersList list jsval"
  | GLOBAL_CLUSTER_TYPE_INFO "string list"
  | GLOBAL_ENTRIES_LIST "EntriesList list jsval"
  | GLOBAL_NEW_ENTRIES "array_ref option"
  | GLOBAL_ENTRY_EXPIRY jsnum
  | GLOBAL_SERVER_SELECTED string
  | GLOBAL_SERVER_INFO ServerInfo
  | GLOBAL_TORNJAK_SERVER_INFO "TornjakServerInfo jsval"
  | GLOBAL_SERVERS_LIST "ServersList list jsval"
  | GLOBAL_SELECTOR_INFO SelectorInfoLabels
  | GLOBAL_WORKLOAD_SELECTOR_INFO WorkloadSelectorInfoLabels
  | GLOBAL_SPIRE_HEALTH_CHECK bool
  | GLOBAL_SPIRE_HEALTH_CHECKING bool
  | GLOBAL_SPIRE_HEALTH_CHECK_TIME SpireHealthCheckFreq
  | GLOBAL_DEBUG_SERVER_INFO "DebugServerInfo jsval"
  | GLOBAL_MESSAGE tornjak_message
  | GLOBAL_CLICKED_DASHBOARD_TABLE string
  | OtherAction

text \<open>The action creators: each returns a thunk that dispatches exactly one action.\<close>

definition isAuthenticatedUpdateFunc :: "bool \<Rightarrow> action list" where
  [js_unfold]: "isAuthenticatedUpdateFunc p = [GLOBAL_IS_AUTHENTICATED p]"

definition accessTokenUpdateFunc :: "string option \<Rightarrow> action list" where
  [js_unfold]: "accessTokenUpdateFunc p = [GLOBAL_ACCESS_TOKEN p]"

definition UserRolesUpdateFunc :: "string list jsval \<Rightarrow> action list" where
  [js_unfold]: "UserRolesUpdateFunc p = [GLOBAL_USER_ROLES p]"

definition agentsListUpdateFunc :: "AgentsList list jsval \<Rightarrow> action list" where
  [js_unfold]: "agentsListUpdateFunc p = [GLOBAL_AGENTS_LIST p]"

definition agentworkloadSelectorInfoFunc :: "AgentsWorkLoadAttestorInfo list jsval \<Rightarrow> action list" where
  [js_unfold]: "agentworkloadSelectorInfoFunc p = [GLOBAL_AGENTS_WORKLOADATTESTOR_INFO p]"

definition federationsListUpdateFunc :: "FederationsList list jsval \<Rightarrow> action list" where
  [js_unfold]: "federationsListUpdateFunc p = [GLOBAL_FEDERATIONS_LIST p]"

definition clustersListUpdateFunc :: "ClustersList list jsval \<Rightarrow> action list" where
  [js_unfold]: "clustersListUpdateFunc p = [GLOBAL_CLUSTERS_LIST p]"

definition clusterTypeInfoFunc :: "string list \<Rightarrow> action list" where
  [js_unfold]: "clusterTypeInfoFunc p = [GLOBAL_CLUSTER_TYPE_INFO p]"

definition entriesListUpdateFunc :: "EntriesList list jsval \<Rightarrow> action list" where
  [js_unfold]: "entriesListUpdateFunc p = [GLOBAL_ENTRIES_LIST p]"

definition newEntriesUpdateFunc :: "array_ref option \<Rightarrow> action list" where
  [js_unfold]: "newEntriesUpdateFunc p = [GLOBAL_NEW_ENTRIES p]"

definition entryExpiryUpdateFunc :: "jsnum \<Rightarrow> action list" where
  [js_unfold]: "entryExpiryUpdateFunc p = [GLOBAL_ENTRY_EXPIRY p]"

definition serverSelectedFunc :: "string \<Rightarrow> action list" where
  [js_unfold]: "serverSelectedFunc p = [GLOBAL_SERVER_SELECTED p]"

definition serverInfoUpdateFunc :: "ServerInfo \<Rightarrow> action list" where
  [js_unfold]: "serverInfoUpdateFunc p = [GLOBAL_SERVER_INFO p]"

definition tornjakServerInfoUpdateFunc :: "TornjakServerInfo jsval \<Rightarrow> action list" where
  [js_unfold]: "tornjakServerInfoUpdateFunc p = [GLOBAL_TORNJAK_SERVER_INFO p]"

definition serversListUpdateFunc :: "ServersList list jsval \<Rightarrow> action list" where
  [js_unfold]: "serversListUpdateFunc p = [GLOBAL_SERVERS_LIST p]"

definition selectorInfoFunc :: "SelectorInfoLabels \<Rightarrow> action list" where
  [js_unfold]: "selectorInfoFunc p = [GLOBAL_SELECTOR_INFO p]"

definition workloadSelectorInfoFunc :: "WorkloadSelectorInfoLabels \<Rightarrow> action list" where
  [js_unfold]: "workloadSelectorInfoFunc p = [GLOBAL_WORKLOAD_SELECTOR_INFO p]"

definition spireHealthCheckFunc :: "bool \<Rightarrow> action list" where
  [js_unfold]: "spireHealthCheckFunc p = [GLOBAL_SPIRE_HEALTH_CHECK p]"

definition spireHealthCheckingFunc :: "bool \<Rightarrow> action list" where
  [js_unfold]: "spireHealthCheckingFunc p = [GLOBAL_SPIRE_HEALTH_CHECKING p]"

definition spireHealthCheckRefreshTimeFunc :: "SpireHealthCheckFreq \<Rightarrow> action list" where
  [js_unfold]: "spireHealthCheckRefreshTimeFunc p = [GLOBAL_SPIRE_HEALTH_CHECK_TIME p]"

definition spireDebugServerInfoUpdateFunc :: "DebugServerInfo jsval \<Rightarrow> action list" where
  [js_unfold]: "spireDebugServerInfoUpdateFunc p = [GLOBAL_DEBUG_SERVER_INFO p]"

definition tornjakMessageFunc :: "tornjak_message \<Rightarrow> action list" where
  [js_unfold]: "tornjakMessageFunc p = [GLOBAL_MESSAGE p]"

definition clickedDashboardTableFunc :: "string \<Rightarrow> action list" where
  [js_unfold]: "clickedDashboardTableFunc p = [GLOBAL_CLICKED_DASHBOARD_TABLE p]"

section \<open>Initial states\<close>

definition auth_initialState :: AuthReducerState where
  "auth_initialState =
     \<lparr>globalIsAuthenticated = False, globalAccessToken = Some [], globalUserRoles = Val []\<rparr>"

definition agents_initialState :: AgentsReducerState where
  "agents_initialState = \<lparr>globalAgentsList = Val [], globalAgentsWorkLoadAttestorInfo = Val []\<rparr>"

definition federations_initialState :: FederationsReducerState where
  "federations_initialState = \<lparr>globalFederationsList = Val []\<rparr>"

definition clusters_initialState :: ClustersReducerState where
  "clusters_initialState = \<lparr>globalClustersList = Val [], globalClusterTypeInfo = []\<rparr>"

text \<open>The empty array \<open>globalNewEntries\<close> starts with is the one at address 0.\<close>

definition entries_initialState :: EntriesReducerState where
  "entries_initialState =
     \<lparr>globalEntriesList = Val [], globalNewEntries = Some 0, globalEntryExpiryTime = Fin 0\<rparr>"

definition tornjak_initialState :: TornjakReducerState where
  "tornjak_initialState = \<lparr>globalErrorMessage = Message [], globalClickedDashboardTable = []\<rparr>"

definition no_plugins :: ServerPlugins where
  "no_plugins =
     \<lparr>DataStore = [], KeyManager = [], NodeAttestor = [], NodeResolver = [], Notifier = []\<rparr>"

definition servers_initialState :: ServersReducerState where
  "servers_initialState =
     \<lparr>globalServerSelected = [],
      globalServerInfo = \<lparr>trustDomain = [], nodeAttestorPlugin = []\<rparr>,
      globalTornjakServerInfo =
        Val \<lparr>plugins = Some no_plugins, tsi_trustDomain = [], verboseConfig = []\<rparr>,
      globalServersList = Val [],
      globalSelectorInfo = selectors,
      globalWorkloadSelectorInfo = workloadSelectors,
      globalSpireHealthCheck = False,
      globalSpireHealthChecking = False,
      globalSpireHealthTime =
        \<lparr>SpireHealtCheckTime = num 120, SpireHealthCheckFreqDisplay = ''2 Mins''\<rparr>,
      globalDebugServerInfo =
        Val \<lparr>svid_chain = Some
               [\<lparr>svid_id = \<lparr>trust_domain = Some [], path = Some []\<rparr>, svid_expires_at = num 0,
                 svid_subject = []\<rparr>,
                \<lparr>svid_id = \<lparr>trust_domain = Some [], path = None\<rparr>, svid_expires_at = num 0,
                 svid_subject = []\<rparr>],
             uptime = Some (num 0), federated_bundles_count = Some (num 0)\<rparr>\<rparr>"

section \<open>Reducers\<close>

text \<open>
  A reducer takes its slice, \<open>undefined\<close> before the first action (the default argument then
  supplies the initial state), and an action.
\<close>

definition authReducer :: "AuthReducerState option \<Rightarrow> action \<Rightarrow> AuthReducerState" where
  "authReducer state0 act =
     (let state = (case state0 of None \<Rightarrow> auth_initialState | Some s \<Rightarrow> s) in
      case act of
        GLOBAL_IS_AUTHENTICATED p \<Rightarrow> state\<lparr>globalIsAuthenticated := p\<rparr>
      | GLOBAL_ACCESS_TOKEN p \<Rightarrow> state\<lparr>globalAccessToken := p\<rparr>
      | GLOBAL_USER_ROLES p \<Rightarrow> state\<lparr>globalUserRoles := p\<rparr>
      | _ \<Rightarrow> state)"

definition agentsReducer :: "AgentsReducerState option \<Rightarrow> action \<Rightarrow> AgentsReducerState" where
  "agentsReducer state0 act =
     (let state = (case state0 of None \<Rightarrow> agents_initialState | Some s \<Rightarrow> s) in
      case act of
        GLOBAL_AGENTS_LIST p \<Rightarrow> state\<lparr>globalAgentsList := p\<rparr>
      | GLOBAL_AGENTS_WORKLOADATTESTOR_INFO p \<Rightarrow> state\<lparr>globalAgentsWorkLoadAttestorInfo := p\<rparr>
      | _ \<Rightarrow> state)"

definition federationsReducer :: "FederationsReducerState option \<Rightarrow> action \<Rightarrow> FederationsReducerState" where
  "federationsReducer state0 act =
     (let state = (case state0 of None \<Rightarrow> federations_initialState | Some s \<Rightarrow> s) in
      case act of
        GLOBAL_FEDERATIONS_LIST p \<Rightarrow> state\<lparr>globalFederationsList := p\<rparr>
      | _ \<Rightarrow> state)"

definition clustersReducer :: "ClustersReducerState option \<Rightarrow> action \<Rightarrow> ClustersReducerState" where
  "clustersReducer state0 act =
     (let state = (case state0 of None \<Rightarrow> clusters_initialState | Some s \<Rightarrow> s) in
      case act of
        GLOBAL_CLUSTERS_LIST p \<Rightarrow> state\<lparr>globalClustersList := p\<rparr>
      | GLOBAL_CLUSTER_TYPE_INFO p \<Rightarrow> state\<lparr>globalClusterTypeInfo := p\<rparr>
      | _ \<Rightarrow> state)"

definition entriesReducer :: "EntriesReducerState option \<Rightarrow> action \<Rightarrow> EntriesReducerState" where
  "entriesReducer state0 act =
     (let state = (case state0 of None \<Rightarrow> entries_initialState | Some s \<Rightarrow> s) in
      case act of
        GLOBAL_ENTRIES_LIST p \<Rightarrow> state\<lparr>globalEntriesList := p\<rparr>
      | GLOBAL_NEW_ENTRIES p \<Rightarrow> state\<lparr>globalNewEntries := p\<rparr>
      | GLOBAL_ENTRY_EXPIRY p \<Rightarrow> state\<lparr>globalEntryExpiryTime := p\<rparr>
      | _ \<Rightarrow> state)"

definition serversReducer :: "ServersReducerState option \<Rightarrow> action \<Rightarrow> ServersReducerState" where
  "serversReducer state0 act =
     (let state = (case state0 of None \<Rightarrow> servers_initialState | Some s \<Rightarrow> s) in
      case act of
        GLOBAL_SERVER_SELECTED p \<Rightarrow> state\<lparr>globalServerSelected := p\<rparr>
      | GLOBAL_SERVER_INFO p \<Rightarrow> state\<lparr>globalServerInfo := p\<rparr>
      | GLOBAL_TORNJAK_SERVER_INFO p \<Rightarrow> state\<lparr>globalTornjakServerInfo := p\<rparr>
      | GLOBAL_SERVERS_LIST p \<Rightarrow> state\<lparr>globalServersList := p\<rparr>
      | GLOBAL_SELECTOR_INFO p \<Rightarrow> state\<lparr>globalSelectorInfo := p\<rparr>
      | GLOBAL_WORKLOAD_SELECTOR_INFO p \<Rightarrow> state\<lparr>globalWorkloadSelectorInfo := p\<rparr>
      | GLOBAL_SPIRE_HEALTH_CHECK p \<Rightarrow> state\<lparr>globalSpireHealthCheck := p\<rparr>
      | GLOBAL_SPIRE_HEALTH_CHECKING p \<Rightarrow> state\<lparr>globalSpireHealthChecking := p\<rparr>
      | GLOBAL_SPIRE_HEALTH_CHECK_TIME p \<Rightarrow> state\<lparr>globalSpireHealthTime := p\<rparr>
      | GLOBAL_DEBUG_SERVER_INFO p \<Rightarrow> state\<lparr>globalDebugServerInfo := p\<rparr>
      | _ \<Rightarrow> state)"

definition tornjakReducer :: "TornjakReducerState option \<Rightarrow> action \<Rightarrow> TornjakReducerState" where
  "tornjakReducer state0 act =
     (let state = (case state0 of None \<Rightarrow> tornjak_initialState | Some s \<Rightarrow> s) in
      case act of
        GLOBAL_MESSAGE p \<Rightarrow> state\<lparr>globalErrorMessage := p\<rparr>
      | GLOBAL_CLICKED_DASHBOARD_TABLE p \<Rightarrow> state\<lparr>globalClickedDashboardTable := p\<rparr>
      | _ \<Rightarrow> state)"

section \<open>The root reducer\<close>

text \<open>
  \<open>combineReducers({servers: serversReducer, ...})\<close>: every reducer gets its own slice and the
  action, and the results make the new state.
\<close>

record RootState =
  st_servers :: ServersReducerState
  st_clusters :: ClustersReducerState
  st_federations :: FederationsReducerState
  st_agents :: AgentsReducerState
  st_entries :: EntriesReducerState
  st_tornjak :: TornjakReducerState
  st_auth :: AuthReducerState

definition allReducers :: "RootState option \<Rightarrow> action \<Rightarrow> RootState" where
  "allReducers st a =
     \<lparr>st_servers = serversReducer (map_option st_servers st) a,
      st_clusters = clustersReducer (map_option st_clusters st) a,
      st_federations = federationsReducer (map_option st_federations st) a,
      st_agents = agentsReducer (map_option st_agents st) a,
      st_entries = entriesReducer (map_option st_entries st) a,
      st_tornjak = tornjakReducer (map_option st_tornjak st) a,
      st_auth = authReducer (map_option st_auth st) a\<rparr>"

definition dispatch :: "RootState \<Rightarrow> action \<Rightarrow> RootState" where
  "dispatch st a = allReducers (Some st) a"

definition dispatches :: "RootState \<Rightarrow> action list \<Rightarrow> RootState" where
  [js_unfold]: "dispatches st as = foldl dispatch st as"

text \<open>
  store.ts: the store starts from the state saved in the session storage, if one parses, and
  every dispatch saves the state again. \<open>stringify\<close> and \<open>parse\<close> are JSON's, None when they throw;
  an exception there is caught and only logged.
\<close>

definition saveToLocalStorage ::
  "(RootState \<Rightarrow> string option) \<Rightarrow> RootState \<Rightarrow> string option \<Rightarrow> string option"
where
  "saveToLocalStorage stringify st storage =
     (case stringify st of Some s \<Rightarrow> Some s | None \<Rightarrow> storage)"

definition loadFromLocalStorage ::
  "(string \<Rightarrow> RootState option) \<Rightarrow> string option \<Rightarrow> RootState option"
where
  "loadFromLocalStorage parse storage =
     (case storage of None \<Rightarrow> None | Some s \<Rightarrow> parse s)"

definition createStore :: "(string \<Rightarrow> RootState option) \<Rightarrow> string option \<Rightarrow> RootState" where
  "createStore parse storage = allReducers (loadFromLocalStorage parse storage) OtherAction"

definition dispatch_saved ::
  "(RootState \<Rightarrow> string option) \<Rightarrow> RootState \<times> string option \<Rightarrow> action \<Rightarrow> RootState \<times> string option"
where
  "dispatch_saved stringify s a =
     (let st = dispatch (fst s) a in (st, saveToLocalStorage stringify st (snd s)))"

section \<open>Cells\<close>

text \<open>
  Every field of the store is a cell: one action type writes it and no other touches it. The
  laws are stated once, with what follows for a sequence of dispatches, and interpreted on
  every field of the model's store.
\<close>

lemmas dispatch_defs = dispatch_def allReducers_def
  serversReducer_def
  clustersReducer_def
  federationsReducer_def
  agentsReducer_def
  entriesReducer_def
  tornjakReducer_def
  authReducer_def

locale store_cell =
  fixes get :: "RootState \<Rightarrow> 'p" and put :: "'p \<Rightarrow> action" and read :: "action \<Rightarrow> 'p option"
  assumes get_put: "get (dispatch st (put p)) = p"
    and read_put: "read (put p) = Some p"
    and frame: "read a = None \<Longrightarrow> get (dispatch st a) = get st"
    and read_sound: "read a = Some p \<Longrightarrow> a = put p"
begin

lemma get_dispatch: "get (dispatch st a) = (case read a of None \<Rightarrow> get st | Some p \<Rightarrow> p)"
  by (auto simp: frame dest!: read_sound simp: get_put split: option.splits)

lemma get_dispatches:
  "get (dispatches st as) = (case rev (List.map_filter read as) of [] \<Rightarrow> get st | p # _ \<Rightarrow> p)"
  by (induction as rule: rev_induct)
     (auto simp: dispatches_def get_dispatch map_filter_simps map_filter_def split: option.splits)

lemma get_dispatches_other:
  "(\<And>a. a \<in> set as \<Longrightarrow> read a = None) \<Longrightarrow> get (dispatches st as) = get st"
  by (induction as rule: rev_induct) (auto simp: dispatches_def frame)

lemma get_dispatches_last:
  "(\<And>a. a \<in> set bs \<Longrightarrow> read a = None) \<Longrightarrow> get (dispatches st (as @ put p # bs)) = p"
  using get_dispatches_other [of bs "dispatch (dispatches st as) (put p)"] get_put
  by (simp add: dispatches_def)

lemma stays:
  assumes "P (get st)" and "\<And>a p. a \<in> set as \<Longrightarrow> read a = Some p \<Longrightarrow> P p"
  shows "P (get (dispatches st as))"
  unfolding dispatches_def
  by (rule foldl_invariant [where P = "\<lambda>s. P (get s)"])
     (use assms get_dispatch in \<open>auto split: option.splits\<close>)

end

fun read_globalIsAuthenticated :: "action \<Rightarrow> bool option" where
  "read_globalIsAuthenticated (GLOBAL_IS_AUTHENTICATED p) = Some p"
| "read_globalIsAuthenticated _ = None"

interpretation globalIsAuthenticated_cell: store_cell "\<lambda>st. globalIsAuthenticated (st_auth st)" GLOBAL_IS_AUTHENTICATED read_globalIsAuthenticated
  by unfold_locales (auto simp: dispatch_defs split: action.splits elim: read_globalIsAuthenticated.elims)

fun read_globalAccessToken :: "action \<Rightarrow> (string option) option" where
  "read_globalAccessToken (GLOBAL_ACCESS_TOKEN p) = Some p"
| "read_globalAccessToken _ = None"

interpretation globalAccessToken_cell: store_cell "\<lambda>st. globalAccessToken (st_auth st)" GLOBAL_ACCESS_TOKEN read_globalAccessToken
  by unfold_locales (auto simp: dispatch_defs split: action.splits elim: read_globalAccessToken.elims)

fun read_globalUserRoles :: "action \<Rightarrow> (string list jsval) option" where
  "read_globalUserRoles (GLOBAL_USER_ROLES p) = Some p"
| "read_globalUserRoles _ = None"

interpretation globalUserRoles_cell: store_cell "\<lambda>st. globalUserRoles (st_auth st)" GLOBAL_USER_ROLES read_globalUserRoles
  by unfold_locales (auto simp: dispatch_defs split: action.splits elim: read_globalUserRoles.elims)

fun read_globalAgentsList :: "action \<Rightarrow> (AgentsList list jsval) option" where
  "read_globalAgentsList (GLOBAL_AGENTS_LIST p) = Some p"
| "read_globalAgentsList _ = None"

interpretation globalAgentsList_cell: store_cell "\<lambda>st. globalAgentsList (st_agents st)" GLOBAL_AGENTS_LIST read_globalAgentsList
  by unfold_locales (auto simp: dispatch_defs split: action.splits elim: read_globalAgentsList.elims)

fun read_globalAgentsWorkLoadAttestorInfo :: "action \<Rightarrow> (AgentsWorkLoadAttestorInfo list jsval) option" where
  "read_globalAgentsWorkLoadAttestorInfo (GLOBAL_AGENTS_WORKLOADATTESTOR_INFO p) = Some p"
| "read_globalAgentsWorkLoadAttestorInfo _ = None"

interpretation globalAgentsWorkLoadAttestorInfo_cell: store_cell "\<lambda>st. globalAgentsWorkLoadAttestorInfo (st_agents st)" GLOBAL_AGENTS_WORKLOADATTESTOR_INFO read_globalAgentsWorkLoadAttestorInfo
  by unfold_locales (auto simp: dispatch_defs split: action.splits elim: read_globalAgentsWorkLoadAttestorInfo.elims)

fun read_globalFederationsList :: "action \<Rightarrow> (FederationsList list jsval) option" where
  "read_globalFederationsList (GLOBAL_FEDERATIONS_LIST p) = Some p"
| "read_globalFederationsList _ = None"

interpretation globalFederationsList_cell: store_cell "\<lambda>st. globalFederationsList (st_federations st)" GLOBAL_FEDERATIONS_LIST read_globalFederationsList
  by unfold_locales (auto simp: dispatch_defs split: action.splits elim: read_globalFederationsList.elims)

fun read_globalClustersList :: "action \<Rightarrow> (ClustersList list jsval) option" where
  "read_globalClustersList (GLOBAL_CLUSTERS_LIST p) = Some p"
| "read_globalClustersList _ = None"

interpretation globalClustersList_cell: store_cell "\<lambda>st. globalClustersList (st_clusters st)" GLOBAL_CLUSTERS_LIST read_globalClustersList
  by unfold_locales (auto simp: dispatch_defs split: action.splits elim: read_globalClustersList.elims)

fun read_globalClusterTypeInfo :: "action \<Rightarrow> (string list) option" where
  "read_globalClusterTypeInfo (GLOBAL_CLUSTER_TYPE_INFO p) = Some p"
| "read_globalClusterTypeInfo _ = None"

interpretation globalClusterTypeInfo_cell: store_cell "\<lambda>st. globalClusterTypeInfo (st_clusters st)" GLOBAL_CLUSTER_TYPE_INFO read_globalClusterTypeInfo
  by unfold_locales (auto simp: dispatch_defs split: action.splits elim: read_globalClusterTypeInfo.elims)

fun read_globalEntriesList :: "action \<Rightarrow> (EntriesList list jsval) option" where
  "read_globalEntriesList (GLOBAL_ENTRIES_LIST p) = Some p"
| "read_globalEntriesList _ = None"

interpretation globalEntriesList_cell: store_cell "\<lambda>st. globalEntriesList (st_entries st)" GLOBAL_ENTRIES_LIST read_globalEntriesList
  by unfold_locales (auto simp: dispatch_defs split: action.splits elim: read_globalEntriesList.elims)

fun read_globalNewEntries :: "action \<Rightarrow> (array_ref option) option" where
  "read_globalNewEntries (GLOBAL_NEW_ENTRIES p) = Some p"
| "read_globalNewEntries _ = None"

interpretation globalNewEntries_cell: store_cell "\<lambda>st. globalNewEntries (st_entries st)" GLOBAL_NEW_ENTRIES read_globalNewEntries
  by unfold_locales (auto simp: dispatch_defs split: action.splits elim: read_globalNewEntries.elims)

fun read_globalEntryExpiryTime :: "action \<Rightarrow> jsnum option" where
  "read_globalEntryExpiryTime (GLOBAL_ENTRY_EXPIRY p) = Some p"
| "read_globalEntryExpiryTime _ = None"

interpretation globalEntryExpiryTime_cell: store_cell "\<lambda>st. globalEntryExpiryTime (st_entries st)" GLOBAL_ENTRY_EXPIRY read_globalEntryExpiryTime
  by unfold_locales (auto simp: dispatch_defs split: action.splits elim: read_globalEntryExpiryTime.elims)

fun read_globalServerSelected :: "action \<Rightarrow> string option" where
  "read_globalServerSelected (GLOBAL_SERVER_SELECTED p) = Some p"
| "read_globalServerSelected _ = None"

interpretation globalServerSelected_cell: store_cell "\<lambda>st. globalServerSelected (st_servers st)" GLOBAL_SERVER_SELECTED read_globalServerSelected
  by unfold_locales (auto simp: dispatch_defs split: action.splits elim: read_globalServerSelected.elims)

fun read_globalServerInfo :: "action \<Rightarrow> ServerInfo option" where
  "read_globalServerInfo (GLOBAL_SERVER_INFO p) = Some p"
| "read_globalServerInfo _ = None"

interpretation globalServerInfo_cell: store_cell "\<lambda>st. globalServerInfo (st_servers st)" GLOBAL_SERVER_INFO read_globalServerInfo
  by unfold_locales (auto simp: dispatch_defs split: action.splits elim: read_globalServerInfo.elims)

fun read_globalTornjakServerInfo :: "action \<Rightarrow> (TornjakServerInfo jsval) option" where
  "read_globalTornjakServerInfo (GLOBAL_TORNJAK_SERVER_INFO p) = Some p"
| "read_globalTornjakServerInfo _ = None"

interpretation globalTornjakServerInfo_cell: store_cell "\<lambda>st. globalTornjakServerInfo (st_servers st)" GLOBAL_TORNJAK_SERVER_INFO read_globalTornjakServerInfo
  by unfold_locales (auto simp: dispatch_defs split: action.splits elim: read_globalTornjakServerInfo.elims)

fun read_globalServersList :: "action \<Rightarrow> (ServersList list jsval) option" where
  "read_globalServersList (GLOBAL_SERVERS_LIST p) = Some p"
| "read_globalServersList _ = None"

interpretation globalServersList_cell: store_cell "\<lambda>st. globalServersList (st_servers st)" GLOBAL_SERVERS_LIST read_globalServersList
  by unfold_locales (auto simp: dispatch_defs split: action.splits elim: read_globalServersList.elims)

fun read_globalSelectorInfo :: "action \<Rightarrow> SelectorInfoLabels option" where
  "read_globalSelectorInfo (GLOBAL_SELECTOR_INFO p) = Some p"
| "read_globalSelectorInfo _ = None"

interpretation globalSelectorInfo_cell: store_cell "\<lambda>st. globalSelectorInfo (st_servers st)" GLOBAL_SELECTOR_INFO read_globalSelectorInfo
  by unfold_locales (auto simp: dispatch_defs split: action.splits elim: read_globalSelectorInfo.elims)

fun read_globalWorkloadSelectorInfo :: "action \<Rightarrow> WorkloadSelectorInfoLabels option" where
  "read_globalWorkloadSelectorInfo (GLOBAL_WORKLOAD_SELECTOR_INFO p) = Some p"
| "read_globalWorkloadSelectorInfo _ = None"

interpretation globalWorkloadSelectorInfo_cell: store_cell "\<lambda>st. globalWorkloadSelectorInfo (st_servers st)" GLOBAL_WORKLOAD_SELECTOR_INFO read_globalWorkloadSelectorInfo
  by unfold_locales (auto simp: dispatch_defs split: action.splits elim: read_globalWorkloadSelectorInfo.elims)

fun read_globalSpireHealthCheck :: "action \<Rightarrow> bool option" where
  "read_globalSpireHealthCheck (GLOBAL_SPIRE_HEALTH_CHECK p) = Some p"
| "read_globalSpireHealthCheck _ = None"

interpretation globalSpireHealthCheck_cell: store_cell "\<lambda>st. globalSpireHealthCheck (st_servers st)" GLOBAL_SPIRE_HEALTH_CHECK read_globalSpireHealthCheck
  by unfold_locales (auto simp: dispatch_defs split: action.splits elim: read_globalSpireHealthCheck.elims)

fun read_globalSpireHealthChecking :: "action \<Rightarrow> bool option" where
  "read_globalSpireHealthChecking (GLOBAL_SPIRE_HEALTH_CHECKING p) = Some p"
| "read_globalSpireHealthChecking _ = None"

interpretation globalSpireHealthChecking_cell: store_cell "\<lambda>st. globalSpireHealthChecking (st_servers st)" GLOBAL_SPIRE_HEALTH_CHECKING read_globalSpireHealthChecking
  by unfold_locales (auto simp: dispatch_defs split: action.splits elim: read_globalSpireHealthChecking.elims)

fun read_globalSpireHealthTime :: "action \<Rightarrow> SpireHealthCheckFreq option" where
  "read_globalSpireHealthTime (GLOBAL_SPIRE_HEALTH_CHECK_TIME p) = Some p"
| "read_globalSpireHealthTime _ = None"

interpretation globalSpireHealthTime_cell: store_cell "\<lambda>st. globalSpireHealthTime (st_servers st)" GLOBAL_SPIRE_HEALTH_CHECK_TIME read_globalSpireHealthTime
  by unfold_locales (auto simp: dispatch_defs split: action.splits elim: read_globalSpireHealthTime.elims)

fun read_globalDebugServerInfo :: "action \<Rightarrow> (DebugServerInfo jsval) option" where
  "read_globalDebugServerInfo (GLOBAL_DEBUG_SERVER_INFO p) = Some p"
| "read_globalDebugServerInfo _ = None"

interpretation globalDebugServerInfo_cell: store_cell "\<lambda>st. globalDebugServerInfo (st_servers st)" GLOBAL_DEBUG_SERVER_INFO read_globalDebugServerInfo
  by unfold_locales (auto simp: dispatch_defs split: action.splits elim: read_globalDebugServerInfo.elims)

fun read_globalErrorMessage :: "action \<Rightarrow> tornjak_message option" where
  "read_globalErrorMessage (GLOBAL_MESSAGE p) = Some p"
| "read_globalErrorMessage _ = None"

interpretation globalErrorMessage_cell: store_cell "\<lambda>st. globalErrorMessage (st_tornjak st)" GLOBAL_MESSAGE read_globalErrorMessage
  by unfold_locales (auto simp: dispatch_defs split: action.splits elim: read_globalErrorMessage.elims)

fun read_globalClickedDashboardTable :: "action \<Rightarrow> string option" where
  "read_globalClickedDashboardTable (GLOBAL_CLICKED_DASHBOARD_TABLE p) = Some p"
| "read_globalClickedDashboardTable _ = None"

interpretation globalClickedDashboardTable_cell: store_cell "\<lambda>st. globalClickedDashboardTable (st_tornjak st)" GLOBAL_CLICKED_DASHBOARD_TABLE read_globalClickedDashboardTable
  by unfold_locales (auto simp: dispatch_defs split: action.splits elim: read_globalClickedDashboardTable.elims)

end
