(* ===== verification/SpiffeHelper.thy ===== *)
theory SpiffeHelper
  imports ReduxStore
begin

text \<open>
  components/spiffe-helper.tsx: SPIFFE ids of agents and entries, and which entries belong to
  which agent (an entry whose parent is the server belongs to every agent whose selectors
  include the entry's).

  Three of the functions give an agent or entry without selectors the empty list, in place. The
  model returns the objects of a result with that default in, and \<open>agent_after\<close>,
  \<open>entries_after\<close> are the arguments as the call leaves them.
\<close>

section \<open>Times and flags\<close>

text \<open>The empty string the functions return for an undefined argument is None.\<close>

definition getAgentExpiryMillisecondsFromEpoch :: "AgentsList option \<Rightarrow> jsnum option" where
  "getAgentExpiryMillisecondsFromEpoch a =
     (case a of
        None \<Rightarrow> None
      | Some ag \<Rightarrow>
          Some (times_pos (case x509svid_expires_at ag of None \<Rightarrow> NaN | Some n \<Rightarrow> n) 1000))"

definition getEntryExpiryMillisecondsFromEpoch :: "EntriesList option \<Rightarrow> jsnum option" where
  "getEntryExpiryMillisecondsFromEpoch e =
     (case e of
        None \<Rightarrow> None
      | Some en \<Rightarrow> (case expires_at en of None \<Rightarrow> None | Some n \<Rightarrow> Some (times_pos n 1000)))"

definition getEntryAdminFlag :: "EntriesList option \<Rightarrow> bool" where
  "getEntryAdminFlag e =
     (case e of None \<Rightarrow> False | Some en \<Rightarrow> (case admin en of None \<Rightarrow> False | Some b \<Rightarrow> b))"

section \<open>SPIFFE ids\<close>

definition checkSpiffeidValidity :: "string option \<Rightarrow> string option \<Rightarrow> bool" where
  "checkSpiffeidValidity td p =
     (case (td, p) of
        (Some t, Some q) \<Rightarrow>
          if length t = 0 \<or> length q = 0 then False
          else if charAt0 t = ''/'' then False
          else if slice_last t = ''/'' \<and> charAt0 q \<noteq> ''/'' then True
          else slice_last t \<noteq> ''/'' \<and> charAt0 q = ''/''
      | _ \<Rightarrow> False)"

definition render_id :: "SPIFFEID \<Rightarrow> string" where
  "render_id i =
     (if checkSpiffeidValidity (trust_domain i) (path i)
      then ''spiffe://'' @ the (trust_domain i) @ the (path i) else [])"

definition getAgentSpiffeid :: "AgentsList option \<Rightarrow> string" where
  "getAgentSpiffeid a = (case a of None \<Rightarrow> [] | Some ag \<Rightarrow> render_id (agent_id ag))"

definition getEntrySpiffeid :: "EntriesList option \<Rightarrow> string throws" where
  "getEntrySpiffeid e =
     (case e of
        None \<Rightarrow> Inr []
      | Some en \<Rightarrow> (case spiffe_id en of None \<Rightarrow> Inl TypeError | Some i \<Rightarrow> Inr (render_id i)))"

definition getEntryParentid :: "EntriesList option \<Rightarrow> string throws" where
  "getEntryParentid e =
     (case e of
        None \<Rightarrow> Inr []
      | Some en \<Rightarrow> (case parent_id en of None \<Rightarrow> Inl TypeError | Some i \<Rightarrow> Inr (render_id i)))"

section \<open>Status and metadata\<close>

text \<open>\<open>now\<close> is \<open>new Date().getTime()\<close>, in milliseconds.\<close>

definition getAgentStatusString :: "int \<Rightarrow> AgentsList option \<Rightarrow> string" where
  "getAgentStatusString now a =
     (case getAgentExpiryMillisecondsFromEpoch a of
        None \<Rightarrow> []
      | Some expiry \<Rightarrow>
          (if banned (the a) then ''Banned''
           else if num_lt (num now) expiry then ''Attested''
           else ''Expired''))"

text \<open>Plugin and cluster of an agent; the first match, empty texts without one.\<close>

definition getAgentMetadata ::
  "string \<Rightarrow> AgentsWorkLoadAttestorInfo list jsval \<Rightarrow> (string \<times> string) throws"
where
  "getAgentMetadata sid metadataList =
     (case metadataList of
        Undefined \<Rightarrow> Inr ([], [])
      | Null \<Rightarrow> Inl TypeError
      | Val ms \<Rightarrow>
          (case filter (\<lambda>m. info_spiffeid m = sid) ms of
             [] \<Rightarrow> Inr ([], [])
           | m # _ \<Rightarrow> Inr (info_plugin m, info_cluster m)))"

section \<open>Selectors\<close>

definition formatSelectors :: "Selector \<Rightarrow> string" where
  "formatSelectors s = selector_type s @ '':'' @ selector_value s"

text \<open>\<open>new Set(xs)\<close> keeps the first occurrences, in order.\<close>

definition js_set :: "'a list \<Rightarrow> 'a list" where
  "js_set xs = rev (remdups (rev xs))"

fun isSuperset :: "'a list \<Rightarrow> 'a list \<Rightarrow> bool" where
  "isSuperset s [] = True"
| "isSuperset s (elem # es) = (if elem \<notin> set s then False else isSuperset s es)"

definition defaulted :: "Selector list option \<Rightarrow> Selector list" where
  "defaulted ss = (case ss of None \<Rightarrow> [] | Some xs \<Rightarrow> xs)"

definition agent_after :: "AgentsList \<Rightarrow> AgentsList" where
  "agent_after a = a\<lparr>agent_selectors := Some (defaulted (agent_selectors a))\<rparr>"

definition entry_after :: "EntriesList \<Rightarrow> EntriesList" where
  "entry_after e = e\<lparr>entry_selectors := Some (defaulted (entry_selectors e))\<rparr>"

definition agent_set :: "AgentsList \<Rightarrow> string list" where
  [js_unfold]: "agent_set a = js_set (map formatSelectors (defaulted (agent_selectors a)))"

definition entry_set :: "EntriesList \<Rightarrow> string list" where
  [js_unfold]: "entry_set e = js_set (map formatSelectors (defaulted (entry_selectors e)))"

section \<open>Entries of an agent\<close>

definition is_node_entry :: "EntriesList \<Rightarrow> bool throws" where
  "is_node_entry e =
     (case parent_id e of
        None \<Rightarrow> Inl TypeError
      | Some i \<Rightarrow> Inr (path i = Some ''/spire/server''))"

definition getAgentEntries :: "AgentsList option \<Rightarrow> EntriesList list \<Rightarrow> EntriesList list throws" where
  "getAgentEntries agent0 entries =
     bindE (filterE is_node_entry entries) (\<lambda>nodeEntries.
       case agent0 of
         None \<Rightarrow> Inr []
       | Some a \<Rightarrow>
           Inr (map entry_after (filter (\<lambda>e. isSuperset (agent_set a) (entry_set e)) nodeEntries)))"

text \<open>The entries argument as \<open>getAgentEntries\<close> leaves it, for a call that does not throw.\<close>

definition entries_after :: "AgentsList option \<Rightarrow> EntriesList list \<Rightarrow> EntriesList list" where
  "entries_after agent0 entries =
     (if agent0 = None then entries
      else map (\<lambda>e. if is_node_entry e = Inr True then entry_after e else e) entries)"

text \<open>
  \<open>getAgentsEntries\<close> builds the dictionary for all agents in one pass over the entries: first
  an empty list under every agent's id and a closure per agent (here the pair of its id and its
  selector set), then every node entry through every closure.
\<close>

type_synonym entries_dict = "string \<rightharpoonup> EntriesList list"

definition agents_pass :: "AgentsList list \<Rightarrow> entries_dict \<times> (string \<times> string list) list" where
  "agents_pass as =
     foldl (\<lambda>(dict, lambdas) a.
              let agentId = getAgentSpiffeid (Some a) in
              (dict(agentId \<mapsto> []), lambdas @ [(agentId, agent_set a)]))
           (Map.empty, []) as"

definition run_lambda :: "EntriesList \<Rightarrow> entries_dict \<Rightarrow> string \<times> string list \<Rightarrow> entries_dict" where
  "run_lambda e dict l =
     (if isSuperset (snd l) (entry_set e)
      then dict(fst l \<mapsto> the (dict (fst l)) @ [entry_after e]) else dict)"

definition entries_pass ::
  "(string \<times> string list) list \<Rightarrow> entries_dict \<Rightarrow> EntriesList list \<Rightarrow> entries_dict"
where
  "entries_pass lambdas dict nodeEntries =
     foldl (\<lambda>d e. foldl (run_lambda e) d lambdas) dict nodeEntries"

definition getAgentsEntries ::
  "AgentsList list jsval \<Rightarrow> EntriesList list jsval \<Rightarrow> entries_dict option throws"
where
  "getAgentsEntries as0 entries0 =
     (case entries0 of
        Undefined \<Rightarrow> Inr None
      | Null \<Rightarrow> Inl TypeError
      | Val entries \<Rightarrow>
          bindE (filterE is_node_entry entries) (\<lambda>nodeEntries.
            case as0 of
              Undefined \<Rightarrow> Inr None
            | Null \<Rightarrow> Inl TypeError
            | Val as \<Rightarrow>
                (let (dict, lambdas) = agents_pass as
                 in Inr (Some (entries_pass lambdas dict nodeEntries)))))"

definition getCanonicalAgentSpiffeid :: "EntriesList \<Rightarrow> AgentsList list \<Rightarrow> string" where
  "getCanonicalAgentSpiffeid e as =
     (case filter (\<lambda>a. isSuperset (agent_set a) (entry_set e)) as of
        [] \<Rightarrow> []
      | a # _ \<Rightarrow> getAgentSpiffeid (Some a))"

section \<open>Counting and listing\<close>

definition numberEntriesOfAgent :: "AgentsList \<Rightarrow> EntriesList list \<Rightarrow> nat throws" where
  "numberEntriesOfAgent a globalEntries =
     bindE (getAgentEntries (Some a) globalEntries) (\<lambda>agentEntries.
     bindE (mapE (\<lambda>e. getEntrySpiffeid (Some e)) agentEntries) (\<lambda>ids.
       let validIds = getAgentSpiffeid (Some a) # ids in
       bindE (filterE (\<lambda>e. bindE (getEntryParentid (Some e)) (\<lambda>p. Inr (p \<in> set validIds))) globalEntries)
         (\<lambda>entriesList. Inr (length entriesList))))"

text \<open>
  \<open>array[key]\<close> for a string key. Only the canonical decimal of an index names an element; the
  keys passed here are SPIFFE ids, so the method names of arrays do not arise.
\<close>

definition array_index :: "'a list \<Rightarrow> string \<Rightarrow> 'a option" where
  "array_index xs key =
     (case List.find (\<lambda>i. nat_toString i = key) [0..<length xs] of
        None \<Rightarrow> None | Some i \<Rightarrow> Some (xs ! i))"

text \<open>
  The result of \<open>getChildEntries\<close>: the entries with this parent, then the ids of the agent's own
  entries. None is the NaN returned without a list. An element found under the key would be an
  entry, which has no method \<open>map\<close>.
\<close>

definition getChildEntries ::
  "string \<Rightarrow> AgentsList list \<Rightarrow> EntriesList list jsval \<Rightarrow> (EntriesList + string) list option throws"
where
  "getChildEntries sid globalAgents globalEntries0 =
     (case globalEntries0 of
        Undefined \<Rightarrow> Inr None
      | Null \<Rightarrow> Inl TypeError
      | Val globalEntries \<Rightarrow>
          (let curAgent = List.find (\<lambda>a. getAgentSpiffeid (Some a) = sid) globalAgents in
           bindE (filterE (\<lambda>e. bindE (getEntryParentid (Some e)) (\<lambda>p. Inr (sid = p))) globalEntries)
             (\<lambda>entriesList.
           bindE (getAgentEntries curAgent globalEntries) (\<lambda>agentEntriesDict.
           case array_index agentEntriesDict sid of
             None \<Rightarrow> Inr (Some (map Inl entriesList))
           | Some e \<Rightarrow> Inl TypeError))))"

section \<open>Selector sets\<close>

lemma set_js_set [simp]: "set (js_set xs) = set xs"
  by (simp add: js_set_def)

lemma isSuperset_iff: "isSuperset s t \<longleftrightarrow> set t \<subseteq> set s"
  by (induction t) auto

lemma after_sets [simp]:
  "agent_set (agent_after a) = agent_set a" "entry_set (entry_after e) = entry_set e"
  by (simp_all add: agent_set_def entry_set_def agent_after_def entry_after_def defaulted_def)

lemma after_ids [simp]:
  "agent_id (agent_after a) = agent_id a" "parent_id (entry_after e) = parent_id e"
  "spiffe_id (entry_after e) = spiffe_id e" "entry_id (entry_after e) = entry_id e"
  "entry_after (entry_after e) = entry_after e"
  by (simp_all add: agent_after_def entry_after_def defaulted_def)

lemma after_spiffeids [simp]:
  "getAgentSpiffeid (Some (agent_after a)) = getAgentSpiffeid (Some a)"
  "getEntrySpiffeid (Some (entry_after e)) = getEntrySpiffeid (Some e)"
  "getEntryParentid (Some (entry_after e)) = getEntryParentid (Some e)"
  "is_node_entry (entry_after e) = is_node_entry e"
  by (simp_all add: getAgentSpiffeid_def getEntrySpiffeid_def getEntryParentid_def is_node_entry_def)

text \<open>The entries an agent is associated with, as a list in the order of the argument.\<close>

definition associated :: "AgentsList \<Rightarrow> EntriesList \<Rightarrow> bool" where
  "associated a e \<longleftrightarrow> is_node_entry e = Inr True \<and> set (entry_set e) \<subseteq> set (agent_set a)"

definition all_parents :: "EntriesList list \<Rightarrow> bool" where
  "all_parents es \<longleftrightarrow> (\<forall>e \<in> set es. parent_id e \<noteq> None)"

lemma is_node_entry_total: "parent_id e \<noteq> None \<longleftrightarrow> (\<exists>b. is_node_entry e = Inr b)"
  by (auto simp: is_node_entry_def split: option.splits)

lemma node_filter:
  "filterE is_node_entry es =
     (if all_parents es then Inr (filter (\<lambda>e. is_node_entry e = Inr True) es) else Inl TypeError)"
proof (cases "all_parents es")
  case True
  then have "\<forall>e \<in> set es. \<exists>b. is_node_entry e = Inr b"
    by (simp only: all_parents_def is_node_entry_total)
  with True show ?thesis by (simp add: filterE_eq_Inr)
next
  case False
  then show ?thesis
    by (auto simp: filterE_TypeError all_parents_def is_node_entry_def split: option.splits)
qed

lemma getAgentEntries_eq:
  "getAgentEntries (Some a) es =
     (if all_parents es then Inr (map entry_after (filter (associated a) es)) else Inl TypeError)"
  by (auto simp: getAgentEntries_def node_filter isSuperset_iff associated_def cong: filter_cong
      intro!: arg_cong [where f = "map entry_after"] filter_cong)

lemma associated_after [simp]:
  "associated (agent_after a) e = associated a e" "associated a (entry_after e) = associated a e"
  by (simp_all add: associated_def)

section \<open>The dictionary of all agents\<close>

lemma agents_pass_eq:
  "agents_pass as =
     ((\<lambda>k. if k \<in> (\<lambda>a. getAgentSpiffeid (Some a)) ` set as then Some [] else None),
      map (\<lambda>a. (getAgentSpiffeid (Some a), agent_set a)) as)"
  unfolding agents_pass_def
  by (induction as rule: rev_induct) (auto simp: Let_def)

definition pushed :: "(string \<times> string list) list \<Rightarrow> string \<Rightarrow> EntriesList \<Rightarrow> EntriesList list" where
  "pushed ls k e = map (\<lambda>l. entry_after e) (filter (\<lambda>l. fst l = k \<and> isSuperset (snd l) (entry_set e)) ls)"

lemma run_lambdas:
  "fst ` set ls \<subseteq> dom d \<Longrightarrow>
     foldl (run_lambda e) d ls = (\<lambda>k. case d k of None \<Rightarrow> None | Some xs \<Rightarrow> Some (xs @ pushed ls k e))"
proof (induction ls arbitrary: d)
  case Nil
  then show ?case by (auto simp: pushed_def split: option.splits)
next
  case (Cons l ls)
  let ?d = "run_lambda e d l"
  have dom: "dom ?d = dom d" using Cons.prems by (auto simp: run_lambda_def)
  have "foldl (run_lambda e) ?d ls = (\<lambda>k. case ?d k of None \<Rightarrow> None | Some xs \<Rightarrow> Some (xs @ pushed ls k e))"
    by (rule Cons.IH) (use Cons.prems dom in auto)
  also have "\<dots> = (\<lambda>k. case d k of None \<Rightarrow> None | Some xs \<Rightarrow> Some (xs @ pushed (l # ls) k e))"
    using Cons.prems by (intro ext) (auto simp: run_lambda_def pushed_def split: option.splits)
  finally show ?case by simp
qed

lemma entries_pass_eq:
  "fst ` set ls \<subseteq> dom d \<Longrightarrow>
     entries_pass ls d es =
       (\<lambda>k. case d k of None \<Rightarrow> None | Some xs \<Rightarrow> Some (xs @ concat (map (pushed ls k) es)))"
proof (induction es arbitrary: d)
  case Nil
  then show ?case by (auto simp: entries_pass_def split: option.splits)
next
  case (Cons e es)
  let ?d = "foldl (run_lambda e) d ls"
  have d: "?d = (\<lambda>k. case d k of None \<Rightarrow> None | Some xs \<Rightarrow> Some (xs @ pushed ls k e))"
    using Cons.prems by (rule run_lambdas)
  have "entries_pass ls ?d es =
      (\<lambda>k. case ?d k of None \<Rightarrow> None | Some xs \<Rightarrow> Some (xs @ concat (map (pushed ls k) es)))"
    by (rule Cons.IH) (use Cons.prems in \<open>auto simp: d split: option.splits\<close>)
  then show ?case by (simp add: entries_pass_def d) (auto split: option.splits)
qed

lemma pushed_unique:
  assumes "distinct (map f as)" "a \<in> set as"
  shows "filter (\<lambda>x. f x = f a \<and> P x) as = (if P a then [a] else [])"
  using assms by (induction as) (auto simp: filter_empty_conv rev_image_eqI)

lemma pushed_agent:
  assumes "distinct (map (\<lambda>a. getAgentSpiffeid (Some a)) as)" "a \<in> set as"
  shows "pushed (map (\<lambda>a. (getAgentSpiffeid (Some a), agent_set a)) as) (getAgentSpiffeid (Some a)) e =
    (if isSuperset (agent_set a) (entry_set e) then [entry_after e] else [])"
  using pushed_unique [OF assms, of "\<lambda>a. isSuperset (agent_set a) (entry_set e)"]
  by (simp add: pushed_def filter_map o_def)

lemma concat_if: "concat (map (\<lambda>e. if P e then [f e] else []) es) = map f (filter P es)"
  by (induction es) auto

lemma getAgentsEntries_eq:
  "getAgentsEntries (Val as) (Val es) =
     (if all_parents es then
        Inr (Some (\<lambda>k. if k \<in> (\<lambda>a. getAgentSpiffeid (Some a)) ` set as
          then Some (concat (map (pushed (map (\<lambda>a. (getAgentSpiffeid (Some a), agent_set a)) as) k)
                 (filter (\<lambda>e. is_node_entry e = Inr True) es)))
          else None))
      else Inl TypeError)"
proof -
  have sub: "fst ` set (map (\<lambda>a. (getAgentSpiffeid (Some a), agent_set a)) as)
      \<subseteq> dom (\<lambda>k. if k \<in> (\<lambda>a. getAgentSpiffeid (Some a)) ` set as then Some [] else None)"
    by auto
  show ?thesis
    by (auto simp: getAgentsEntries_def node_filter agents_pass_eq entries_pass_eq [OF sub] intro!: ext)
qed

definition spiffe_text :: "EntriesList \<Rightarrow> string" where
  "spiffe_text e = render_id (the (spiffe_id e))"

definition parent_text :: "EntriesList \<Rightarrow> string" where
  "parent_text e = render_id (the (parent_id e))"

lemma parent_total:
  "all_parents es \<Longrightarrow> e \<in> set es \<Longrightarrow> getEntryParentid (Some e) = Inr (parent_text e)"
  by (auto simp: all_parents_def getEntryParentid_def parent_text_def)

lemma spiffe_total:
  "spiffe_id e \<noteq> None \<Longrightarrow> getEntrySpiffeid (Some e) = Inr (spiffe_text e)"
  by (auto simp: getEntrySpiffeid_def spiffe_text_def)

lemma spiffe_throws: "spiffe_id e = None \<Longrightarrow> getEntrySpiffeid (Some e) = Inl TypeError"
  by (simp add: getEntrySpiffeid_def)

lemma spiffe_text_after [simp]: "spiffe_text (entry_after e) = spiffe_text e"
  by (simp add: spiffe_text_def)

lemma filter_parents:
  assumes "all_parents es"
  shows "filterE (\<lambda>e. bindE (getEntryParentid (Some e)) (\<lambda>p. Inr (Q p))) es =
      Inr (filter (\<lambda>e. Q (parent_text e)) es)"
  by (rule filterE_total) (simp add: parent_total [OF assms])

lemma filter_parents_throws:
  assumes "\<not> all_parents es"
  shows "filterE (\<lambda>e. bindE (getEntryParentid (Some e)) (\<lambda>p. Inr (Q p))) es = Inl TypeError"
proof -
  from assms obtain e where "e \<in> set es" "parent_id e = None" by (auto simp: all_parents_def)
  then show ?thesis
    unfolding filterE_TypeError by (intro bexI [of _ e]) (simp_all add: getEntryParentid_def)
qed

lemma mapE_throws: "x \<in> set xs \<Longrightarrow> f x = Inl TypeError \<Longrightarrow> mapE f xs = Inl TypeError"
  for f :: "'a \<Rightarrow> 'b throws"
proof (induction xs)
  case Nil
  then show ?case by simp
next
  case (Cons y ys)
  show ?case
  proof (cases "f y")
    case (Inl e)
    then show ?thesis by (cases e) simp
  next
    case (Inr b)
    with Cons show ?thesis by auto
  qed
qed

lemma map_spiffe:
  "mapE (\<lambda>e. getEntrySpiffeid (Some e)) es =
     (if \<forall>e \<in> set es. spiffe_id e \<noteq> None then Inr (map spiffe_text es) else Inl TypeError)"
proof (cases "\<forall>e \<in> set es. spiffe_id e \<noteq> None")
  case True
  have "mapE (\<lambda>e. getEntrySpiffeid (Some e)) es = Inr (map spiffe_text es)"
    by (rule mapE_total) (use True spiffe_total in blast)
  with True show ?thesis by simp
next
  case False
  then obtain e where e: "e \<in> set es" "spiffe_id e = None" by auto
  have "mapE (\<lambda>e. getEntrySpiffeid (Some e)) es = Inl TypeError"
    by (rule mapE_throws [OF e(1)]) (rule spiffe_throws [OF e(2)])
  with False show ?thesis by auto
qed

definition countable_for :: "AgentsList \<Rightarrow> EntriesList list \<Rightarrow> bool" where
  "countable_for a es \<longleftrightarrow> all_parents es \<and> (\<forall>e \<in> set (filter (associated a) es). spiffe_id e \<noteq> None)"

definition own_ids :: "AgentsList \<Rightarrow> EntriesList list \<Rightarrow> string set" where
  "own_ids a es = insert (getAgentSpiffeid (Some a)) (spiffe_text ` set (filter (associated a) es))"

lemma numberEntriesOfAgent_eq:
  "numberEntriesOfAgent a es =
     (if countable_for a es then Inr (length (filter (\<lambda>e. parent_text e \<in> own_ids a es) es))
      else Inl TypeError)"
proof (cases "all_parents es")
  case False
  then show ?thesis by (simp add: numberEntriesOfAgent_def getAgentEntries_eq countable_for_def)
next
  case True
  show ?thesis
  proof (cases "\<forall>e \<in> set (filter (associated a) es). spiffe_id e \<noteq> None")
    case False
    then show ?thesis
      using True by (auto simp: numberEntriesOfAgent_def getAgentEntries_eq countable_for_def map_spiffe)
  next
    case ids: True
    have "(\<lambda>e. spiffe_text (entry_after e)) ` set (filter (associated a) es) =
        spiffe_text ` set (filter (associated a) es)"
      by simp
    then show ?thesis
      using True ids
      by (simp add: numberEntriesOfAgent_def getAgentEntries_eq countable_for_def map_spiffe
          filter_parents own_ids_def Let_def image_image o_def del: set_filter)
  qed
qed

lemma entries_after_simps:
  "entries_after (Some a) es = map (\<lambda>e. if is_node_entry e = Inr True then entry_after e else e) es"
  by (simp add: entries_after_def)

abbreviation touch :: "EntriesList \<Rightarrow> EntriesList" where
  "touch e \<equiv> (if is_node_entry e = Inr True then entry_after e else e)"

lemma touch_simps:
  "parent_id (touch e) = parent_id e" "spiffe_id (touch e) = spiffe_id e"
  "associated a (touch e) = associated a e" "spiffe_text (touch e) = spiffe_text e"
  "parent_text (touch e) = parent_text e" "entry_after (touch e) = entry_after e"
  by (simp_all add: parent_text_def)

lemma after_filter: "filter P (map touch es) = map touch (filter (\<lambda>e. P (touch e)) es)"
  by (simp add: filter_map o_def)

lemma all_parents_after: "all_parents (map touch es) = all_parents es"
  by (simp only: all_parents_def set_map ball_simps touch_simps)

lemma own_ids_after: "own_ids (agent_after a) (map touch es) = own_ids a es"
proof -
  have "filter (associated (agent_after a)) (map touch es) = map touch (filter (associated a) es)"
    by (simp only: after_filter associated_after touch_simps)
  moreover have "spiffe_text ` set (map touch xs) = spiffe_text ` set xs" for xs
    by (simp only: set_map image_image touch_simps)
  ultimately show ?thesis by (simp only: own_ids_def after_spiffeids)
qed

lemma countable_for_after: "countable_for (agent_after a) (map touch es) = countable_for a es"
proof -
  have "filter (associated (agent_after a)) (map touch es) = map touch (filter (associated a) es)"
    by (simp only: after_filter associated_after touch_simps)
  moreover have "(\<forall>e \<in> set (map touch xs). spiffe_id e \<noteq> None) = (\<forall>e \<in> set xs. spiffe_id e \<noteq> None)" for xs
    by (simp only: set_map ball_simps touch_simps)
  ultimately show ?thesis by (simp only: countable_for_def all_parents_after)
qed

lemma digit_key:
  assumes "nat_toString i = key"
  shows "key \<noteq> [] \<and> is_digit (hd key)"
  using nat_toString_hd(1) [of i] nat_toString_nonempty [of i] assms by simp

lemma array_index_spiffe:
  assumes "sid = [] \<or> startsWith sid ''spiffe://''"
  shows "array_index xs sid = None"
proof -
  have "\<not> (sid \<noteq> [] \<and> is_digit (hd sid))"
    using assms by (auto simp: startsWith_iff is_digit_def)
  then have "nat_toString i \<noteq> sid" for i using digit_key by blast
  then have "List.find (\<lambda>i. nat_toString i = sid) [0..<length xs] = None"
    by (simp add: find_None_iff)
  then show ?thesis by (simp add: array_index_def)
qed

lemma getAgentEntries_none:
  "all_parents es \<Longrightarrow> getAgentEntries None es = Inr []"
  by (simp add: getAgentEntries_def node_filter)

lemma render_id_spiffe: "render_id i = [] \<or> startsWith (render_id i) ''spiffe://''"
  by (auto simp: render_id_def startsWith_def)

end
