(* ===== verification/SpiffeId.thy ===== *)
theory SpiffeId
  imports SpiffeHelper
begin

text \<open>
  The text forms the front end parses: SPIFFE ids (\<open>parseSpiffeId\<close>, the same method in
  entry-create.tsx, entry-create-json.tsx and agent-create-join-token.tsx) and selectors
  \<open>type:value\<close>. A parser and a printer that fit each other are a codec; its facts are proved once
  and interpreted on both.
\<close>

section \<open>Parsers\<close>

definition parseSpiffeId :: "string \<Rightarrow> bool \<times> string \<times> string" where
  "parseSpiffeId sid =
     (if startsWith sid ''spiffe://'' then
        (let sub = substr sid (length ''spiffe://''); sp = indexOf sub (CHR ''/'') in
         if 0 < sp \<and> sp \<noteq> int (length sub) - 1
         then (True, substr2 sub 0 (nat sp), substr sub (nat sp))
         else (False, [], []))
      else (False, [], []))"

text \<open>One selector of the entry form: the text up to the first colon, and what follows it.\<close>

definition parse_selector :: "string \<Rightarrow> Selector option" where
  "parse_selector x =
     (let i = indexOf x (CHR '':'') in
      if 0 < i
      then Some \<lparr>selector_type = substr2 x 0 (nat i), selector_value = substr x (nat i + 1)\<rparr>
      else None)"

section \<open>Codecs\<close>

locale id_codec =
  fixes render :: "'v \<Rightarrow> string" and parse :: "string \<Rightarrow> 'v option" and wf :: "'v \<Rightarrow> bool"
  assumes parse_render: "wf v \<Longrightarrow> parse (render v) = Some v"
    and parse_sound: "parse s = Some v \<Longrightarrow> wf v \<and> render v = s"
begin

lemma parse_iff: "parse s = Some v \<longleftrightarrow> wf v \<and> render v = s"
  using parse_render parse_sound by blast

lemma render_inj: "wf v \<Longrightarrow> wf w \<Longrightarrow> render v = render w \<Longrightarrow> v = w"
  by (metis option.inject parse_render)

lemma parse_None: "parse s = None \<longleftrightarrow> (\<nexists>v. wf v \<and> render v = s)"
  by (metis not_None_eq parse_iff)

lemma parse_inj: "parse s = Some v \<Longrightarrow> parse t = Some v \<Longrightarrow> s = t"
  by (simp add: parse_iff)

lemma normal_form: "parse s = Some v \<Longrightarrow> parse (render v) = Some v"
  by (simp add: parse_render parse_sound)

end

section \<open>SPIFFE ids\<close>

definition wf_id :: "string \<times> string \<Rightarrow> bool" where
  "wf_id v = (case v of (t, p) \<Rightarrow>
     t \<noteq> [] \<and> CHR ''/'' \<notin> set t \<and> startsWith p ''/'' \<and> 1 < length p)"

definition render_pair :: "string \<times> string \<Rightarrow> string" where
  [js_unfold]: "render_pair v = ''spiffe://'' @ fst v @ snd v"

definition parse_pair :: "string \<Rightarrow> (string \<times> string) option" where
  "parse_pair s = (case parseSpiffeId s of (ok, t, p) \<Rightarrow> if ok then Some (t, p) else None)"

lemma parseSpiffeId_9:
  "parseSpiffeId sid =
     (if startsWith sid ''spiffe://'' then
        (let sub = drop 9 sid; sp = indexOf sub (CHR ''/'') in
         if 0 < sp \<and> sp \<noteq> int (length sub) - 1
         then (True, take (nat sp) sub, drop (nat sp) sub) else (False, [], []))
      else (False, [], []))"
proof -
  have "length ''spiffe://'' = 9" by simp
  then show ?thesis
    unfolding parseSpiffeId_def substr_def substr2_def by (simp only: drop_0)
qed

lemma parse_pair_eq:
  "parse_pair s = Some v \<longleftrightarrow> wf_id v \<and> render_pair v = s"
proof
  assume "parse_pair s = Some v"
  then have ok: "parseSpiffeId s = (True, v)"
    by (auto simp: parse_pair_def split: prod.splits if_splits)
  define sub where "sub = drop 9 s"
  define sp where "sp = indexOf sub (CHR ''/'')"
  from ok have st: "startsWith s ''spiffe://''"
    by (auto simp: parseSpiffeId_9 Let_def split: if_splits)
  with ok have sp: "0 < sp" "sp \<noteq> int (length sub) - 1"
    and v: "v = (take (nat sp) sub, drop (nat sp) sub)"
    by (auto simp: parseSpiffeId_9 Let_def sub_def sp_def split: if_splits)
  have s: "s = ''spiffe://'' @ sub"
    using st by (auto simp: startsWith_iff sub_def)
  have split: "sub = take (nat sp) sub @ CHR ''/'' # drop (Suc (nat sp)) sub"
    and fresh: "CHR ''/'' \<notin> set (take (nat sp) sub)"
    using indexOf_split [of sub "CHR ''/''"] sp(1) by (simp_all add: sp_def)
  have len: "nat sp < length sub"
    using indexOf_bounds [of sub "CHR ''/''"] sp(1) by (simp add: sp_def)
  have p: "drop (nat sp) sub = CHR ''/'' # drop (Suc (nat sp)) sub"
    using split len by (metis Cons_nth_drop_Suc append_eq_conv_conj length_take min.absorb4 nth_via_drop)
  have "wf_id v"
    using sp len fresh p by (auto simp: wf_id_def v startsWith_def)
  then show "wf_id v \<and> render_pair v = s"
    by (simp add: v render_pair_def s)
next
  assume r: "wf_id v \<and> render_pair v = s"
  obtain t p where v: "v = (t, p)" by (cases v)
  from r have "take 1 p = ''/''" "1 < length p"
    by (simp_all add: wf_id_def v startsWith_def)
  then obtain q where p: "p = CHR ''/'' # q" "q \<noteq> []"
    by (cases p) auto
  have i: "indexOf (t @ p) (CHR ''/'') = int (length t)"
    using r by (simp add: v p(1) wf_id_def indexOf_append)
  have t: "t \<noteq> []" and s: "s = ''spiffe://'' @ t @ p"
    using r by (auto simp: v wf_id_def render_pair_def)
  have d: "drop 9 s = t @ p" and st: "startsWith s ''spiffe://''"
    by (simp_all add: s startsWith_def)
  have "int (length t) \<noteq> int (length (t @ p)) - 1" using p by simp
  then have "parseSpiffeId s = (True, t, p)"
    using t unfolding parseSpiffeId_9 Let_def d i by (simp add: st)
  then show "parse_pair s = Some v" by (simp add: parse_pair_def v)
qed

interpretation spiffe: id_codec render_pair parse_pair wf_id
  by unfold_locales (simp_all only: parse_pair_eq simp_thms)

lemma parseSpiffeId_pair:
  "parseSpiffeId s = (True, t, p) \<longleftrightarrow> parse_pair s = Some (t, p)"
  by (auto simp: parse_pair_def split: prod.splits)

lemma parseSpiffeId_invalid: "\<not> fst (parseSpiffeId s) \<Longrightarrow> parseSpiffeId s = (False, [], [])"
  by (auto simp: parseSpiffeId_def Let_def split: if_splits)

lemma parseSpiffeId_ok:
  "fst (parseSpiffeId s) \<longleftrightarrow> (\<exists>t p. wf_id (t, p) \<and> render_pair (t, p) = s)"
proof -
  have "fst (parseSpiffeId s) \<longleftrightarrow> parse_pair s \<noteq> None"
    by (auto simp: parse_pair_def split: prod.splits)
  then show ?thesis using spiffe.parse_None [of s] by auto
qed

lemma wf_id_valid:
  assumes "wf_id (t, p)"
  shows "checkSpiffeidValidity (Some t) (Some p)"
proof -
  have t: "t \<noteq> []" "CHR ''/'' \<notin> set t" and p: "p \<noteq> []" "take 1 p = ''/''"
    using assms by (auto simp: wf_id_def startsWith_def)
  have "hd t \<noteq> CHR ''/''" "last t \<noteq> CHR ''/''"
    using t by (metis hd_in_set, metis last_in_set)
  then show ?thesis
    using t p by (simp add: checkSpiffeidValidity_def slice_last_eq charAt0_eq charAt0_def [of p])
qed

lemma render_id_pair:
  "wf_id (t, p) \<Longrightarrow> render_id \<lparr>trust_domain = Some t, path = Some p\<rparr> = render_pair (t, p)"
  by (simp add: render_id_def wf_id_valid render_pair_def)

section \<open>Selectors\<close>

definition wf_selector :: "Selector \<Rightarrow> bool" where
  "wf_selector s \<longleftrightarrow> selector_type s \<noteq> [] \<and> CHR '':'' \<notin> set (selector_type s)"

lemma parse_selector_eq:
  "parse_selector x = Some s \<longleftrightarrow> wf_selector s \<and> formatSelectors s = x"
proof
  assume ok: "parse_selector x = Some s"
  define i where "i = indexOf x (CHR '':'')"
  from ok have i: "0 < i" and s: "selector_type s = take (nat i) x" "selector_value s = drop (Suc (nat i)) x"
    by (auto simp: parse_selector_def i_def Let_def js_unfold split: if_splits)
  have split: "x = take (nat i) x @ CHR '':'' # drop (Suc (nat i)) x"
    and fresh: "CHR '':'' \<notin> set (take (nat i) x)"
    using indexOf_split [of x "CHR '':''"] i by (simp_all add: i_def)
  have "x \<noteq> []" using split by auto
  then show "wf_selector s \<and> formatSelectors s = x"
    using split fresh i by (simp add: wf_selector_def formatSelectors_def s)
next
  assume "wf_selector s \<and> formatSelectors s = x"
  then show "parse_selector x = Some s"
    by (auto simp: wf_selector_def formatSelectors_def parse_selector_def Let_def js_unfold indexOf_append)
qed

interpretation sel: id_codec formatSelectors parse_selector wf_selector
  by unfold_locales (simp_all only: parse_selector_eq simp_thms)

lemma formatSelectors_collide:
  "formatSelectors \<lparr>selector_type = ''a'', selector_value = ''b:c''\<rparr> =
   formatSelectors \<lparr>selector_type = ''a:b'', selector_value = ''c''\<rparr>"
  by (simp add: formatSelectors_def)

end
