(* ===== verification/SpiffeProps.thy ===== *)
theory SpiffeProps
  imports SpiffeId
begin

text \<open>
  What components/spiffe-helper.tsx guarantees: the two ways of finding an agent's entries agree,
  the count of an agent's entries in closed form with its error case, the canonical agent of an
  entry, and the round trip between the ids the helper prints and the forms parse.
\<close>

section \<open>A small trust domain for the witnesses\<close>

definition id_of :: "string \<Rightarrow> SPIFFEID option" where
  [js_unfold]: "id_of p = Some \<lparr>trust_domain = Some ''td'', path = Some p\<rparr>"

definition agent_of :: "string \<Rightarrow> Selector list option \<Rightarrow> AgentsList" where
  [js_unfold]: "agent_of p ss =
     \<lparr>agent_id = the (id_of p), attetstation_type = [], x509svid_serial_number = [],
      x509svid_expires_at = Some (num 5), agent_selectors = ss, banned = False\<rparr>"

definition entry_of :: "string \<Rightarrow> SPIFFEID option \<Rightarrow> SPIFFEID option \<Rightarrow> Selector list option \<Rightarrow> EntriesList" where
  [js_unfold]: "entry_of i sid pid ss =
     \<lparr>entry_id = i, spiffe_id = sid, parent_id = pid, entry_selectors = ss, jwt_svid_ttl = None,
      x509_svid_ttl = None, federates_with = None, admin = None, downstream = None,
      expires_at = None, dns_names = None, revision_number = None, store_svid = None\<rparr>"

definition sel_of :: "string \<Rightarrow> string \<Rightarrow> Selector" where
  [js_unfold]: "sel_of t v = \<lparr>selector_type = t, selector_value = v\<rparr>"

definition agent1 :: AgentsList where
  [js_unfold]: "agent1 = agent_of ''/a1'' (Some [sel_of ''k'' ''1'', sel_of ''k'' ''2''])"

definition agent2 :: AgentsList where
  [js_unfold]: "agent2 = agent_of ''/a2'' None"

definition node1 :: EntriesList where
  [js_unfold]: "node1 = entry_of ''e1'' (id_of ''/n1'') (id_of ''/spire/server'') (Some [sel_of ''k'' ''1''])"

definition work1 :: EntriesList where
  [js_unfold]: "work1 = entry_of ''e2'' (id_of ''/w1'') (id_of ''/n1'') (Some [sel_of ''u'' ''7''])"

section \<open>Agents and their entries\<close>

lemma dict_lookup:
  assumes "distinct (map (\<lambda>a. getAgentSpiffeid (Some a)) as)" and "a \<in> set as"
  shows "concat (map (pushed (map (\<lambda>a. (getAgentSpiffeid (Some a), agent_set a)) as)
        (getAgentSpiffeid (Some a))) (filter (\<lambda>e. is_node_entry e = Inr True) es)) =
      map entry_after (filter (associated a) es)"
proof -
  have "concat (map (pushed (map (\<lambda>a. (getAgentSpiffeid (Some a), agent_set a)) as)
        (getAgentSpiffeid (Some a))) ns) =
      map entry_after (filter (\<lambda>e. isSuperset (agent_set a) (entry_set e)) ns)" for ns
    by (simp only: pushed_agent [OF assms] concat_if cong: map_cong)
  then show ?thesis by (simp add: isSuperset_iff associated_def [abs_def])
qed

lemma dict_of_agents:
  assumes "distinct (map (\<lambda>a. getAgentSpiffeid (Some a)) as)" and "all_parents es"
  obtains dict where "getAgentsEntries (Val as) (Val es) = Inr (Some dict)"
    and "\<And>a. a \<in> set as \<Longrightarrow>
      dict (getAgentSpiffeid (Some a)) = Some (map entry_after (filter (associated a) es))"
  using assms dict_lookup [OF assms(1)] that by (simp add: getAgentsEntries_eq)

text \<open>C1. getAgentsEntries and getAgentEntries are equivalent: when the agents have distinct SPIFFE
  ids, the one-pass dictionary of all agents holds, under each agent's id, exactly the list
  getAgentEntries computes for that agent alone, and it throws for the same entry lists.\<close>

theorem agents_dict_agrees:
  assumes "distinct (map (\<lambda>a. getAgentSpiffeid (Some a)) as)" and "a \<in> set as"
  shows "getAgentEntries (Some a) es =
    bindE (getAgentsEntries (Val as) (Val es))
      (\<lambda>dict. Inr (the (the dict (getAgentSpiffeid (Some a)))))"
  using dict_lookup [OF assms] assms(2) by (simp add: getAgentEntries_eq getAgentsEntries_eq)

lemma agents_dict_agrees_witness:
  "getAgentEntries (Some agent1) [node1, work1] =
    bindE (getAgentsEntries (Val [agent1, agent2]) (Val [node1, work1]))
      (\<lambda>dict. Inr (the (the dict (getAgentSpiffeid (Some agent1)))))
   \<and> getAgentEntries (Some agent1) [node1, work1] = Inr [node1]"
proof (rule conjI)
  show "getAgentEntries (Some agent1) [node1, work1] =
    bindE (getAgentsEntries (Val [agent1, agent2]) (Val [node1, work1]))
      (\<lambda>dict. Inr (the (the dict (getAgentSpiffeid (Some agent1)))))"
    by (rule agents_dict_agrees)
       (simp_all add: js_unfold getAgentSpiffeid_def render_id_def checkSpiffeidValidity_def)
  show "getAgentEntries (Some agent1) [node1, work1] = Inr [node1]"
    by (simp add: getAgentEntries_eq all_parents_def associated_def is_node_entry_def js_unfold
        defaulted_def formatSelectors_def entry_after_def)
qed

text \<open>C32. numberEntriesOfAgent counts exactly the entries whose parent is the agent itself or the
  SPIFFE id of one of the agent's node entries (parent the server, selectors among the agent's),
  each entry once; it throws exactly when an entry lacks a parent id or such a node entry lacks a
  SPIFFE id.\<close>

theorem numberEntriesOfAgent_counts:
  "numberEntriesOfAgent a es =
     (if all_parents es \<and> list_all (\<lambda>e. spiffe_id e \<noteq> None) (filter (associated a) es)
      then Inr (card {i. i < length es \<and>
             parent_text (es ! i) \<in>
               insert (getAgentSpiffeid (Some a)) (spiffe_text ` {e \<in> set es. associated a e})})
      else Inl TypeError)"
  by (simp add: numberEntriesOfAgent_eq countable_for_def own_ids_def length_filter_conv_card
      list_all_iff)

text \<open>The empty selector list that the helper writes into agents and entries lacking one never
  changes an answer: getAgentEntries and numberEntriesOfAgent give the same on the objects before
  and after a call.\<close>

lemma defaulting_transparent:
  "getAgentEntries (Some (agent_after a)) (entries_after (Some a) es) = getAgentEntries (Some a) es \<and>
   numberEntriesOfAgent (agent_after a) (entries_after (Some a) es) = numberEntriesOfAgent a es"
proof (rule conjI)
  have "map entry_after (filter (associated (agent_after a)) (map touch es)) =
      map entry_after (filter (associated a) es)"
    by (simp only: after_filter associated_after touch_simps map_map o_def)
  then show "getAgentEntries (Some (agent_after a)) (entries_after (Some a) es) =
      getAgentEntries (Some a) es"
    by (simp only: getAgentEntries_eq entries_after_simps all_parents_after)
  have "length (filter (\<lambda>e. parent_text e \<in> own_ids a es) (map touch es)) =
      length (filter (\<lambda>e. parent_text e \<in> own_ids a es) es)"
    by (simp only: after_filter touch_simps length_map)
  then show "numberEntriesOfAgent (agent_after a) (entries_after (Some a) es) =
      numberEntriesOfAgent a es"
    by (simp only: numberEntriesOfAgent_eq entries_after_simps countable_for_after own_ids_after)
qed

text \<open>getCanonicalAgentSpiffeid of a node entry is the id of the first agent of the list whose
  getAgentEntries contains that entry, and the empty text if there is none.\<close>

lemma canonical_agent_is_first:
  assumes "all_parents es" and "e \<in> set es" and "is_node_entry e = Inr True"
  shows "getCanonicalAgentSpiffeid e as =
    (case List.find (\<lambda>a. entry_after e \<in> set (projr (getAgentEntries (Some a) es))) as of
       None \<Rightarrow> [] | Some a \<Rightarrow> getAgentSpiffeid (Some a))"
proof -
  have "entry_after e \<in> set (projr (getAgentEntries (Some a) es)) \<longleftrightarrow> associated a e" for a
  proof
    assume "entry_after e \<in> set (projr (getAgentEntries (Some a) es))"
    then obtain f where "associated a f" "entry_after e = entry_after f"
      by (auto simp: getAgentEntries_eq assms(1))
    then show "associated a e" by (metis associated_after(2))
  qed (simp add: getAgentEntries_eq assms)
  then have "(\<lambda>a. isSuperset (agent_set a) (entry_set e)) =
      (\<lambda>a. entry_after e \<in> set (projr (getAgentEntries (Some a) es)))"
    using assms(3) by (simp add: associated_def isSuperset_iff fun_eq_iff)
  then show ?thesis
    by (simp add: getCanonicalAgentSpiffeid_def find_filter split: list.splits)
qed

lemma canonical_agent_is_first_witness:
  "getCanonicalAgentSpiffeid node1 [agent2, agent1] =
    (case List.find (\<lambda>a. entry_after node1 \<in> set (projr (getAgentEntries (Some a) [node1]))) [agent2, agent1] of
       None \<Rightarrow> [] | Some a \<Rightarrow> getAgentSpiffeid (Some a))
   \<and> getCanonicalAgentSpiffeid node1 [agent2, agent1] = ''spiffe://td/a1''"
proof (rule conjI)
  show "getCanonicalAgentSpiffeid node1 [agent2, agent1] =
    (case List.find (\<lambda>a. entry_after node1 \<in> set (projr (getAgentEntries (Some a) [node1]))) [agent2, agent1] of
       None \<Rightarrow> [] | Some a \<Rightarrow> getAgentSpiffeid (Some a))"
    by (rule canonical_agent_is_first) (simp_all add: all_parents_def is_node_entry_def js_unfold)
  show "getCanonicalAgentSpiffeid node1 [agent2, agent1] = ''spiffe://td/a1''"
    by (simp add: getCanonicalAgentSpiffeid_def image_iff js_unfold defaulted_def
        formatSelectors_def getAgentSpiffeid_def render_id_def checkSpiffeidValidity_def isSuperset_iff
        conj_disj_distribR ex_disj_distrib)
qed

text \<open>getChildEntries returns only the entries whose parent is the given SPIFFE id: the entries
  of the agent itself, which the comment says it adds, are looked up by SPIFFE id in an array and
  never found.\<close>

lemma child_entries_never_added:
  assumes "sid = [] \<or> startsWith sid ''spiffe://''"
  shows "getChildEntries sid as (Val es) =
    (if all_parents es then Inr (Some (map Inl (filter (\<lambda>e. parent_text e = sid) es)))
     else Inl TypeError)"
proof (cases "all_parents es")
  case False
  then have "filterE (\<lambda>e. bindE (getEntryParentid (Some e)) (\<lambda>p. Inr (sid = p))) es = Inl TypeError"
    by (rule filter_parents_throws)
  with False show ?thesis by (simp add: getChildEntries_def)
next
  case True
  have eq: "(\<lambda>e. parent_text e = sid) = (\<lambda>e. sid = parent_text e)" by auto
  have none: "array_index xs sid = None" for xs :: "EntriesList list"
    by (rule array_index_spiffe [OF assms])
  obtain ds where "getAgentEntries (List.find (\<lambda>a. getAgentSpiffeid (Some a) = sid) as) es = Inr ds"
    using True by (cases "List.find (\<lambda>a. getAgentSpiffeid (Some a) = sid) as")
      (auto simp: getAgentEntries_eq getAgentEntries_none)
  then show ?thesis
    using True by (simp add: getChildEntries_def filter_parents none eq)
qed

lemma child_entries_never_added_witness:
  "getChildEntries ''spiffe://td/a1'' [agent1] (Val [node1]) =
    (if all_parents [node1]
     then Inr (Some (map Inl (filter (\<lambda>e. parent_text e = ''spiffe://td/a1'') [node1])))
     else Inl TypeError)
   \<and> getAgentEntries (Some agent1) [node1] = Inr [node1]"
proof (rule conjI)
  show "getChildEntries ''spiffe://td/a1'' [agent1] (Val [node1]) =
    (if all_parents [node1]
     then Inr (Some (map Inl (filter (\<lambda>e. parent_text e = ''spiffe://td/a1'') [node1])))
     else Inl TypeError)"
    by (rule child_entries_never_added) (simp add: startsWith_def)
  show "getAgentEntries (Some agent1) [node1] = Inr [node1]"
    by (simp add: getAgentEntries_eq all_parents_def associated_def is_node_entry_def js_unfold
        defaulted_def formatSelectors_def entry_after_def)
qed

section \<open>SPIFFE ids\<close>

text \<open>C38. parseSpiffeId and the helper's printing are inverse on well-formed ids: a text parses to a
  trust domain and path exactly when the trust domain is non-empty without a slash, the path is a
  slash followed by something, and the text is what getAgentSpiffeid prints for that id.\<close>

theorem parse_print_spiffeid:
  "parseSpiffeId s = (True, t, p) \<longleftrightarrow>
     t \<noteq> [] \<and> CHR ''/'' \<notin> set t \<and> startsWith p ''/'' \<and> 1 < length p \<and>
     getAgentSpiffeid (Some (a\<lparr>agent_id := \<lparr>trust_domain = Some t, path = Some p\<rparr>\<rparr>)) = s"
proof -
  have "parseSpiffeId s = (True, t, p) \<longleftrightarrow> wf_id (t, p) \<and> render_pair (t, p) = s"
    by (simp only: parseSpiffeId_pair spiffe.parse_iff)
  moreover have "wf_id (t, p) \<Longrightarrow> render_pair (t, p) = render_id \<lparr>trust_domain = Some t, path = Some p\<rparr>"
    by (simp only: render_id_pair)
  ultimately have "parseSpiffeId s = (True, t, p) \<longleftrightarrow>
      wf_id (t, p) \<and> render_id \<lparr>trust_domain = Some t, path = Some p\<rparr> = s"
    by auto
  then show ?thesis by (simp add: wf_id_def getAgentSpiffeid_def)
qed

text \<open>checkSpiffeidValidity accepts exactly the ids with a non-empty trust domain and path, no
  slash in front of the trust domain, and exactly one slash where the two meet.\<close>

lemma spiffeid_validity:
  "checkSpiffeidValidity td p \<longleftrightarrow>
     (\<exists>t q. td = Some t \<and> p = Some q \<and> t \<noteq> [] \<and> q \<noteq> [] \<and> hd t \<noteq> CHR ''/'' \<and>
        (last t = CHR ''/'') \<noteq> (hd q = CHR ''/''))"
  by (cases td; cases p) (auto simp: checkSpiffeidValidity_def slice_last_eq charAt0_eq)

end
