(* ===== verification/TornjakHelper.thy ===== *)
theory TornjakHelper
  imports SpiffeProps
begin

text \<open>
  components/tornjak-helper.tsx: the rows of the dashboard's tables. The component's static
  helpers take the lists of the store, here the plain lists (the callers test for \<open>undefined\<close>).
  \<open>now\<close> is \<open>Date.now()\<close>, in milliseconds. The text of a date depends on the time zone and the
  locale data of the browser, so \<open>date_text\<close> is a parameter.
\<close>

section \<open>Roles\<close>

definition checkRolesAdminUser :: "string list jsval \<Rightarrow> string option throws" where
  "checkRolesAdminUser userRoles =
     (case userRoles of
        Val rs \<Rightarrow> Inr (List.find (\<lambda>r. str_includes (toLowerCase r) (toLowerCase ''admin'')) rs)
      | _ \<Rightarrow> Inl TypeError)"

section \<open>Clusters\<close>

definition numberEntriesOfCluster ::
  "string list \<Rightarrow> EntriesList list \<Rightarrow> AgentsList list \<Rightarrow> nat throws"
where
  "numberEntriesOfCluster agentIds globalEntries globalAgents =
     (let as = filter (\<lambda>a. getAgentSpiffeid (Some a) \<in> set agentIds) globalAgents in
      bindE (mapE (\<lambda>a. numberEntriesOfAgent a globalEntries) as)
        (\<lambda>ns. Inr (foldl (+) 0 ns)))"

record cluster_row =
  cr_id :: string
  cr_name :: string
  cr_created :: string
  cr_numNodes :: nat
  cr_numEntries :: nat

definition getClusterMetadata ::
  "ClustersList \<Rightarrow> EntriesList list \<Rightarrow> AgentsList list \<Rightarrow> cluster_row throws"
where
  "getClusterMetadata c globalEntries globalAgents =
     bindE (numberEntriesOfCluster (agentsList c) globalEntries globalAgents) (\<lambda>n.
       Inr \<lparr>cr_id = cluster_name c, cr_name = cluster_name c, cr_created = creationTime c,
            cr_numNodes = length (agentsList c), cr_numEntries = n\<rparr>)"

section \<open>Agents\<close>

definition or_none :: "string \<Rightarrow> string" where
  "or_none s = (if length s \<noteq> 0 then s else ''None'')"

record agent_row =
  ar_id :: string
  ar_spiffeid :: string
  ar_numEntries :: nat
  ar_status :: string
  ar_platformType :: string
  ar_clusterName :: string

definition getDashboardAgentMetaData ::
  "int \<Rightarrow> AgentsList \<Rightarrow> EntriesList list \<Rightarrow> AgentsWorkLoadAttestorInfo list jsval \<Rightarrow> agent_row throws"
where
  "getDashboardAgentMetaData now a globalEntries infos =
     (let thisSpiffeid = getAgentSpiffeid (Some a) in
      bindE (getAgentMetadata thisSpiffeid infos) (\<lambda>(plugin, cluster).
      bindE (numberEntriesOfAgent a globalEntries) (\<lambda>n.
        Inr \<lparr>ar_id = thisSpiffeid, ar_spiffeid = thisSpiffeid, ar_numEntries = n,
             ar_status = getAgentStatusString now (Some a),
             ar_platformType = or_none plugin, ar_clusterName = or_none cluster\<rparr>)))"

section \<open>Entries\<close>

record entry_row =
  er_id :: string
  er_spiffeid :: string
  er_parentId :: string
  er_adminFlag :: bool
  er_entryExpireTime :: string
  er_expiryStatus :: string
  er_platformType :: string
  er_clusterName :: string
  er_canonicalAgentId :: string

text \<open>
  The agent an entry belongs to: its parent, or when no agent has that id, the canonical agent of
  the first entry that has it.
\<close>

definition canonical_parent :: "string \<Rightarrow> AgentsList list \<Rightarrow> EntriesList list \<Rightarrow> string throws" where
  "canonical_parent thisParentId globalAgents globalEntries =
     (case List.find (\<lambda>a. getAgentSpiffeid (Some a) = thisParentId) globalAgents of
        Some a \<Rightarrow> Inr thisParentId
      | None \<Rightarrow>
          bindE (findE (\<lambda>e. bindE (getEntrySpiffeid (Some e)) (\<lambda>i. Inr (i = thisParentId))) globalEntries)
            (\<lambda>found. Inr (case found of
               None \<Rightarrow> thisParentId | Some e \<Rightarrow> getCanonicalAgentSpiffeid e globalAgents)))"

text \<open>\<open>entry.expires_at <= Math.floor(currTime / 1000)\<close>; a missing time compares as NaN.\<close>

definition expiry_status :: "int \<Rightarrow> EntriesList \<Rightarrow> string" where
  "expiry_status now e =
     (case expires_at e of
        None \<Rightarrow> ''Active''
      | Some t \<Rightarrow> if num_le t (num (now div 1000)) then ''Expired'' else ''Active'')"

definition workloadEntry ::
  "int \<Rightarrow> (jsnum \<Rightarrow> string) \<Rightarrow> EntriesList \<Rightarrow> AgentsWorkLoadAttestorInfo list jsval \<Rightarrow> AgentsList list
     \<Rightarrow> EntriesList list \<Rightarrow> entry_row throws"
where
  "workloadEntry now date_text e infos globalAgents globalEntries =
     bindE (getEntrySpiffeid (Some e)) (\<lambda>thisSpiffeId.
     bindE (getEntryParentid (Some e)) (\<lambda>thisParentId.
     bindE (canonical_parent thisParentId globalAgents globalEntries) (\<lambda>canonicalParentId.
     bindE (getAgentMetadata canonicalParentId infos) (\<lambda>(plugin, cluster).
       Inr \<lparr>er_id = entry_id e, er_spiffeid = thisSpiffeId, er_parentId = thisParentId,
            er_adminFlag = getEntryAdminFlag (Some e),
            er_entryExpireTime = (case getEntryExpiryMillisecondsFromEpoch (Some e) of
              None \<Rightarrow> ''No Expiry Time'' | Some ms \<Rightarrow> date_text ms),
            er_expiryStatus = expiry_status now e,
            er_platformType = or_none plugin, er_clusterName = or_none cluster,
            er_canonicalAgentId = canonicalParentId\<rparr>))))"

section \<open>Lemmas\<close>

lemma foldl_plus: "foldl (+) (m :: nat) ns = m + sum_list ns"
  by (induction ns arbitrary: m) auto

lemma workload_ids:
  assumes "workloadEntry now date_text e infos as es = Inr r"
  shows "er_id r = entry_id e" "er_parentId r = parent_text e" "er_spiffeid r = spiffe_text e"
    "canonical_parent (parent_text e) as es = Inr (er_canonicalAgentId r)"
  using assms
  by (auto simp: workloadEntry_def getEntrySpiffeid_def getEntryParentid_def spiffe_text_def
      parent_text_def elim!: bindE_InrE split: option.splits prod.splits)

end
