(* ===== verification/Dashboard.thy ===== *)
theory Dashboard
  imports TornjakHelper
begin

text \<open>
  components/dashboard: the rows of the three tables with their details filters, and the two pie
  charts. The props are the store; a list that is \<open>null\<close> makes the code throw.
\<close>

section \<open>Tables\<close>

record dash_filter =
  filterByCluster :: "string option"
  filterByAgentId :: "string option"

text \<open>\<open>f\<close> on the value of a list of the store; reading \<open>undefined\<close> or \<open>null\<close> throws.\<close>

definition with_val :: "'a jsval \<Rightarrow> ('a \<Rightarrow> 'b throws) \<Rightarrow> 'b throws" where
  "with_val v f = (case v of Val x \<Rightarrow> f x | _ \<Rightarrow> Inl TypeError)"

lemma with_val_simps [simp]:
  "with_val (Val x) f = f x" "with_val Undefined f = Inl TypeError" "with_val Null f = Inl TypeError"
  by (simp_all add: with_val_def)

definition agent_row_of ::
  "int \<Rightarrow> EntriesList list jsval \<Rightarrow> AgentsWorkLoadAttestorInfo list jsval \<Rightarrow> AgentsList \<Rightarrow> agent_row throws"
where
  [simp]: "agent_row_of now es0 infos a = with_val es0 (\<lambda>es. getDashboardAgentMetaData now a es infos)"

definition entry_row_of ::
  "int \<Rightarrow> (jsnum \<Rightarrow> string) \<Rightarrow> AgentsList list jsval \<Rightarrow> AgentsWorkLoadAttestorInfo list jsval
     \<Rightarrow> EntriesList list \<Rightarrow> EntriesList \<Rightarrow> entry_row throws"
where
  [simp]: "entry_row_of now date_text as0 infos es e =
     with_val as0 (\<lambda>as. workloadEntry now date_text e infos as es)"

text \<open>
  The list of agents is read for every cluster, the list of entries for every agent of it.
\<close>

definition cluster_row_of ::
  "EntriesList list jsval \<Rightarrow> AgentsList list jsval \<Rightarrow> ClustersList \<Rightarrow> cluster_row throws"
where
  "cluster_row_of es0 as0 c =
     with_val as0 (\<lambda>as.
       if filter (\<lambda>a. getAgentSpiffeid (Some a) \<in> set (agentsList c)) as = []
       then getClusterMetadata c [] []
       else with_val es0 (\<lambda>es. getClusterMetadata c es as))"

definition dash_agentList :: "int \<Rightarrow> dash_filter \<Rightarrow> RootState \<Rightarrow> agent_row list throws" where
  "dash_agentList now flt props =
     (let es0 = globalEntriesList (st_entries props); as0 = globalAgentsList (st_agents props) in
      if es0 = Undefined \<or> as0 = Undefined then Inr []
      else with_val as0 (\<lambda>as.
        bindE (mapE (agent_row_of now es0 (globalAgentsWorkLoadAttestorInfo (st_agents props))) as)
          (\<lambda>rows. Inr
            (if filterByCluster flt = None \<and> filterByAgentId flt = None then rows
             else filter (\<lambda>r. filterByCluster flt = Some (ar_clusterName r) \<or>
                    filterByAgentId flt = Some (ar_id r)) rows))))"

definition dash_entryList ::
  "int \<Rightarrow> (jsnum \<Rightarrow> string) \<Rightarrow> dash_filter \<Rightarrow> RootState \<Rightarrow> entry_row list throws"
where
  "dash_entryList now date_text flt props =
     (let es0 = globalEntriesList (st_entries props); as0 = globalAgentsList (st_agents props) in
      if es0 = Undefined \<or> as0 = Undefined then Inr []
      else with_val es0 (\<lambda>es.
        bindE (mapE (entry_row_of now date_text as0 (globalAgentsWorkLoadAttestorInfo (st_agents props)) es) es)
          (\<lambda>rows. Inr
            (if filterByCluster flt = None \<and> filterByAgentId flt = None then rows
             else filter (\<lambda>r. filterByCluster flt = Some (er_clusterName r) \<or>
                    filterByAgentId flt = Some (er_parentId r) \<or>
                    filterByAgentId flt = Some (er_canonicalAgentId r)) rows))))"

definition dash_clusterList :: "dash_filter \<Rightarrow> RootState \<Rightarrow> cluster_row list throws" where
  "dash_clusterList flt props =
     (let cs0 = globalClustersList (st_clusters props);
          es0 = globalEntriesList (st_entries props); as0 = globalAgentsList (st_agents props) in
      if cs0 = Undefined then Inr []
      else with_val cs0 (\<lambda>cs.
        bindE (mapE (cluster_row_of es0 as0) cs)
          (\<lambda>rows. Inr
            (case filterByCluster flt of None \<Rightarrow> rows
             | Some name \<Rightarrow> filter (\<lambda>r. cr_name r = name) rows))))"

section \<open>Pie charts\<close>

definition pie_getChildEntries ::
  "EntriesList list jsval \<Rightarrow> AgentsList \<Rightarrow> entries_dict option \<Rightarrow> PieChartEntry throws"
where
  "pie_getChildEntries es0 a agentEntriesDict =
     (let sid = getAgentSpiffeid (Some a);
          agentEntries = (case agentEntriesDict of None \<Rightarrow> None | Some d \<Rightarrow> d sid) in
      bindE (case agentEntries of None \<Rightarrow> Inr [sid]
             | Some ns \<Rightarrow> bindE (mapE (\<lambda>e. getEntrySpiffeid (Some e)) ns) (\<lambda>ids. Inr (sid # ids)))
        (\<lambda>validIds.
      if es0 = Undefined then Inr \<lparr>group = sid, pie_value = 0\<rparr>
      else with_val es0 (\<lambda>es.
        bindE (filterE (\<lambda>e. bindE (getEntryParentid (Some e)) (\<lambda>p. Inr (p \<in> set validIds))) es)
          (\<lambda>check_id. Inr \<lparr>group = sid, pie_value = length check_id\<rparr>))))"

definition pie_agentList :: "RootState \<Rightarrow> PieChartEntry list throws" where
  "pie_agentList props =
     (let es0 = globalEntriesList (st_entries props); as0 = globalAgentsList (st_agents props) in
      if es0 = Undefined \<or> as0 = Undefined then Inr []
      else bindE (getAgentsEntries as0 es0) (\<lambda>dict.
        with_val as0 (\<lambda>as. mapE (\<lambda>a. pie_getChildEntries es0 a dict) as)))"

definition pie_clusterList :: "RootState \<Rightarrow> PieChartEntry list throws" where
  "pie_clusterList props =
     (let cs0 = globalClustersList (st_clusters props) in
      if cs0 = Undefined then Inr []
      else with_val cs0 (\<lambda>cs.
        Inr (map (\<lambda>c. \<lparr>group = cluster_name c, pie_value = length (agentsList c)\<rparr>) cs)))"

section \<open>The chart and the table agree\<close>

definition store_with ::
  "AgentsList list \<Rightarrow> EntriesList list \<Rightarrow> AgentsWorkLoadAttestorInfo list \<Rightarrow> RootState \<Rightarrow> bool"
where
  "store_with as es infos props \<longleftrightarrow>
     globalAgentsList (st_agents props) = Val as \<and> globalEntriesList (st_entries props) = Val es \<and>
     globalAgentsWorkLoadAttestorInfo (st_agents props) = Val infos"

lemma metadata_total: "\<exists>p c. getAgentMetadata sid (Val infos) = Inr (p, c)"
  by (simp add: getAgentMetadata_def split: list.splits)

lemma pie_child_eq:
  assumes "all_parents es"
    and "dict (getAgentSpiffeid (Some a)) = Some (map entry_after (filter (associated a) es))"
  shows "pie_getChildEntries (Val es) a (Some dict) =
    bindE (numberEntriesOfAgent a es) (\<lambda>n. Inr \<lparr>group = getAgentSpiffeid (Some a), pie_value = n\<rparr>)"
  using assms
  by (simp add: pie_getChildEntries_def numberEntriesOfAgent_def getAgentEntries_eq Let_def
      bindE_assoc)

lemma agent_row_number:
  "bindE (getDashboardAgentMetaData now a es (Val infos)) (\<lambda>r. Inr (ar_id r, ar_numEntries r)) =
   bindE (numberEntriesOfAgent a es) (\<lambda>n. Inr (getAgentSpiffeid (Some a), n))"
  using metadata_total [of "getAgentSpiffeid (Some a)" infos]
  by (auto simp: getDashboardAgentMetaData_def bindE_assoc Let_def)

lemma mapE_map: "bindE (mapE f xs) (\<lambda>ys. Inr (map g ys)) = mapE (\<lambda>x. bindE (f x) (\<lambda>y. Inr (g y))) xs"
proof (induction xs)
  case Nil
  then show ?case by simp
next
  case (Cons x xs)
  then show ?case by (cases "f x"; cases "mapE f xs") (auto simp flip: Cons.IH)
qed

definition dash_props :: RootState where
  "dash_props = (let s = createStore (\<lambda>_. None) None in
     s\<lparr>st_agents := (st_agents s)\<lparr>globalAgentsList := Val [agent1, agent2],
         globalAgentsWorkLoadAttestorInfo := Val []\<rparr>,
       st_entries := (st_entries s)\<lparr>globalEntriesList := Val [node1, work1]\<rparr>\<rparr>)"

lemma dash_props_store: "store_with [agent1, agent2] [node1, work1] [] dash_props"
  by (simp add: dash_props_def store_with_def Let_def)

lemma dash_ids: "distinct (map (\<lambda>a. getAgentSpiffeid (Some a)) [agent1, agent2])"
  by (simp add: js_unfold getAgentSpiffeid_def render_id_def checkSpiffeidValidity_def)

text \<open>C7. The pie chart of the dashboard and its table of agents show the same number of entries for
  every agent: with distinct SPIFFE ids of the agents, the chart's groups and values, computed
  through the dictionary of all agents, are the ids and the entry counts of the unfiltered
  table, computed agent by agent, and the two views throw for the same stores.\<close>

theorem chart_agrees_with_table:
  assumes "store_with as es infos props" and "as \<noteq> []"
    and "distinct (map (\<lambda>a. getAgentSpiffeid (Some a)) as)"
  shows "bindE (pie_agentList props) (\<lambda>gs. Inr (map (\<lambda>g. (group g, pie_value g)) gs)) =
    bindE (dash_agentList now \<lparr>filterByCluster = None, filterByAgentId = None\<rparr> props)
      (\<lambda>rows. Inr (map (\<lambda>r. (ar_id r, ar_numEntries r)) rows))"
proof -
  let ?row = "\<lambda>a. bindE (numberEntriesOfAgent a es) (\<lambda>n. Inr (getAgentSpiffeid (Some a), n)) ::
    (string \<times> nat) throws"
  have table: "bindE (dash_agentList now \<lparr>filterByCluster = None, filterByAgentId = None\<rparr> props)
      (\<lambda>rows. Inr (map (\<lambda>r. (ar_id r, ar_numEntries r)) rows)) = mapE ?row as"
    using assms(1) by (simp add: dash_agentList_def store_with_def bindE_Inr_id mapE_map agent_row_number)
  show ?thesis
  proof (cases "all_parents es")
    case True
    obtain dict where d: "getAgentsEntries (Val as) (Val es) = Inr (Some dict)"
      "\<And>a. a \<in> set as \<Longrightarrow> dict (getAgentSpiffeid (Some a)) = Some (map entry_after (filter (associated a) es))"
      using dict_of_agents [OF assms(3) True] by blast
    have "bindE (pie_getChildEntries (Val es) a (Some dict)) (\<lambda>g. Inr (group g, pie_value g)) = ?row a"
      if "a \<in> set as" for a
      by (simp add: pie_child_eq [of es dict, OF True d(2) [OF that]] bindE_assoc)
    then show ?thesis
      using assms(1) unfolding table
      by (simp add: pie_agentList_def store_with_def d(1) mapE_map cong: mapE_cong)
  next
    case False
    obtain a where a: "a \<in> set as" using assms(2) by (cases as) auto
    have "mapE ?row as = Inl TypeError"
      by (rule mapE_throws [OF a]) (simp add: numberEntriesOfAgent_eq countable_for_def False)
    then show ?thesis
      using assms(1) False unfolding table
      by (simp add: pie_agentList_def store_with_def getAgentsEntries_eq)
  qed
qed

lemma chart_agrees_with_table_witness:
  "let props = dash_props in
   bindE (pie_agentList props) (\<lambda>gs. Inr (map (\<lambda>g. (group g, pie_value g)) gs)) =
    bindE (dash_agentList 0 \<lparr>filterByCluster = None, filterByAgentId = None\<rparr> props)
      (\<lambda>rows. Inr (map (\<lambda>r. (ar_id r, ar_numEntries r)) rows))"
  unfolding Let_def
  by (rule chart_agrees_with_table [OF dash_props_store _ dash_ids]) simp

section \<open>The details page of an agent\<close>

text \<open>
  A tidy store: the ids of agents and of entries are their own, and an entry that is the parent
  of another is a node entry whose selectors match one agent.
\<close>

definition tidy :: "AgentsList list \<Rightarrow> EntriesList list \<Rightarrow> bool" where
  "tidy as es \<longleftrightarrow>
     distinct (map (\<lambda>a. getAgentSpiffeid (Some a)) as) \<and> all_parents es \<and>
     (\<forall>e \<in> set es. spiffe_id e \<noteq> None) \<and>
     (\<forall>e \<in> set es. \<forall>f \<in> set es. spiffe_text f = parent_text e \<longrightarrow>
        (\<forall>a \<in> set as. getAgentSpiffeid (Some a) \<noteq> spiffe_text f) \<and>
        (\<forall>g \<in> set es. spiffe_text g = spiffe_text f \<longrightarrow> g = f) \<and>
        is_node_entry f = Inr True \<and> length (filter (\<lambda>a. associated a f) as) = 1)"

lemma tidyD:
  assumes "tidy as es"
  shows "distinct (map (\<lambda>a. getAgentSpiffeid (Some a)) as)" "all_parents es"
    "\<forall>e \<in> set es. spiffe_id e \<noteq> None" "countable_for a es"
  using assms by (auto simp: tidy_def countable_for_def)

lemma canonical_of_node:
  assumes "is_node_entry f = Inr True" and "filter (\<lambda>a. associated a f) as = [b]"
  shows "getCanonicalAgentSpiffeid f as = getAgentSpiffeid (Some b)"
proof -
  have "(\<lambda>a. isSuperset (agent_set a) (entry_set f)) = (\<lambda>a. associated a f)"
    using assms(1) by (simp add: fun_eq_iff associated_def isSuperset_iff)
  then show ?thesis using assms(2) by (simp add: getCanonicalAgentSpiffeid_def)
qed

lemma find_id:
  assumes "\<forall>e \<in> set es. spiffe_id e \<noteq> None"
  shows "findE (\<lambda>e. bindE (getEntrySpiffeid (Some e)) (\<lambda>i. Inr (i = k))) es =
    Inr (List.find (\<lambda>e. spiffe_text e = k) es)"
  by (rule findE_total) (use assms spiffe_total in auto)

lemma canonical_parent_total:
  assumes "tidy as es"
  shows "\<exists>c. canonical_parent k as es = Inr c"
  by (simp add: canonical_parent_def find_id [OF tidyD(3) [OF assms]] split: option.splits)

lemma unique_id:
  assumes "distinct (map f as)" and "a \<in> set as" and "b \<in> set as" and "f a = f b"
  shows "a = b"
  using assms by (auto simp: distinct_map inj_on_def)

lemma own_iff_canonical:
  assumes t: "tidy as es" and a: "a \<in> set as" and e: "e \<in> set es"
    and c: "canonical_parent (parent_text e) as es = Inr c"
  shows "parent_text e = getAgentSpiffeid (Some a) \<or> c = getAgentSpiffeid (Some a) \<longleftrightarrow>
    parent_text e \<in> own_ids a es"
proof (cases "List.find (\<lambda>b. getAgentSpiffeid (Some b) = parent_text e) as")
  case (Some b)
  then have b: "b \<in> set as" "getAgentSpiffeid (Some b) = parent_text e"
    by (auto simp: find_Some_iff)
  have "c = parent_text e" using c Some by (simp add: canonical_parent_def)
  moreover have "parent_text e \<notin> spiffe_text ` set (filter (associated a) es)"
    using t e b by (auto simp: tidy_def)
  ultimately show ?thesis by (auto simp: own_ids_def)
next
  case none: None
  then have no: "\<forall>b \<in> set as. getAgentSpiffeid (Some b) \<noteq> parent_text e"
    by (simp add: find_None_iff)
  show ?thesis
  proof (cases "List.find (\<lambda>f. spiffe_text f = parent_text e) es")
    case None
    then have "c = parent_text e"
      using c none by (simp add: canonical_parent_def find_id [OF tidyD(3) [OF t]])
    moreover have "parent_text e \<notin> spiffe_text ` set es"
      using None by (auto simp: find_None_iff)
    ultimately
    show ?thesis using no a by (auto simp: own_ids_def)
  next
    case (Some f)
    then have f: "f \<in> set es" "spiffe_text f = parent_text e" by (auto simp: find_Some_iff)
    have uniq: "\<forall>g \<in> set es. spiffe_text g = spiffe_text f \<longrightarrow> g = f"
      and node: "is_node_entry f = Inr True" and one: "length (filter (\<lambda>a. associated a f) as) = 1"
      using t e f unfolding tidy_def by blast+
    from one obtain b where b: "filter (\<lambda>a. associated a f) as = [b]"
      by (cases "filter (\<lambda>a. associated a f) as") auto
    have cb: "c = getAgentSpiffeid (Some b)"
      using c none Some by (simp add: canonical_parent_def find_id [OF tidyD(3) [OF t]]
          canonical_of_node [OF node b])
    have mem: "x \<in> set as \<and> associated x f \<longleftrightarrow> x = b" for x
      using arg_cong [OF b, of set] by (auto simp: set_eq_iff)
    then have bin: "b \<in> set as" and ab: "associated a f \<longleftrightarrow> a = b" using a by blast+
    have "parent_text e \<noteq> getAgentSpiffeid (Some a)" using no a by metis
    then have "parent_text e \<in> own_ids a es \<longleftrightarrow> (\<exists>g \<in> set es. associated a g \<and> spiffe_text g = spiffe_text f)"
      by (auto simp: own_ids_def f(2) image_iff)
    also have "\<dots> \<longleftrightarrow> associated a f" using f(1) uniq by blast
    finally have own: "parent_text e \<in> own_ids a es \<longleftrightarrow> associated a f" .
    have "getAgentSpiffeid (Some b) = getAgentSpiffeid (Some a) \<longleftrightarrow> a = b"
      using unique_id [OF tidyD(1) [OF t] a bin] by auto
    then show ?thesis
      unfolding own ab cb using no a by metis
  qed
qed

lemma workload_total:
  assumes "tidy as es" and "e \<in> set es"
  shows "\<exists>r. workloadEntry now date_text e (Val infos) as es = Inr r"
proof -
  obtain c where c: "canonical_parent (parent_text e) as es = Inr c"
    using canonical_parent_total [OF assms(1)] by blast
  obtain p q where m: "getAgentMetadata c (Val infos) = Inr (p, q)" using metadata_total by blast
  show ?thesis
    using assms(2) tidyD(2,3) [OF assms(1)]
    by (simp add: workloadEntry_def spiffe_total parent_total c m)
qed

lemma agent_row_total:
  assumes "tidy as es"
  shows "\<exists>r. getDashboardAgentMetaData now a es (Val infos) = Inr r"
proof -
  obtain p q where m: "getAgentMetadata (getAgentSpiffeid (Some a)) (Val infos) = Inr (p, q)"
    using metadata_total by blast
  show ?thesis
    by (simp add: getDashboardAgentMetaData_def Let_def m numberEntriesOfAgent_eq tidyD(4) [OF assms])
qed

lemma mapE_exists: "(\<And>x. x \<in> set xs \<Longrightarrow> \<exists>r. f x = Inr r) \<Longrightarrow> \<exists>rs. mapE f xs = Inr rs"
  using mapE_eq_Inr [of f xs] by blast

lemma cluster_row_total:
  assumes "tidy as es"
  shows "\<exists>r. cluster_row_of (Val es) (Val as) c = Inr r"
proof -
  have "\<exists>ns. mapE (\<lambda>a. numberEntriesOfAgent a es) xs = Inr ns" for xs
    by (rule mapE_exists) (simp add: numberEntriesOfAgent_eq tidyD(4) [OF assms])
  then obtain f where f: "\<And>xs. mapE (\<lambda>a. numberEntriesOfAgent a es) xs = Inr (f xs)" by metis
  show ?thesis
    by (simp add: cluster_row_of_def getClusterMetadata_def numberEntriesOfCluster_def f Let_def)
qed

text \<open>In a tidy store all three tables can be shown.\<close>

lemma tables_total:
  assumes "store_with as es infos props" and "tidy as es"
    and "globalClustersList (st_clusters props) = Val cs"
  shows "\<exists>rows. dash_agentList now flt props = Inr rows"
    and "\<exists>rows. dash_entryList now date_text flt props = Inr rows"
    and "\<exists>rows. dash_clusterList flt props = Inr rows"
proof -
  note lists = assms(1)[unfolded store_with_def]
  obtain as' where "mapE (agent_row_of now (Val es) (Val infos)) as = Inr as'"
    using mapE_exists [of as "agent_row_of now (Val es) (Val infos)"] agent_row_total [OF assms(2)] by auto
  then show "\<exists>rows. dash_agentList now flt props = Inr rows"
    using lists by (simp add: dash_agentList_def del: agent_row_of_def)
  obtain es' where "mapE (entry_row_of now date_text (Val as) (Val infos) es) es = Inr es'"
    using mapE_exists [of es "entry_row_of now date_text (Val as) (Val infos) es"]
      workload_total [OF assms(2)] by auto
  then show "\<exists>rows. dash_entryList now date_text flt props = Inr rows"
    using lists by (simp add: dash_entryList_def del: entry_row_of_def)
  obtain cs' where "mapE (cluster_row_of (Val es) (Val as)) cs = Inr cs'"
    using mapE_exists [of cs "cluster_row_of (Val es) (Val as)"] cluster_row_total [OF assms(2)] by auto
  then show "\<exists>rows. dash_clusterList flt props = Inr rows"
    using lists assms(3) by (simp add: dash_clusterList_def)
qed

text \<open>In a tidy store the details page of an agent lists the entries the agent's row counts: the
  entries table filtered by the agent's id, which goes through canonical agents, has exactly the
  entries whose parent is the agent or one of its node entries, in the order of the store, and
  numberEntriesOfAgent is their number.\<close>

lemma details_rows:
  assumes "store_with as es infos props" and "tidy as es" and "a \<in> set as"
  shows "\<exists>rows. dash_entryList now date_text
      \<lparr>filterByCluster = None, filterByAgentId = Some (getAgentSpiffeid (Some a))\<rparr> props = Inr rows \<and>
    map er_id rows = map entry_id (filter (\<lambda>e. parent_text e \<in> own_ids a es) es) \<and>
    numberEntriesOfAgent a es = Inr (length rows)"
proof -
  let ?A = "getAgentSpiffeid (Some a)"
  obtain row where row: "\<And>e. e \<in> set es \<Longrightarrow> workloadEntry now date_text e (Val infos) as es = Inr (row e)"
  proof -
    have "\<forall>e. \<exists>r. e \<in> set es \<longrightarrow> workloadEntry now date_text e (Val infos) as es = Inr r"
      using workload_total [OF assms(2)] by blast
    then show thesis using that by (metis (no_types))
  qed
  have tot: "mapE (entry_row_of now date_text (Val as) (Val infos) es) es = Inr (map row es)"
    by (rule mapE_total) (simp add: row)
  let ?P = "\<lambda>r. ?A = er_parentId r \<or> ?A = er_canonicalAgentId r"
  have list: "dash_entryList now date_text \<lparr>filterByCluster = None, filterByAgentId = Some ?A\<rparr> props =
      Inr (filter ?P (map row es))"
    using assms(1) tot by (simp add: dash_entryList_def store_with_def)
  have P: "?P (row e) \<longleftrightarrow> parent_text e \<in> own_ids a es" if "e \<in> set es" for e
    using own_iff_canonical [OF assms(2,3) that workload_ids(4) [OF row [OF that]]]
      workload_ids(2) [OF row [OF that]] by auto
  have rows: "filter ?P (map row es) = map row (filter (\<lambda>e. parent_text e \<in> own_ids a es) es)"
    using P by (simp add: filter_map o_def cong: filter_cong)
  have "map er_id (filter ?P (map row es)) = map entry_id (filter (\<lambda>e. parent_text e \<in> own_ids a es) es)"
    unfolding rows using workload_ids(1) [OF row] by simp
  moreover have "numberEntriesOfAgent a es = Inr (length (filter ?P (map row es)))"
    unfolding rows by (simp add: numberEntriesOfAgent_eq tidyD(4) [OF assms(2)])
  ultimately show ?thesis using list by blast
qed

lemma dash_tidy: "tidy [agent1, agent2] [node1, work1]"
proof -
  have "\<forall>e \<in> set [node1, work1]. \<forall>f \<in> set [node1, work1]. spiffe_text f = parent_text e \<longrightarrow>
      f = node1 \<and> e = work1"
    by (simp add: js_unfold spiffe_text_def parent_text_def render_id_def checkSpiffeidValidity_def)
  moreover have "\<forall>g \<in> set [node1, work1]. spiffe_text g = spiffe_text node1 \<longrightarrow> g = node1"
    by (simp add: js_unfold spiffe_text_def render_id_def checkSpiffeidValidity_def)
  moreover have "\<forall>a \<in> set [agent1, agent2]. getAgentSpiffeid (Some a) \<noteq> spiffe_text node1"
    by (simp add: js_unfold spiffe_text_def getAgentSpiffeid_def render_id_def checkSpiffeidValidity_def)
  moreover have "is_node_entry node1 = Inr True"
    by (simp add: js_unfold is_node_entry_def)
  moreover have "filter (\<lambda>a. associated a node1) [agent1, agent2] = [agent1]"
    by (simp add: js_unfold associated_def is_node_entry_def defaulted_def formatSelectors_def image_iff
        conj_disj_distribR ex_disj_distrib)
  moreover have "all_parents [node1, work1] \<and> (\<forall>e \<in> set [node1, work1]. spiffe_id e \<noteq> None)"
    by (simp add: js_unfold all_parents_def)
  ultimately show ?thesis
    unfolding tidy_def using dash_ids by (metis One_nat_def length_Cons list.size(3))
qed

section \<open>Clusters\<close>

lemma sum_filters:
  "sum_list (map (\<lambda>a. length (filter (P a) es)) as) =
   sum_list (map (\<lambda>e. length (filter (\<lambda>a. P a e) as)) es)"
proof (induction es)
  case Nil
  then show ?case by (simp add: sum_list_0)
next
  case (Cons e es)
  have "sum_list (map (\<lambda>a. length (filter (P a) (e # es))) as) =
      length (filter (\<lambda>a. P a e) as) + sum_list (map (\<lambda>a. length (filter (P a) es)) as)"
    by (induction as) auto
  with Cons show ?case by simp
qed

lemma sum_at_most_one:
  assumes "\<forall>e \<in> set es. length (filter (\<lambda>a. P a e) as) \<le> 1"
  shows "sum_list (map (\<lambda>e. length (filter (\<lambda>a. P a e) as)) es) =
    length (filter (\<lambda>e. \<exists>a \<in> set as. P a e) es)"
  using assms
proof (induction es)
  case Nil
  then show ?case by simp
next
  case (Cons e es)
  have "length (filter (\<lambda>a. P a e) as) = (if \<exists>a \<in> set as. P a e then 1 else 0)"
  proof (cases "\<exists>a \<in> set as. P a e")
    case True
    then have "filter (\<lambda>a. P a e) as \<noteq> []" by (simp add: filter_empty_conv)
    then have "length (filter (\<lambda>a. P a e) as) \<ge> 1" by (cases "filter (\<lambda>a. P a e) as") simp_all
    with True Cons.prems show ?thesis by (simp add: le_antisym)
  qed (simp add: filter_empty_conv)
  with Cons show ?case by auto
qed

lemma one_owner:
  assumes t: "tidy as es" and e: "e \<in> set es"
  shows "length (filter (\<lambda>a. Q a \<and> parent_text e \<in> own_ids a es) as) \<le> 1"
proof -
  have "a = b" if ab: "a \<in> set as" "b \<in> set as" "parent_text e \<in> own_ids a es" "parent_text e \<in> own_ids b es" for a b
  proof -
    obtain c where c: "canonical_parent (parent_text e) as es = Inr c"
      using canonical_parent_total [OF t] by blast
    have "parent_text e = getAgentSpiffeid (Some x) \<or> c = getAgentSpiffeid (Some x)"
      if "x \<in> set as" "parent_text e \<in> own_ids x es" for x
      using own_iff_canonical [OF t that(1) e c] that(2) by simp
    moreover have "parent_text e = getAgentSpiffeid (Some x) \<Longrightarrow> x \<in> set as \<Longrightarrow> c = parent_text e" for x
      using c by (auto simp: canonical_parent_def find_None_iff split: option.splits)
    ultimately have "c = getAgentSpiffeid (Some a)" "c = getAgentSpiffeid (Some b)"
      using ab by metis+
    then show ?thesis using unique_id [OF tidyD(1) [OF t] ab(1,2)] by simp
  qed
  moreover have "distinct as" using tidyD(1) [OF t] by (simp add: distinct_map)
  ultimately have "card (set (filter (\<lambda>a. Q a \<and> parent_text e \<in> own_ids a es) as)) \<le> 1"
    by (simp add: card_le_Suc0_iff_eq)
  then show ?thesis using \<open>distinct as\<close> by (simp add: distinct_card del: set_filter)
qed

text \<open>In a tidy store the entry count of a cluster counts no entry twice: the sum over its agents is
  the number of entries that belong to some agent of the cluster.\<close>

lemma cluster_count_exact:
  assumes "tidy as es"
  shows "numberEntriesOfCluster agentIds es as =
    Inr (length (filter (\<lambda>e. \<exists>a \<in> set as. getAgentSpiffeid (Some a) \<in> set agentIds \<and>
       parent_text e \<in> own_ids a es) es))"
proof -
  let ?as = "filter (\<lambda>a. getAgentSpiffeid (Some a) \<in> set agentIds) as"
  let ?P = "\<lambda>a e. getAgentSpiffeid (Some a) \<in> set agentIds \<and> parent_text e \<in> own_ids a es"
  have each: "numberEntriesOfAgent a es = Inr (length (filter (?P a) es))" if "a \<in> set ?as" for a
    using that by (simp add: numberEntriesOfAgent_eq tidyD(4) [OF assms])
  have "sum_list (map (\<lambda>a. length (filter (?P a) es)) ?as) =
      sum_list (map (\<lambda>e. length (filter (\<lambda>a. ?P a e) ?as)) es)" by (rule sum_filters)
  also have "\<dots> = length (filter (\<lambda>e. \<exists>a \<in> set ?as. ?P a e) es)"
    by (rule sum_at_most_one) (use one_owner [OF assms, of _ "\<lambda>a. getAgentSpiffeid (Some a) \<in> set agentIds"] in \<open>simp add: conj_ac\<close>)
  also have "filter (\<lambda>e. \<exists>a \<in> set ?as. ?P a e) es = filter (\<lambda>e. \<exists>a \<in> set as. ?P a e) es"
    by (rule filter_cong) auto
  finally have sum: "sum_list (map (\<lambda>a. length (filter (?P a) es)) ?as) =
      length (filter (\<lambda>e. \<exists>a \<in> set as. ?P a e) es)" .
  have "mapE (\<lambda>a. numberEntriesOfAgent a es) ?as = Inr (map (\<lambda>a. length (filter (?P a) es)) ?as)"
    by (rule mapE_total) (rule each)
  then show ?thesis by (simp only: numberEntriesOfCluster_def Let_def bindE_simps foldl_plus sum add_0)
qed

lemma cluster_count_exact_witness:
  "numberEntriesOfCluster [getAgentSpiffeid (Some agent1)] [node1, work1] [agent1, agent2] =
    Inr (length (filter (\<lambda>e. \<exists>a \<in> set [agent1, agent2].
       getAgentSpiffeid (Some a) \<in> set [getAgentSpiffeid (Some agent1)] \<and>
       parent_text e \<in> own_ids a [node1, work1]) [node1, work1]))"
  by (rule cluster_count_exact [OF dash_tidy])

end
