(* ===== verification/JsUri.thy ===== *)
theory JsUri
  imports JsString
begin

text \<open>
  The URL functions of the browser the dashboard uses: encodeURIComponent, decodeURIComponent and
  URLSearchParams (WHATWG URL: parsing and serialising application/x-www-form-urlencoded). A byte
  is a \<open>char\<close>. None stands for a text outside the model: a URIError, or code units of 256 and more
  (for URLSearchParams also malformed UTF-8, which browsers replace).
\<close>

section \<open>Bytes and hexadecimal\<close>

definition hexdigit :: "nat \<Rightarrow> char" where
  "hexdigit n = (if n < 10 then char_of (48 + n) else char_of (55 + n))"

definition hexval :: "char \<Rightarrow> nat option" where
  "hexval c = (let n = (of_char c :: nat) in
     if 48 \<le> n \<and> n \<le> 57 then Some (n - 48)
     else if 65 \<le> n \<and> n \<le> 70 then Some (n - 55)
     else if 97 \<le> n \<and> n \<le> 102 then Some (n - 87) else None)"

definition byte_of :: "char \<Rightarrow> char \<Rightarrow> nat option" where
  "byte_of h l = (case (hexval h, hexval l) of (Some a, Some b) \<Rightarrow> Some (16 * a + b) | _ \<Rightarrow> None)"

definition pct :: "char \<Rightarrow> string" where
  "pct b = (let n = (of_char b :: nat) in [CHR ''%'', hexdigit (n div 16), hexdigit (n mod 16)])"

lemma hexval_hexdigit: "n < 16 \<Longrightarrow> hexval (hexdigit n) = Some n"
  by (auto simp: hexval_def hexdigit_def of_char_of Let_def take_bit_eq_mod)

lemma nibbles: "n < 256 \<Longrightarrow> n div 16 < 16 \<and> n mod 16 < (16 :: nat)"
  by auto

lemma byte_of_pct: "byte_of (hexdigit (n div 16)) (hexdigit (n mod 16)) = Some n" if "n < 256" for n
proof -
  have "n div 16 < 16" "n mod 16 < 16" using that by auto
  then show ?thesis by (simp add: byte_of_def hexval_hexdigit)
qed

lemma char_nat_less [simp]: "(of_char c :: nat) < 256"
  using nat_of_char_less_256 [of c] by simp

section \<open>UTF-8\<close>

definition utf8 :: "char \<Rightarrow> string" where
  "utf8 c = (let n = (of_char c :: nat) in
     if n < 128 then [c] else [char_of (192 + n div 64), char_of (128 + n mod 64)])"

fun utf8_decode :: "string \<Rightarrow> string option" where
  "utf8_decode [] = Some []"
| "utf8_decode (b # bs) =
     (let n = (of_char b :: nat) in
      if n < 128 then map_option ((#) b) (utf8_decode bs)
      else (case bs of
              [] \<Rightarrow> None
            | b2 # r \<Rightarrow>
                (let k = (of_char b2 :: nat) in
                 if 194 \<le> n \<and> n \<le> 195 \<and> 128 \<le> k \<and> k \<le> 191
                 then map_option ((#) (char_of ((n - 192) * 64 + (k - 128)))) (utf8_decode r)
                 else None)))"

declare utf8_decode.simps [simp del]

lemma utf8_two:
  assumes "128 \<le> n" and "n < (256::nat)"
  shows "(of_char (char_of (192 + n div 64) :: char) :: nat) = 192 + n div 64"
    and "(of_char (char_of (128 + n mod 64) :: char) :: nat) = 128 + n mod 64"
    and "2 \<le> n div 64" and "n div 64 \<le> 3" and "n mod 64 \<le> 63"
    and "n div 64 * 64 + n mod 64 = n"
proof -
  show d: "2 \<le> n div 64" "n div 64 \<le> 3" "n mod 64 \<le> 63" using assms by auto
  show "n div 64 * 64 + n mod 64 = n" by simp
  have "192 + n div 64 < 256" "128 + n mod 64 < 256" using d by auto
  then show "(of_char (char_of (192 + n div 64) :: char) :: nat) = 192 + n div 64"
    "(of_char (char_of (128 + n mod 64) :: char) :: nat) = 128 + n mod 64"
    by (simp_all only: of_char_of mod_less)
qed

lemma utf8_decode_utf8: "utf8_decode (utf8 c @ s) = map_option ((#) c) (utf8_decode s)"
proof (cases "(of_char c :: nat) < 128")
  case True
  then show ?thesis by (simp add: utf8_def utf8_decode.simps)
next
  case False
  then have two: "128 \<le> (of_char c :: nat)" "(of_char c :: nat) < 256" by auto
  have "char_of (of_char c :: nat) = c" by simp
  then show ?thesis
    using False utf8_two [OF two] by (simp add: utf8_def utf8_decode.simps Let_def)
qed

lemma utf8_decode_concat: "utf8_decode (concat (map utf8 s)) = Some s"
  by (induction s) (simp_all add: utf8_decode_utf8, simp add: utf8_decode.simps)

section \<open>encodeURIComponent\<close>

definition is_alnum :: "char \<Rightarrow> bool" where
  "is_alnum c = (let n = (of_char c :: nat) in
     (48 \<le> n \<and> n \<le> 57) \<or> (65 \<le> n \<and> n \<le> 90) \<or> (97 \<le> n \<and> n \<le> 122))"

definition uri_plain :: "char \<Rightarrow> bool" where
  "uri_plain c \<longleftrightarrow> is_alnum c \<or> c \<in> set ''-_.!~*()'' \<or> c = CHR 0x27"

definition encodeURIComponent :: "string \<Rightarrow> string" where
  "encodeURIComponent s =
     concat (map (\<lambda>c. if uri_plain c then [c] else concat (map pct (utf8 c))) s)"

fun decodeURIComponent :: "string \<Rightarrow> string option" where
  "decodeURIComponent [] = Some []"
| "decodeURIComponent (c # cs) =
     (if c \<noteq> CHR ''%'' then map_option ((#) c) (decodeURIComponent cs)
      else case cs of
        h # l # r \<Rightarrow>
          (case byte_of h l of
             None \<Rightarrow> None
           | Some n \<Rightarrow>
               if n < 128 then map_option ((#) (char_of n)) (decodeURIComponent r)
               else (case r of
                 p # h2 # l2 # r2 \<Rightarrow>
                   (case byte_of h2 l2 of
                      None \<Rightarrow> None
                    | Some k \<Rightarrow>
                        if p = CHR ''%'' \<and> 194 \<le> n \<and> n \<le> 195 \<and> 128 \<le> k \<and> k \<le> 191
                        then map_option ((#) (char_of ((n - 192) * 64 + (k - 128)))) (decodeURIComponent r2)
                        else None)
               | _ \<Rightarrow> None))
      | _ \<Rightarrow> None)"

declare decodeURIComponent.simps [simp del]

lemma decode_plain: "c \<noteq> CHR ''%'' \<Longrightarrow> decodeURIComponent (c # s) = map_option ((#) c) (decodeURIComponent s)"
  by (simp add: decodeURIComponent.simps)

lemma decode_pct:
  "decodeURIComponent (concat (map pct (utf8 c)) @ s) = map_option ((#) c) (decodeURIComponent s)"
proof (cases "(of_char c :: nat) < 128")
  case True
  then show ?thesis
    by (simp add: utf8_def pct_def Let_def decodeURIComponent.simps byte_of_pct)
next
  case False
  define n where "n = (of_char c :: nat)"
  have n: "128 \<le> n" "n < 256" "c = char_of n" using False by (simp_all add: n_def)
  note u = utf8_two [OF n(1,2)]
  have bytes: "192 + n div 64 < 256" "128 + n mod 64 < 256" using u(4,5) by auto
  have "concat (map pct (utf8 c)) =
      [CHR ''%'', hexdigit ((192 + n div 64) div 16), hexdigit ((192 + n div 64) mod 16),
       CHR ''%'', hexdigit ((128 + n mod 64) div 16), hexdigit ((128 + n mod 64) mod 16)]"
    using False unfolding utf8_def pct_def Let_def n_def [symmetric]
    by (simp add: mod_less [OF bytes(1)] mod_less [OF bytes(2)])
  then show ?thesis
    using u(3,4,5) by (simp add: decodeURIComponent.simps byte_of_pct [OF bytes(1)]
        byte_of_pct [OF bytes(2)] n(3))
qed

lemma decode_encode [simp]: "decodeURIComponent (encodeURIComponent s) = Some s"
proof (induction s)
  case Nil
  then show ?case by (simp add: encodeURIComponent_def decodeURIComponent.simps)
next
  case (Cons c s)
  have "uri_plain c \<Longrightarrow> c \<noteq> CHR ''%''" by (auto simp: uri_plain_def is_alnum_def)
  with Cons show ?case
    by (simp add: encodeURIComponent_def decode_plain decode_pct)
qed

section \<open>URLSearchParams\<close>

type_synonym params = "(string \<times> string) list"

definition form_plain :: "char \<Rightarrow> bool" where
  "form_plain c \<longleftrightarrow> is_alnum c \<or> c \<in> set ''*-._''"

definition form_byte :: "char \<Rightarrow> string" where
  "form_byte b = (if b = CHR '' '' then ''+'' else if form_plain b then [b] else pct b)"

definition form_encode :: "string \<Rightarrow> string" where
  "form_encode s = concat (map form_byte (concat (map utf8 s)))"

fun percent_decode :: "string \<Rightarrow> string" where
  "percent_decode [] = []"
| "percent_decode (c # cs) =
     (if c = CHR ''%'' then
        (case cs of
           h # l # r \<Rightarrow>
             (case byte_of h l of
                Some n \<Rightarrow> char_of n # percent_decode r | None \<Rightarrow> c # percent_decode cs)
         | _ \<Rightarrow> c # percent_decode cs)
      else c # percent_decode cs)"

declare percent_decode.simps [simp del]

definition form_decode :: "string \<Rightarrow> string option" where
  "form_decode s = utf8_decode (percent_decode (replace_all (CHR ''+'') (CHR '' '') s))"

text \<open>A sequence \<open>name=value\<close> is cut at the first equals sign; without one the value is empty.\<close>

definition parse_pair :: "string \<Rightarrow> (string \<times> string) option" where
  "parse_pair s =
     (let i = indexOf s (CHR ''='');
          n = (if i < 0 then s else take (nat i) s);
          v = (if i < 0 then [] else drop (Suc (nat i)) s)
      in case (form_decode n, form_decode v) of (Some a, Some b) \<Rightarrow> Some (a, b) | _ \<Rightarrow> None)"

fun collect :: "'a option list \<Rightarrow> 'a list option" where
  "collect [] = Some []"
| "collect (x # xs) =
     (case (x, collect xs) of (Some a, Some as) \<Rightarrow> Some (a # as) | _ \<Rightarrow> None)"

definition URLSearchParams :: "string \<Rightarrow> params option" where
  "URLSearchParams search =
     (let s = (if startsWith search ''?'' then drop 1 search else search) in
      collect (map parse_pair (filter (\<lambda>x. x \<noteq> []) (split_on (CHR ''&'') s))))"

definition params_get :: "string \<Rightarrow> params \<Rightarrow> string option" where
  "params_get k ps = map_of ps k"

text \<open>\<open>set\<close> writes the first pair of the name, removes its others, or appends a pair.\<close>

fun params_set :: "string \<Rightarrow> string \<Rightarrow> params \<Rightarrow> params" where
  "params_set k v [] = [(k, v)]"
| "params_set k v (p # ps) =
     (if fst p = k then (k, v) # filter (\<lambda>q. fst q \<noteq> k) ps else p # params_set k v ps)"

definition params_toString :: "params \<Rightarrow> string" where
  "params_toString ps = join ''&'' (map (\<lambda>(k, v). form_encode k @ ''='' @ form_encode v) ps)"

lemma params_get_set [simp]: "params_get k (params_set k v ps) = Some v"
  by (induction ps) (auto simp: params_get_def)

section \<open>A serialised query is parsed back\<close>

lemma hexdigit_alnum: "n < 16 \<Longrightarrow> is_alnum (hexdigit n)"
  by (auto simp: is_alnum_def hexdigit_def of_char_of Let_def)

lemma pct_chars: "c \<in> set (pct b) \<Longrightarrow> c = CHR ''%'' \<or> is_alnum c"
proof -
  have "(of_char b :: nat) div 16 < 16" "(of_char b :: nat) mod 16 < 16"
    using nibbles [OF char_nat_less [of b]] by simp_all
  then show "c \<in> set (pct b) \<Longrightarrow> c = CHR ''%'' \<or> is_alnum c"
    by (auto simp: pct_def Let_def hexdigit_alnum)
qed

lemma form_encode_chars:
  "c \<in> set (form_encode s) \<Longrightarrow> c = CHR ''+'' \<or> c = CHR ''%'' \<or> form_plain c"
  by (auto simp: form_encode_def form_byte_def form_plain_def dest: pct_chars split: if_splits)

lemma form_encode_free: "CHR ''='' \<notin> set (form_encode s)" "CHR ''&'' \<notin> set (form_encode s)"
  by (auto dest!: form_encode_chars simp: form_plain_def is_alnum_def)

lemma replace_plus:
  "replace_all (CHR ''+'') (CHR '' '') (form_byte b) = (if b = CHR '' '' then '' '' else form_byte b)"
proof -
  have "c \<noteq> CHR ''+''" if "c \<in> set (pct b)" for c
    using pct_chars [OF that] by (auto simp: is_alnum_def)
  then have "map (\<lambda>c. if c = CHR ''+'' then CHR '' '' else c) (pct b) = pct b"
    by (intro map_idI) auto
  then show ?thesis
    by (auto simp: replace_all_def form_byte_def form_plain_def is_alnum_def)
qed

lemma percent_decode_byte:
  "percent_decode ((if b = CHR '' '' then '' '' else form_byte b) @ s) = b # percent_decode s"
proof (cases "b = CHR '' '' \<or> form_plain b")
  case True
  then have "b \<noteq> CHR ''%''" by (auto simp: form_plain_def is_alnum_def)
  with True show ?thesis by (auto simp: form_byte_def percent_decode.simps)
next
  case False
  then show ?thesis
    by (simp add: form_byte_def pct_def Let_def percent_decode.simps byte_of_pct)
qed

lemma form_decode_encode [simp]: "form_decode (form_encode s) = Some s"
proof -
  have "percent_decode (replace_all (CHR ''+'') (CHR '' '') (concat (map form_byte bs))) = bs" for bs
  proof (induction bs)
    case Nil
    then show ?case by (simp add: replace_all_def percent_decode.simps)
  next
    case (Cons b bs)
    have "replace_all (CHR ''+'') (CHR '' '') (concat (map form_byte (b # bs))) =
        (if b = CHR '' '' then '' '' else form_byte b) @
          replace_all (CHR ''+'') (CHR '' '') (concat (map form_byte bs))"
      using replace_plus [of b] by (simp add: replace_all_def)
    then show ?case by (simp only: percent_decode_byte Cons.IH)
  qed
  then show ?thesis by (simp add: form_decode_def form_encode_def utf8_decode_concat)
qed

lemma parse_pair_printed: "parse_pair (form_encode k @ ''='' @ form_encode v) = Some (k, v)"
proof -
  have "indexOf (form_encode k @ CHR ''='' # form_encode v) (CHR ''='') = int (length (form_encode k))"
    by (rule indexOf_append) (rule form_encode_free)
  then show ?thesis by (simp add: parse_pair_def Let_def)
qed

lemma collect_Some: "collect (map Some xs) = Some xs"
  by (induction xs) auto

lemma URLSearchParams_toString: "URLSearchParams (''?'' @ params_toString ps) = Some ps"
proof (cases "ps = []")
  case True
  then show ?thesis by (simp add: URLSearchParams_def params_toString_def startsWith_def)
next
  case False
  let ?f = "\<lambda>(k, v). form_encode k @ ''='' @ form_encode v"
  have "split_on (CHR ''&'') (join ''&'' (map ?f ps)) = map ?f ps"
    by (rule split_on_join) (use False form_encode_free in auto)
  moreover have "filter (\<lambda>x. x \<noteq> []) (map ?f ps) = map ?f ps"
    by (rule filter_ident) auto
  moreover have "map parse_pair (map ?f ps) = map Some ps"
    by (auto simp: parse_pair_printed [simplified])
  ultimately show ?thesis
    by (simp add: URLSearchParams_def params_toString_def startsWith_def collect_Some del: map_map)
qed

end
