(* ===== verification/ApiHelpers.thy ===== *)
theory ApiHelpers
  imports ReduxStore
begin

text \<open>
  components/tornjak-api-helpers.tsx: the calls to the back end. An operation \<open>f\<close> is two
  definitions: \<open>f\<close>, what it does at once (the request, as an effect), and \<open>f_done\<close>, what its
  callbacks do with the outcome. Between the two anything may happen, and outcomes arrive in
  any order; theory Requests composes them with the store.
\<close>

section \<open>Effects\<close>

datatype 'b effect =
    Dispatch action
  | Toast toast
  | Alert string
  | Request http_method string 'b
  | ScrollTop
  | ScrollBottom
  | Reload

datatype api_body =
    NoBody
  | Input string
  | PluginBody string string
  | IdsBody "string list"
  | ClusterBody string
  | ServerBody string
  | AgentIds "string list option"

type_synonym api_effect = "api_body effect"

definition do_dispatch :: "action list \<Rightarrow> 'b effect list" where
  [js_unfold]: "do_dispatch as = map Dispatch as"

definition toast_error :: "axios_error \<Rightarrow> string \<Rightarrow> 'b effect" where
  [js_unfold]: "toast_error e cap = Toast (showResponseToast e (Some cap))"

fun dispatched :: "'b effect list \<Rightarrow> action list" where
  "dispatched [] = []"
| "dispatched (Dispatch a # es) = a # dispatched es"
| "dispatched (_ # es) = dispatched es"

lemma dispatched_append [simp]: "dispatched (xs @ ys) = dispatched xs @ dispatched ys"
  by (induction xs rule: dispatched.induct) auto

lemma dispatched_map [simp]: "dispatched (map Dispatch as) = as"
  by (induction as) auto

text \<open>\<open>response.data[field]\<close> throws when the body is \<open>undefined\<close> or \<open>null\<close>.\<close>

definition with_body :: "'d jsval \<Rightarrow> ('d \<Rightarrow> 'a list) \<Rightarrow> 'a handler" where
  "with_body d k = (case d of Val x \<Rightarrow> (k x, False) | _ \<Rightarrow> ([], True))"

lemma with_body_simps [simp]:
  "with_body (Val x) k = (k x, False)" "with_body Undefined k = ([], True)"
  "with_body Null k = ([], True)"
  by (simp_all add: with_body_def)

text \<open>\<open>if (!xs) update([]) else update(xs)\<close>: every array is truthy.\<close>

definition or_empty :: "'a list jsval \<Rightarrow> 'a list jsval" where
  "or_empty xs = (case xs of Val ys \<Rightarrow> Val ys | _ \<Rightarrow> Val [])"

lemma or_empty_is_val [simp]: "is_val (or_empty xs)"
  by (cases xs) (simp_all add: or_empty_def)

section \<open>Forms\<close>

text \<open>
  The contract of every form that posts: the request with the body the fields describe, once, when
  they are acceptable and there is an endpoint, and otherwise no such request; unacceptable fields
  give one message to the user. \<open>rest\<close> is what a submission does besides (scrolling, a refresh).
\<close>

fun has_method :: "http_method \<Rightarrow> 'b effect \<Rightarrow> bool" where
  "has_method meth (Request mth u b) \<longleftrightarrow> mth = meth"
| "has_method meth _ \<longleftrightarrow> False"

fun is_message :: "'b effect \<Rightarrow> bool" where
  "is_message (Toast t) = True"
| "is_message (Alert a) = True"
| "is_message _ = False"

lemma has_method_request: "has_method meth e \<longleftrightarrow> (\<exists>u b. e = Request meth u b)"
  by (cases e) auto

locale form_guard =
  fixes meth :: http_method and submit :: "'s \<Rightarrow> 'b effect list" and ok :: "'s \<Rightarrow> bool"
    and endpoint :: "'s \<Rightarrow> string" and body :: "'s \<Rightarrow> 'b" and rest :: "'s \<Rightarrow> 'b effect list"
  assumes posts: "ok s \<Longrightarrow> endpoint s \<noteq> [] \<Longrightarrow> submit s = Request meth (endpoint s) (body s) # rest s"
    and rest_other: "e \<in> set (rest s) \<Longrightarrow> \<not> has_method meth e"
    and silent: "ok s \<Longrightarrow> endpoint s = [] \<Longrightarrow> e \<in> set (submit s) \<Longrightarrow> \<not> has_method meth e"
    and complains: "\<not> ok s \<Longrightarrow> \<exists>e. submit s = [e] \<and> is_message e"
begin

lemma request_iff:
  "Request meth u b \<in> set (submit s) \<longleftrightarrow>
     ok s \<and> endpoint s \<noteq> [] \<and> u = endpoint s \<and> b = body s"
  using posts [of s] rest_other [of "Request meth u b" s] silent [of s "Request meth u b"] complains [of s]
  by (cases "ok s"; cases "endpoint s = []") auto

lemma one_request:
  "length (filter (has_method meth) (submit s)) = (if ok s \<and> endpoint s \<noteq> [] then 1 else 0)"
proof (cases "ok s")
  case False
  with complains [of s] obtain e where "submit s = [e]" "is_message e" by blast
  with False show ?thesis by (cases e) auto
next
  case True
  have "filter (has_method meth) (rest s) = []" using rest_other by (simp add: filter_empty_conv)
  then show ?thesis
    using True posts [of s] silent [of s] by (cases "endpoint s = []") (auto simp: filter_empty_conv)
qed

end

section \<open>Authorisation\<close>

text \<open>
  The request interceptor, installed when an authentication server is configured: with a user
  logged in, the token goes on every request after it has been refreshed. With nobody logged in
  the interceptor returns nothing, and axios fails on the missing configuration. The token and
  whether the refresh succeeds are Keycloak's (None: the refresh failed and the user is sent to
  the login page).
\<close>

datatype sent = Plain | WithBearer string | NotSent

definition interceptor :: "app_env \<Rightarrow> bool \<Rightarrow> string option \<Rightarrow> sent" where
  "interceptor env isLoggedIn refreshed_token =
     (if truthy (REACT_APP_AUTH_SERVER_URI env) then
        (if isLoggedIn then
           (case refreshed_token of Some t \<Rightarrow> WithBearer (''Bearer '' @ t) | None \<Rightarrow> NotSent)
         else NotSent)
      else Plain)"

section \<open>SPIRE health\<close>

definition spireHealthCheck :: "app_env \<Rightarrow> api_effect list" where
  "spireHealthCheck env =
     do_dispatch (spireHealthCheckingFunc False) @
     [Request GET (api_uri env spireHealthCheckApi) NoBody]"

definition spireHealthCheck_done :: "app_env \<Rightarrow> jsnum option jsval outcome \<Rightarrow> api_effect list" where
  "spireHealthCheck_done env =
     then_catch env
       (\<lambda>_ _ data. with_body data (\<lambda>stat.
          do_dispatch (spireHealthCheckFunc (stat = Some (num 1)) @ spireHealthCheckingFunc True)))
       (\<lambda>e. do_dispatch (spireHealthCheckingFunc True @ spireHealthCheckFunc False) @
            [toast_error e ''Could not register SPIRE healthcheck.''])"

section \<open>Workload attestor plugins\<close>

definition refreshLocalSelectorsState :: "app_env \<Rightarrow> api_effect list" where
  "refreshLocalSelectorsState env = [Request GET (api_uri env tornjakSelectorsApi) NoBody]"

definition refreshLocalSelectorsState_done ::
  "app_env \<Rightarrow> AgentsWorkLoadAttestorInfo list jsval jsval outcome \<Rightarrow> api_effect list"
where
  "refreshLocalSelectorsState_done env =
     then_catch env
       (\<lambda>_ _ data. with_body data (\<lambda>as. do_dispatch (agentworkloadSelectorInfoFunc as)))
       (\<lambda>e. [toast_error e ''Could not refresh local selector states.''])"

definition registerLocalSelectors :: "app_env \<Rightarrow> string \<Rightarrow> string \<Rightarrow> api_effect list" where
  "registerLocalSelectors env sid plugin =
     [Request POST (api_uri env tornjakSelectorsApi) (PluginBody sid plugin)]"

definition registerLocalSelectors_done :: "app_env \<Rightarrow> 'd outcome \<Rightarrow> api_effect list" where
  "registerLocalSelectors_done env =
     then_catch env (\<lambda>_ _ _. (refreshLocalSelectorsState env, False))
       (\<lambda>e. [toast_error e ''Could not register local selectors.''])"

definition refreshSelectorsState :: "app_env \<Rightarrow> string \<Rightarrow> api_effect list" where
  "refreshSelectorsState env serverName =
     [Request GET (GetApiServerUri env ''/manager-api/tornjak/selectors/list/'' @ serverName) NoBody]"

definition refreshSelectorsState_done ::
  "app_env \<Rightarrow> AgentsWorkLoadAttestorInfo list jsval jsval outcome \<Rightarrow> api_effect list"
where
  "refreshSelectorsState_done env =
     then_catch env
       (\<lambda>_ _ data. with_body data (\<lambda>as. do_dispatch (agentworkloadSelectorInfoFunc as)))
       (\<lambda>e. [toast_error e ''Could not refresh selector state.''])"

definition registerSelectors :: "app_env \<Rightarrow> string \<Rightarrow> string \<Rightarrow> string \<Rightarrow> api_effect list" where
  "registerSelectors env serverName sid plugin =
     [Request POST (GetApiServerUri env ''/manager-api/tornjak/selectors/register/'' @ serverName)
        (PluginBody sid plugin)]"

definition registerSelectors_done :: "app_env \<Rightarrow> string \<Rightarrow> 'd outcome \<Rightarrow> api_effect list" where
  "registerSelectors_done env serverName =
     then_catch env (\<lambda>_ _ _. (refreshSelectorsState env serverName, False))
       (\<lambda>e. [toast_error e ''Could not register selectors.''])"

definition populateLocalTornjakAgentInfo :: "app_env \<Rightarrow> string \<Rightarrow> api_effect list" where
  "populateLocalTornjakAgentInfo env inputData =
     [Request GET (api_uri env tornjakAgentsApi) (Input inputData)]"

definition populateLocalTornjakAgentInfo_done ::
  "app_env \<Rightarrow> AgentsWorkLoadAttestorInfo list jsval jsval outcome \<Rightarrow> api_effect list"
where
  "populateLocalTornjakAgentInfo_done env =
     then_catch env
       (\<lambda>_ _ data. with_body data (\<lambda>as. do_dispatch (agentworkloadSelectorInfoFunc as)))
       (\<lambda>e. [toast_error e ''Could not populate local tornjak agent info.''])"

text \<open>
  Its callers are JavaScript and pass a text or the object \<open>{agents: ids}\<close>, so the body is the
  argument (\<open>AgentIds None\<close>: the ids were not there and the text \<open>""\<close> stands in their place).
\<close>

definition populateTornjakAgentInfo :: "app_env \<Rightarrow> string \<Rightarrow> api_body \<Rightarrow> api_effect list" where
  "populateTornjakAgentInfo env serverName inputData =
     [Request POST (GetApiServerUri env ''/manager-api/tornjak/agents/list/'' @ serverName) inputData]"

definition populateTornjakAgentInfo_done ::
  "app_env \<Rightarrow> AgentsWorkLoadAttestorInfo list jsval jsval outcome \<Rightarrow> api_effect list"
where
  "populateTornjakAgentInfo_done env =
     then_catch env
       (\<lambda>_ _ data. with_body data (\<lambda>as. do_dispatch (agentworkloadSelectorInfoFunc as)))
       (\<lambda>e. [toast_error e ''Could not populate tornjak agent info.''])"

section \<open>Server information\<close>

definition populateLocalTornjakDebugServerInfo :: "app_env \<Rightarrow> api_effect list" where
  "populateLocalTornjakDebugServerInfo env =
     [Request GET (api_uri env spireServerInfoApi) NoBody]"

definition populateLocalTornjakDebugServerInfo_done ::
  "app_env \<Rightarrow> DebugServerInfo jsval outcome \<Rightarrow> api_effect list"
where
  "populateLocalTornjakDebugServerInfo_done env =
     then_catch env
       (\<lambda>_ tx data. (do_dispatch (spireDebugServerInfoUpdateFunc data @ tornjakMessageFunc (Message tx)), False))
       (\<lambda>e. [toast_error e ''Could not populate tornjak debug info.''])"

definition populateLocalTornjakServerInfo :: "app_env \<Rightarrow> api_effect list" where
  "populateLocalTornjakServerInfo env = [Request GET (api_uri env tornjakServerInfoApi) NoBody]"

text \<open>The error handler stores the error object itself as the message.\<close>

definition populateLocalTornjakServerInfo_done ::
  "app_env \<Rightarrow> TornjakServerInfo jsval outcome \<Rightarrow> api_effect list"
where
  "populateLocalTornjakServerInfo_done env =
     then_catch env
       (\<lambda>st tx data.
          (if st = 200
           then do_dispatch (tornjakServerInfoUpdateFunc data @ tornjakMessageFunc (Message tx))
           else do_dispatch (tornjakMessageFunc (Message tx)), False))
       (\<lambda>e. toast_error e ''Could not populate local tornjak server info.'' #
            do_dispatch (tornjakMessageFunc (ErrorObject e)))"

definition populateTornjakServerInfo :: "app_env \<Rightarrow> string \<Rightarrow> api_effect list" where
  "populateTornjakServerInfo env serverName =
     [Request GET (GetApiServerUri env ''/manager-api/tornjak/serverinfo/'' @ serverName) NoBody]"

definition populateTornjakServerInfo_done ::
  "app_env \<Rightarrow> TornjakServerInfo jsval outcome \<Rightarrow> api_effect list"
where
  "populateTornjakServerInfo_done env =
     then_catch env
       (\<lambda>_ tx data. (do_dispatch (tornjakServerInfoUpdateFunc data @ tornjakMessageFunc (Message tx)), False))
       (\<lambda>e. toast_error e ''Could not populate tornjak server info.'' #
            do_dispatch (tornjakServerInfoUpdateFunc
              (Val \<lparr>plugins = Some no_plugins, tsi_trustDomain = [], verboseConfig = []\<rparr>)))"

text \<open>
  The trust domain and node attestor of the selected server: nothing is dispatched for
  \<open>undefined\<close>, without plugins (the empty object among them) or without a node attestor. A
  \<open>null\<close> passes the guards and \<open>serverInfo.plugins\<close> throws.
\<close>

definition populateServerInfo :: "TornjakServerInfo jsval \<Rightarrow> action list throws" where
  "populateServerInfo serverInfo =
     (case serverInfo of
        Undefined \<Rightarrow> Inr []
      | Null \<Rightarrow> Inl TypeError
      | Val si \<Rightarrow>
          (case plugins si of
             None \<Rightarrow> Inr []
           | Some pl \<Rightarrow>
               (case NodeAttestor pl of
                  [] \<Rightarrow> Inr []
                | nodeAtt # _ \<Rightarrow>
                    Inr (serverInfoUpdateFunc
                      \<lparr>trustDomain = tsi_trustDomain si, nodeAttestorPlugin = nodeAtt\<rparr>))))"

end
