(* ===== verification/ApiLists.thy ===== *)
theory ApiLists
  imports ApiHelpers
begin

text \<open>
  components/tornjak-api-helpers.tsx, the second half: the lists of agents, entries, federations
  and clusters fetched into the store, and the deletions.
\<close>

section \<open>Lists, local mode\<close>

definition populateLocalEntriesUpdate :: "app_env \<Rightarrow> api_effect list" where
  "populateLocalEntriesUpdate env = [Request GET (api_uri env spireEntriesApi) NoBody]"

definition populateLocalEntriesUpdate_done ::
  "app_env \<Rightarrow> EntriesList list jsval jsval outcome \<Rightarrow> api_effect list"
where
  "populateLocalEntriesUpdate_done env =
     then_catch env
       (\<lambda>_ tx data. with_body data (\<lambda>xs.
          do_dispatch (entriesListUpdateFunc (or_empty xs) @ tornjakMessageFunc (Message tx))))
       (\<lambda>e. toast_error e ''Could not populate local entries.'' #
            do_dispatch (entriesListUpdateFunc (Val []) @ tornjakMessageFunc (Message (err_message e))))"

definition populateLocalAgentsUpdate :: "app_env \<Rightarrow> api_effect list" where
  "populateLocalAgentsUpdate env = [Request GET (api_uri env spireAgentsApi) NoBody]"

definition populateLocalAgentsUpdate_done ::
  "app_env \<Rightarrow> AgentsList list jsval jsval outcome \<Rightarrow> api_effect list"
where
  "populateLocalAgentsUpdate_done env =
     then_catch env
       (\<lambda>_ tx data. with_body data (\<lambda>xs.
          do_dispatch (agentsListUpdateFunc (or_empty xs) @ tornjakMessageFunc (Message tx))))
       (\<lambda>e. toast_error e ''Could not populate local agents.'' #
            do_dispatch (agentsListUpdateFunc (Val []) @
              tornjakMessageFunc (Message (''Error retrieving: '' @ err_message e))))"

definition populateLocalFederationsUpdate :: "app_env \<Rightarrow> api_effect list" where
  "populateLocalFederationsUpdate env = [Request GET (api_uri env spireFederationsApi) NoBody]"

definition populateLocalFederationsUpdate_done ::
  "app_env \<Rightarrow> FederationsList list jsval jsval outcome \<Rightarrow> api_effect list"
where
  "populateLocalFederationsUpdate_done env =
     then_catch env
       (\<lambda>_ tx data. with_body data (\<lambda>xs.
          do_dispatch (federationsListUpdateFunc (or_empty xs) @ tornjakMessageFunc (Message tx))))
       (\<lambda>e. toast_error e ''Could not populate local federations.'' #
            do_dispatch (federationsListUpdateFunc (Val []) @
              tornjakMessageFunc (Message (''Error retrieving: '' @ err_message e))))"

text \<open>The clusters are stored as they come, \<open>undefined\<close> included.\<close>

definition populateLocalClustersUpdate :: "app_env \<Rightarrow> api_effect list" where
  "populateLocalClustersUpdate env = [Request GET (api_uri env tornjakClustersApi) NoBody]"

definition populateLocalClustersUpdate_done ::
  "app_env \<Rightarrow> ClustersList list jsval jsval outcome \<Rightarrow> api_effect list"
where
  "populateLocalClustersUpdate_done env =
     then_catch env
       (\<lambda>_ tx data. with_body data (\<lambda>xs.
          do_dispatch (clustersListUpdateFunc xs @ tornjakMessageFunc (Message tx))))
       (\<lambda>e. toast_error e ''Could not populate local clusters.'' #
            do_dispatch (clustersListUpdateFunc (Val []) @
              tornjakMessageFunc (Message (''Error retrieving: '' @ err_message e))))"

section \<open>Lists, manager mode\<close>

definition populateClustersUpdate :: "app_env \<Rightarrow> string \<Rightarrow> api_effect list" where
  "populateClustersUpdate env serverName =
     [Request GET (GetApiServerUri env ''/manager-api/tornjak/clusters/list/'' @ serverName) NoBody]"

definition retrieving :: "string \<Rightarrow> string \<Rightarrow> tornjak_message" where
  [js_unfold]: "retrieving serverName m = Message (''Error retrieving '' @ serverName @ '' : '' @ m)"

definition populateClustersUpdate_done ::
  "app_env \<Rightarrow> string \<Rightarrow> ClustersList list jsval jsval outcome \<Rightarrow> api_effect list"
where
  "populateClustersUpdate_done env serverName =
     then_catch env
       (\<lambda>_ tx data. with_body data (\<lambda>xs.
          do_dispatch (clustersListUpdateFunc xs @ tornjakMessageFunc (Message tx))))
       (\<lambda>e. toast_error e ''Could not populate clusters.'' #
            do_dispatch (clustersListUpdateFunc (Val []) @
              tornjakMessageFunc (retrieving serverName (err_message e))))"

definition populateAgentsUpdate :: "app_env \<Rightarrow> string \<Rightarrow> api_effect list" where
  "populateAgentsUpdate env serverName =
     [Request GET (GetApiServerUri env ''/manager-api/agent/list/'' @ serverName) NoBody]"

definition populateAgentsUpdate_done ::
  "app_env \<Rightarrow> string \<Rightarrow> AgentsList list jsval jsval outcome \<Rightarrow> api_effect list"
where
  "populateAgentsUpdate_done env serverName =
     then_catch env
       (\<lambda>_ tx data. with_body data (\<lambda>xs.
          do_dispatch (agentsListUpdateFunc (or_empty xs) @ tornjakMessageFunc (Message tx))))
       (\<lambda>e. toast_error e ''Could not populate agents.'' #
            do_dispatch (agentsListUpdateFunc (Val []) @
              tornjakMessageFunc (retrieving serverName (err_message e))))"

definition populateEntriesUpdate :: "app_env \<Rightarrow> string \<Rightarrow> api_effect list" where
  "populateEntriesUpdate env serverName =
     [Request GET (GetApiServerUri env ''/manager-api/entry/list/'' @ serverName) NoBody]"

definition populateEntriesUpdate_done ::
  "app_env \<Rightarrow> string \<Rightarrow> EntriesList list jsval jsval outcome \<Rightarrow> api_effect list"
where
  "populateEntriesUpdate_done env serverName =
     then_catch env
       (\<lambda>_ tx data. with_body data (\<lambda>xs.
          do_dispatch (entriesListUpdateFunc (or_empty xs) @ tornjakMessageFunc (Message tx))))
       (\<lambda>e. do_dispatch (entriesListUpdateFunc (Val []) @
              tornjakMessageFunc (retrieving serverName
                (err_string e @ (case err_response e of None \<Rightarrow> [] | Some (d, _) \<Rightarrow> CHR '':'' # d)))) @
            [toast_error e ''Could not populate entries.''])"

section \<open>Deletions\<close>

text \<open>
  What an async deletion resolves to. In local mode: the response body, or the error object,
  which the function catches and returns. An exception of the local list's \<open>filter\<close> (a list
  that is not there) is caught as well.
\<close>

datatype 'd local_result = Body 'd | ErrorReturned axios_error

definition local_delete ::
  "app_env \<Rightarrow> ('a list jsval \<Rightarrow> action list) \<Rightarrow> ('a \<Rightarrow> bool) \<Rightarrow> 'a list jsval \<Rightarrow> 'd outcome
    \<Rightarrow> api_effect list \<times> 'd local_result"
where
  "local_delete env update keep xs out =
     (case out of
        Rejected e \<Rightarrow> ([], ErrorReturned e)
      | Resolved _ _ d \<Rightarrow>
          (case xs of
             Val ys \<Rightarrow> (do_dispatch (update (Val (filter keep ys))), Body d)
           | _ \<Rightarrow> ([], ErrorReturned (thrown env))))"

definition localClusterDelete :: "app_env \<Rightarrow> string \<Rightarrow> api_effect list" where
  "localClusterDelete env name =
     [Request DELETE (api_uri env tornjakClustersApi) (ClusterBody name)]"

definition localClusterDelete_done ::
  "app_env \<Rightarrow> string \<Rightarrow> ClustersList list jsval \<Rightarrow> 'd outcome \<Rightarrow> api_effect list \<times> 'd local_result"
where
  "localClusterDelete_done env name =
     local_delete env clustersListUpdateFunc (\<lambda>el. cluster_name el \<noteq> name)"

definition localEntryDelete :: "app_env \<Rightarrow> string list \<Rightarrow> api_effect list" where
  "localEntryDelete env ids = [Request DELETE (api_uri env spireEntriesApi) (IdsBody ids)]"

definition localEntryDelete_done ::
  "app_env \<Rightarrow> string list \<Rightarrow> EntriesList list jsval \<Rightarrow> 'd outcome \<Rightarrow> api_effect list \<times> 'd local_result"
where
  "localEntryDelete_done env ids =
     local_delete env entriesListUpdateFunc (\<lambda>el. entry_id el \<notin> set ids)"

text \<open>
  In manager mode the filter compares a name with the whole request object,
  \<open>el.name !== inputData\<close>; a string (or \<open>undefined\<close>, for an entry) is never identical to an object.
\<close>

datatype js_operand = JsString string | JsUndefined | JsObject

fun strict_eq_object :: "js_operand \<Rightarrow> bool" where
  "strict_eq_object (JsString s) = False"
| "strict_eq_object JsUndefined = False"
| "strict_eq_object JsObject = True"

text \<open>
  The callback already returns \<open>response.data\<close> (or the error's message), and the function reads
  \<open>.data\<close> of that once more. \<open>fulfilled\<close> holds the final value; a body that is \<open>undefined\<close> or
  \<open>null\<close> makes the second read throw and the promise reject.
\<close>

datatype reply = Reply_text string | Reply_object "string option"

datatype manager_result = Fulfilled "string option" | RejectedPromise

fun reply_data :: "reply jsval \<Rightarrow> manager_result" where
  "reply_data (Val (Reply_text s)) = Fulfilled None"
| "reply_data (Val (Reply_object d)) = Fulfilled d"
| "reply_data Undefined = RejectedPromise"
| "reply_data Null = RejectedPromise"

definition manager_delete ::
  "app_env \<Rightarrow> ('a list jsval \<Rightarrow> action list) \<Rightarrow> ('a \<Rightarrow> js_operand) \<Rightarrow> 'a list jsval \<Rightarrow> reply jsval outcome
    \<Rightarrow> api_effect list \<times> manager_result"
where
  "manager_delete env update name_of xs out =
     (case out of
        Rejected e \<Rightarrow> ([], reply_data (Val (Reply_text (err_message e))))
      | Resolved _ _ d \<Rightarrow>
          (case xs of
             Val ys \<Rightarrow>
               (do_dispatch (update (Val (filter (\<lambda>el. \<not> strict_eq_object (name_of el)) ys))),
                reply_data d)
           | _ \<Rightarrow> ([], reply_data (Val (Reply_text (err_message (thrown env)))))))"

definition entryDelete :: "app_env \<Rightarrow> string \<Rightarrow> string list \<Rightarrow> api_effect list" where
  "entryDelete env serverName ids =
     [Request POST (GetApiServerUri env ''/manager-api/tornjak/entry/delete/'' @ serverName) (IdsBody ids)]"

text \<open>An entry has no field \<open>name\<close>.\<close>

definition entryDelete_done ::
  "app_env \<Rightarrow> EntriesList list jsval \<Rightarrow> reply jsval outcome \<Rightarrow> api_effect list \<times> manager_result"
where
  "entryDelete_done env = manager_delete env entriesListUpdateFunc (\<lambda>el. JsUndefined)"

definition clusterDelete :: "app_env \<Rightarrow> string \<Rightarrow> string \<Rightarrow> api_effect list" where
  "clusterDelete env serverName name =
     [Request POST (GetApiServerUri env ''/manager-api/tornjak/clusters/delete/'' @ serverName) (ClusterBody name)]"

definition clusterDelete_done ::
  "app_env \<Rightarrow> ClustersList list jsval \<Rightarrow> reply jsval outcome \<Rightarrow> api_effect list \<times> manager_result"
where
  "clusterDelete_done env =
     manager_delete env clustersListUpdateFunc (\<lambda>el. JsString (cluster_name el))"

definition serverDelete :: "app_env \<Rightarrow> string \<Rightarrow> api_effect list" where
  "serverDelete env name =
     [Request POST (GetApiServerUri env ''/manager-api/server/delete/'') (ServerBody name)]"

definition serverDelete_done ::
  "app_env \<Rightarrow> ServersList list jsval \<Rightarrow> reply jsval outcome \<Rightarrow> api_effect list \<times> manager_result"
where
  "serverDelete_done env =
     manager_delete env serversListUpdateFunc (\<lambda>el. JsString (server_name el))"

section \<open>What the callbacks dispatch\<close>

lemmas list_done_defs =
  populateLocalEntriesUpdate_done_def populateLocalAgentsUpdate_done_def
  populateLocalFederationsUpdate_done_def populateAgentsUpdate_done_def
  populateEntriesUpdate_done_def

lemmas cluster_done_defs = populateLocalClustersUpdate_done_def populateClustersUpdate_done_def

lemma dispatched_then_catch:
  "dispatched (then_catch env f g out) =
     (case out of
        Rejected e \<Rightarrow> dispatched (g e)
      | Resolved st tx d \<Rightarrow>
          dispatched (fst (f st tx d)) @ (if snd (f st tx d) then dispatched (g (thrown env)) else []))"
  by (cases out) (simp_all)

lemma manager_delete_keeps:
  assumes "\<And>el. el \<in> set ys \<Longrightarrow> name_of el \<noteq> JsObject"
  shows "fst (manager_delete env update name_of (Val ys) (Resolved st tx d)) =
      do_dispatch (update (Val ys))"
proof -
  have "filter (\<lambda>el. \<not> strict_eq_object (name_of el)) ys = ys"
    by (rule filter_ident) (use assms strict_eq_object.elims(2) in blast)
  then show ?thesis by (simp add: manager_delete_def)
qed

lemma manager_delete_text:
  "d = Val (Reply_text m) \<Longrightarrow> snd (manager_delete env update name_of xs (Resolved st tx d)) = Fulfilled None"
  by (simp add: manager_delete_def split: jsval.splits)

end
