(* ===== verification/DetailsPage.thy ===== *)
theory DetailsPage
  imports Dashboard JsUri ApiLists
begin

text \<open>
  The dashboard's pages (components/dashboard): selecting a row of a table, the link to the details
  page (tornjak-helper.tsx), the page's own reading of that link, the filters it passes to its
  tables, what each page shows, and the loading of the lists. None as a result of a URL function is
  a text outside the model (theory JsUri).
\<close>

section \<open>The link\<close>

definition details_base :: string where
  "details_base = ''/tornjak/dashboard/details/''"

definition detailsLink :: "string \<Rightarrow> string \<Rightarrow> string \<Rightarrow> string option" where
  "detailsLink selectedRows entity search =
     (if length selectedRows \<noteq> 0 then
        map_option (\<lambda>ps. details_base @ toLowerCase entity @ ''?'' @
            params_toString (params_set ''id'' (encodeURIComponent selectedRows) ps))
          (URLSearchParams search)
      else Some [])"

text \<open>The id a details page is about: empty without a parameter.\<close>

definition details_id :: "string \<Rightarrow> string option" where
  "details_id search =
     (case URLSearchParams search of
        None \<Rightarrow> None
      | Some ps \<Rightarrow> (case params_get ''id'' ps of None \<Rightarrow> Some [] | Some v \<Rightarrow> decodeURIComponent v))"

lemma link_names_row:
  assumes "sel \<noteq> []" and "URLSearchParams search = Some ps"
  shows "\<exists>q. detailsLink sel entity search = Some (details_base @ toLowerCase entity @ q) \<and>
    details_id q = Some sel"
proof (intro exI conjI)
  let ?q = "''?'' @ params_toString (params_set ''id'' (encodeURIComponent sel) ps)"
  show "detailsLink sel entity search = Some (details_base @ toLowerCase entity @ ?q)"
    using assms by (simp add: detailsLink_def)
  show "details_id ?q = Some sel"
    by (simp only: details_id_def URLSearchParams_toString option.case params_get_set decode_encode)
qed

section \<open>The selected row's table (dashboard-table.tsx)\<close>

text \<open>\<open>selectedRows\<close> is the id of the last selected row; an empty selection leaves it.\<close>

definition select_rows :: "string list \<Rightarrow> string \<Rightarrow> string" where
  "select_rows newSelection selectedRows =
     (case newSelection of x # _ \<Rightarrow> if x \<noteq> [] then x else selectedRows | [] \<Rightarrow> selectedRows)"

definition click_title :: "string \<Rightarrow> 'b effect list" where
  "click_title title = do_dispatch (clickedDashboardTableFunc (toLowerCase title))"

definition click_details :: "string \<Rightarrow> string \<Rightarrow> 'b effect list" where
  "click_details title selectedRows =
     (if length selectedRows = 0 then [Alert ''Please Select a Row to See Details.'']
      else do_dispatch (clickedDashboardTableFunc (toLowerCase title @ ''details'')))"

section \<open>The data of a details page\<close>

datatype selected_data =
    NoData
  | ClusterData cluster_row
  | AgentData agent_row
  | EntryData entry_row

text \<open>Each loop goes on after a match, so the last match counts.\<close>

definition last_match ::
  "('a \<Rightarrow> bool) \<Rightarrow> ('a \<Rightarrow> selected_data throws) \<Rightarrow> 'a list jsval \<Rightarrow> selected_data throws"
where
  "last_match P f xs0 =
     with_val xs0 (foldl (\<lambda>acc x. bindE acc (\<lambda>d. if P x then f x else Inr d)) (Inr NoData))"

definition detailsDataParse ::
  "int \<Rightarrow> (jsnum \<Rightarrow> string) \<Rightarrow> string \<Rightarrow> string \<Rightarrow> RootState \<Rightarrow> selected_data throws option"
where
  "detailsDataParse now date_text entity search props =
     map_option (\<lambda>sid.
       let cs0 = globalClustersList (st_clusters props); as0 = globalAgentsList (st_agents props);
           es0 = globalEntriesList (st_entries props);
           infos = globalAgentsWorkLoadAttestorInfo (st_agents props)
       in if entity = ''clusters'' then
            last_match (\<lambda>c. cluster_name c = sid)
              (\<lambda>c. bindE (cluster_row_of es0 as0 c) (\<lambda>r. Inr (ClusterData r))) cs0
          else if entity = ''agents'' then
            last_match (\<lambda>a. getAgentSpiffeid (Some a) = sid)
              (\<lambda>a. bindE (agent_row_of now es0 infos a) (\<lambda>r. Inr (AgentData r))) as0
          else if entity = ''entries'' then
            last_match (\<lambda>e. entry_id e = sid)
              (\<lambda>e. with_val es0 (\<lambda>es. bindE (entry_row_of now date_text as0 infos es e)
                 (\<lambda>r. Inr (EntryData r)))) es0
          else Inr NoData)
       (details_id search)"

section \<open>The filters of a details page (dashboard-details.js)\<close>

record details_key =
  agentsFilter :: "string option"
  entriesFilter :: "string option"
  clustersFilter :: "string option"

definition no_key :: details_key where
  "no_key = \<lparr>agentsFilter = None, entriesFilter = None, clustersFilter = None\<rparr>"

text \<open>Reading a property the selected data does not have gives \<open>undefined\<close>.\<close>

fun data_name :: "selected_data \<Rightarrow> string option" where
  "data_name (ClusterData r) = Some (cr_name r)"
| "data_name _ = None"

fun data_parentId :: "selected_data \<Rightarrow> string option" where
  "data_parentId (EntryData r) = Some (er_parentId r)"
| "data_parentId _ = None"

fun data_clusterName :: "selected_data \<Rightarrow> string option" where
  "data_clusterName (EntryData r) = Some (er_clusterName r)"
| "data_clusterName (AgentData r) = Some (ar_clusterName r)"
| "data_clusterName _ = None"

fun data_spiffeid :: "selected_data \<Rightarrow> string option" where
  "data_spiffeid (EntryData r) = Some (er_spiffeid r)"
| "data_spiffeid (AgentData r) = Some (ar_spiffeid r)"
| "data_spiffeid _ = None"

definition selectedDataKey :: "string \<Rightarrow> selected_data \<Rightarrow> details_key" where
  "selectedDataKey clicked d =
     (if clicked = ''clustersdetails'' then
        no_key\<lparr>agentsFilter := data_name d, entriesFilter := data_name d\<rparr>
      else if clicked = ''entriesdetails'' then
        no_key\<lparr>agentsFilter := data_parentId d, clustersFilter := data_clusterName d\<rparr>
      else if clicked = ''agentsdetails'' then
        no_key\<lparr>clustersFilter := data_clusterName d, entriesFilter := data_spiffeid d\<rparr>
      else no_key)"

text \<open>The tables of the page with their filters, by the clicked table; none without data.\<close>

datatype dash_table =
    ClustersTable "string option"
  | AgentsTable dash_filter
  | EntriesTable dash_filter

definition cluster_details :: "details_key \<Rightarrow> dash_table list" where
  "cluster_details key =
     [AgentsTable \<lparr>filterByCluster = agentsFilter key, filterByAgentId = None\<rparr>,
      EntriesTable \<lparr>filterByCluster = entriesFilter key, filterByAgentId = None\<rparr>]"

definition agent_details :: "details_key \<Rightarrow> dash_table list" where
  "agent_details key =
     [ClustersTable (clustersFilter key),
      EntriesTable \<lparr>filterByCluster = None, filterByAgentId = entriesFilter key\<rparr>]"

definition entry_details :: "details_key \<Rightarrow> dash_table list" where
  "entry_details key =
     [ClustersTable (clustersFilter key),
      AgentsTable \<lparr>filterByCluster = None, filterByAgentId = agentsFilter key\<rparr>]"

definition whole_tables :: "string \<Rightarrow> details_key \<Rightarrow> dash_table list" where
  "whole_tables clicked key =
     (if clicked = ''clusters'' then [ClustersTable (clustersFilter key)]
      else if clicked = ''agents'' then
        [AgentsTable \<lparr>filterByCluster = agentsFilter key, filterByAgentId = agentsFilter key\<rparr>]
      else if clicked = ''entries'' then
        [EntriesTable \<lparr>filterByCluster = entriesFilter key, filterByAgentId = entriesFilter key\<rparr>]
      else [])"

definition details_tables :: "string \<Rightarrow> details_key \<Rightarrow> selected_data \<Rightarrow> dash_table list" where
  "details_tables clicked key d =
     (if d = NoData then []
      else if clicked = ''clustersdetails'' then cluster_details key
      else if clicked = ''agentsdetails'' then agent_details key
      else if clicked = ''entriesdetails'' then entry_details key
      else whole_tables clicked key)"

text \<open>
  The page keeps the filters in its state: they are worked out when it is made and when its data
  is another object, which \<open>detailsDataParse\<close> gives at every render of the component around it. A
  change of the clicked table alone renders it again with the filters it has.
\<close>

record DashboardDetails =
  dd_selectedDataKey :: details_key

definition details_constructor :: "string \<Rightarrow> selected_data \<Rightarrow> DashboardDetails" where
  "details_constructor clicked d = \<lparr>dd_selectedDataKey = selectedDataKey clicked d\<rparr>"

definition details_componentDidUpdate ::
  "bool \<Rightarrow> string \<Rightarrow> selected_data \<Rightarrow> DashboardDetails \<Rightarrow> DashboardDetails"
where
  "details_componentDidUpdate data_changed clicked d st =
     (if data_changed then st\<lparr>dd_selectedDataKey := selectedDataKey clicked d\<rparr> else st)"

text \<open>What is rendered before, and after, the update.\<close>

definition details_render :: "string \<Rightarrow> selected_data \<Rightarrow> DashboardDetails \<Rightarrow> dash_table list" where
  "details_render clicked d st = details_tables clicked (dd_selectedDataKey st) d"

datatype details_change = New_data selected_data | Click string

fun details_step :: "details_change \<Rightarrow> string \<times> selected_data \<times> DashboardDetails \<Rightarrow> string \<times> selected_data \<times> DashboardDetails" where
  "details_step (New_data d) (clicked, _, st) = (clicked, d, details_componentDidUpdate True clicked d st)"
| "details_step (Click c) (_, d, st) = (c, d, details_componentDidUpdate False c d st)"

section \<open>Loading and layout of the pages\<close>

text \<open>
  dashboard-details-render.js loads the lists when \<open>globalDebugServerInfo === ""\<close>. The reducers never
  store that text (its initial value is an object), so the comparison is an input. The component
  reads \<open>globalServerSelected\<close>, which its \<open>connect\<close> does not supply: it is undefined, so it differs from the
  empty text, and every URL built from it ends in \<open>undefined\<close>.
\<close>

definition details_mount ::
  "app_env \<Rightarrow> bool \<Rightarrow> string \<Rightarrow> RootState \<Rightarrow> api_effect list \<times> unit throws"
where
  "details_mount env debug_is_empty_text entity props =
     (let server = template None;
          clicked = do_dispatch (clickedDashboardTableFunc (entity @ ''details'')) in
      if debug_is_empty_text then
        (if IsManager env then
           (clicked @ populateClustersUpdate env server @ populateAgentsUpdate env server @
              populateEntriesUpdate env server @ refreshSelectorsState env server @
              populateTornjakAgentInfo env server (Input []) @ populateTornjakServerInfo env server, Inr ())
         else
           (let effs = clicked @ refreshLocalSelectorsState env @ populateLocalClustersUpdate env @
                  populateLocalAgentsUpdate env @ populateLocalEntriesUpdate env @
                  populateLocalTornjakAgentInfo env [] @ populateLocalTornjakServerInfo env
            in case populateServerInfo (globalTornjakServerInfo (st_servers props)) of
                 Inl err \<Rightarrow> (effs, Inl err) | Inr acts \<Rightarrow> (effs @ do_dispatch acts, Inr ())))
      else ([], Inr ()))"

text \<open>tornjak-dashboard.js. \<open>globalTornjakServerInfo !== ""\<close> holds of everything the store can hold.\<close>

definition agentSpiffeids :: "RootState \<Rightarrow> string list option throws" where
  "agentSpiffeids props =
     (case globalAgentsList (st_agents props) of
        Undefined \<Rightarrow> Inr None
      | Null \<Rightarrow> Inl TypeError
      | Val as \<Rightarrow> Inr (Some (map (\<lambda>a. getAgentSpiffeid (Some a)) as)))"

definition dashboard_manager_load :: "app_env \<Rightarrow> RootState \<Rightarrow> api_effect list \<times> unit throws" where
  "dashboard_manager_load env props =
     (let server = globalServerSelected (st_servers props);
          effs = populateAgentsUpdate env server @ populateEntriesUpdate env server @
            populateClustersUpdate env server
      in case agentSpiffeids props of
           Inl err \<Rightarrow> (effs, Inl err)
         | Inr ids \<Rightarrow> (effs @ populateTornjakAgentInfo env server (AgentIds ids), Inr ()))"

definition dashboard_mount :: "app_env \<Rightarrow> RootState \<Rightarrow> api_effect list \<times> unit throws" where
  "dashboard_mount env props =
     (if IsManager env then
        (if globalServerSelected (st_servers props) \<noteq> [] then dashboard_manager_load env props
         else ([], Inr ()))
      else
        (let effs = populateLocalAgentsUpdate env @ populateLocalEntriesUpdate env @
               populateLocalClustersUpdate env @ populateLocalTornjakAgentInfo env []
         in case populateServerInfo (globalTornjakServerInfo (st_servers props)) of
              Inl err \<Rightarrow> (effs, Inl err) | Inr acts \<Rightarrow> (effs @ do_dispatch acts, Inr ())))"

definition dashboard_update ::
  "app_env \<Rightarrow> bool \<Rightarrow> bool \<Rightarrow> RootState \<Rightarrow> api_effect list \<times> unit throws"
where
  "dashboard_update env server_changed debug_changed props =
     (if IsManager env then
        (if server_changed then dashboard_manager_load env props else ([], Inr ()))
      else if debug_changed then
        (let effs = populateLocalAgentsUpdate env @ populateLocalEntriesUpdate env
         in case populateServerInfo (globalTornjakServerInfo (st_servers props)) of
              Inl err \<Rightarrow> (effs, Inl err)
            | Inr acts \<Rightarrow> (effs @ do_dispatch acts @ populateLocalTornjakAgentInfo env [] @
                populateLocalClustersUpdate env, Inr ()))
      else ([], Inr ()))"

datatype dashboard_part = ClustersChart | AgentsChart | TablePart dash_table

abbreviation unfiltered :: dash_filter where
  "unfiltered \<equiv> \<lparr>filterByCluster = None, filterByAgentId = None\<rparr>"

definition dashboard_parts :: "string \<Rightarrow> dashboard_part list" where
  "dashboard_parts clicked =
     (if clicked = [] \<or> clicked = ''dashboard'' then
        [ClustersChart, AgentsChart, TablePart (ClustersTable None), TablePart (AgentsTable unfiltered),
         TablePart (EntriesTable unfiltered)]
      else if clicked = ''clusters'' then [TablePart (ClustersTable None)]
      else if clicked = ''agents'' then [TablePart (AgentsTable unfiltered)]
      else if clicked = ''entries'' then [TablePart (EntriesTable unfiltered)]
      else [])"

text \<open>dashboard-drawer.js: the tab of a path, and a click on a tab (the new tab, the address to go to).\<close>

definition drawer_tab :: "string \<Rightarrow> nat" where
  "drawer_tab p =
     (if str_includes p ''clusters'' then 1 else if str_includes p ''agents'' then 2
      else if str_includes p ''entries'' then 3 else 0)"

definition assignDashboardPath ::
  "string \<Rightarrow> nat \<Rightarrow> string \<Rightarrow> string \<Rightarrow> nat \<times> 'b effect list \<times> string option"
where
  "assignDashboardPath entity tabIndex href origin =
     (tabIndex, do_dispatch (clickedDashboardTableFunc entity),
      if href \<noteq> origin @ ''/tornjak/dashboard'' then Some ''/tornjak/dashboard'' else None)"

section \<open>A link opens the row it was made for\<close>

lemma last_match_eq:
  assumes "x \<in> set xs" and "\<And>y. y \<in> set xs \<Longrightarrow> P y \<longleftrightarrow> y = x" and "f x = Inr r"
  shows "last_match P f (Val xs) = Inr r"
proof -
  let ?g = "\<lambda>acc x. bindE acc (\<lambda>d. if P x then f x else Inr d)"
  have "foldl ?g acc ys = (if x \<in> set ys then Inr r else acc)"
    if "set ys \<subseteq> set xs" and "\<exists>d. acc = Inr d" for ys acc
    using that
  proof (induction ys arbitrary: acc)
    case Nil
    then show ?case by simp
  next
    case (Cons y ys)
    obtain d where d: "acc = Inr d" using Cons.prems(2) by blast
    have y: "P y \<longleftrightarrow> y = x" using Cons.prems(1) assms(2) by auto
    have IH: "foldl ?g acc' ys = (if x \<in> set ys then Inr r else acc')" if "\<exists>d. acc' = Inr d" for acc'
      using Cons.IH Cons.prems(1) that by simp
    show ?case
    proof (cases "y = x")
      case True
      then show ?thesis using IH [of "Inr r"] y assms(3) d by auto
    next
      case False
      then show ?thesis using IH [of acc] y d by auto
    qed
  qed
  then show ?thesis using assms(1) by (auto simp: last_match_def)
qed

lemma mapE_member: "mapE f xs = Inr ys \<Longrightarrow> y \<in> set ys \<Longrightarrow> \<exists>x \<in> set xs. f x = Inr y"
  by (induction xs arbitrary: ys) (auto elim!: bindE_InrE)

lemma agent_row_id: "getDashboardAgentMetaData now a es infos = Inr r \<Longrightarrow> ar_id r = getAgentSpiffeid (Some a) \<and>
    ar_spiffeid r = getAgentSpiffeid (Some a) \<and> numberEntriesOfAgent a es = Inr (ar_numEntries r)"
  by (auto simp: getDashboardAgentMetaData_def Let_def elim!: bindE_InrE)

lemma cluster_row_name: "cluster_row_of es0 as0 c = Inr r \<Longrightarrow> cr_id r = cluster_name c"
  by (cases as0; cases es0)
    (auto simp: cluster_row_of_def getClusterMetadata_def elim!: bindE_InrE split: if_splits)

lemma unique_key: "distinct (map k xs) \<Longrightarrow> x \<in> set xs \<Longrightarrow> y \<in> set xs \<Longrightarrow> k y = k x \<longleftrightarrow> y = x"
  by (auto simp: distinct_map inj_on_def)

definition opens ::
  "int \<Rightarrow> (jsnum \<Rightarrow> string) \<Rightarrow> RootState \<Rightarrow> string \<Rightarrow> string \<Rightarrow> string \<Rightarrow> selected_data \<Rightarrow> bool"
where
  "opens now date_text props search title sid d \<longleftrightarrow>
     (\<exists>q. detailsLink sid title search = Some (details_base @ toLowerCase title @ q) \<and>
        detailsDataParse now date_text (toLowerCase title) q props = Some (Inr d))"

lemma opensI:
  assumes "sid \<noteq> []" and "URLSearchParams search = Some ps"
    and "\<And>q. details_id q = Some sid \<Longrightarrow>
      detailsDataParse now date_text (toLowerCase title) q props = Some (Inr d)"
  shows "opens now date_text props search title sid d"
  using link_names_row [OF assms(1,2), of title] assms(3) unfolding opens_def by blast

lemma titles:
  "toLowerCase ''Agents'' = ''agents''" "toLowerCase ''Entries'' = ''entries''"
  "toLowerCase ''Clusters'' = ''clusters''"
  by code_simp+

lemma opens_agent:
  assumes "sid \<noteq> []" and "URLSearchParams search = Some ps"
    and "globalAgentsList (st_agents props) = Val as"
    and "distinct (map (\<lambda>a. getAgentSpiffeid (Some a)) as)" and "a \<in> set as"
    and "getAgentSpiffeid (Some a) = sid"
    and "agent_row_of now (globalEntriesList (st_entries props))
      (globalAgentsWorkLoadAttestorInfo (st_agents props)) a = Inr r"
  shows "opens now date_text props search ''Agents'' sid (AgentData r)"
proof (rule opensI [OF assms(1,2)])
  fix q
  assume q: "details_id q = Some sid"
  have "last_match (\<lambda>a. getAgentSpiffeid (Some a) = sid)
      (\<lambda>a. bindE (agent_row_of now (globalEntriesList (st_entries props))
        (globalAgentsWorkLoadAttestorInfo (st_agents props)) a) (\<lambda>r. Inr (AgentData r))) (Val as) = Inr (AgentData r)"
    by (rule last_match_eq [OF assms(5)])
       (use unique_key [OF assms(4,5)] assms(6,7) in \<open>auto simp del: agent_row_of_def\<close>)
  then show "detailsDataParse now date_text (toLowerCase ''Agents'') q props = Some (Inr (AgentData r))"
    unfolding titles detailsDataParse_def q by (simp add: assms(3) del: agent_row_of_def)
qed

lemma opens_entry:
  assumes "entry_id e \<noteq> []" and "URLSearchParams search = Some ps"
    and "globalEntriesList (st_entries props) = Val es" and "distinct (map entry_id es)" and "e \<in> set es"
    and "entry_row_of now date_text (globalAgentsList (st_agents props))
      (globalAgentsWorkLoadAttestorInfo (st_agents props)) es e = Inr r"
  shows "opens now date_text props search ''Entries'' (entry_id e) (EntryData r)"
proof (rule opensI [OF assms(1,2)])
  fix q
  assume q: "details_id q = Some (entry_id e)"
  have "last_match (\<lambda>x. entry_id x = entry_id e)
      (\<lambda>e. bindE (entry_row_of now date_text (globalAgentsList (st_agents props))
        (globalAgentsWorkLoadAttestorInfo (st_agents props)) es e) (\<lambda>r. Inr (EntryData r))) (Val es) =
      Inr (EntryData r)"
    by (rule last_match_eq [OF assms(5)])
       (use unique_key [OF assms(4,5)] assms(6) in \<open>auto simp del: entry_row_of_def\<close>)
  then show "detailsDataParse now date_text (toLowerCase ''Entries'') q props = Some (Inr (EntryData r))"
    unfolding titles detailsDataParse_def q by (simp add: assms(3) del: entry_row_of_def)
qed

lemma opens_cluster:
  assumes "cluster_name c \<noteq> []" and "URLSearchParams search = Some ps"
    and "globalClustersList (st_clusters props) = Val cs" and "distinct (map cluster_name cs)" and "c \<in> set cs"
    and "cluster_row_of (globalEntriesList (st_entries props)) (globalAgentsList (st_agents props)) c = Inr r"
  shows "opens now date_text props search ''Clusters'' (cluster_name c) (ClusterData r)"
proof (rule opensI [OF assms(1,2)])
  fix q
  assume q: "details_id q = Some (cluster_name c)"
  have "last_match (\<lambda>x. cluster_name x = cluster_name c)
      (\<lambda>c. bindE (cluster_row_of (globalEntriesList (st_entries props)) (globalAgentsList (st_agents props)) c)
        (\<lambda>r. Inr (ClusterData r))) (Val cs) = Inr (ClusterData r)"
    by (rule last_match_eq [OF assms(5)]) (use unique_key [OF assms(4,5)] assms(6) in auto)
  then show "detailsDataParse now date_text (toLowerCase ''Clusters'') q props = Some (Inr (ClusterData r))"
    unfolding titles detailsDataParse_def q by (simp add: assms(3))
qed

text \<open>C31. The details link of every row of the three dashboard tables leads to that row: whatever query
  the page has, the id, encoded into the link's query and read back by the details page, selects
  the same agent, entry or cluster, and the page computes the row the table shows, when agents,
  entries and clusters have distinct keys.\<close>

theorem details_link_opens_row:
  assumes "URLSearchParams search = Some ps"
    and "globalAgentsList (st_agents props) = Val as" "globalEntriesList (st_entries props) = Val es"
      "globalClustersList (st_clusters props) = Val cs"
    and "distinct (map (\<lambda>a. getAgentSpiffeid (Some a)) as)" "distinct (map entry_id es)"
      "distinct (map cluster_name cs)"
    and "dash_agentList now unfiltered props = Inr arows"
      "dash_entryList now date_text unfiltered props = Inr erows"
      "dash_clusterList unfiltered props = Inr crows"
  shows "(\<forall>r \<in> set arows. ar_id r \<noteq> [] \<longrightarrow>
      opens now date_text props search ''Agents'' (ar_id r) (AgentData r)) \<and>
    (\<forall>r \<in> set erows. er_id r \<noteq> [] \<longrightarrow>
      opens now date_text props search ''Entries'' (er_id r) (EntryData r)) \<and>
    (\<forall>r \<in> set crows. cr_id r \<noteq> [] \<longrightarrow>
      opens now date_text props search ''Clusters'' (cr_id r) (ClusterData r))"
proof (intro conjI)
  show "\<forall>r \<in> set arows. ar_id r \<noteq> [] \<longrightarrow>
      opens now date_text props search ''Agents'' (ar_id r) (AgentData r)"
  proof (intro ballI impI)
    fix r
    assume r: "r \<in> set arows" "ar_id r \<noteq> []"
    obtain a where a: "a \<in> set as" "getDashboardAgentMetaData now a es
        (globalAgentsWorkLoadAttestorInfo (st_agents props)) = Inr r"
      using assms(8) r(1) by (auto simp: dash_agentList_def assms(2,3) bindE_Inr_id dest!: mapE_member)
    show "opens now date_text props search ''Agents'' (ar_id r) (AgentData r)"
      by (rule opens_agent [OF r(2) assms(1,2,5) a(1)]) (use a(2) agent_row_id assms(3) in simp_all)
  qed
  show "\<forall>r \<in> set erows. er_id r \<noteq> [] \<longrightarrow>
      opens now date_text props search ''Entries'' (er_id r) (EntryData r)"
  proof (intro ballI impI)
    fix r
    assume r: "r \<in> set erows" "er_id r \<noteq> []"
    obtain e where e: "e \<in> set es" "workloadEntry now date_text e
        (globalAgentsWorkLoadAttestorInfo (st_agents props)) as es = Inr r"
      using assms(9) r(1) by (auto simp: dash_entryList_def assms(2,3) bindE_Inr_id dest!: mapE_member)
    have "er_id r = entry_id e" using workload_ids(1) [OF e(2)] .
    then show "opens now date_text props search ''Entries'' (er_id r) (EntryData r)"
      using opens_entry [of e, OF _ assms(1,3,6) e(1)] r(2) e(2) assms(2) by simp
  qed
  show "\<forall>r \<in> set crows. cr_id r \<noteq> [] \<longrightarrow>
      opens now date_text props search ''Clusters'' (cr_id r) (ClusterData r)"
  proof (intro ballI impI)
    fix r
    assume r: "r \<in> set crows" "cr_id r \<noteq> []"
    obtain c where c: "c \<in> set cs" "cluster_row_of (globalEntriesList (st_entries props))
        (globalAgentsList (st_agents props)) c = Inr r"
      using assms(10) r(1) by (auto simp: dash_clusterList_def assms(4) bindE_Inr_id dest!: mapE_member)
    have "cr_id r = cluster_name c" using cluster_row_name [OF c(2)] .
    then show "opens now date_text props search ''Clusters'' (cr_id r) (ClusterData r)"
      using opens_cluster [of c, OF _ assms(1,4,7) c] r(2) by simp
  qed
qed

definition page_props :: RootState where
  "page_props = dash_props\<lparr>st_clusters := (st_clusters dash_props)\<lparr>globalClustersList :=
     Val [\<lparr>cluster_name = ''c'', editedName = [], creationTime = ''t'', domainName = [], managedBy = [],
       platformType = [], agentsList = [''spiffe://td/a1'']\<rparr>]\<rparr>\<rparr>"

lemma page_lists:
  "globalAgentsList (st_agents page_props) = Val [agent1, agent2]"
  "globalEntriesList (st_entries page_props) = Val [node1, work1]"
  "globalAgentsWorkLoadAttestorInfo (st_agents page_props) = Val []"
  "store_with [agent1, agent2] [node1, work1] [] page_props"
  using dash_props_store by (simp_all add: page_props_def store_with_def)

lemma details_link_opens_row_witness:
  "\<exists>arows. arows \<noteq> [] \<and> dash_agentList 0 unfiltered page_props = Inr arows \<and>
     (\<forall>r \<in> set arows. ar_id r \<noteq> [] \<longrightarrow>
        opens 0 (\<lambda>_. []) page_props [] ''Agents'' (ar_id r) (AgentData r))"
proof -
  obtain cl where cs: "globalClustersList (st_clusters page_props) = Val [cl]" by (simp add: page_props_def)
  note total = tables_total [OF page_lists(4) dash_tidy cs]
  obtain arows where a: "dash_agentList 0 unfiltered page_props = Inr arows" using total(1) by blast
  obtain erows where e: "dash_entryList 0 (\<lambda>_. []) unfiltered page_props = Inr erows" using total(2) by blast
  obtain crows where c: "dash_clusterList unfiltered page_props = Inr crows" using total(3) by blast
  have "arows \<noteq> []"
    using a by (auto simp: dash_agentList_def page_lists elim!: bindE_InrE)
  have "distinct (map entry_id [node1, work1])" by (simp add: js_unfold)
  with \<open>arows \<noteq> []\<close> have "arows \<noteq> [] \<and> (\<forall>r \<in> set arows. ar_id r \<noteq> [] \<longrightarrow>
        opens 0 (\<lambda>_. []) page_props [] ''Agents'' (ar_id r) (AgentData r))"
    using details_link_opens_row [OF _ page_lists(1,2) cs dash_ids _ _ a e c, of "[]" "[]"]
    by (simp add: URLSearchParams_def startsWith_def)
  then show ?thesis using a by blast
qed

text \<open>C8. The details page of an agent is consistent in a tidy store: opened through the link of the
  agent's row, it shows that agent, a table of its cluster, and a table of entries with exactly
  as many rows as the number of entries it displays, those whose parent is the agent or one of
  its node entries.\<close>

theorem details_page_consistent:
  assumes "store_with as es infos props" and "tidy as es" and "a \<in> set as"
    and "getAgentSpiffeid (Some a) \<noteq> []" and "URLSearchParams search = Some ps"
  shows "\<exists>q r flt rows.
    detailsLink (getAgentSpiffeid (Some a)) ''Agents'' search = Some (details_base @ ''agents'' @ q) \<and>
    detailsDataParse now date_text ''agents'' q props = Some (Inr (AgentData r)) \<and>
    ar_spiffeid r = getAgentSpiffeid (Some a) \<and>
    details_tables ''agentsdetails'' (selectedDataKey ''agentsdetails'' (AgentData r)) (AgentData r) =
      [ClustersTable (Some (ar_clusterName r)), EntriesTable flt] \<and>
    dash_entryList now date_text flt props = Inr rows \<and> ar_numEntries r = length rows \<and>
    map er_id rows = map entry_id (filter (\<lambda>e. parent_text e \<in> own_ids a es) es)"
proof -
  note lists = assms(1)[unfolded store_with_def]
  obtain r where r: "getDashboardAgentMetaData now a es (Val infos) = Inr r"
    using agent_row_total [OF assms(2)] by blast
  have "opens now date_text props search ''Agents'' (getAgentSpiffeid (Some a)) (AgentData r)"
    by (rule opens_agent [OF assms(4,5) _ tidyD(1) [OF assms(2)] assms(3) refl]) (use lists r in simp_all)
  then obtain q where q: "detailsLink (getAgentSpiffeid (Some a)) ''Agents'' search =
      Some (details_base @ ''agents'' @ q)"
    "detailsDataParse now date_text ''agents'' q props = Some (Inr (AgentData r))"
    unfolding opens_def titles by blast
  obtain rows where rows: "dash_entryList now date_text
      \<lparr>filterByCluster = None, filterByAgentId = Some (getAgentSpiffeid (Some a))\<rparr> props = Inr rows"
    "map er_id rows = map entry_id (filter (\<lambda>e. parent_text e \<in> own_ids a es) es)"
    "numberEntriesOfAgent a es = Inr (length rows)"
    using details_rows [OF assms(1-3)] by blast
  show ?thesis
    using q rows agent_row_id [OF r] by (simp add: details_tables_def agent_details_def selectedDataKey_def no_key_def)
qed

lemma details_page_consistent_witness:
  "\<exists>q r flt rows.
    detailsLink (getAgentSpiffeid (Some agent1)) ''Agents'' ''?id=x'' = Some (details_base @ ''agents'' @ q) \<and>
    detailsDataParse 0 (\<lambda>_. []) ''agents'' q page_props = Some (Inr (AgentData r)) \<and>
    ar_spiffeid r = getAgentSpiffeid (Some agent1) \<and>
    details_tables ''agentsdetails'' (selectedDataKey ''agentsdetails'' (AgentData r)) (AgentData r) =
      [ClustersTable (Some (ar_clusterName r)), EntriesTable flt] \<and>
    dash_entryList 0 (\<lambda>_. []) flt page_props = Inr rows \<and> ar_numEntries r = length rows \<and>
    map er_id rows = map entry_id (filter (\<lambda>e. parent_text e \<in> own_ids agent1 [node1, work1]) [node1, work1])"
proof (rule details_page_consistent [OF page_lists(4) dash_tidy])
  show "agent1 \<in> set [agent1, agent2]" by simp
  show "getAgentSpiffeid (Some agent1) \<noteq> []"
    by (simp add: js_unfold getAgentSpiffeid_def render_id_def checkSpiffeidValidity_def)
  show "URLSearchParams ''?id=x'' = Some [(''id'', ''x'')]" by code_simp
qed

end
