(* ===== verification/EntryExpiry.thy ===== *)
theory EntryExpiry
  imports ApiLists
begin

text \<open>
  components/entry-expiry-features.tsx: the expiry field of the entry form. The component keeps
  its own copy of the expiry and writes it to the store after every update of its own; the entry
  form posts the store's value. The package moment is a parameter: \<open>moment d t\<close> is the time of the
  parsed date (NaN when it is not one) and \<open>mo.isValid()\<close>.
\<close>

section \<open>State and handlers\<close>

text \<open>In seconds.\<close>

definition JSMaxSafeTime :: rat where
  "JSMaxSafeTime = 8640000000000"

record EntryExpiryState =
  ex_expiresAt :: jsnum
  ex_expiryOption :: string
  ex_expiryOptionList :: "string list"
  ex_expiryDate :: string
  ex_expiryTime :: string
  ex_expiryUnsafe :: bool
  ex_expiryInvalid :: bool

definition expiry_initial :: EntryExpiryState where
  "expiry_initial =
     \<lparr>ex_expiresAt = Fin 0, ex_expiryOption = ''None'',
      ex_expiryOptionList = [''None'', ''Seconds Since Epoch'', ''Date/Time''],
      ex_expiryDate = ''1/1/2021'', ex_expiryTime = ''00:00'', ex_expiryUnsafe = False,
      ex_expiryInvalid = False\<rparr>"

definition onChangeExpiryOption :: "string \<Rightarrow> EntryExpiryState \<Rightarrow> EntryExpiryState" where
  "onChangeExpiryOption item st =
     st\<lparr>ex_expiresAt := Fin 0, ex_expiryOption := item, ex_expiryUnsafe := False,
        ex_expiryInvalid := False\<rparr>"

definition isValidExpiryTime :: "jsnum \<Rightarrow> bool" where
  "isValidExpiryTime seconds \<longleftrightarrow> num_lt (Fin 0) seconds \<and> num_le seconds (Fin JSMaxSafeTime)"

definition expiryTimeUpdate :: "jsnum \<Rightarrow> EntryExpiryState \<Rightarrow> EntryExpiryState" where
  "expiryTimeUpdate seconds st =
     st\<lparr>ex_expiresAt := seconds, ex_expiryUnsafe := \<not> isValidExpiryTime seconds\<rparr>"

definition onChangeExpiresAtSeconds :: "string \<Rightarrow> EntryExpiryState \<Rightarrow> EntryExpiryState" where
  "onChangeExpiresAtSeconds value st = expiryTimeUpdate (Number value) st"

type_synonym moment = "string \<Rightarrow> jsnum \<times> bool"

definition isValidDate :: "jsnum \<Rightarrow> bool" where
  "isValidDate t \<longleftrightarrow> \<not> isNaN t"

definition updateValidDateAndTime ::
  "moment \<Rightarrow> string \<Rightarrow> string \<Rightarrow> EntryExpiryState \<Rightarrow> EntryExpiryState"
where
  "updateValidDateAndTime moment d t st =
     (let (testTime, isValid) = moment (d @ '' '' @ t);
          st1 = st\<lparr>ex_expiryDate := d, ex_expiryTime := t\<rparr>
      in if isValidDate testTime \<and> isValid
         then expiryTimeUpdate (math_floor (times_pos testTime (1 / 1000))) (st1\<lparr>ex_expiryInvalid := False\<rparr>)
         else st1\<lparr>ex_expiryInvalid := True\<rparr>)"

definition onChangeExpiresAtDate :: "moment \<Rightarrow> string \<Rightarrow> EntryExpiryState \<Rightarrow> EntryExpiryState" where
  "onChangeExpiresAtDate moment value st =
     updateValidDateAndTime moment value (ex_expiryTime st) st"

definition onChangeExpiresAtTime :: "moment \<Rightarrow> string \<Rightarrow> EntryExpiryState \<Rightarrow> EntryExpiryState" where
  "onChangeExpiresAtTime moment value st =
     updateValidDateAndTime moment (ex_expiryDate st) value st"

text \<open>What the component shows: the warnings, by option.\<close>

record expiry_view =
  shows_seconds_field :: bool
  shows_date_fields :: bool
  warns :: bool
  warns_seconds :: bool
  warns_date_past :: bool
  warns_date_format :: bool

definition expiry_render :: "EntryExpiryState \<Rightarrow> expiry_view" where
  "expiry_render st =
     (let opt = ex_expiryOption st; w = ex_expiryUnsafe st \<or> ex_expiryInvalid st in
      \<lparr>shows_seconds_field = (opt \<noteq> ''None'' \<and> opt = ''Seconds Since Epoch''),
       shows_date_fields = (opt \<noteq> ''None'' \<and> opt = ''Date/Time''),
       warns = w,
       warns_seconds = (w \<and> opt = ''Seconds Since Epoch'' \<and> ex_expiryUnsafe st),
       warns_date_past = (w \<and> opt = ''Date/Time'' \<and> ex_expiryUnsafe st),
       warns_date_format = (w \<and> opt = ''Date/Time'' \<and> ex_expiryInvalid st)\<rparr>)"

section \<open>The component beside the store\<close>

text \<open>
  An event updates the state, and \<open>componentDidUpdate\<close> then dispatches the expiry. Mounting makes
  a fresh state and dispatches nothing.
\<close>

datatype expiry_event = ChooseOption string | TypeSeconds string | TypeDate string | TypeTime string

fun expiry_handler :: "moment \<Rightarrow> expiry_event \<Rightarrow> EntryExpiryState \<Rightarrow> EntryExpiryState" where
  "expiry_handler moment (ChooseOption i) = onChangeExpiryOption i"
| "expiry_handler moment (TypeSeconds v) = onChangeExpiresAtSeconds v"
| "expiry_handler moment (TypeDate v) = onChangeExpiresAtDate moment v"
| "expiry_handler moment (TypeTime v) = onChangeExpiresAtTime moment v"

definition expiry_componentDidUpdate :: "EntryExpiryState \<Rightarrow> action list" where
  "expiry_componentDidUpdate st = entryExpiryUpdateFunc (ex_expiresAt st)"

inductive expiry_step ::
  "moment \<Rightarrow> EntryExpiryState \<times> RootState \<Rightarrow> EntryExpiryState \<times> RootState \<Rightarrow> bool" for moment
where
  handle: "st' = expiry_handler moment e st \<Longrightarrow>
    expiry_step moment (st, rs) (st', dispatches rs (expiry_componentDidUpdate st'))"
| remount: "expiry_step moment (st, rs) (expiry_initial, rs)"

inductive_cases expiry_stepE: "expiry_step moment (st, rs) (st', rs')"

inductive expiry_reach :: "moment \<Rightarrow> RootState \<Rightarrow> EntryExpiryState \<times> RootState \<Rightarrow> bool" for moment rs0
where
  start: "expiry_reach moment rs0 (expiry_initial, rs0)"
| next_step: "expiry_reach moment rs0 c \<Longrightarrow> expiry_step moment c c' \<Longrightarrow> expiry_reach moment rs0 c'"

definition stored_expiry :: "RootState \<Rightarrow> jsnum" where
  "stored_expiry rs = globalEntryExpiryTime (st_entries rs)"

lemma stored_after_update:
  "stored_expiry (dispatches rs (expiry_componentDidUpdate st)) = ex_expiresAt st"
  using globalEntryExpiryTime_cell.get_dispatches_last [of "[]" rs "[]" "ex_expiresAt st"]
  by (simp add: stored_expiry_def expiry_componentDidUpdate_def entryExpiryUpdateFunc_def)

text \<open>An expiry that is not flagged as unsafe is one the back end can represent, or none.\<close>

definition expiry_ok :: "EntryExpiryState \<Rightarrow> bool" where
  "expiry_ok st \<longleftrightarrow>
     (ex_expiresAt st = Fin 0 \<and> \<not> ex_expiryUnsafe st) \<or>
     ex_expiryUnsafe st = (\<not> isValidExpiryTime (ex_expiresAt st))"

lemma update_ok [simp]: "expiry_ok (expiryTimeUpdate s st)"
  by (simp add: expiry_ok_def expiryTimeUpdate_def)






text \<open>A remounted expiry field shows no expiry, but the store keeps the expiry chosen before, so the
  form can post a time the field does not show: from any store a state is reachable in which the
  field is freshly initialised and the stored expiry is any given number of seconds.\<close>

lemma stale_expiry_reachable:
  "\<exists>rs. expiry_reach moment rs0 (expiry_initial, rs) \<and> stored_expiry rs = num (int n)"
proof -
  let ?st = "expiry_handler moment (TypeSeconds (nat_toString n)) expiry_initial"
  let ?rs = "dispatches rs0 (expiry_componentDidUpdate ?st)"
  have "expiry_reach moment rs0 (?st, ?rs)"
    by (rule next_step [OF start]) (rule handle [OF refl])
  then have "expiry_reach moment rs0 (expiry_initial, ?rs)"
    by (rule next_step) (rule remount)
  moreover have "stored_expiry ?rs = num (int n)"
    by (simp add: stored_after_update onChangeExpiresAtSeconds_def expiryTimeUpdate_def
        Number_nat_toString)
  ultimately show ?thesis by blast
qed

end
