(* ===== verification/EntryCreate.thy ===== *)
theory EntryCreate
  imports SpiffeId EntryExpiry
begin

text \<open>
  components/entry-create.tsx: the form for one new entry and the button that creates the
  entries of an uploaded file. The state's fields carry the prefix \<open>ec_\<close>. The props are the
  store (\<open>mapStateToProps\<close>). A method that can throw returns a sum; the texts JSON.stringify makes
  for the notification are parameters.
\<close>

section \<open>State\<close>

record CreateEntryState =
  ec_name :: string
  ec_spiffeId :: string
  ec_spiffeIdTrustDomain :: string
  ec_spiffeIdPath :: string
  ec_parentId :: string
  ec_parentIdTrustDomain :: string
  ec_parentIdPath :: string
  ec_selectors :: string
  ec_selectorsRecommendationList :: string
  ec_adminFlag :: bool
  ec_jwt_svid_ttl :: jsnum
  ec_x509_svid_ttl :: jsnum
  ec_expiresAt :: jsnum
  ec_dnsNames :: string
  ec_federatesWith :: string
  ec_downstream :: bool
  ec_message :: string
  ec_statusOK :: string
  ec_successNumEntries :: "int \<times> int"
  ec_successJsonMessege :: "string option"
  ec_selectedServer :: string
  ec_agentsIdList :: "string list"
  ec_agentsIdList_noManualOption :: "string list"
  ec_spiffeIdPrefix :: string
  ec_parentIdManualEntryOption :: string
  ec_parentIDManualEntry :: bool
  ec_selectorsList :: "SelectorLabels list option"
  ec_selectorsListDisplay :: string

definition manual_option :: string where
  "manual_option = ''----Select this option and Enter Custom Parent ID Below----''"

definition entry_create_initial :: CreateEntryState where
  "entry_create_initial =
     \<lparr>ec_name = [], ec_spiffeId = [], ec_spiffeIdTrustDomain = [], ec_spiffeIdPath = [],
      ec_parentId = [], ec_parentIdTrustDomain = [], ec_parentIdPath = [], ec_selectors = [],
      ec_selectorsRecommendationList = [], ec_adminFlag = False, ec_jwt_svid_ttl = Fin 0,
      ec_x509_svid_ttl = Fin 0, ec_expiresAt = Fin 0, ec_dnsNames = [], ec_federatesWith = [],
      ec_downstream = False, ec_message = [], ec_statusOK = [], ec_successNumEntries = (0, 0),
      ec_successJsonMessege = Some [], ec_selectedServer = [], ec_agentsIdList = [],
      ec_agentsIdList_noManualOption = [], ec_spiffeIdPrefix = [],
      ec_parentIdManualEntryOption = manual_option, ec_parentIDManualEntry = False,
      ec_selectorsList = Some [], ec_selectorsListDisplay = ''Select Selectors''\<rparr>"

section \<open>Mounting\<close>

text \<open>\<open>globalErrorMessage === "OK" || globalErrorMessage === ""\<close>.\<close>

definition message_fine :: "tornjak_message \<Rightarrow> bool" where
  "message_fine msg \<longleftrightarrow> msg = Message ''OK'' \<or> msg = Message []"

text \<open>
  The effects so far are done also when a later call throws, so the result is the list of
  effects beside the sum. \<open>fresh\<close> is the address of the new empty array.
\<close>

definition entry_create_mount ::
  "app_env \<Rightarrow> RootState \<Rightarrow> array_ref \<Rightarrow> CreateEntryState \<Rightarrow> api_effect list \<times> CreateEntryState throws"
where
  "entry_create_mount env props fresh st =
     (let server = globalServerSelected (st_servers props) in
      if IsManager env then
        (if server \<noteq> [] \<and> message_fine (globalErrorMessage (st_tornjak props))
         then (populateAgentsUpdate env server @ populateEntriesUpdate env server @
                 refreshSelectorsState env server,
               Inr (st\<lparr>ec_selectedServer := server\<rparr>))
         else ([], Inr st))
      else
        (let effs = populateLocalAgentsUpdate env @ populateLocalEntriesUpdate env @
               populateLocalTornjakServerInfo env
         in case populateServerInfo (globalTornjakServerInfo (st_servers props)) of
              Inl err \<Rightarrow> (effs, Inl err)
            | Inr acts \<Rightarrow>
                (effs @ do_dispatch acts @ do_dispatch (newEntriesUpdateFunc (Some fresh)), Inr st)))"

section \<open>The parent ids offered\<close>

definition no_keys :: "DebugServerInfo \<Rightarrow> bool" where
  "no_keys d \<longleftrightarrow> svid_chain d = None \<and> uptime d = None \<and> federated_bundles_count d = None"

text \<open>The ids of one agent: its own, then those of its entries under its key in the dictionary.\<close>

definition agent_parent_ids :: "entries_dict \<Rightarrow> AgentsList \<Rightarrow> string list throws" where
  "agent_parent_ids dict a =
     (let agentSpiffeid = getAgentSpiffeid (Some a) in
      case dict agentSpiffeid of
        None \<Rightarrow> Inr [agentSpiffeid]
      | Some agentEntries \<Rightarrow>
          bindE (mapE (\<lambda>e. getEntrySpiffeid (Some e)) agentEntries)
            (\<lambda>ids. Inr (agentSpiffeid # ids)))"

definition prepareParentIdAgentsList :: "RootState \<Rightarrow> CreateEntryState \<Rightarrow> CreateEntryState throws" where
  "prepareParentIdAgentsList props st =
     (case globalDebugServerInfo (st_servers props) of
        Undefined \<Rightarrow> Inl TypeError
      | Null \<Rightarrow> Inl TypeError
      | Val info \<Rightarrow>
          if no_keys info then Inr st
          else
            (let agents0 = globalAgentsList (st_agents props);
                 server = ''spiffe://'' @ trustDomain (globalServerInfo (st_servers props)) @ ''/spire/server''
             in bindE (getAgentsEntries agents0 (globalEntriesList (st_entries props))) (\<lambda>dict0.
                case agents0 of
                  Undefined \<Rightarrow> Inr st
                | Null \<Rightarrow> Inl TypeError
                | Val as \<Rightarrow>
                    if dict0 = None \<and> as \<noteq> [] then Inr st
                    else bindE (mapE (agent_parent_ids (the dict0)) as) (\<lambda>idss.
                      let ids = ec_parentIdManualEntryOption st # server # concat idss in
                      Inr (st\<lparr>ec_agentsIdList := ids,
                              ec_agentsIdList_noManualOption := tl ids\<rparr>)))))"

section \<open>The selectors offered\<close>

text \<open>The agent whose plugin decides: the parent itself, or the canonical agent of the entry that has this id.\<close>

definition selector_agent ::
  "AgentsList list \<Rightarrow> EntriesList list jsval \<Rightarrow> string \<Rightarrow> string throws"
where
  "selector_agent as entries0 parentId =
     (if parentId \<in> set (map (\<lambda>a. getAgentSpiffeid (Some a)) as) then Inr parentId
      else case entries0 of
        Val es \<Rightarrow>
          bindE (filterE (\<lambda>e. bindE (getEntrySpiffeid (Some e)) (\<lambda>i. Inr (i = parentId))) es) (\<lambda>fEntries.
            case fEntries of
              [] \<Rightarrow> Inr parentId
            | e # _ \<Rightarrow>
                (let canonicalAgentId = getCanonicalAgentSpiffeid e as in
                 Inr (if canonicalAgentId \<noteq> [] then canonicalAgentId else parentId)))
      | _ \<Rightarrow> Inl TypeError)"

text \<open>One step of the loop over the workload attestor infos; the flag is \<open>agentSelectorSet\<close>.\<close>

definition plugin_step ::
  "WorkloadSelectorInfoLabels \<Rightarrow> string \<Rightarrow> CreateEntryState \<times> bool \<Rightarrow> AgentsWorkLoadAttestorInfo
     \<Rightarrow> CreateEntryState \<times> bool"
where
  "plugin_step tbl agentId s info =
     (if agentId = info_spiffeid info then
        (let plugin = info_plugin info in
         (if plugin = ''Docker'' then (fst s)\<lparr>ec_selectorsList := index_labels tbl ''Docker''\<rparr>
          else if plugin = ''Kubernetes'' then (fst s)\<lparr>ec_selectorsList := index_labels tbl ''Kubernetes''\<rparr>
          else if plugin = ''Unix'' then (fst s)\<lparr>ec_selectorsList := index_labels tbl ''Unix''\<rparr>
          else fst s, True))
      else s)"

definition server_selectors :: "RootState \<Rightarrow> CreateEntryState \<Rightarrow> CreateEntryState" where
  "server_selectors props st =
     (let serverNodeAtt = nodeAttestorPlugin (globalServerInfo (st_servers props));
          tbl = globalSelectorInfo (st_servers props) in
      if serverNodeAtt = ''aws_iid'' then st\<lparr>ec_selectorsList := index_labels tbl ''aws_iid''\<rparr>
      else if serverNodeAtt = ''gcp_iit'' then st\<lparr>ec_selectorsList := index_labels tbl ''gcp_iit''\<rparr>
      else if serverNodeAtt = ''k8s_psat'' then st\<lparr>ec_selectorsList := index_labels tbl ''k8s_psat''\<rparr>
      else st)"

definition agent_selectors_list ::
  "RootState \<Rightarrow> string \<Rightarrow> CreateEntryState \<Rightarrow> CreateEntryState throws"
where
  "agent_selectors_list props agentId st =
     (case globalAgentsWorkLoadAttestorInfo (st_agents props) of
        Val infos \<Rightarrow>
          (let (st', found) =
                 foldl (plugin_step (globalWorkloadSelectorInfo (st_servers props)) agentId) (st, False) infos
           in Inr (if found then st'
              else st'\<lparr>ec_selectorsList := Some [], ec_selectorsListDisplay := ''Select Selectors''\<rparr>))
      | _ \<Rightarrow> Inl TypeError)"

definition prepareSelectorsList :: "RootState \<Rightarrow> CreateEntryState \<Rightarrow> CreateEntryState throws" where
  "prepareSelectorsList props st =
     (let info0 = globalDebugServerInfo (st_servers props);
          agents0 = globalAgentsList (st_agents props);
          entries0 = globalEntriesList (st_entries props);
          parentId = ec_parentId st
      in if info0 = Undefined \<or> agents0 = Undefined \<or> entries0 = Undefined then Inr st
         else case info0 of
           Val info \<Rightarrow>
             (case svid_chain info of
                Some (svid # _) \<Rightarrow>
                  (let defaultServer =
                         ''spiffe://'' @ template (trust_domain (svid_id svid)) @ ''/spire/server''
                   in if parentId = defaultServer then
                        (if no_keys info then Inr st else Inr (server_selectors props st))
                      else if parentId \<noteq> [] then
                        (case agents0 of
                           Val as \<Rightarrow>
                             bindE (selector_agent as entries0 parentId)
                               (\<lambda>agentId. agent_selectors_list props agentId st)
                         | _ \<Rightarrow> Inl TypeError)
                      else Inr st)
              | _ \<Rightarrow> Inl TypeError)
         | _ \<Rightarrow> Inl TypeError)"

text \<open>
  \<open>componentDidUpdate\<close>: both branches of its \<open>if (IsManager)\<close> are the same but for the selected
  server. The store's objects are compared by identity, so the changes are inputs.
\<close>

record prop_changes =
  server_changed :: bool
  debug_changed :: bool
  agents_changed :: bool
  entries_changed :: bool

definition when_lists :: "RootState \<Rightarrow> CreateEntryState \<Rightarrow> CreateEntryState throws" where
  "when_lists props st =
     (if globalAgentsList (st_agents props) \<noteq> Undefined \<and> globalEntriesList (st_entries props) \<noteq> Undefined
      then prepareParentIdAgentsList props st else Inr st)"

definition entry_create_update ::
  "app_env \<Rightarrow> prop_changes \<Rightarrow> RootState \<Rightarrow> string \<Rightarrow> CreateEntryState \<Rightarrow> CreateEntryState throws"
where
  "entry_create_update env ch props prevParentId st0 =
     (let st1 = (if IsManager env \<and> server_changed ch
                 then st0\<lparr>ec_selectedServer := globalServerSelected (st_servers props)\<rparr> else st0)
      in bindE (if debug_changed ch
                then bindE (when_lists props st1) (prepareSelectorsList props) else Inr st1) (\<lambda>st2.
         bindE (if agents_changed ch \<or> entries_changed ch
                then bindE (when_lists props st2) (prepareSelectorsList props) else Inr st2) (\<lambda>st3.
         if prevParentId \<noteq> ec_parentId st0 then prepareSelectorsList props st3 else Inr st3)))"

end
