(* ===== verification/EntrySubmit.thy ===== *)
theory EntrySubmit
  imports EntryCreate
begin

text \<open>
  components/entry-create.tsx, continued: the handlers of the form's fields, the submission of
  one entry and the creation of uploaded entries, with what is posted.
\<close>

section \<open>Fields\<close>

definition onChangex509Ttl :: "string \<Rightarrow> CreateEntryState \<Rightarrow> CreateEntryState" where
  "onChangex509Ttl value st = st\<lparr>ec_x509_svid_ttl := Number value\<rparr>"

definition onChangeJwtTtl :: "string \<Rightarrow> CreateEntryState \<Rightarrow> CreateEntryState" where
  "onChangeJwtTtl value st = st\<lparr>ec_jwt_svid_ttl := Number value\<rparr>"

definition onChangeExpiresAt :: "string \<Rightarrow> CreateEntryState \<Rightarrow> CreateEntryState" where
  "onChangeExpiresAt value st = st\<lparr>ec_expiresAt := Number value\<rparr>"

definition onChangeDownStream :: "bool \<Rightarrow> CreateEntryState \<Rightarrow> CreateEntryState" where
  "onChangeDownStream selected st = st\<lparr>ec_downstream := selected\<rparr>"

definition onChangeDnsNames :: "string option \<Rightarrow> CreateEntryState \<Rightarrow> CreateEntryState" where
  "onChangeDnsNames e st = (case e of None \<Rightarrow> st | Some value \<Rightarrow> st\<lparr>ec_dnsNames := value\<rparr>)"

definition onChangeFederatesWith :: "string option \<Rightarrow> CreateEntryState \<Rightarrow> CreateEntryState" where
  "onChangeFederatesWith e st = (case e of None \<Rightarrow> st | Some value \<Rightarrow> st\<lparr>ec_federatesWith := value\<rparr>)"

text \<open>The loop over the selected labels: \<open>:\<close> after each, newlines (commas for the display) between.\<close>

fun recommended_loop :: "StringLabels list \<Rightarrow> string \<times> string \<Rightarrow> string \<times> string" where
  "recommended_loop [] acc = acc"
| "recommended_loop [l] (sels, display) = (sels @ label l @ '':'', display @ label l)"
| "recommended_loop (l # ls) (sels, display) =
     recommended_loop ls (sels @ label l @ '':'' @ [CHR 0x0A], display @ label l @ '','')"

definition onChangeSelectorsRecommended ::
  "StringLabels list option \<Rightarrow> CreateEntryState \<Rightarrow> CreateEntryState"
where
  "onChangeSelectorsRecommended selected st =
     (case selected of
        None \<Rightarrow> st
      | Some sid \<Rightarrow>
          (let (sels, display) = recommended_loop sid ([], []) in
           st\<lparr>ec_selectorsRecommendationList := sels,
              ec_selectorsListDisplay := if length display = 0 then ''Select Selectors'' else display\<rparr>))"

definition onChangeSelectors :: "string \<Rightarrow> CreateEntryState \<Rightarrow> CreateEntryState" where
  "onChangeSelectors value st = st\<lparr>ec_selectors := replace_all (CHR 0x0A) (CHR '','') value\<rparr>"

definition onChangeAdminFlag :: "bool \<Rightarrow> CreateEntryState \<Rightarrow> CreateEntryState" where
  "onChangeAdminFlag selected st = st\<lparr>ec_adminFlag := selected\<rparr>"

definition onChangeSpiffeId :: "string \<Rightarrow> CreateEntryState \<Rightarrow> CreateEntryState" where
  "onChangeSpiffeId sid st =
     (if length sid = 0 then
        st\<lparr>ec_spiffeId := sid, ec_spiffeIdTrustDomain := [], ec_spiffeIdPath := [], ec_message := []\<rparr>
      else case parseSpiffeId sid of (validSpiffeId, td, p) \<Rightarrow>
        if validSpiffeId then
          st\<lparr>ec_message := [], ec_spiffeId := sid, ec_spiffeIdTrustDomain := td, ec_spiffeIdPath := p\<rparr>
        else
          st\<lparr>ec_spiffeId := sid, ec_message := ''Invalid Spiffe ID'', ec_spiffeIdTrustDomain := [],
             ec_spiffeIdPath := []\<rparr>)"

text \<open>The text field puts the prefix of the parent's trust domain before what is typed.\<close>

definition spiffeId_typed :: "string \<Rightarrow> CreateEntryState \<Rightarrow> CreateEntryState" where
  "spiffeId_typed inp st =
     onChangeSpiffeId (ec_spiffeIdPrefix st @ substr inp (length (ec_spiffeIdPrefix st))) st"

definition parent_parsed :: "string \<Rightarrow> CreateEntryState \<Rightarrow> CreateEntryState" where
  "parent_parsed sid st =
     (case parseSpiffeId sid of (validSpiffeId, td, p) \<Rightarrow>
        if validSpiffeId then
          st\<lparr>ec_message := [], ec_parentId := sid, ec_parentIdTrustDomain := td,
             ec_parentIdPath := p, ec_spiffeIdPrefix := ''spiffe://'' @ td @ ''/''\<rparr>
        else
          st\<lparr>ec_parentId := sid, ec_message := ''Invalid Parent ID'', ec_parentIdTrustDomain := [],
             ec_parentIdPath := []\<rparr>)"

definition onChangeParentId :: "string \<Rightarrow> CreateEntryState \<Rightarrow> CreateEntryState" where
  "onChangeParentId sid st =
     (if length sid = 0 then
        st\<lparr>ec_parentId := sid, ec_parentIdTrustDomain := [], ec_parentIdPath := [], ec_message := []\<rparr>
      else if sid = ec_parentIdManualEntryOption st then
        st\<lparr>ec_parentIDManualEntry := True, ec_spiffeIdPrefix := [], ec_parentId := sid\<rparr>
      else parent_parsed sid (st\<lparr>ec_parentIDManualEntry := False\<rparr>))"

definition onChangeManualParentId :: "string \<Rightarrow> CreateEntryState \<Rightarrow> CreateEntryState" where
  "onChangeManualParentId sid st =
     (if length sid = 0 then
        st\<lparr>ec_parentId := sid, ec_parentIdTrustDomain := [], ec_parentIdPath := [], ec_message := []\<rparr>
      else parent_parsed sid st)"

section \<open>Submission\<close>

text \<open>What is posted for one entry (\<open>cjtData.entries[0]\<close>), and for an uploaded file.\<close>

record new_entry =
  new_spiffe_id :: "string \<times> string"
  new_parent_id :: "string \<times> string"
  new_selectors :: "Selector list"
  new_admin :: bool
  new_x509_svid_ttl :: jsnum
  new_jwt_svid_ttl :: jsnum
  new_expires_at :: jsnum
  new_downstream :: bool
  new_federates_with :: "string list"
  new_dns_names :: "string list"

datatype entry_body = OneEntry new_entry | UploadedEntries "EntriesList list"

text \<open>The endpoint, and the toast when a manager has no server selected.\<close>

definition getApiEntryCreateEndpoint ::
  "app_env \<Rightarrow> CreateEntryState \<Rightarrow> entry_body effect list \<times> string"
where
  "getApiEntryCreateEndpoint env st =
     (if \<not> IsManager env then ([], api_uri env spireEntriesApi)
      else if ec_selectedServer st \<noteq> [] then
        ([], GetApiServerUri env ''/manager-api/entry/create'' @ ''/'' @ ec_selectedServer st)
      else ([Toast (showToast ''No server selected.'')], []))"

definition trimmed_parts :: "string \<Rightarrow> string list" where
  "trimmed_parts s = (if length s \<noteq> 0 then map trim (split_on (CHR '','') s) else [])"

definition cjtData :: "RootState \<Rightarrow> CreateEntryState \<Rightarrow> Selector list \<Rightarrow> new_entry" where
  "cjtData props st selectorEntries =
     \<lparr>new_spiffe_id = (ec_spiffeIdTrustDomain st, ec_spiffeIdPath st),
      new_parent_id = (ec_parentIdTrustDomain st, ec_parentIdPath st),
      new_selectors = selectorEntries,
      new_admin = ec_adminFlag st,
      new_x509_svid_ttl = ec_x509_svid_ttl st,
      new_jwt_svid_ttl = ec_jwt_svid_ttl st,
      new_expires_at = globalEntryExpiryTime (st_entries props),
      new_downstream = ec_downstream st,
      new_federates_with = trimmed_parts (ec_federatesWith st),
      new_dns_names = trimmed_parts (ec_dnsNames st)\<rparr>"

text \<open>\<open>x == null || x["value"].length === 0\<close>.\<close>

fun bad_selector :: "Selector option \<Rightarrow> bool" where
  "bad_selector None = True"
| "bad_selector (Some s) = (length (selector_value s) = 0)"

abbreviation complain :: "string \<Rightarrow> 'b effect list" where
  "complain cap \<equiv> [Toast (showToast cap)]"

definition entry_onSubmit :: "app_env \<Rightarrow> RootState \<Rightarrow> CreateEntryState \<Rightarrow> entry_body effect list" where
  "entry_onSubmit env props st =
     (if ec_parentId st = [] then complain ''The parent SPIFFE id cannot be empty.''
      else if ec_spiffeId st = [] then complain ''The SPIFFE id cannot be empty.''
      else if \<not> fst (parseSpiffeId (ec_parentId st)) then complain ''The parent SPIFFE id is invalid.''
      else if \<not> fst (parseSpiffeId (ec_spiffeId st)) then complain ''The SPIFFE id is invalid.''
      else
        (let selectorStrings = trimmed_parts (ec_selectors st) in
         if length selectorStrings = 0 then complain ''The selectors cannot be empty.''
         else
           (let selectorEntries = map parse_selector selectorStrings in
            if list_ex bad_selector selectorEntries
            then complain (''The selectors must be formatted '' @ [CHR 0x27] @ ''type:value'' @ [CHR 0x27] @ ''.'')
            else
              (let (effs, endpoint) = getApiEntryCreateEndpoint env st in
               if endpoint = [] then effs
               else effs @ [Request POST endpoint (OneEntry (cjtData props st (map the selectorEntries)))]))))"

text \<open>
  The reply: per entry a status message. \<open>results\<close> that are missing or empty make the callback
  throw, so the toast of a failure follows.
\<close>

type_synonym create_reply = "string option list jsval jsval"

definition entry_onSubmit_done ::
  "app_env \<Rightarrow> (new_entry \<Rightarrow> string) \<Rightarrow> (create_reply \<Rightarrow> string) \<Rightarrow> new_entry \<Rightarrow> create_reply outcome
     \<Rightarrow> CreateEntryState \<Rightarrow> CreateEntryState \<times> entry_body effect list"
where
  "entry_onSubmit_done env json_req json_rep req out st =
     (case out of
        Rejected e \<Rightarrow> (st, [toast_error e ''Could not create entry.''])
      | Resolved _ _ d \<Rightarrow>
          (case d of
             Val (Val (m # ms)) \<Rightarrow>
               (st\<lparr>ec_message := ''Request:'' @ json_req req @ [CHR 0x0A, CHR 0x0A] @ ''Success:'' @ json_rep d,
                   ec_statusOK := ''OK'', ec_successJsonMessege := m\<rparr>, [ScrollTop])
           | _ \<Rightarrow> (st, [toast_error (thrown env) ''Could not create entry.''])))"

section \<open>Uploaded entries\<close>

text \<open>\<open>arrays\<close> is the heap of entry arrays when the request is made.\<close>

definition onYAMLEntryCreate ::
  "app_env \<Rightarrow> RootState \<Rightarrow> (array_ref \<Rightarrow> EntriesList list) \<Rightarrow> CreateEntryState \<Rightarrow> entry_body effect list"
where
  "onYAMLEntryCreate env props arrays st =
     (case globalNewEntries (st_entries props) of
        None \<Rightarrow> []
      | Some ref \<Rightarrow>
          (let (effs, endpoint) = getApiEntryCreateEndpoint env st in
           if endpoint = [] then effs
           else effs @ [Request POST endpoint (UploadedEntries (arrays ref))]))"

text \<open>\<open>entries.entries.length\<close> is read when the reply arrives, from the same array.\<close>

definition onYAMLEntryCreate_done ::
  "app_env \<Rightarrow> (EntriesList list \<Rightarrow> string) \<Rightarrow> (create_reply \<Rightarrow> string) \<Rightarrow> array_ref
     \<Rightarrow> (array_ref \<Rightarrow> EntriesList list) \<Rightarrow> create_reply outcome \<Rightarrow> CreateEntryState
     \<Rightarrow> CreateEntryState \<times> entry_body effect list"
where
  "onYAMLEntryCreate_done env json_req json_rep ref arrays out st =
     (case out of
        Rejected e \<Rightarrow> (st, [toast_error e ''Could not create entry from YAML.''])
      | Resolved _ _ d \<Rightarrow>
          (case d of
             Val (Val results) \<Rightarrow>
               (let sucessEntriesCount = int (length (filter (\<lambda>m. m = Some ''OK'') results)) in
                (st\<lparr>ec_message := ''REQUEST:'' @ json_req (arrays ref) @ [CHR 0x0A, CHR 0x0A] @ ''RESPONSE:'' @ json_rep d,
                    ec_successNumEntries := (sucessEntriesCount, int (length (arrays ref)) - sucessEntriesCount),
                    ec_statusOK := ''Multiple''\<rparr>, [ScrollTop]))
           | _ \<Rightarrow> (st, [toast_error (thrown env) ''Could not create entry from YAML.''])))"

text \<open>What the notification and the two buttons show.\<close>

record entry_create_view =
  notification :: bool
  created_count :: "int option"
  failed_count :: "int option"
  entry_created :: bool
  creation_failed :: bool
  create_entries_enabled :: bool
  manual_field :: bool

definition entry_create_render ::
  "RootState \<Rightarrow> (array_ref \<Rightarrow> EntriesList list) \<Rightarrow> CreateEntryState \<Rightarrow> entry_create_view throws"
where
  "entry_create_render props arrays st =
     (case globalNewEntries (st_entries props) of
        None \<Rightarrow> Inl TypeError
      | Some ref \<Rightarrow>
          (let shown = ec_message st \<noteq> []; multiple = shown \<and> ec_statusOK st = ''Multiple'' in
           Inr \<lparr>notification = shown,
             created_count = (if multiple then Some (fst (ec_successNumEntries st)) else None),
             failed_count = (if multiple \<and> snd (ec_successNumEntries st) \<noteq> 0
               then Some (snd (ec_successNumEntries st)) else None),
             entry_created = (shown \<and> ec_statusOK st = ''OK'' \<and> ec_successJsonMessege st = Some ''OK''),
             creation_failed = (shown \<and> (ec_statusOK st = ''ERROR'' \<or>
               (ec_successJsonMessege st \<noteq> Some ''OK'' \<and> ec_successJsonMessege st \<noteq> Some []))),
             create_entries_enabled = (length (arrays ref) \<noteq> 0),
             manual_field = ec_parentIDManualEntry st\<rparr>))"

end
