(* ===== verification/EntryUpload.thy ===== *)
theory EntryUpload
  imports EntrySubmit
begin

text \<open>
  components/entry-create-json.tsx: uploading a JSON file of new entries, selecting one of them
  and editing it. The uploaded array is shared: the component keeps it in its state, the store
  holds it as \<open>globalNewEntries\<close>, the editor changes its elements in place, and the entry form
  posts what the store's reference reaches. So arrays live in a heap here, and the component, the
  heap and the store make one world.

  The state's fields carry the prefix \<open>up_\<close>. \<open>undefined\<close> is None. The file's JSON is taken to have
  the declared types where a field is present.
\<close>

section \<open>State\<close>

record CreateEntryJsonState =
  up_prefix :: string
  up_parseError :: bool
  up_isEntriesLoaded :: bool
  up_newEntriesIds :: "string option list"
  up_newEntrySelected :: EntriesList
  up_selectedEntryId :: int
  up_uploadedEntries :: array_ref
  up_yamlFormSpiffeId :: string
  up_spiffeIdTrustDomain :: "string option"
  up_spiffeIdPath :: "string option"
  up_spiffeId :: string
  up_parentIdTrustDomain :: "string option"
  up_parentIdPath :: "string option"
  up_parentId :: string
  up_selectorsList :: string
  up_jwt_svid_ttl :: "jsnum option"
  up_x509_svid_ttl :: "jsnum option"
  up_expiresAt :: "jsnum option"
  up_federatesWith :: string
  up_dnsNames :: string
  up_adminFlag :: "bool option"
  up_downstream :: "bool option"
  up_entrySelected :: bool
  up_spiffeIdPrefix :: string
  up_newEntriesLoaded :: bool
  up_newFileUploaded :: bool

definition blank_id :: SPIFFEID where
  "blank_id = \<lparr>trust_domain = Some [], path = Some []\<rparr>"

definition blank_entry :: EntriesList where
  "blank_entry =
     \<lparr>entry_id = [], spiffe_id = Some blank_id, parent_id = Some blank_id, entry_selectors = Some [],
      jwt_svid_ttl = Some (Fin 0), x509_svid_ttl = Some (Fin 0), federates_with = Some [],
      admin = Some False, downstream = Some False, expires_at = Some (Fin 0), dns_names = Some [],
      revision_number = Some (Fin 0), store_svid = Some False\<rparr>"

definition upload_initial :: "array_ref \<Rightarrow> CreateEntryJsonState" where
  "upload_initial fresh =
     \<lparr>up_prefix = ''spiffe://'', up_parseError = False, up_isEntriesLoaded = False,
      up_newEntriesIds = [], up_newEntrySelected = blank_entry, up_selectedEntryId = - 1,
      up_uploadedEntries = fresh, up_yamlFormSpiffeId = [], up_spiffeIdTrustDomain = Some [],
      up_spiffeIdPath = Some [], up_spiffeId = [], up_parentIdTrustDomain = Some [],
      up_parentIdPath = Some [], up_parentId = [], up_selectorsList = [],
      up_jwt_svid_ttl = Some (Fin 0), up_x509_svid_ttl = Some (Fin 0), up_expiresAt = Some (Fin 0),
      up_federatesWith = [], up_dnsNames = [], up_adminFlag = Some False,
      up_downstream = Some False, up_entrySelected = False, up_spiffeIdPrefix = [],
      up_newEntriesLoaded = False, up_newFileUploaded = False\<rparr>"

record upload_world =
  w_state :: CreateEntryJsonState
  w_arrays :: "array_ref \<Rightarrow> EntriesList list"
  w_next :: array_ref
  w_root :: RootState

abbreviation set_up :: "CreateEntryJsonState \<Rightarrow> upload_world \<Rightarrow> upload_world" where
  "set_up st w \<equiv> w\<lparr>w_state := st\<rparr>"

text \<open>Making a new array.\<close>

definition alloc :: "EntriesList list \<Rightarrow> upload_world \<Rightarrow> array_ref \<times> upload_world" where
  "alloc es w =
     (w_next w, w\<lparr>w_arrays := (w_arrays w)(w_next w := es), w_next := Suc (w_next w)\<rparr>)"

definition upload_componentDidUpdate :: "bool \<Rightarrow> upload_world \<Rightarrow> upload_world" where
  "upload_componentDidUpdate agents_list_changed w =
     (if agents_list_changed
      then w\<lparr>w_root := dispatches (w_root w) (newEntriesUpdateFunc (Some (up_uploadedEntries (w_state w))))\<rparr>
      else w)"

section \<open>Selecting an entry\<close>

text \<open>The text shown for an id with one part missing.\<close>

definition id_text :: "string \<Rightarrow> SPIFFEID \<Rightarrow> string" where
  "id_text pre i =
     (case (trust_domain i, path i) of
        (Some t, Some p) \<Rightarrow> pre @ t @ p
      | (Some t, None) \<Rightarrow> pre @ t
      | (None, Some p) \<Rightarrow> p
      | (None, None) \<Rightarrow> [])"

text \<open>
  \<open>confirmed\<close> is the answer of \<open>window.confirm\<close>, asked only while an entry is selected: OK keeps the
  selection. An index without an entry makes \<open>localNewEntry.spiffe_id\<close> throw.
\<close>

definition setSelectedEntriesIds ::
  "bool \<Rightarrow> (array_ref \<Rightarrow> EntriesList list) \<Rightarrow> nat \<Rightarrow> EntriesList option
     \<Rightarrow> CreateEntryJsonState \<Rightarrow> CreateEntryJsonState \<Rightarrow> CreateEntryJsonState throws"
where
  "setSelectedEntriesIds confirmed arrays i uploaded this_state pending =
     (if up_entrySelected this_state \<and> confirmed then Inr pending
      else
        (let old = arrays (up_uploadedEntries this_state);
             entry0 = (case uploaded of Some e \<Rightarrow> Some e
                       | None \<Rightarrow> if i < length old then Some (old ! i) else None);
             pre = up_prefix this_state
         in case entry0 of
              None \<Rightarrow> Inl TypeError
            | Some e \<Rightarrow>
                (let sid_td = (case spiffe_id e of None \<Rightarrow> Some [] | Some j \<Rightarrow> trust_domain j);
                     sid_path = (case spiffe_id e of None \<Rightarrow> Some [] | Some j \<Rightarrow> path j);
                     sid = (case spiffe_id e of None \<Rightarrow> [] | Some j \<Rightarrow> id_text pre j);
                     pid_td = (case parent_id e of None \<Rightarrow> Some [] | Some j \<Rightarrow> trust_domain j);
                     pid_path = (case parent_id e of None \<Rightarrow> Some [] | Some j \<Rightarrow> path j);
                     pid = (case parent_id e of None \<Rightarrow> [] | Some j \<Rightarrow> id_text pre j);
                     sels = (case entry_selectors e of None \<Rightarrow> []
                       | Some ss \<Rightarrow> join [] (map (\<lambda>x. formatSelectors x @ [CHR 0x0A]) ss));
                     feds = (case federates_with e of None \<Rightarrow> [] | Some fs \<Rightarrow> array_toString fs);
                     dnss = (case dns_names e of None \<Rightarrow> [] | Some ds \<Rightarrow> array_toString ds)
                 in Inr (pending
                   \<lparr>up_selectedEntryId := int i, up_newEntrySelected := e,
                    up_spiffeIdTrustDomain := sid_td, up_spiffeIdPath := sid_path, up_spiffeId := sid,
                    up_parentId := pid, up_parentIdTrustDomain := pid_td, up_parentIdPath := pid_path,
                    up_selectorsList := sels, up_x509_svid_ttl := x509_svid_ttl e,
                    up_jwt_svid_ttl := jwt_svid_ttl e, up_expiresAt := expires_at e,
                    up_federatesWith := feds, up_dnsNames := dnss, up_adminFlag := admin e,
                    up_downstream := downstream e, up_entrySelected := True,
                    up_spiffeIdPrefix := pre @ template sid_td\<rparr>))))"

section \<open>Uploading a file\<close>

text \<open>
  \<open>handleChange\<close> resets the notices at once; the rest runs when the file is read. \<open>this_state\<close> is
  the state before the callback, which every read in it sees: React batches its updates.
\<close>

definition upload_reset :: "CreateEntryJsonState \<Rightarrow> CreateEntryJsonState" where
  "upload_reset st =
     st\<lparr>up_parseError := False, up_isEntriesLoaded := True, up_newEntriesLoaded := False\<rparr>"

datatype file_text =
    NotText
  | Malformed
  | NullText
  | NoEntriesArray
  | EntriesArray "EntriesList list"

definition uploaded_id :: "EntriesList \<Rightarrow> string option throws" where
  "uploaded_id e =
     bindE (getEntrySpiffeid (Some e)) (\<lambda>sid.
       if sid = [] then (case spiffe_id e of None \<Rightarrow> Inl TypeError | Some j \<Rightarrow> Inr (path j))
       else Inr (Some sid))"

definition upload_failed :: "CreateEntryJsonState \<Rightarrow> CreateEntryJsonState" where
  "upload_failed st = st\<lparr>up_parseError := True, up_newFileUploaded := False\<rparr>"

definition parse_toast :: "'b effect list" where
  "parse_toast = [Toast (showToast ''Encountered a parse error. Is the JSON invalid?'')]"

definition upload_loaded ::
  "bool \<Rightarrow> file_text \<Rightarrow> upload_world \<Rightarrow> upload_world \<times> entry_body effect list"
where
  "upload_loaded confirmed parsed w =
     (let st = w_state w in
      case parsed of
        NotText \<Rightarrow> (w, [])
      | Malformed \<Rightarrow> (set_up (upload_failed st) w, parse_toast)
      | NullText \<Rightarrow> (set_up (upload_failed st) w, parse_toast)
      | NoEntriesArray \<Rightarrow>
          (set_up (upload_failed st) w,
           [Toast (showToast (''Invalid JSON file. '' @ [CHR 0x27] @ ''entries'' @ [CHR 0x27] @
              '' field not found or not an array.''))])
      | EntriesArray es \<Rightarrow>
          (let (ref, w1) = alloc es w;
               w2 = w1\<lparr>w_root := dispatches (w_root w1) (newEntriesUpdateFunc (Some ref))\<rparr>
           in case mapE uploaded_id es of
                Inl err \<Rightarrow> (set_up (upload_failed st) w2, parse_toast)
              | Inr ids \<Rightarrow>
                  (let pending = st\<lparr>up_parseError := False, up_newEntriesIds := ids,
                         up_uploadedEntries := ref, up_newEntriesLoaded := True\<rparr>;
                       first = (case es of [] \<Rightarrow> None | e # _ \<Rightarrow> Some e)
                   in case setSelectedEntriesIds confirmed (w_arrays w2) 0 first st pending of
                        Inl err \<Rightarrow> (set_up (upload_failed pending) w2, parse_toast)
                      | Inr st' \<Rightarrow> (set_up st' w2, []))))"

text \<open>Clearing the file: the state forgets the array, the store keeps its reference.\<close>

definition upload_onDelete :: "upload_world \<Rightarrow> upload_world" where
  "upload_onDelete w =
     (let (ref, w1) = alloc [] w in
      set_up ((w_state w1)\<lparr>up_parseError := False, up_isEntriesLoaded := False,
        up_newEntriesIds := [], up_uploadedEntries := ref, up_newEntriesLoaded := False,
        up_entrySelected := False, up_selectedEntryId := - 1\<rparr>) w1)"

text \<open>Clicking an entry of the list.\<close>

definition select_entry :: "bool \<Rightarrow> nat \<Rightarrow> upload_world \<Rightarrow> upload_world throws" where
  "select_entry confirmed i w =
     bindE (setSelectedEntriesIds confirmed (w_arrays w) i None (w_state w) (w_state w))
       (\<lambda>st'. Inr (set_up st' w))"

section \<open>Applying an edit\<close>

definition missing :: "string option \<Rightarrow> bool" where
  "missing v \<longleftrightarrow> v = None \<or> v = Some []"

definition edit_selectors :: "string \<Rightarrow> Selector list" where
  "edit_selectors txt0 =
     (let selectorStrings =
            (if length txt0 \<noteq> 0 then map trim (split_on (CHR 0x0A) txt0) else [])
      in map (\<lambda>x. case parse_selector x of Some s \<Rightarrow> s
                | None \<Rightarrow> \<lparr>selector_type = [], selector_value = []\<rparr>)
           (filter (\<lambda>x. x \<noteq> []) selectorStrings))"

definition keep_or :: "'a option \<Rightarrow> 'a option \<Rightarrow> 'a option" where
  [js_unfold]: "keep_or new old = (case new of None \<Rightarrow> old | Some v \<Rightarrow> Some v)"

text \<open>The assignments to \<open>entriesToUpload[selectedEntryId]\<close>, in one update.\<close>

definition edited_entry :: "CreateEntryJsonState \<Rightarrow> EntriesList \<Rightarrow> EntriesList" where
  "edited_entry st e =
     e\<lparr>spiffe_id := Some \<lparr>trust_domain = up_spiffeIdTrustDomain st, path = up_spiffeIdPath st\<rparr>,
       parent_id := Some \<lparr>trust_domain = up_parentIdTrustDomain st, path = up_parentIdPath st\<rparr>,
       entry_selectors := Some (edit_selectors (up_selectorsList st)),
       jwt_svid_ttl := keep_or (up_jwt_svid_ttl st) (jwt_svid_ttl e),
       x509_svid_ttl := keep_or (up_x509_svid_ttl st) (x509_svid_ttl e),
       expires_at := keep_or (up_expiresAt st) (expires_at e),
       federates_with := Some (trimmed_parts (up_federatesWith st)),
       dns_names := (if length (up_dnsNames st) \<noteq> 0 then Some (trimmed_parts (up_dnsNames st))
                     else dns_names e),
       admin := keep_or (up_adminFlag st) (admin e),
       downstream := keep_or (up_downstream st) (downstream e)\<rparr>"

definition cleared_form :: "CreateEntryJsonState \<Rightarrow> CreateEntryJsonState" where
  "cleared_form st =
     st\<lparr>up_parentId := [], up_spiffeId := [], up_selectorsList := [], up_x509_svid_ttl := Some (Fin 0),
        up_jwt_svid_ttl := Some (Fin 0), up_expiresAt := Some (Fin 0), up_federatesWith := [],
        up_dnsNames := [], up_adminFlag := Some False, up_downstream := Some False,
        up_entrySelected := False\<rparr>"

text \<open>
  The result: the alert, and the world or a TypeError (an index outside the arrays).
\<close>

definition applyEditToEntry :: "upload_world \<Rightarrow> entry_body effect list \<times> upload_world throws" where
  "applyEditToEntry w =
     (let st = w_state w in
      if up_selectedEntryId st = - 1 then
        ([Alert ''Please Select an Entry From the List, and make Necessary Changes to Apply Edit!''], Inr w)
      else if missing (up_spiffeIdTrustDomain st) then
        ([Alert ''SPIFFE ID Trust Domain Empty/ Invalid, Please Input Trust Domain!''], Inr w)
      else if missing (up_spiffeIdPath st) then
        ([Alert ''SPIFFE ID Path Empty/ Invalid, Please Input Path!''], Inr w)
      else if missing (up_parentIdTrustDomain st) then
        ([Alert ''Parent ID Trust Domain Empty/ Invalid, Please Input Trust Domain!''], Inr w)
      else if missing (up_parentIdPath st) then
        ([Alert ''Parent ID Path Empty/ Invalid, Please Input Path!''], Inr w)
      else if length (up_selectorsList st) = 0 then
        ([Alert ''Selectors List Empty/ Invalid, Please Input Selectors!''], Inr w)
      else
        (let ref = up_uploadedEntries st; i = nat (up_selectedEntryId st); es = w_arrays w ref in
         if length es \<le> i \<or> length (up_newEntriesIds st) \<le> i then ([], Inl TypeError)
         else
           (let e = edited_entry st (es ! i);
                st' = cleared_form (st\<lparr>up_selectedEntryId := - 1,
                  up_newEntriesIds := (up_newEntriesIds st)[i := Some (render_id (the (spiffe_id e)))]\<rparr>)
            in ([Alert (''Entry '' @ nat_toString (i + 1) @ '' Updated!'')],
                Inr (w\<lparr>w_state := st', w_arrays := (w_arrays w)(ref := es[i := e])\<rparr>)))))"

definition handleModalSubmit :: "CreateEntryJsonState \<Rightarrow> CreateEntryJsonState" where
  "handleModalSubmit st = cleared_form st"

section \<open>The editor's fields\<close>

definition up_onChangeSpiffeIdTrustDomain :: "string \<Rightarrow> CreateEntryJsonState \<Rightarrow> CreateEntryJsonState" where
  "up_onChangeSpiffeIdTrustDomain v st = st\<lparr>up_spiffeIdTrustDomain := Some v\<rparr>"

definition up_onChangeSpiffeIdPath :: "string \<Rightarrow> CreateEntryJsonState \<Rightarrow> CreateEntryJsonState" where
  "up_onChangeSpiffeIdPath v st = st\<lparr>up_spiffeIdPath := Some v\<rparr>"

definition up_onChangeParentIdTrustDomain :: "string \<Rightarrow> CreateEntryJsonState \<Rightarrow> CreateEntryJsonState" where
  "up_onChangeParentIdTrustDomain v st = st\<lparr>up_parentIdTrustDomain := Some v\<rparr>"

definition up_onChangeParentIdPath :: "string \<Rightarrow> CreateEntryJsonState \<Rightarrow> CreateEntryJsonState" where
  "up_onChangeParentIdPath v st = st\<lparr>up_parentIdPath := Some v\<rparr>"

definition up_onChangeSelectors :: "string \<Rightarrow> CreateEntryJsonState \<Rightarrow> CreateEntryJsonState" where
  "up_onChangeSelectors v st = st\<lparr>up_selectorsList := v\<rparr>"

definition up_onChangeJwtTtl :: "string \<Rightarrow> CreateEntryJsonState \<Rightarrow> CreateEntryJsonState" where
  "up_onChangeJwtTtl v st = st\<lparr>up_jwt_svid_ttl := Some (Number v)\<rparr>"

definition up_onChangex509Ttl :: "string \<Rightarrow> CreateEntryJsonState \<Rightarrow> CreateEntryJsonState" where
  "up_onChangex509Ttl v st = st\<lparr>up_x509_svid_ttl := Some (Number v)\<rparr>"

definition up_onChangeExpiresAt :: "string \<Rightarrow> CreateEntryJsonState \<Rightarrow> CreateEntryJsonState" where
  "up_onChangeExpiresAt v st = st\<lparr>up_expiresAt := Some (Number v)\<rparr>"

definition up_onChangeDnsNames :: "string option \<Rightarrow> CreateEntryJsonState \<Rightarrow> CreateEntryJsonState" where
  "up_onChangeDnsNames e st = (case e of None \<Rightarrow> st | Some v \<Rightarrow> st\<lparr>up_dnsNames := v\<rparr>)"

definition up_onChangeFederatesWith :: "string option \<Rightarrow> CreateEntryJsonState \<Rightarrow> CreateEntryJsonState" where
  "up_onChangeFederatesWith e st = (case e of None \<Rightarrow> st | Some v \<Rightarrow> st\<lparr>up_federatesWith := v\<rparr>)"

definition up_onChangeAdminFlag :: "bool \<Rightarrow> CreateEntryJsonState \<Rightarrow> CreateEntryJsonState" where
  "up_onChangeAdminFlag b st = st\<lparr>up_adminFlag := Some b\<rparr>"

definition up_onChangeDownStream :: "bool \<Rightarrow> CreateEntryJsonState \<Rightarrow> CreateEntryJsonState" where
  "up_onChangeDownStream b st = st\<lparr>up_downstream := Some b\<rparr>"

definition up_onChangeParentId :: "string \<Rightarrow> CreateEntryJsonState \<Rightarrow> CreateEntryJsonState" where
  "up_onChangeParentId sid st =
     (case parseSpiffeId sid of (valid, td, p) \<Rightarrow>
        let spiffeIdPrefix = up_prefix st @ td in
        if valid then
          st\<lparr>up_parentIdTrustDomain := Some td, up_parentIdPath := Some p,
             up_spiffeId := spiffeIdPrefix @ template (up_spiffeIdPath st), up_parentId := sid,
             up_spiffeIdPrefix := spiffeIdPrefix, up_spiffeIdTrustDomain := Some td\<rparr>
        else st\<lparr>up_parentIdTrustDomain := Some [], up_parentIdPath := Some []\<rparr>)"

definition up_onChangeParentIdInput :: "string \<Rightarrow> CreateEntryJsonState \<Rightarrow> CreateEntryJsonState" where
  "up_onChangeParentIdInput sid st =
     (let st1 = st\<lparr>up_parentId := sid\<rparr> in
      if length sid = 0 then st1\<lparr>up_parentIdTrustDomain := Some [], up_parentIdPath := Some []\<rparr>
      else case parseSpiffeId sid of (valid, td, p) \<Rightarrow>
        if valid then st1\<lparr>up_parentIdTrustDomain := Some td, up_parentIdPath := Some p\<rparr>
        else st1\<lparr>up_parentIdTrustDomain := Some [], up_parentIdPath := Some []\<rparr>)"

definition up_onChangeSpiffeId :: "string \<Rightarrow> CreateEntryJsonState \<Rightarrow> CreateEntryJsonState" where
  "up_onChangeSpiffeId sid st =
     (let st1 = st\<lparr>up_spiffeId := sid\<rparr> in
      if length sid = 0 then st1\<lparr>up_spiffeIdTrustDomain := Some [], up_spiffeIdPath := Some []\<rparr>
      else case parseSpiffeId sid of (valid, td, p) \<Rightarrow>
        if valid then st1\<lparr>up_spiffeIdTrustDomain := Some td, up_spiffeIdPath := Some p\<rparr>
        else st1\<lparr>up_spiffeIdTrustDomain := Some [], up_spiffeIdPath := Some []\<rparr>)"

text \<open>The SPIFFE id field keeps the prefix in front of what is typed.\<close>

definition up_spiffeId_typed :: "string \<Rightarrow> CreateEntryJsonState \<Rightarrow> CreateEntryJsonState" where
  "up_spiffeId_typed inp st =
     up_onChangeSpiffeId (up_spiffeIdPrefix st @ substr inp (length (up_spiffeIdPrefix st))) st"

text \<open>What the page shows of the upload.\<close>

record upload_view =
  parse_error_shown :: bool
  loaded_notice :: "nat option"
  editor_shown :: bool
  entry_links :: "(string option \<times> bool) list"

definition upload_render :: "CreateEntryJsonState \<Rightarrow> upload_view" where
  "upload_render st =
     (let ok = up_isEntriesLoaded st \<and> \<not> up_parseError st in
      \<lparr>parse_error_shown = up_parseError st,
       loaded_notice = (if ok \<and> up_newEntriesLoaded st then Some (length (up_newEntriesIds st)) else None),
       editor_shown = ok,
       entry_links = (if ok then map (\<lambda>(i, sid). (sid, int i = up_selectedEntryId st))
          (enumerate 0 (up_newEntriesIds st)) else [])\<rparr>)"

end
