(* ===== verification/EntryProps.thy ===== *)
theory EntryProps
  imports EntrySubmit SpiffeProps
begin

text \<open>
  What components/entry-create.tsx guarantees: the ids and selectors it posts are the ones the
  user sees, the submission posts exactly under the conditions its messages name, the lists it
  offers, and the count of created entries.
\<close>

section \<open>Reachable states of the form\<close>

definition ids_of :: "CreateEntryState \<Rightarrow> string \<times> string \<times> string \<times> string \<times> string \<times> string" where
  "ids_of st = (ec_spiffeId st, ec_spiffeIdTrustDomain st, ec_spiffeIdPath st,
     ec_parentId st, ec_parentIdTrustDomain st, ec_parentIdPath st)"

definition ids_consistent :: "CreateEntryState \<Rightarrow> bool" where
  "ids_consistent st \<longleftrightarrow>
     (fst (parseSpiffeId (ec_spiffeId st)) \<longrightarrow>
        parseSpiffeId (ec_spiffeId st) = (True, ec_spiffeIdTrustDomain st, ec_spiffeIdPath st)) \<and>
     (fst (parseSpiffeId (ec_parentId st)) \<longrightarrow>
        parseSpiffeId (ec_parentId st) = (True, ec_parentIdTrustDomain st, ec_parentIdPath st)) \<and>
     ec_parentIdManualEntryOption st = manual_option"

inductive entry_reach :: "app_env \<Rightarrow> CreateEntryState \<Rightarrow> bool" for env where
  initial: "entry_reach env entry_create_initial"
| mount: "entry_reach env st \<Longrightarrow> entry_create_mount env props fresh st = (effs, Inr st') \<Longrightarrow> entry_reach env st'"
| update: "entry_reach env st \<Longrightarrow> entry_create_update env ch props prev st = Inr st' \<Longrightarrow> entry_reach env st'"
| x509_ttl: "entry_reach env st \<Longrightarrow> entry_reach env (onChangex509Ttl v st)"
| jwt_ttl: "entry_reach env st \<Longrightarrow> entry_reach env (onChangeJwtTtl v st)"
| expires: "entry_reach env st \<Longrightarrow> entry_reach env (onChangeExpiresAt v st)"
| down_stream: "entry_reach env st \<Longrightarrow> entry_reach env (onChangeDownStream b st)"
| dns: "entry_reach env st \<Longrightarrow> entry_reach env (onChangeDnsNames ev st)"
| federates: "entry_reach env st \<Longrightarrow> entry_reach env (onChangeFederatesWith ev st)"
| recommended: "entry_reach env st \<Longrightarrow> entry_reach env (onChangeSelectorsRecommended ls st)"
| selectors_text: "entry_reach env st \<Longrightarrow> entry_reach env (onChangeSelectors v st)"
| admin_flag: "entry_reach env st \<Longrightarrow> entry_reach env (onChangeAdminFlag b st)"
| spiffe_id_text: "entry_reach env st \<Longrightarrow> entry_reach env (spiffeId_typed v st)"
| parent_chosen: "entry_reach env st \<Longrightarrow> entry_reach env (onChangeParentId v st)"
| parent_typed: "entry_reach env st \<Longrightarrow> entry_reach env (onChangeManualParentId v st)"
| reply_one: "entry_reach env st \<Longrightarrow> entry_onSubmit_done env jq jr req out st = (st', effs) \<Longrightarrow> entry_reach env st'"
| reply_many: "entry_reach env st \<Longrightarrow> onYAMLEntryCreate_done env jq2 jr ref arrays out st = (st', effs)
    \<Longrightarrow> entry_reach env st'"

lemma consistent_cong:
  "ids_of st' = ids_of st \<Longrightarrow>
   ec_parentIdManualEntryOption st' = ec_parentIdManualEntryOption st \<Longrightarrow>
   ids_consistent st \<Longrightarrow> ids_consistent st'"
  by (simp add: ids_of_def ids_consistent_def)

definition same_ids :: "CreateEntryState \<Rightarrow> CreateEntryState \<Rightarrow> bool" where
  "same_ids st st' \<longleftrightarrow> ids_of st' = ids_of st \<and>
     ec_parentIdManualEntryOption st' = ec_parentIdManualEntryOption st \<and>
     ec_x509_svid_ttl st' = ec_x509_svid_ttl st \<and> ec_jwt_svid_ttl st' = ec_jwt_svid_ttl st"

lemma same_ids_refl [simp]: "same_ids st st"
  by (simp add: same_ids_def)

lemma same_ids_trans: "same_ids a b \<Longrightarrow> same_ids b c \<Longrightarrow> same_ids a c"
  by (simp add: same_ids_def)

lemma same_ids_simps [simp]:
  "same_ids st (st\<lparr>ec_selectedServer := x1\<rparr>)"
  "same_ids st (st\<lparr>ec_selectorsList := x2\<rparr>)"
  "same_ids st (st\<lparr>ec_agentsIdList := x3, ec_agentsIdList_noManualOption := x4\<rparr>)"
  "same_ids st (st\<lparr>ec_selectorsList := x5, ec_selectorsListDisplay := x6\<rparr>)"
  "same_ids st (st\<lparr>ec_selectorsRecommendationList := x7, ec_selectorsListDisplay := x8\<rparr>)"
  "same_ids st (st\<lparr>ec_message := x9, ec_statusOK := x10, ec_successJsonMessege := x11\<rparr>)"
  "same_ids st (st\<lparr>ec_message := x12, ec_successNumEntries := x13, ec_statusOK := x14\<rparr>)"
  by (simp_all add: same_ids_def ids_of_def)

lemma prepareParent_same:
  "prepareParentIdAgentsList props st = Inr st' \<Longrightarrow> same_ids st st'"
  unfolding prepareParentIdAgentsList_def Let_def
  by (auto elim!: bindE_InrE split: jsval.split_asm if_split_asm)

lemma plugin_step_same:
  "same_ids st (fst s) \<Longrightarrow> same_ids st (fst (plugin_step tbl agentId s info))"
  by (auto simp: plugin_step_def Let_def elim: same_ids_trans)

lemma agent_selectors_list_same:
  assumes "agent_selectors_list props agentId st = Inr st'"
  shows "same_ids st st'"
proof -
  obtain infos where infos: "globalAgentsWorkLoadAttestorInfo (st_agents props) = Val infos"
    using assms by (auto simp: agent_selectors_list_def split: jsval.splits)
  let ?r = "foldl (plugin_step (globalWorkloadSelectorInfo (st_servers props)) agentId) (st, False) infos"
  have "same_ids st (fst ?r)"
    by (rule foldl_invariant [where P = "\<lambda>s. same_ids st (fst s)"]) (simp_all add: plugin_step_same)
  moreover have "st' = (if snd ?r then fst ?r
      else (fst ?r)\<lparr>ec_selectorsList := Some [], ec_selectorsListDisplay := ''Select Selectors''\<rparr>)"
    using assms infos by (simp add: agent_selectors_list_def case_prod_beta Let_def)
  ultimately show ?thesis by (auto elim: same_ids_trans)
qed

lemma server_selectors_same: "same_ids st (server_selectors props st)"
  by (simp add: server_selectors_def Let_def)

lemma prepareSelectors_same:
  "prepareSelectorsList props st = Inr st' \<Longrightarrow> same_ids st st'"
  by (auto simp: prepareSelectorsList_def bindE_eq_Inr Let_def server_selectors_same
      split: jsval.splits option.splits list.splits if_splits dest: agent_selectors_list_same)

lemma prepare_both_same:
  "bindE (when_lists props st) (prepareSelectorsList props) = Inr st' \<Longrightarrow> same_ids st st'"
  by (auto simp: bindE_eq_Inr when_lists_def split: if_splits
      dest!: prepareParent_same prepareSelectors_same elim: same_ids_trans)

lemma update_same:
  assumes "entry_create_update env ch props prev st = Inr st'"
  shows "same_ids st st'"
proof -
  define st1 where "st1 = (if IsManager env \<and> server_changed ch
    then st\<lparr>ec_selectedServer := globalServerSelected (st_servers props)\<rparr> else st)"
  have s1: "same_ids st st1" by (simp add: st1_def)
  from assms obtain st2 st3 where
    2: "(if debug_changed ch then bindE (when_lists props st1) (prepareSelectorsList props) else Inr st1) = Inr st2"
    and 3: "(if agents_changed ch \<or> entries_changed ch
      then bindE (when_lists props st2) (prepareSelectorsList props) else Inr st2) = Inr st3"
    and 4: "(if prev \<noteq> ec_parentId st then prepareSelectorsList props st3 else Inr st3) = Inr st'"
    unfolding entry_create_update_def Let_def st1_def [symmetric] bindE_eq_Inr by blast
  have "same_ids st1 st2" using 2 prepare_both_same [of props st1 st2] by (auto split: if_splits)
  moreover have "same_ids st2 st3" using 3 prepare_both_same [of props st2 st3] by (auto split: if_splits)
  moreover have "same_ids st3 st'" using 4 prepareSelectors_same [of props st3 st'] by (auto split: if_splits)
  ultimately show ?thesis using s1 by (blast intro: same_ids_trans)
qed

lemma same_consistent: "same_ids st st' \<Longrightarrow> ids_consistent st \<Longrightarrow> ids_consistent st'"
  by (auto simp: same_ids_def intro: consistent_cong)

lemma parse_empty [simp]: "\<not> fst (parseSpiffeId [])"
  by (simp add: parseSpiffeId_def startsWith_def)

lemma parse_manual [simp]: "\<not> fst (parseSpiffeId manual_option)"
  by (simp add: parseSpiffeId_def startsWith_def manual_option_def)

lemma spiffe_text_consistent:
  "ids_consistent st \<Longrightarrow> ids_consistent (onChangeSpiffeId sid st)"
  by (auto simp: onChangeSpiffeId_def ids_consistent_def split: prod.splits)

lemma parent_parsed_consistent:
  "ids_consistent st \<Longrightarrow> ids_consistent (parent_parsed sid st)"
  by (auto simp: parent_parsed_def ids_consistent_def split: prod.splits)

lemma parent_chosen_consistent:
  assumes "ids_consistent st"
  shows "ids_consistent (onChangeParentId sid st)" "ids_consistent (onChangeManualParentId sid st)"
proof -
  have *: "ids_consistent (st\<lparr>ec_parentIDManualEntry := False\<rparr>)"
    using assms by (simp add: ids_consistent_def)
  show "ids_consistent (onChangeParentId sid st)"
    using assms parent_parsed_consistent [OF *]
    by (simp add: onChangeParentId_def) (auto simp: ids_consistent_def)
  show "ids_consistent (onChangeManualParentId sid st)"
    using assms parent_parsed_consistent [OF assms]
    by (simp add: onChangeManualParentId_def) (auto simp: ids_consistent_def)
qed

lemma replies_same:
  "entry_onSubmit_done env jq jr req out st = (st', effs) \<Longrightarrow> same_ids st st'"
  "onYAMLEntryCreate_done env jq2 jr ref arrays out st = (st', effs) \<Longrightarrow> same_ids st st'"
  by (auto simp: entry_onSubmit_done_def onYAMLEntryCreate_done_def Let_def
      split: outcome.splits jsval.splits list.splits)

lemma mount_same: "entry_create_mount env props fresh st = (effs, Inr st') \<Longrightarrow> same_ids st st'"
  by (auto simp: entry_create_mount_def Let_def split: if_splits sum.splits)

lemma reach_consistent: "entry_reach env st \<Longrightarrow> ids_consistent st"
proof (induction rule: entry_reach.induct)
  case initial
  then show ?case by (simp add: ids_consistent_def entry_create_initial_def)
next
  case (mount st props fresh effs st')
  then show ?case by (blast intro: same_consistent mount_same)
next
  case (update st ch props prev st')
  then show ?case by (blast intro: same_consistent update_same)
next
  case (recommended st ls)
  then show ?case
    by (auto simp: onChangeSelectorsRecommended_def Let_def split: option.splits prod.splits
        intro: same_consistent [rotated])
next
  case (spiffe_id_text st v)
  then show ?case by (simp add: spiffeId_typed_def spiffe_text_consistent)
next
  case (parent_chosen st v)
  then show ?case by (simp add: parent_chosen_consistent)
next
  case (parent_typed st v)
  then show ?case by (simp add: parent_chosen_consistent)
next
  case (reply_one st jq jr req out st' effs)
  then show ?case by (blast intro: same_consistent replies_same)
next
  case (reply_many st jq2 jr ref arrays out st' effs)
  then show ?case by (blast intro: same_consistent replies_same)
qed (simp_all add: onChangex509Ttl_def onChangeJwtTtl_def
    onChangeExpiresAt_def onChangeDownStream_def onChangeDnsNames_def onChangeFederatesWith_def
    onChangeSelectors_def onChangeAdminFlag_def ids_consistent_def split: option.splits)

section \<open>What is posted\<close>

text \<open>The conditions of the form, in the order of its messages.\<close>

definition selectors_ok :: "string \<Rightarrow> bool" where
  "selectors_ok s \<longleftrightarrow> s \<noteq> [] \<and>
     (\<forall>x \<in> set (trimmed_parts s). \<exists>sel. parse_selector x = Some sel \<and> selector_value sel \<noteq> [])"

definition entry_ok :: "CreateEntryState \<Rightarrow> bool" where
  "entry_ok st \<longleftrightarrow> fst (parseSpiffeId (ec_parentId st)) \<and> fst (parseSpiffeId (ec_spiffeId st)) \<and>
     selectors_ok (ec_selectors st)"

definition entry_endpoint :: "app_env \<Rightarrow> CreateEntryState \<Rightarrow> string" where
  "entry_endpoint env st = snd (getApiEntryCreateEndpoint env st)"

definition posted_entry :: "RootState \<Rightarrow> CreateEntryState \<Rightarrow> entry_body" where
  "posted_entry props st =
     OneEntry (cjtData props st (map (\<lambda>x. the (parse_selector x)) (trimmed_parts (ec_selectors st))))"

lemma trimmed_parts_empty [simp]: "trimmed_parts s = [] \<longleftrightarrow> s = []"
  by (simp add: trimmed_parts_def)

lemma selectors_ok_check:
  "selectors_ok s \<longleftrightarrow> trimmed_parts s \<noteq> [] \<and>
     \<not> list_ex bad_selector (map parse_selector (trimmed_parts s))"
proof -
  have "(\<exists>sel. parse_selector x = Some sel \<and> selector_value sel \<noteq> []) \<longleftrightarrow>
      \<not> bad_selector (parse_selector x)" for x
    by (cases "parse_selector x") auto
  then show ?thesis by (simp add: selectors_ok_def list_ex_iff)
qed

lemma endpoint_effects:
  "getApiEntryCreateEndpoint env st =
     (if entry_endpoint env st = [] \<and> IsManager env \<and> ec_selectedServer st = []
      then complain ''No server selected.'' else [], entry_endpoint env st)"
  by (auto simp: entry_endpoint_def getApiEntryCreateEndpoint_def)

lemma onSubmit_eq:
  assumes "entry_ok st"
  shows "entry_onSubmit env props st =
    (if entry_endpoint env st = [] then fst (getApiEntryCreateEndpoint env st)
     else [Request POST (entry_endpoint env st) (posted_entry props st)])"
proof -
  have ne: "ec_parentId st \<noteq> []" "ec_spiffeId st \<noteq> []"
    using assms by (auto simp: entry_ok_def)
  have sel: "trimmed_parts (ec_selectors st) \<noteq> []"
    "\<not> list_ex bad_selector (map parse_selector (trimmed_parts (ec_selectors st)))"
    using assms selectors_ok_check by (auto simp: entry_ok_def)
  then show ?thesis
    using assms ne
    by (simp add: entry_onSubmit_def entry_ok_def Let_def endpoint_effects posted_entry_def o_def)
qed

lemma onSubmit_refuses:
  assumes "\<not> entry_ok st"
  shows "\<exists>cap. entry_onSubmit env props st = complain cap"
  using assms
  by (auto simp: entry_onSubmit_def entry_ok_def Let_def selectors_ok_check)

lemma endpoint_silent:
  "entry_endpoint env st = [] \<Longrightarrow> e \<in> set (fst (getApiEntryCreateEndpoint env st)) \<Longrightarrow> \<not> has_method POST e"
  by (auto simp: endpoint_effects split: if_splits)

interpretation entry_form: form_guard
  POST "entry_onSubmit env props" entry_ok "entry_endpoint env" "posted_entry props" "\<lambda>_. []"
  for env props
proof
  show "entry_ok st \<Longrightarrow> entry_endpoint env st \<noteq> [] \<Longrightarrow>
      entry_onSubmit env props st = [Request POST (entry_endpoint env st) (posted_entry props st)]" for st
    by (simp add: onSubmit_eq)
  show "entry_ok st \<Longrightarrow> entry_endpoint env st = [] \<Longrightarrow> e \<in> set (entry_onSubmit env props st) \<Longrightarrow>
      \<not> has_method POST e" for st e
    using endpoint_silent [of env st e] by (simp add: onSubmit_eq)
  show "\<not> entry_ok st \<Longrightarrow> \<exists>e. entry_onSubmit env props st = [e] \<and> is_message e" for st
    using onSubmit_refuses [of st env props] by auto
qed simp

lemma parsed_id: "parseSpiffeId s = (True, t, p) \<Longrightarrow> wf_id (t, p) \<and> render_pair (t, p) = s"
  by (simp only: parseSpiffeId_pair spiffe.parse_iff)

lemma parsed_selectors:
  assumes "selectors_ok s"
  defines "sels \<equiv> map (\<lambda>x. the (parse_selector x)) (trimmed_parts s)"
  shows "map formatSelectors sels = trimmed_parts s"
    and "list_all (\<lambda>sel. wf_selector sel \<and> selector_value sel \<noteq> []) sels"
proof -
  have *: "formatSelectors (the (parse_selector x)) = x \<and> wf_selector (the (parse_selector x)) \<and>
      selector_value (the (parse_selector x)) \<noteq> []" if "x \<in> set (trimmed_parts s)" for x
  proof -
    obtain sel where "parse_selector x = Some sel" "selector_value sel \<noteq> []"
      using assms(1) \<open>x \<in> set (trimmed_parts s)\<close> unfolding selectors_ok_def by blast
    then show ?thesis using sel.parse_sound by simp
  qed
  show "map formatSelectors sels = trimmed_parts s"
    using * by (simp add: sels_def o_def map_idI)
  show "list_all (\<lambda>sel. wf_selector sel \<and> selector_value sel \<noteq> []) sels"
    using * by (simp add: sels_def list_all_iff)
qed

definition env_local :: app_env where
  [js_unfold]: "env_local =
     \<lparr>REACT_APP_API_SERVER_URI = Some ''http://t'', REACT_APP_API_VERSION = Some ''v1'',
      REACT_APP_TORNJAK_MANAGER = None, REACT_APP_AUTH_SERVER_URI = None, urljoin = (@),
      thrown_message = ''m'', thrown_string = ''TypeError: m''\<rparr>"

definition form1 :: CreateEntryState where
  "form1 = onChangeSelectors ''k:v'' (onChangeParentId ''spiffe://td/p''
     (spiffeId_typed ''spiffe://td/a'' entry_create_initial))"

lemma form1_reach: "entry_reach env form1"
  unfolding form1_def
  by (intro entry_reach.selectors_text entry_reach.parent_chosen entry_reach.spiffe_id_text
      entry_reach.initial)

lemma parse_form1:
  "parseSpiffeId ''spiffe://td/p'' = (True, ''td'', ''/p'')"
  "parseSpiffeId ''spiffe://td/a'' = (True, ''td'', ''/a'')"
  by (simp_all add: parseSpiffeId_9 startsWith_def)

lemma form1_fields:
  "ec_spiffeId form1 = ''spiffe://td/a''" "ec_parentId form1 = ''spiffe://td/p''"
  "ec_selectors form1 = ''k:v''"
  by (simp_all add: form1_def onChangeSelectors_def onChangeParentId_def parent_parsed_def
      spiffeId_typed_def onChangeSpiffeId_def entry_create_initial_def parse_form1 js_unfold
      manual_option_def)

lemma form1_parts: "trimmed_parts ''k:v'' = [''k:v'']"
  by (simp add: trimmed_parts_def trim_def is_space_def)

lemma form1_ok: "entry_ok form1"
  by (simp add: entry_ok_def form1_fields parse_form1 selectors_ok_def form1_parts
      parse_selector_def js_unfold)

lemma form1_request:
  "Request POST (api_uri env_local spireEntriesApi)
     (posted_entry props form1) \<in> set (entry_onSubmit env_local props form1)"
proof -
  have "entry_endpoint env_local form1 = api_uri env_local spireEntriesApi"
    by (simp add: entry_endpoint_def getApiEntryCreateEndpoint_def IsManager_def env_local_def)
  moreover have "api_uri env_local spireEntriesApi \<noteq> []"
    by (simp add: js_unfold GetApiServerUri_def)
  ultimately show ?thesis using form1_ok by (simp add: entry_form.request_iff)
qed

text \<open>C2. What the entry form posts is what the user sees: in every reachable state, a submission posts
  the SPIFFE id and parent id whose texts are in the two fields, the selectors whose
  \<open>type:value\<close> texts are the trimmed comma-separated parts of the selectors field, each with a
  non-empty type and value, at least one of them, and the expiry held in the store.\<close>

theorem entry_posted_faithful:
  assumes "entry_reach env st"
    and "Request POST url (OneEntry b) \<in> set (entry_onSubmit env props st)"
  shows "''spiffe://'' @ fst (new_spiffe_id b) @ snd (new_spiffe_id b) = ec_spiffeId st \<and>
    ''spiffe://'' @ fst (new_parent_id b) @ snd (new_parent_id b) = ec_parentId st \<and>
    wf_id (new_spiffe_id b) \<and> wf_id (new_parent_id b) \<and>
    map formatSelectors (new_selectors b) = map trim (split_on (CHR '','') (ec_selectors st)) \<and>
    new_selectors b \<noteq> [] \<and>
    list_all (\<lambda>sel. wf_selector sel \<and> selector_value sel \<noteq> []) (new_selectors b) \<and>
    new_expires_at b = globalEntryExpiryTime (st_entries props)"
proof -
  have ok: "entry_ok st" and b: "OneEntry b = posted_entry props st"
    using assms(2) by (simp_all add: entry_form.request_iff)
  have cons: "parseSpiffeId (ec_spiffeId st) = (True, ec_spiffeIdTrustDomain st, ec_spiffeIdPath st)"
    "parseSpiffeId (ec_parentId st) = (True, ec_parentIdTrustDomain st, ec_parentIdPath st)"
    using reach_consistent [OF assms(1)] ok by (simp_all add: ids_consistent_def entry_ok_def)
  have sels: "new_selectors b = map (\<lambda>x. the (parse_selector x)) (trimmed_parts (ec_selectors st))"
    and ids: "new_spiffe_id b = (ec_spiffeIdTrustDomain st, ec_spiffeIdPath st)"
    "new_parent_id b = (ec_parentIdTrustDomain st, ec_parentIdPath st)"
    "new_expires_at b = globalEntryExpiryTime (st_entries props)"
    using b by (simp_all add: posted_entry_def cjtData_def)
  have sok: "selectors_ok (ec_selectors st)" and ne: "ec_selectors st \<noteq> []"
    using ok by (auto simp: entry_ok_def selectors_ok_def)
  then have parts: "trimmed_parts (ec_selectors st) = map trim (split_on (CHR '','') (ec_selectors st))"
    by (simp add: trimmed_parts_def)
  show ?thesis
    using parsed_id [OF cons(1)] parsed_id [OF cons(2)] parsed_selectors [OF sok] ne
    by (simp add: ids sels parts [symmetric] render_pair_def)
qed

lemma entry_posted_faithful_witness:
  "let b = cjtData (createStore (\<lambda>_. None) None) form1
     (map (\<lambda>x. the (parse_selector x)) (trimmed_parts (ec_selectors form1))) in
    ''spiffe://'' @ fst (new_spiffe_id b) @ snd (new_spiffe_id b) = ec_spiffeId form1 \<and>
    map formatSelectors (new_selectors b) = map trim (split_on (CHR '','') (ec_selectors form1))"
  using entry_posted_faithful [OF form1_reach
    form1_request [of "createStore (\<lambda>_. None) None", unfolded posted_entry_def]]
  by (simp only: Let_def)

text \<open>C34. The entry form posts exactly once, to the endpoint of its mode, when both ids parse, every
  comma-separated selector is \<open>type:value\<close> with both parts, and (manager mode) a server is selected;
  otherwise it posts nothing.\<close>

theorem entry_submit_iff:
  "length (filter (has_method POST) (entry_onSubmit env props st)) =
     (if fst (parseSpiffeId (ec_parentId st)) \<and> fst (parseSpiffeId (ec_spiffeId st)) \<and>
         ec_selectors st \<noteq> [] \<and>
         list_all (\<lambda>x. \<not> bad_selector (parse_selector (trim x))) (split_on (CHR '','') (ec_selectors st)) \<and>
         (if IsManager env then ec_selectedServer st \<noteq> [] \<and>
            GetApiServerUri env ''/manager-api/entry/create'' @ ''/'' @ ec_selectedServer st \<noteq> []
          else api_uri env spireEntriesApi \<noteq> [])
      then 1 else 0) \<and>
   (Request POST url b \<in> set (entry_onSubmit env props st) \<longleftrightarrow>
      entry_ok st \<and> entry_endpoint env st \<noteq> [] \<and> url = entry_endpoint env st \<and>
      b = posted_entry props st)"
proof -
  have "selectors_ok (ec_selectors st) \<longleftrightarrow> ec_selectors st \<noteq> [] \<and>
      list_all (\<lambda>x. \<not> bad_selector (parse_selector (trim x))) (split_on (CHR '','') (ec_selectors st))"
    by (auto simp: selectors_ok_check list_ex_iff list_all_iff trimmed_parts_def)
  moreover have "entry_endpoint env st \<noteq> [] \<longleftrightarrow>
      (if IsManager env then ec_selectedServer st \<noteq> [] \<and>
            GetApiServerUri env ''/manager-api/entry/create'' @ ''/'' @ ec_selectedServer st \<noteq> []
          else api_uri env spireEntriesApi \<noteq> [])"
    by (simp add: entry_endpoint_def getApiEntryCreateEndpoint_def)
  ultimately show ?thesis
    by (simp add: entry_form.one_request entry_form.request_iff entry_ok_def)
qed

text \<open>After a valid parent id is chosen from the list, whatever is typed into the SPIFFE id field
  keeps the prefix of the parent's trust domain, and an id the form accepts is in that trust domain.\<close>

lemma typed_id_in_parent_domain:
  assumes "parseSpiffeId sid = (True, td, p)" and "sid \<noteq> ec_parentIdManualEntryOption st"
  shows "let st' = spiffeId_typed inp (onChangeParentId sid st) in
    startsWith (ec_spiffeId st') (''spiffe://'' @ td @ ''/'') \<and>
    (fst (parseSpiffeId (ec_spiffeId st')) \<longrightarrow> ec_spiffeIdTrustDomain st' = td)"
proof -
  define st1 where "st1 = onChangeParentId sid st"
  define full where "full = ''spiffe://'' @ td @ ''/'' @ drop (length (ec_spiffeIdPrefix st1)) inp"
  have wf: "wf_id (td, p)" using parsed_id [OF assms(1)] by simp
  have "sid \<noteq> []" using assms(1) by (auto simp: parseSpiffeId_def startsWith_def)
  then have pre: "ec_spiffeIdPrefix st1 = ''spiffe://'' @ td @ ''/''"
    using assms by (simp add: st1_def onChangeParentId_def parent_parsed_def)
  have full_eq: "ec_spiffeIdPrefix st1 @ substr inp (length (ec_spiffeIdPrefix st1)) = full"
    by (simp add: full_def pre substr_def)
  have st': "spiffeId_typed inp st1 = onChangeSpiffeId full st1"
    by (simp only: spiffeId_typed_def full_eq)
  have id: "ec_spiffeId (onChangeSpiffeId full st1) = full"
    by (simp add: onChangeSpiffeId_def split: prod.splits)
  have "ec_spiffeIdTrustDomain (onChangeSpiffeId full st1) = td" if ok: "fst (parseSpiffeId full)"
  proof -
    obtain t q where pq: "parseSpiffeId full = (True, t, q)" using ok by (metis prod.collapse)
    have "CHR ''/'' \<notin> set t" "CHR ''/'' \<notin> set td" "render_pair (t, q) = full" "take 1 q = ''/''"
      using parsed_id [OF pq] wf by (auto simp: wf_id_def startsWith_def)
    then obtain q' where "t @ CHR ''/'' # q' = td @ CHR ''/'' # drop (length (ec_spiffeIdPrefix st1)) inp"
      by (cases q) (auto simp: render_pair_def full_def)
    then have "t = td"
      using \<open>CHR ''/'' \<notin> set t\<close> \<open>CHR ''/'' \<notin> set td\<close>
      by (metis append_eq_append_conv indexOf_append of_nat_eq_iff)
    moreover have "full \<noteq> []" by (simp add: full_def)
    ultimately show ?thesis by (simp add: onChangeSpiffeId_def pq)
  qed
  moreover have "startsWith full (''spiffe://'' @ td @ ''/'')"
    by (simp add: full_def startsWith_def)
  ultimately show ?thesis
    unfolding Let_def st1_def [symmetric] st' id by blast
qed

lemma typed_id_in_parent_domain_witness:
  "let st' = spiffeId_typed ''x'' (onChangeParentId ''spiffe://td/p'' entry_create_initial) in
    startsWith (ec_spiffeId st') (''spiffe://'' @ ''td'' @ ''/'') \<and>
    (fst (parseSpiffeId (ec_spiffeId st')) \<longrightarrow> ec_spiffeIdTrustDomain st' = ''td'')"
  by (rule typed_id_in_parent_domain [OF parse_form1(1)])
     (simp add: entry_create_initial_def manual_option_def)

end
