(* ===== verification/EntryOffers.thy ===== *)
theory EntryOffers
  imports EntryProps
begin

text \<open>
  What the entry form offers and reports: the parent ids, the recommended selectors and the
  result of creating uploaded entries (components/entry-create.tsx).
\<close>

section \<open>Parent ids\<close>


definition props1 :: RootState where
  "props1 = dispatches (createStore (\<lambda>_. None) None)
     [GLOBAL_AGENTS_LIST (Val [agent1]), GLOBAL_ENTRIES_LIST (Val [node1])]"



section \<open>Recommended selectors\<close>

lemma recommended_loop_eq:
  "recommended_loop ls (a, b) =
     (a @ join [CHR 0x0A] (map (\<lambda>l. label l @ '':'') ls), b @ join '','' (map label ls))"
  by (induction ls "(a, b)" arbitrary: a b rule: recommended_loop.induct) simp_all

lemma replace_all_id: "c \<notin> set s \<Longrightarrow> replace_all c d s = s"
  by (induction s) (auto simp: replace_all_def)

lemma replace_all_join:
  "\<forall>x \<in> set xs. c \<notin> set x \<Longrightarrow> replace_all c d (join [c] xs) = join [d] xs"
proof (induction "[c]" xs rule: join.induct)
  case (3 x y ys)
  then show ?case using replace_all_id [of c x d] by (simp add: replace_all_def)
next
  case 1
  show ?case by (simp add: replace_all_def)
next
  case (2 x)
  then show ?case by (simp add: replace_all_id)
qed

lemma trim_label: "label_plain l \<Longrightarrow> trim (label l @ '':'') = label l @ '':''"
  by (rule trim_id) (auto simp: label_plain_def hd_append is_space_def)

lemma parse_label:
  assumes "label_plain l"
  shows "\<exists>s. parse_selector (label l @ '':'') = Some s \<and> selector_value s \<noteq> []"
proof -
  define i where "i = nat (indexOf (label l) (CHR '':''))"
  have pos: "0 < i" using assms by (simp add: i_def label_plain_def)
  have split: "label l = take i (label l) @ CHR '':'' # drop (Suc i) (label l)"
    and fresh: "CHR '':'' \<notin> set (take i (label l))"
    using indexOf_split [of "label l" "CHR '':''"] assms by (simp_all add: i_def label_plain_def)
  let ?s = "\<lparr>selector_type = take i (label l), selector_value = drop (Suc i) (label l) @ '':''\<rparr>"
  have "label l \<noteq> []" using split by auto
  then have "wf_selector ?s" using fresh pos by (simp add: wf_selector_def)
  moreover have "formatSelectors ?s = label l @ '':''"
    using split by (simp add: formatSelectors_def)
  ultimately have "parse_selector (label l @ '':'') = Some ?s"
    using sel.parse_iff by blast
  then show ?thesis by simp
qed

text \<open>Selecting recommended selectors gives text the form accepts: for any non-empty choice from the
  tables of data.ts, the text put into the selectors field parses, once the field reports it, into
  one selector per choice, in order, each printing back to the chosen label and a colon.\<close>

lemma recommended_text_accepted:
  assumes "ls \<noteq> []" and "list_all offered_label ls"
  shows "let st1 = onChangeSelectorsRecommended (Some ls) st;
        st2 = onChangeSelectors (ec_selectorsRecommendationList st1) st1
    in selectors_ok (ec_selectors st2) \<and>
       map (\<lambda>x. formatSelectors (the (parse_selector x))) (trimmed_parts (ec_selectors st2)) =
         map (\<lambda>l. label l @ '':'') ls"
proof -
  let ?xs = "map (\<lambda>l. label l @ '':'') ls"
  have plain: "\<And>l. l \<in> set ls \<Longrightarrow> label_plain l"
    using assms(2) offered_plain by (auto simp: list_all_iff)
  have "replace_all (CHR 0x0A) (CHR '','') (join [CHR 0x0A] ?xs) = join '','' ?xs"
    by (rule replace_all_join) (use plain in \<open>auto simp: label_plain_def\<close>)
  then have sel: "ec_selectors (onChangeSelectors (ec_selectorsRecommendationList
      (onChangeSelectorsRecommended (Some ls) st)) (onChangeSelectorsRecommended (Some ls) st)) =
      join '','' ?xs"
    by (simp add: onChangeSelectors_def onChangeSelectorsRecommended_def recommended_loop_eq)
  have "split_on (CHR '','') (join '','' ?xs) = ?xs"
    by (rule split_on_join) (use assms(1) plain in \<open>auto simp: label_plain_def\<close>)
  moreover have ne: "join '','' ?xs \<noteq> []"
    using assms(1) by (cases ls rule: list.exhaust; cases "tl ls") auto
  moreover have "map trim ?xs = ?xs" using plain by (simp add: trim_label)
  ultimately have parts: "trimmed_parts (join '','' ?xs) = ?xs"
    by (simp add: trimmed_parts_def)
  have ok: "\<exists>s. parse_selector x = Some s \<and> selector_value s \<noteq> []" if "x \<in> set ?xs" for x
    using that plain parse_label by auto
  then have "selectors_ok (join '','' ?xs)"
    using ne parts by (simp add: selectors_ok_def)
  moreover have "map (\<lambda>x. formatSelectors (the (parse_selector x))) ?xs = ?xs"
    using ok sel.parse_sound by (intro map_idI) (metis option.sel)
  ultimately show ?thesis unfolding Let_def sel parts by simp
qed

lemma recommended_text_accepted_witness:
  "let st1 = onChangeSelectorsRecommended (Some [label_of ''k8s:ns'', label_of ''docker:env'']) entry_create_initial;
        st2 = onChangeSelectors (ec_selectorsRecommendationList st1) st1
    in selectors_ok (ec_selectors st2) \<and>
       map (\<lambda>x. formatSelectors (the (parse_selector x))) (trimmed_parts (ec_selectors st2)) =
         map (\<lambda>l. label l @ '':'') [label_of ''k8s:ns'', label_of ''docker:env'']"
  by (rule recommended_text_accepted) (simp_all add: offered_label_def workloadSelectors_def)

section \<open>Uploaded entries\<close>

text \<open>After the reply to an upload, the form reports as created the results whose message is OK and
  as failed the rest of the uploaded entries, so the two add up to the number uploaded; a reply
  without results is reported as a failure and changes nothing.\<close>

lemma upload_counts:
  "(let (st', effs) = onYAMLEntryCreate_done env jq jr ref arrays out st in
    case out of
      Resolved _ _ (Val (Val results)) \<Rightarrow>
        fst (ec_successNumEntries st') = int (count_list results (Some ''OK'')) \<and>
        fst (ec_successNumEntries st') + snd (ec_successNumEntries st') = int (length (arrays ref)) \<and>
        effs = [ScrollTop]
    | _ \<Rightarrow> st' = st \<and> (\<exists>t. effs = [Toast t] \<and> toast_caption t = ''Could not create entry from YAML.''))"
proof -
  have "length (filter (\<lambda>m. m = Some ''OK'') xs) = count_list xs (Some ''OK'')" for xs
    by (induction xs) auto
  then show ?thesis
    by (auto simp: onYAMLEntryCreate_done_def Let_def showResponseToast_def toast_error_def
        split: outcome.splits jsval.splits)
qed

text \<open>The notice that all entries failed is not reset: once a single creation has been refused by the
  server, a later upload in which every entry is created is reported both as created in full and
  as failed.\<close>

lemma failure_notice_stays:
  assumes "ec_successJsonMessege st = Some m" and "m \<noteq> ''OK''" and "m \<noteq> []"
    and "globalNewEntries (st_entries props) = Some ref"
    and "list_all (\<lambda>r. r = Some ''OK'') results" and "length results = length (arrays ref)"
  shows "\<exists>v. entry_create_render props arrays
      (fst (onYAMLEntryCreate_done env jq jr ref arrays (Resolved 200 ''OK'' (Val (Val results))) st)) = Inr v \<and>
    created_count v = Some (int (length (arrays ref))) \<and> failed_count v = None \<and> creation_failed v"
proof -
  have "filter (\<lambda>r. r = Some ''OK'') results = results"
    using assms(5) by (intro filter_ident) (simp add: list_all_iff)
  then show ?thesis
    using assms by (simp add: onYAMLEntryCreate_done_def entry_create_render_def Let_def)
qed

lemma failure_notice_stays_witness:
  "\<exists>v. entry_create_render props1 (\<lambda>_. [node1])
      (fst (onYAMLEntryCreate_done env_local (\<lambda>_. []) (\<lambda>_. []) 0 (\<lambda>_. [node1])
         (Resolved 200 ''OK'' (Val (Val [Some ''OK''])))
         (fst (entry_onSubmit_done env_local (\<lambda>_. []) (\<lambda>_. []) (cjtData props1 form1 [])
           (Resolved 200 ''OK'' (Val (Val [Some ''already exists'']))) form1)))) = Inr v \<and>
    created_count v = Some (int (length [node1])) \<and> failed_count v = None \<and> creation_failed v"
  by (rule failure_notice_stays [where m = "''already exists''"])
     (simp_all add: entry_onSubmit_done_def props1_def dispatches_def createStore_def
        loadFromLocalStorage_def dispatch_defs entries_initialState_def)

end
