(* ===== verification/UploadProps.thy ===== *)
theory UploadProps
  imports EntryUpload EntryOffers
begin

text \<open>
  What components/entry-create-json.tsx guarantees and where it falls short: the editor's list
  and the uploaded array stay in step, an edit reaches what is posted, loading and applying an
  entry unchanged loses nothing, and three ways the array shown and the array posted part.
\<close>

section \<open>Reachable worlds\<close>

definition upload_start :: "upload_world \<Rightarrow> bool" where
  "upload_start w \<longleftrightarrow> (\<exists>fresh. w_state w = upload_initial fresh \<and> w_arrays w fresh = [] \<and> fresh < w_next w)"

inductive upload_reach :: "upload_world \<Rightarrow> bool" where
  initial: "upload_start w \<Longrightarrow> upload_reach w"
| props_update: "upload_reach w \<Longrightarrow> upload_reach (upload_componentDidUpdate b w)"
| reset: "upload_reach w \<Longrightarrow> upload_reach (set_up (upload_reset (w_state w)) w)"
| loaded: "upload_reach w \<Longrightarrow> upload_reach (fst (upload_loaded confirmed parsed w))"
| delete: "upload_reach w \<Longrightarrow> upload_reach (upload_onDelete w)"
| select: "upload_reach w \<Longrightarrow> select_entry confirmed i w = Inr w' \<Longrightarrow> upload_reach w'"
| apply_edit: "upload_reach w \<Longrightarrow> applyEditToEntry w = (fx, Inr w') \<Longrightarrow> upload_reach w'"
| modal: "upload_reach w \<Longrightarrow> upload_reach (set_up (handleModalSubmit (w_state w)) w)"
| edit_field: "upload_reach w \<Longrightarrow>
    f \<in> {up_onChangeSpiffeIdTrustDomain v, up_onChangeSpiffeIdPath v, up_onChangeParentIdTrustDomain v,
      up_onChangeParentIdPath v, up_onChangeSelectors v, up_onChangeJwtTtl v, up_onChangex509Ttl v,
      up_onChangeExpiresAt v, up_onChangeDnsNames ev, up_onChangeFederatesWith ev,
      up_onChangeAdminFlag b, up_onChangeDownStream b, up_onChangeParentId v,
      up_onChangeParentIdInput v, up_spiffeId_typed v} \<Longrightarrow>
    upload_reach (set_up (f (w_state w)) w)"
| other_dispatch: "upload_reach w \<Longrightarrow> upload_reach (w\<lparr>w_root := dispatch (w_root w) a\<rparr>)"

definition in_step :: "upload_world \<Rightarrow> bool" where
  "in_step w \<longleftrightarrow> up_uploadedEntries (w_state w) < w_next w \<and>
     length (up_newEntriesIds (w_state w)) = length (w_arrays w (up_uploadedEntries (w_state w)))"

definition lists_of :: "CreateEntryJsonState \<Rightarrow> array_ref \<times> nat" where
  "lists_of st = (up_uploadedEntries st, length (up_newEntriesIds st))"

lemma in_step_state: "lists_of st = lists_of (w_state w) \<Longrightarrow> in_step w \<Longrightarrow> in_step (set_up st w)"
  by (simp add: in_step_def lists_of_def)

lemma in_step_root: "in_step (w\<lparr>w_root := r\<rparr>) = in_step w"
  by (simp add: in_step_def)

lemma field_lists:
  "f \<in> {up_onChangeSpiffeIdTrustDomain v, up_onChangeSpiffeIdPath v, up_onChangeParentIdTrustDomain v,
      up_onChangeParentIdPath v, up_onChangeSelectors v, up_onChangeJwtTtl v, up_onChangex509Ttl v,
      up_onChangeExpiresAt v, up_onChangeDnsNames ev, up_onChangeFederatesWith ev,
      up_onChangeAdminFlag b, up_onChangeDownStream b, up_onChangeParentId v,
      up_onChangeParentIdInput v, up_spiffeId_typed v} \<Longrightarrow> lists_of (f st) = lists_of st"
  unfolding up_onChangeSpiffeIdTrustDomain_def up_onChangeSpiffeIdPath_def
    up_onChangeParentIdTrustDomain_def up_onChangeParentIdPath_def up_onChangeSelectors_def
    up_onChangeJwtTtl_def up_onChangex509Ttl_def up_onChangeExpiresAt_def up_onChangeDnsNames_def
    up_onChangeFederatesWith_def up_onChangeAdminFlag_def up_onChangeDownStream_def
    up_onChangeParentId_def up_onChangeParentIdInput_def up_spiffeId_typed_def up_onChangeSpiffeId_def
  by (auto simp: lists_of_def Let_def split: option.splits prod.splits)

lemma form_lists:
  "lists_of (handleModalSubmit st) = lists_of st" "lists_of (cleared_form st) = lists_of st"
  "lists_of (upload_reset st) = lists_of st" "lists_of (upload_failed st) = lists_of st"
  by (simp_all add: lists_of_def handleModalSubmit_def cleared_form_def upload_reset_def upload_failed_def)

lemma select_lists:
  "setSelectedEntriesIds confirmed arrays i uploaded st pending = Inr st' \<Longrightarrow> lists_of st' = lists_of pending"
  by (auto simp: setSelectedEntriesIds_def lists_of_def Let_def split: option.split_asm if_split_asm)

lemma in_step_alloc:
  assumes "in_step w" and "alloc es w = (ref, w1)"
  shows "in_step w1" and "ref < w_next w1" and "w_arrays w1 ref = es" and "w_state w1 = w_state w"
    and "w_root w1 = w_root w"
  using assms by (auto simp: alloc_def in_step_def)

lemma in_step_loaded:
  assumes "in_step w"
  shows "in_step (fst (upload_loaded confirmed parsed w))"
proof (cases parsed)
  case (EntriesArray es)
  obtain ref w1 where a: "alloc es w = (ref, w1)" by fastforce
  note al = in_step_alloc [OF assms a]
  let ?w2 = "w1\<lparr>w_root := dispatches (w_root w1) (newEntriesUpdateFunc (Some ref))\<rparr>"
  have w2: "in_step ?w2" using al(1) by (simp add: in_step_root)
  have failed: "in_step (set_up (upload_failed (w_state w)) ?w2)"
    by (rule in_step_state [OF _ w2]) (simp add: form_lists al(4))
  show ?thesis
  proof (cases "mapE uploaded_id es")
    case (Inl err)
    then show ?thesis using failed by (simp add: upload_loaded_def EntriesArray a)
  next
    case (Inr ids)
    let ?p = "(w_state w)\<lparr>up_parseError := False, up_newEntriesIds := ids,
       up_uploadedEntries := ref, up_newEntriesLoaded := True\<rparr>"
    have good: "in_step (set_up st ?w2)" if "lists_of st = lists_of ?p" for st
      using that al(2,3) mapE_length [OF Inr] by (simp add: in_step_def lists_of_def)
    show ?thesis
      using good select_lists form_lists(4) Inr
      by (auto simp: upload_loaded_def EntriesArray a Let_def split: sum.splits)
  qed
next
  case Malformed
  then show ?thesis
    using assms in_step_state [of "upload_failed (w_state w)" w]
    by (simp add: upload_loaded_def form_lists Let_def)
next
  case NullText
  then show ?thesis
    using assms in_step_state [of "upload_failed (w_state w)" w]
    by (simp add: upload_loaded_def form_lists Let_def)
next
  case NoEntriesArray
  then show ?thesis
    using assms in_step_state [of "upload_failed (w_state w)" w]
    by (simp add: upload_loaded_def form_lists Let_def)
next
  case NotText
  then show ?thesis using assms by (simp add: upload_loaded_def Let_def)
qed

lemma in_step_apply:
  assumes "in_step w" and "applyEditToEntry w = (fx, Inr w')"
  shows "in_step w'"
  using assms
  by (auto simp: applyEditToEntry_def in_step_def cleared_form_def Let_def split: if_split_asm)

lemma reach_in_step: "upload_reach w \<Longrightarrow> in_step w"
proof (induction rule: upload_reach.induct)
  case (initial w)
  then show ?case by (auto simp: upload_start_def in_step_def upload_initial_def)
next
  case (props_update w b)
  then show ?case by (simp add: upload_componentDidUpdate_def in_step_root)
next
  case (reset w)
  then show ?case by (intro in_step_state) (simp_all add: form_lists)
next
  case (loaded w confirmed parsed)
  then show ?case by (simp add: in_step_loaded)
next
  case (delete w)
  then show ?case by (simp add: upload_onDelete_def alloc_def in_step_def)
next
  case (select w confirmed i w')
  then show ?case
    by (auto simp: select_entry_def elim!: bindE_InrE dest!: select_lists intro: in_step_state)
next
  case (apply_edit w fx w')
  then show ?case by (blast intro: in_step_apply)
next
  case (modal w)
  then show ?case by (intro in_step_state) (simp_all add: form_lists)
next
  case (edit_field w f v ev b)
  then show ?case by (blast intro: in_step_state field_lists)
next
  case (other_dispatch w a)
  then show ?case by (simp add: in_step_root)
qed

definition world0 :: upload_world where
  "world0 = \<lparr>w_state = upload_initial 1, w_arrays = (\<lambda>_. []), w_next = 2,
     w_root = createStore (\<lambda>_. None) None\<rparr>"

lemma world0_reach: "upload_reach world0"
  by (rule upload_reach.initial)
     (simp add: upload_start_def world0_def exI [of _ "Suc 0"])

section \<open>Edits reach what is posted\<close>

lemma yaml_posts:
  assumes "globalNewEntries (st_entries props) = Some ref" and "entry_endpoint env st \<noteq> []"
  shows "onYAMLEntryCreate env props arrays st =
    [Request POST (entry_endpoint env st) (UploadedEntries (arrays ref))]"
  using assms by (simp add: onYAMLEntryCreate_def endpoint_effects Let_def)

definition shared :: "upload_world \<Rightarrow> bool" where
  "shared w \<longleftrightarrow> globalNewEntries (st_entries (w_root w)) = Some (up_uploadedEntries (w_state w))"

definition edit_complete :: "CreateEntryJsonState \<Rightarrow> bool" where
  "edit_complete st \<longleftrightarrow> \<not> missing (up_spiffeIdTrustDomain st) \<and> \<not> missing (up_spiffeIdPath st) \<and>
     \<not> missing (up_parentIdTrustDomain st) \<and> \<not> missing (up_parentIdPath st) \<and> up_selectorsList st \<noteq> []"

text \<open>C3. An applied edit is what gets posted: while the store and the editor share the uploaded array, a
  complete edit of entry i changes exactly entry i of what the button Create Entries posts, to the
  edited entry, and the sharing lasts.\<close>

theorem edit_is_posted:
  assumes "shared w" and "up_selectedEntryId (w_state w) = int i" and "edit_complete (w_state w)"
    and "i < length (w_arrays w (up_uploadedEntries (w_state w)))"
    and "length (up_newEntriesIds (w_state w)) = length (w_arrays w (up_uploadedEntries (w_state w)))"
    and "entry_endpoint env cst \<noteq> []"
  shows "\<exists>w'. applyEditToEntry w = ([Alert (''Entry '' @ nat_toString (i + 1) @ '' Updated!'')], Inr w') \<and>
    shared w' \<and>
    onYAMLEntryCreate env (w_root w') (w_arrays w') cst =
      [Request POST (entry_endpoint env cst) (UploadedEntries
        ((w_arrays w (up_uploadedEntries (w_state w)))
          [i := edited_entry (w_state w) (w_arrays w (up_uploadedEntries (w_state w)) ! i)]))]"
proof -
  let ?ref = "up_uploadedEntries (w_state w)"
  obtain w' where w': "applyEditToEntry w = ([Alert (''Entry '' @ nat_toString (i + 1) @ '' Updated!'')], Inr w')"
    and root: "w_root w' = w_root w" and ref: "up_uploadedEntries (w_state w') = ?ref"
    and arr: "w_arrays w' ?ref = (w_arrays w ?ref)[i := edited_entry (w_state w) (w_arrays w ?ref ! i)]"
    using assms(2-5)
    by (auto simp: applyEditToEntry_def edit_complete_def cleared_form_def Let_def)
  have "shared w'" using assms(1) by (simp add: shared_def root ref)
  then show ?thesis
    using w' yaml_posts [OF _ assms(6), of "w_root w'" ?ref] arr ref
    by (simp add: shared_def)
qed

lemma upload_shares:
  assumes "es = e # es'" and "\<And>x. x \<in> set es \<Longrightarrow> spiffe_id x \<noteq> None"
  shows "shared (fst (upload_loaded confirmed (EntriesArray es) w)) \<and>
    w_arrays (fst (upload_loaded confirmed (EntriesArray es) w)) (w_next w) = es \<and>
    up_uploadedEntries (w_state (fst (upload_loaded confirmed (EntriesArray es) w))) = w_next w \<and>
    \<not> up_parseError (w_state (fst (upload_loaded confirmed (EntriesArray es) w)))"
proof -
  obtain ids where ids: "mapE uploaded_id es = Inr ids"
  proof -
    have "\<forall>x \<in> set es. \<exists>v. uploaded_id x = Inr v"
      using assms(2) by (auto simp: uploaded_id_def getEntrySpiffeid_def split: option.splits)
    then show ?thesis using that mapE_eq_Inr by blast
  qed
  have stored: "globalNewEntries (st_entries (dispatches r (newEntriesUpdateFunc (Some x)))) = Some x" for r x
    using globalNewEntries_cell.get_dispatches_last [of "[]" r "[]" "Some x"]
    by (simp add: newEntriesUpdateFunc_def)
  show ?thesis
    using ids unfolding assms(1)
    by (simp add: upload_loaded_def alloc_def Let_def setSelectedEntriesIds_def shared_def stored
        del: mapE.simps)
qed

section \<open>Loading and applying\<close>

definition plain_parts :: "string list \<Rightarrow> bool" where
  "plain_parts xs \<longleftrightarrow> (\<forall>x \<in> set xs. x \<noteq> [] \<and> CHR '','' \<notin> set x \<and> trim x = x)"

lemma join_nonempty: "xs \<noteq> [] \<Longrightarrow> hd xs \<noteq> [] \<Longrightarrow> join sep xs \<noteq> []"
  by (induction sep xs rule: join.induct) auto

lemma parts_of_plain: "plain_parts xs \<Longrightarrow> trimmed_parts (array_toString xs) = xs"
proof (cases "xs = []")
  case True
  then show ?thesis by (simp add: array_toString_def)
next
  case False
  assume *: "plain_parts xs"
  have "hd xs \<noteq> []" using False * by (simp add: plain_parts_def)
  then have "join '','' xs \<noteq> []" using False by (rule join_nonempty [rotated])
  moreover have "split_on (CHR '','') (join '','' xs) = xs"
    by (rule split_on_join [OF False]) (use * in \<open>simp add: plain_parts_def\<close>)
  moreover have "map trim xs = xs" using * by (intro map_idI) (simp add: plain_parts_def)
  ultimately show ?thesis by (simp add: trimmed_parts_def array_toString_def)
qed

lemma join_concat: "join [] xs = concat xs"
  by (induction "[] :: string" xs rule: join.induct) auto

lemma split_lines: "\<forall>x \<in> set xs. c \<notin> set x \<Longrightarrow> split_on c (concat (map (\<lambda>x. x @ [c]) xs)) = xs @ [[]]"
  by (induction xs) (simp_all add: split_on_append_sep)

definition plain_selector :: "Selector \<Rightarrow> bool" where
  "plain_selector s \<longleftrightarrow> wf_selector s \<and> CHR 0x0A \<notin> set (formatSelectors s) \<and>
     trim (formatSelectors s) = formatSelectors s"

lemma edit_selectors_lines:
  assumes "\<forall>s \<in> set ss. plain_selector s"
  shows "edit_selectors (join [] (map (\<lambda>s. formatSelectors s @ [CHR 0x0A]) ss)) = ss"
proof -
  let ?fs = "map formatSelectors ss"
  have split: "split_on (CHR 0x0A) (concat (map (\<lambda>s. formatSelectors s @ [CHR 0x0A]) ss)) = ?fs @ [[]]"
    using split_lines [of ?fs "CHR 0x0A"] assms by (simp add: plain_selector_def o_def)
  have trims: "map trim (?fs @ [[]]) = ?fs @ [[]]"
    using assms by (simp add: plain_selector_def trim_def)
  have ne: "formatSelectors s \<noteq> []" for s by (simp add: formatSelectors_def)
  have "parse_selector (formatSelectors s) = Some s" if "s \<in> set ss" for s
    using assms that sel.parse_render by (simp add: plain_selector_def)
  then have "map (\<lambda>x. case parse_selector x of Some s \<Rightarrow> s
      | None \<Rightarrow> \<lparr>selector_type = [], selector_value = []\<rparr>) ?fs = ss"
    by (simp add: o_def map_idI)
  moreover have "filter (\<lambda>x. x \<noteq> []) (?fs @ [[]]) = ?fs"
    using ne by (simp add: filter_empty_conv)
  ultimately show ?thesis
    by (simp add: edit_selectors_def join_concat split trims del: map_append)
qed

text \<open>An entry the editor can show in full: both ids complete, at least one selector, plain lists.\<close>

definition editable :: "EntriesList \<Rightarrow> bool" where
  "editable e \<longleftrightarrow>
     (\<exists>t p t' p'. spiffe_id e = Some \<lparr>trust_domain = Some t, path = Some p\<rparr> \<and>
        parent_id e = Some \<lparr>trust_domain = Some t', path = Some p'\<rparr> \<and>
        t \<noteq> [] \<and> p \<noteq> [] \<and> t' \<noteq> [] \<and> p' \<noteq> []) \<and>
     (\<exists>ss. entry_selectors e = Some ss \<and> ss \<noteq> [] \<and> (\<forall>s \<in> set ss. plain_selector s)) \<and>
     (\<exists>fs. federates_with e = Some fs \<and> plain_parts fs) \<and>
     (case dns_names e of None \<Rightarrow> True | Some ds \<Rightarrow> plain_parts ds)"

lemma array_toString_empty: "plain_parts xs \<Longrightarrow> array_toString xs = [] \<longleftrightarrow> xs = []"
  using parts_of_plain [of xs] by (auto simp: array_toString_def)

lemma edit_unchanged:
  assumes "editable e" and "setSelectedEntriesIds confirmed arrays i (Some e) st st = Inr st'"
    and "\<not> (up_entrySelected st \<and> confirmed)"
  shows "edited_entry st' e = e" and "edit_complete st'" and "up_selectedEntryId st' = int i"
    and "lists_of st' = lists_of st"
proof -
  obtain t p t' p' ss fs where
    ids: "spiffe_id e = Some \<lparr>trust_domain = Some t, path = Some p\<rparr>"
    "parent_id e = Some \<lparr>trust_domain = Some t', path = Some p'\<rparr>"
    "t \<noteq> []" "p \<noteq> []" "t' \<noteq> []" "p' \<noteq> []"
    and ss: "entry_selectors e = Some ss" "ss \<noteq> []" "\<forall>s \<in> set ss. plain_selector s"
    and fs: "federates_with e = Some fs" "plain_parts fs"
    using assms(1) unfolding editable_def by blast
  have ds: "dns_names e = Some ds \<Longrightarrow> plain_parts ds" for ds
    using assms(1) by (simp add: editable_def)
  define dnss where "dnss = (case dns_names e of None \<Rightarrow> [] | Some ds \<Rightarrow> array_toString ds)"
  have dns: "dnss \<noteq> [] \<Longrightarrow> Some (trimmed_parts dnss) = dns_names e"
    using ds by (cases "dns_names e") (auto simp: dnss_def parts_of_plain array_toString_empty)
  have st': "st' = st
       \<lparr>up_selectedEntryId := int i, up_newEntrySelected := e,
        up_spiffeIdTrustDomain := Some t, up_spiffeIdPath := Some p,
        up_spiffeId := up_prefix st @ t @ p, up_parentId := up_prefix st @ t' @ p',
        up_parentIdTrustDomain := Some t', up_parentIdPath := Some p',
        up_selectorsList := join [] (map (\<lambda>s. formatSelectors s @ [CHR 0x0A]) ss),
        up_x509_svid_ttl := x509_svid_ttl e, up_jwt_svid_ttl := jwt_svid_ttl e,
        up_expiresAt := expires_at e, up_federatesWith := array_toString fs,
        up_dnsNames := dnss, up_adminFlag := admin e, up_downstream := downstream e,
        up_entrySelected := True, up_spiffeIdPrefix := up_prefix st @ t\<rparr>"
    using assms(2,3) ids ss fs
    by (simp add: setSelectedEntriesIds_def Let_def id_text_def dnss_def template_def)
  have "join [] (map (\<lambda>s. formatSelectors s @ [CHR 0x0A]) ss) \<noteq> []"
    using ss(2) by (cases ss) (simp_all add: join_concat)
  then show "edit_complete st'" "up_selectedEntryId st' = int i" "lists_of st' = lists_of st"
    using ids by (simp_all add: st' edit_complete_def missing_def lists_of_def)
  have keep: "keep_or v v = v" for v :: "'x option" by (simp add: keep_or_def split: option.splits)
  show "edited_entry st' e = e"
    by (rule EntriesList.equality)
       (use ids ss fs dns in \<open>simp_all add: edited_entry_def st' edit_selectors_lines parts_of_plain keep\<close>)
qed

text \<open>C5. Selecting an uploaded entry and applying it unchanged changes nothing: for an entry with
  complete ids, at least one selector and plain lists, the arrays after the two steps are the
  arrays before.\<close>

theorem load_apply_identity:
  assumes "i < length (w_arrays w (up_uploadedEntries (w_state w)))"
    and "editable (w_arrays w (up_uploadedEntries (w_state w)) ! i)"
    and "\<not> (up_entrySelected (w_state w) \<and> confirmed)"
    and "length (up_newEntriesIds (w_state w)) = length (w_arrays w (up_uploadedEntries (w_state w)))"
  shows "\<exists>w1 fx w2. select_entry confirmed i w = Inr w1 \<and> applyEditToEntry w1 = (fx, Inr w2) \<and>
    w_arrays w2 = w_arrays w \<and> up_selectedEntryId (w_state w2) = - 1"
proof -
  let ?ref = "up_uploadedEntries (w_state w)"
  let ?e = "w_arrays w ?ref ! i"
  have "setSelectedEntriesIds confirmed (w_arrays w) i None (w_state w) (w_state w) =
      setSelectedEntriesIds confirmed (w_arrays w) i (Some ?e) (w_state w) (w_state w)"
    using assms(1) by (simp add: setSelectedEntriesIds_def Let_def)
  moreover obtain st' where
    st': "setSelectedEntriesIds confirmed (w_arrays w) i (Some ?e) (w_state w) (w_state w) = Inr st'"
    using assms(3) by (auto simp: setSelectedEntriesIds_def Let_def)
  ultimately have sel: "select_entry confirmed i w = Inr (set_up st' w)"
    by (simp add: select_entry_def)
  note un = edit_unchanged [OF assms(2) st' assms(3)]
  have "\<exists>w2. applyEditToEntry (set_up st' w) =
      ([Alert (''Entry '' @ nat_toString (i + 1) @ '' Updated!'')], Inr w2) \<and>
      w_arrays w2 = (w_arrays w)(?ref := (w_arrays w ?ref)[i := edited_entry st' ?e]) \<and>
      up_selectedEntryId (w_state w2) = - 1"
    using un(2-4) assms(1,4)
    by (auto simp: applyEditToEntry_def edit_complete_def cleared_form_def Let_def lists_of_def)
  then show ?thesis using sel un(1) by auto
qed

definition entry1 :: EntriesList where
  "entry1 = work1\<lparr>federates_with := Some [''x.org''], entry_selectors := Some [sel_of ''u'' ''7'']\<rparr>"

lemma load_apply_identity_witness:
  "\<exists>w1 fx w2. select_entry False 0 (fst (upload_loaded False (EntriesArray [entry1]) world0)) = Inr w1 \<and>
    applyEditToEntry w1 = (fx, Inr w2) \<and>
    w_arrays w2 = w_arrays (fst (upload_loaded False (EntriesArray [entry1]) world0)) \<and>
    up_selectedEntryId (w_state w2) = - 1"
proof -
  have sp: "spiffe_id entry1 \<noteq> None" by (simp add: entry1_def work1_def entry_of_def id_of_def)
  have up: "w_arrays (fst (upload_loaded False (EntriesArray [entry1]) world0)) (w_next world0) = [entry1]"
    "up_uploadedEntries (w_state (fst (upload_loaded False (EntriesArray [entry1]) world0))) = w_next world0"
    using upload_shares [of "[entry1]" entry1 "[]" False world0] sp by simp_all
  have ed: "editable entry1"
    by (simp add: editable_def entry1_def work1_def entry_of_def id_of_def plain_parts_def
        plain_selector_def wf_selector_def formatSelectors_def sel_of_def trim_def is_space_def)
  have "in_step (fst (upload_loaded False (EntriesArray [entry1]) world0))"
    by (rule in_step_loaded) (simp add: in_step_def world0_def upload_initial_def)
  then show ?thesis
    by (intro load_apply_identity) (simp_all add: up ed in_step_def)
qed

section \<open>Where the two parts part\<close>

text \<open>A file with an empty list of entries is reported as a parse error, never as 0 entries loaded:
  on a first upload the toast and the error notice appear and the notice of loaded entries does
  not, although the store now holds the file's empty list.\<close>

lemma empty_file_is_error:
  assumes "w_arrays w (up_uploadedEntries (w_state w)) = []" and "\<not> up_entrySelected (w_state w)"
    and "up_uploadedEntries (w_state w) < w_next w"
  shows "let (w', fx) = upload_loaded confirmed (EntriesArray []) w in
    fx = [Toast (showToast ''Encountered a parse error. Is the JSON invalid?'')] \<and>
    parse_error_shown (upload_render (w_state w')) \<and> loaded_notice (upload_render (w_state w')) = None \<and>
    up_newEntriesIds (w_state w') = [] \<and>
    globalNewEntries (st_entries (w_root w')) = Some (w_next w) \<and> w_arrays w' (w_next w) = []"
proof -
  have "globalNewEntries (st_entries (dispatches r (newEntriesUpdateFunc (Some x)))) = Some x" for r x
    using globalNewEntries_cell.get_dispatches_last [of "[]" r "[]" "Some x"]
    by (simp add: newEntriesUpdateFunc_def)
  then show ?thesis
    using assms
    by (simp add: upload_loaded_def alloc_def Let_def setSelectedEntriesIds_def upload_failed_def
        parse_toast_def upload_render_def)
qed

lemma empty_file_is_error_witness:
  "let (w', fx) = upload_loaded False (EntriesArray []) world0 in
    fx = [Toast (showToast ''Encountered a parse error. Is the JSON invalid?'')] \<and>
    parse_error_shown (upload_render (w_state w')) \<and> loaded_notice (upload_render (w_state w')) = None \<and>
    up_newEntriesIds (w_state w') = [] \<and>
    globalNewEntries (st_entries (w_root w')) = Some (w_next world0) \<and> w_arrays w' (w_next world0) = []"
  by (rule empty_file_is_error) (simp_all add: world0_def upload_initial_def)

text \<open>Clearing the uploaded file does not withdraw it: the component's list is empty afterwards, but
  the button Create Entries stays enabled and posts the entries of the cleared file.\<close>

lemma cleared_file_still_posted:
  assumes "shared w" and "up_uploadedEntries (w_state w) < w_next w"
    and "w_arrays w (up_uploadedEntries (w_state w)) = e # es" and "entry_endpoint env cst \<noteq> []"
  shows "let w' = upload_onDelete w in
    w_arrays w' (up_uploadedEntries (w_state w')) = [] \<and> up_newEntriesIds (w_state w') = [] \<and>
    (\<exists>v. entry_create_render (w_root w') (w_arrays w') cst = Inr v \<and> create_entries_enabled v) \<and>
    onYAMLEntryCreate env (w_root w') (w_arrays w') cst =
      [Request POST (entry_endpoint env cst) (UploadedEntries (e # es))]"
proof -
  let ?ref = "up_uploadedEntries (w_state w)"
  have keep: "w_arrays (upload_onDelete w) ?ref = e # es" "w_root (upload_onDelete w) = w_root w"
    using assms(2,3) by (auto simp: upload_onDelete_def alloc_def)
  moreover have "w_arrays (upload_onDelete w) (up_uploadedEntries (w_state (upload_onDelete w))) = []"
    "up_newEntriesIds (w_state (upload_onDelete w)) = []"
    by (simp_all add: upload_onDelete_def alloc_def)
  moreover have "globalNewEntries (st_entries (w_root w)) = Some ?ref"
    using assms(1) by (simp add: shared_def)
  ultimately show ?thesis
    using yaml_posts [OF _ assms(4), of "w_root w" ?ref]
    by (simp add: Let_def entry_create_render_def)
qed

lemma local_endpoint: "entry_endpoint env_local cst \<noteq> []"
  by (simp add: entry_endpoint_def getApiEntryCreateEndpoint_def IsManager_def env_local_def
      js_unfold GetApiServerUri_def)

definition world1 :: upload_world where
  "world1 = fst (upload_loaded False (EntriesArray [entry1]) world0)"

lemma world1_facts:
  "shared world1" "up_uploadedEntries (w_state world1) = 2" "w_arrays world1 2 = [entry1]"
  "w_next world1 = 3" "length (up_newEntriesIds (w_state world1)) = 1"
proof -
  have sp: "\<And>x. x \<in> set [entry1] \<Longrightarrow> spiffe_id x \<noteq> None"
    by (simp add: entry1_def work1_def entry_of_def id_of_def)
  have n: "w_next world0 = 2" by (simp add: world0_def)
  show *: "shared world1" "up_uploadedEntries (w_state world1) = 2" "w_arrays world1 2 = [entry1]"
    using upload_shares [of "[entry1]" entry1 "[]" False world0, OF refl sp] n
    by (simp_all add: world1_def)
  have "in_step world1"
    unfolding world1_def by (rule in_step_loaded) (simp add: in_step_def world0_def upload_initial_def)
  then show "length (up_newEntriesIds (w_state world1)) = 1" using * by (simp add: in_step_def)
  show "w_next world1 = 3"
    by (simp add: world1_def upload_loaded_def alloc_def n Let_def split: sum.splits)
qed

lemma cleared_file_still_posted_witness:
  "let w' = upload_onDelete world1 in
    w_arrays w' (up_uploadedEntries (w_state w')) = [] \<and> up_newEntriesIds (w_state w') = [] \<and>
    (\<exists>v. entry_create_render (w_root w') (w_arrays w') form1 = Inr v \<and> create_entries_enabled v) \<and>
    onYAMLEntryCreate env_local (w_root w') (w_arrays w') form1 =
      [Request POST (entry_endpoint env_local form1) (UploadedEntries [entry1])]"
  by (rule cleared_file_still_posted) (simp_all add: world1_facts local_endpoint)

text \<open>A selection survives into the next file: when an entry is selected and the user answers OK to
  the question asked during another upload, applying the edit writes the fields loaded from the
  old file over the entry with the same position in the new one, and where the new one has no such
  entry it throws.\<close>

lemma stale_selection_overwrites:
  assumes "up_entrySelected (w_state w)" and "up_selectedEntryId (w_state w) = int i"
    and "edit_complete (w_state w)" and "list_all (\<lambda>x. spiffe_id x \<noteq> None) es"
  shows "let w1 = fst (upload_loaded True (EntriesArray es) w) in
    w_arrays w1 (up_uploadedEntries (w_state w1)) = es \<and>
    (if i < length es then
       (\<exists>w2. applyEditToEntry w1 = ([Alert (''Entry '' @ nat_toString (i + 1) @ '' Updated!'')], Inr w2) \<and>
         w_arrays w2 (up_uploadedEntries (w_state w1)) = es[i := edited_entry (w_state w) (es ! i)])
     else applyEditToEntry w1 = ([], Inl TypeError))"
proof -
  have "\<forall>x \<in> set es. \<exists>v. uploaded_id x = Inr v"
    using assms(4) by (auto simp: list_all_iff uploaded_id_def getEntrySpiffeid_def split: option.splits)
  then obtain ids where ids: "mapE uploaded_id es = Inr ids" using mapE_eq_Inr by blast
  define w1 where "w1 = fst (upload_loaded True (EntriesArray es) w)"
  have st: "w_state w1 = (w_state w)\<lparr>up_parseError := False, up_newEntriesIds := ids,
      up_uploadedEntries := w_next w, up_newEntriesLoaded := True\<rparr>"
    and arr: "w_arrays w1 (w_next w) = es"
    using assms(1) by (simp_all add: w1_def upload_loaded_def ids alloc_def Let_def setSelectedEntriesIds_def)
  have ed: "edited_entry (w_state w1) x = edited_entry (w_state w) x" for x
    by (simp add: st edited_entry_def)
  have "if i < length es then
      (\<exists>w2. applyEditToEntry w1 = ([Alert (''Entry '' @ nat_toString (i + 1) @ '' Updated!'')], Inr w2) \<and>
        w_arrays w2 (w_next w) = es[i := edited_entry (w_state w1) (es ! i)])
    else applyEditToEntry w1 = ([], Inl TypeError)"
    using assms(2,3) mapE_length [OF ids] arr
    by (auto simp: applyEditToEntry_def edit_complete_def st Let_def)
  moreover have "up_uploadedEntries (w_state w1) = w_next w" by (simp add: st)
  ultimately show ?thesis
    unfolding w1_def [symmetric] Let_def by (simp only: arr ed simp_thms)
qed

lemma stale_selection_overwrites_witness:
  "let w1 = fst (upload_loaded True (EntriesArray [node1, work1]) world1) in
    w_arrays w1 (up_uploadedEntries (w_state w1)) = [node1, work1] \<and>
    (if 0 < length [node1, work1] then
       (\<exists>w2. applyEditToEntry w1 = ([Alert (''Entry '' @ nat_toString (0 + 1) @ '' Updated!'')], Inr w2) \<and>
         w_arrays w2 (up_uploadedEntries (w_state w1)) =
           [node1, work1][0 := edited_entry (w_state world1) ([node1, work1] ! 0)])
     else applyEditToEntry w1 = ([], Inl TypeError))"
proof (rule stale_selection_overwrites)
  have id1: "mapE uploaded_id [entry1] = Inr [Some ''spiffe://td/w1'']"
    by (simp add: uploaded_id_def getEntrySpiffeid_def entry1_def work1_def entry_of_def id_of_def
        render_id_def checkSpiffeidValidity_def charAt0_def slice_last_def)
  show "up_entrySelected (w_state world1)" "up_selectedEntryId (w_state world1) = int 0"
    "edit_complete (w_state world1)"
    using id1
    by (simp_all add: world1_def upload_loaded_def alloc_def Let_def setSelectedEntriesIds_def world0_def
        upload_initial_def edit_complete_def missing_def entry1_def work1_def entry_of_def id_of_def
        formatSelectors_def del: mapE.simps)
qed (simp_all add: node1_def work1_def entry_of_def id_of_def)

lemma edit_is_posted_witness:
  "\<exists>w'. applyEditToEntry world1 = ([Alert (''Entry '' @ nat_toString (0 + 1) @ '' Updated!'')], Inr w') \<and>
    shared w' \<and>
    onYAMLEntryCreate env_local (w_root w') (w_arrays w') form1 =
      [Request POST (entry_endpoint env_local form1) (UploadedEntries
        ((w_arrays world1 (up_uploadedEntries (w_state world1)))
          [0 := edited_entry (w_state world1) (w_arrays world1 (up_uploadedEntries (w_state world1)) ! 0)]))]"
proof (rule edit_is_posted)
  have id1: "mapE uploaded_id [entry1] = Inr [Some ''spiffe://td/w1'']"
    by (simp add: uploaded_id_def getEntrySpiffeid_def entry1_def work1_def entry_of_def id_of_def
        render_id_def checkSpiffeidValidity_def charAt0_def slice_last_def)
  show "up_selectedEntryId (w_state world1) = int 0" "edit_complete (w_state world1)"
    using id1
    by (simp_all add: world1_def upload_loaded_def alloc_def Let_def setSelectedEntriesIds_def world0_def
        upload_initial_def edit_complete_def missing_def entry1_def work1_def entry_of_def id_of_def
        formatSelectors_def del: mapE.simps)
qed (simp_all add: world1_facts local_endpoint)

end
