(* ===== verification/ClusterForms.thy ===== *)
theory ClusterForms
  imports SpiffeHelper ApiLists
begin

text \<open>
  Creating and editing clusters: components/cluster-create.tsx, cluster-edit.tsx,
  cluster-management.tsx (which prepares the lists both forms offer) and cluster-list.tsx. The
  states' fields carry the prefixes \<open>cc_\<close>, \<open>ce_\<close> and \<open>cm_\<close>.
\<close>

section \<open>What the forms post\<close>

record new_cluster =
  nc_name :: string
  nc_platformType :: string
  nc_domainName :: string
  nc_managedBy :: string
  nc_agentsList :: "string list"

record edited_cluster =
  ed_Name :: string
  ed_EditedName :: string
  ed_PlatformType :: string
  ed_DomainName :: string
  ed_ManagedBy :: string
  ed_AgentsList :: "string list"

datatype cluster_body = NewCluster new_cluster | EditedCluster edited_cluster | ApiBody api_body

definition lift_api :: "api_effect list \<Rightarrow> cluster_body effect list" where
  [js_unfold]: "lift_api fx = map (map_effect ApiBody) fx"

definition cluster_manual_option :: string where
  "cluster_manual_option = ''----Select this option and Enter Custom Cluster Type Below----''"

text \<open>The labels selected, shown on one line and on one line each.\<close>

definition agents_display :: "string list \<Rightarrow> string" where
  "agents_display ids =
     (let d = array_toString ids in if length d = 0 then ''Select Agents'' else d)"

definition fine_message :: "RootState \<Rightarrow> bool" where
  "fine_message props \<longleftrightarrow>
     globalErrorMessage (st_tornjak props) = Message ''OK'' \<or> globalErrorMessage (st_tornjak props) = Message []"

section \<open>Creating a cluster\<close>

record ClusterCreateState =
  cc_clusterName :: string
  cc_clusterType :: string
  cc_clusterDomainName :: string
  cc_clusterManagedBy :: string
  cc_clusterAgentsList :: "string list"
  cc_clusterTypeList :: "string list"
  cc_clusterTypeManualEntryOption :: string
  cc_clusterTypeManualEntry :: bool
  cc_message :: string
  cc_statusOK :: string
  cc_selectedServer :: string
  cc_agentsListDisplay :: string
  cc_assignedAgentsListDisplay :: string

definition cluster_create_initial :: "string list \<Rightarrow> ClusterCreateState" where
  "cluster_create_initial clusterTypeList =
     \<lparr>cc_clusterName = [], cc_clusterType = [], cc_clusterDomainName = [], cc_clusterManagedBy = [],
      cc_clusterAgentsList = [], cc_clusterTypeList = clusterTypeList,
      cc_clusterTypeManualEntryOption = cluster_manual_option, cc_clusterTypeManualEntry = False,
      cc_message = [], cc_statusOK = [], cc_selectedServer = [],
      cc_agentsListDisplay = ''Select Agents'', cc_assignedAgentsListDisplay = []\<rparr>"

text \<open>Mounting: the effects done, and the state or the TypeError of \<open>populateServerInfo\<close>.\<close>

definition cluster_create_mount ::
  "app_env \<Rightarrow> RootState \<Rightarrow> ClusterCreateState \<Rightarrow> api_effect list \<times> ClusterCreateState throws"
where
  "cluster_create_mount env props st =
     (let types = do_dispatch (clusterTypeInfoFunc clusterType);
          server = globalServerSelected (st_servers props) in
      if IsManager env then
        (if server \<noteq> [] \<and> fine_message props
         then (types @ populateAgentsUpdate env server @ populateTornjakServerInfo env server,
               Inr (st\<lparr>cc_selectedServer := server\<rparr>))
         else (types, Inr st))
      else
        (let fx = types @ populateLocalAgentsUpdate env @ populateLocalTornjakServerInfo env in
         case populateServerInfo (globalTornjakServerInfo (st_servers props)) of
           Inl err \<Rightarrow> (fx, Inl err)
         | Inr acts \<Rightarrow> (fx @ do_dispatch acts, Inr st)))"

definition cluster_create_update ::
  "app_env \<Rightarrow> string \<Rightarrow> RootState \<Rightarrow> ClusterCreateState \<Rightarrow> ClusterCreateState"
where
  "cluster_create_update env prev props st =
     (if IsManager env \<and> prev \<noteq> globalServerSelected (st_servers props)
      then st\<lparr>cc_selectedServer := globalServerSelected (st_servers props)\<rparr> else st)"

definition cc_onChangeAgentsList :: "AgentLabels list option \<Rightarrow> ClusterCreateState \<Rightarrow> ClusterCreateState" where
  "cc_onChangeAgentsList selected st =
     (case selected of
        None \<Rightarrow> st
      | Some sid \<Rightarrow>
          (let ids = map label sid in
           st\<lparr>cc_clusterAgentsList := ids, cc_agentsListDisplay := agents_display ids,
              cc_assignedAgentsListDisplay := join [CHR 0x0A] ids\<rparr>))"

definition cc_onChangeClusterName :: "string option \<Rightarrow> ClusterCreateState \<Rightarrow> ClusterCreateState" where
  "cc_onChangeClusterName e st = (case e of None \<Rightarrow> st | Some v \<Rightarrow> st\<lparr>cc_clusterName := v\<rparr>)"

definition cc_onChangeClusterType :: "string option \<Rightarrow> ClusterCreateState \<Rightarrow> ClusterCreateState" where
  "cc_onChangeClusterType selected st =
     (case selected of
        None \<Rightarrow> st
      | Some sid \<Rightarrow>
          if sid = cc_clusterTypeManualEntryOption st
          then st\<lparr>cc_clusterTypeManualEntry := True, cc_clusterType := sid\<rparr>
          else st\<lparr>cc_clusterType := sid, cc_clusterTypeManualEntry := False\<rparr>)"

definition cc_onChangeManualClusterType :: "string option \<Rightarrow> ClusterCreateState \<Rightarrow> ClusterCreateState" where
  "cc_onChangeManualClusterType e st = (case e of None \<Rightarrow> st | Some v \<Rightarrow> st\<lparr>cc_clusterType := v\<rparr>)"

definition cc_onChangeClusterDomainName :: "string option \<Rightarrow> ClusterCreateState \<Rightarrow> ClusterCreateState" where
  "cc_onChangeClusterDomainName e st = (case e of None \<Rightarrow> st | Some v \<Rightarrow> st\<lparr>cc_clusterDomainName := v\<rparr>)"

definition cc_onChangeClusterManagedBy :: "string option \<Rightarrow> ClusterCreateState \<Rightarrow> ClusterCreateState" where
  "cc_onChangeClusterManagedBy e st = (case e of None \<Rightarrow> st | Some v \<Rightarrow> st\<lparr>cc_clusterManagedBy := v\<rparr>)"

definition cc_getApiEntryCreateEndpoint ::
  "app_env \<Rightarrow> ClusterCreateState \<Rightarrow> ClusterCreateState \<times> string"
where
  "cc_getApiEntryCreateEndpoint env st =
     (if \<not> IsManager env then (st, api_uri env tornjakClustersApi)
      else if cc_selectedServer st \<noteq> []
      then (st, GetApiServerUri env ''/manager-api/tornjak/clusters/create'' @ ''/'' @ cc_selectedServer st)
      else (st\<lparr>cc_message := ''Error: No server selected''\<rparr>, []))"

definition cc_cjtData :: "ClusterCreateState \<Rightarrow> cluster_body" where
  "cc_cjtData st =
     NewCluster \<lparr>nc_name = cc_clusterName st, nc_platformType = cc_clusterType st,
       nc_domainName = cc_clusterDomainName st, nc_managedBy = cc_clusterManagedBy st,
       nc_agentsList = cc_clusterAgentsList st\<rparr>"

definition cc_onSubmit ::
  "app_env \<Rightarrow> ClusterCreateState \<Rightarrow> ClusterCreateState \<times> cluster_body effect list"
where
  "cc_onSubmit env st =
     (if cc_clusterName st = [] then (st, [Toast (showToast ''The cluster name cannot be empty.'')])
      else if (cc_clusterTypeManualEntry st \<and> cc_clusterType st = cc_clusterTypeManualEntryOption st) \<or>
              cc_clusterType st = []
      then (st, [Toast (showToast ''The cluster type cannot be empty.'')])
      else
        (let (st', endpoint) = cc_getApiEntryCreateEndpoint env st in
         if endpoint = [] then (st', [])
         else (st', [Request POST endpoint (cc_cjtData st), ScrollBottom])))"

definition cc_onSubmit_done ::
  "(cluster_body \<Rightarrow> string) \<Rightarrow> ('d \<Rightarrow> string) \<Rightarrow> cluster_body \<Rightarrow> 'd outcome \<Rightarrow> ClusterCreateState
     \<Rightarrow> ClusterCreateState \<times> cluster_body effect list"
where
  "cc_onSubmit_done json_req json_rep req out st =
     (case out of
        Resolved _ _ d \<Rightarrow>
          (st\<lparr>cc_message := ''Request:'' @ json_req req @ [CHR 0x0A, CHR 0x0A] @ ''Success:'' @ json_rep d,
              cc_statusOK := ''OK''\<rparr>, [])
      | Rejected e \<Rightarrow> (st, [Toast (showResponseToast e None)]))"

section \<open>Editing and deleting a cluster\<close>

record ClusterEditState =
  ce_originalClusterName :: string
  ce_clusterName :: string
  ce_clusterType :: string
  ce_clusterDomainName :: string
  ce_clusterManagedBy :: string
  ce_clusterAgentsList :: "string list"
  ce_clusterNameList :: "string list"
  ce_clusterTypeList :: "string list"
  ce_clusterTypeManualEntryOption :: string
  ce_clusterTypeManualEntry :: bool
  ce_message :: string
  ce_statusOK :: string
  ce_selectedServer :: string
  ce_agentsListDisplay :: string
  ce_agentsListSelected :: "AgentLabels list"
  ce_assignedAgentsListDisplay :: string

definition cluster_edit_initial :: "string list \<Rightarrow> ClusterEditState" where
  "cluster_edit_initial clusterTypeList =
     \<lparr>ce_originalClusterName = [], ce_clusterName = [], ce_clusterType = [], ce_clusterDomainName = [],
      ce_clusterManagedBy = [], ce_clusterAgentsList = [], ce_clusterNameList = [],
      ce_clusterTypeList = clusterTypeList, ce_clusterTypeManualEntryOption = cluster_manual_option,
      ce_clusterTypeManualEntry = False, ce_message = [], ce_statusOK = [], ce_selectedServer = [],
      ce_agentsListDisplay = ''Select Agents'', ce_agentsListSelected = [],
      ce_assignedAgentsListDisplay = []\<rparr>"

text \<open>The names offered; the guard reads the server's debug information first only if there are clusters.\<close>

definition prepareClusterNameList :: "RootState \<Rightarrow> ClusterEditState \<Rightarrow> ClusterEditState throws" where
  "prepareClusterNameList props st =
     (let clusters = globalClustersList (st_clusters props) in
      if clusters = Undefined then Inr st
      else case globalDebugServerInfo (st_servers props) of
        Undefined \<Rightarrow> Inr st
      | Null \<Rightarrow> Inl TypeError
      | Val d \<Rightarrow>
          if svid_chain d = None \<and> uptime d = None \<and> federated_bundles_count d = None then Inr st
          else (case clusters of
                  Val cs \<Rightarrow> Inr (st\<lparr>ce_clusterNameList := map cluster_name cs\<rparr>)
                | _ \<Rightarrow> Inl TypeError))"

definition cluster_edit_mount ::
  "app_env \<Rightarrow> RootState \<Rightarrow> ClusterEditState \<Rightarrow> api_effect list \<times> ClusterEditState throws"
where
  "cluster_edit_mount env props st =
     (let server = globalServerSelected (st_servers props) in
      if IsManager env then
        (if server \<noteq> [] \<and> fine_message props
         then (populateClustersUpdate env server, prepareClusterNameList props (st\<lparr>ce_selectedServer := server\<rparr>))
         else ([], prepareClusterNameList props st))
      else (populateLocalClustersUpdate env, prepareClusterNameList props st))"

definition cluster_edit_update ::
  "app_env \<Rightarrow> string \<Rightarrow> bool \<Rightarrow> RootState \<Rightarrow> ClusterEditState \<Rightarrow> ClusterEditState throws"
where
  "cluster_edit_update env prev lists_changed props st =
     (let st1 = (if IsManager env \<and> prev \<noteq> globalServerSelected (st_servers props)
                 then st\<lparr>ce_selectedServer := globalServerSelected (st_servers props)\<rparr> else st)
      in if lists_changed then prepareClusterNameList props st1 else Inr st1)"

text \<open>The loop keeps the last cluster with the name.\<close>

definition find_cluster :: "string \<Rightarrow> ClustersList list \<Rightarrow> ClustersList option" where
  "find_cluster sid cs = foldl (\<lambda>acc c. if cluster_name c = sid then Some c else acc) None cs"

definition onChangeClusterNameList ::
  "RootState \<Rightarrow> string option \<Rightarrow> ClusterEditState \<Rightarrow> ClusterEditState throws"
where
  "onChangeClusterNameList props selected st =
     (case selected of
        None \<Rightarrow> Inr st
      | Some sid \<Rightarrow>
          (case globalClustersList (st_clusters props) of
             Undefined \<Rightarrow> Inr st
           | Null \<Rightarrow> Inl TypeError
           | Val cs \<Rightarrow>
               (case find_cluster sid cs of
                  None \<Rightarrow> Inr st
                | Some c \<Rightarrow>
                    Inr (st\<lparr>ce_originalClusterName := cluster_name c, ce_clusterName := cluster_name c,
                      ce_clusterType := platformType c, ce_clusterDomainName := domainName c,
                      ce_clusterManagedBy := managedBy c, ce_clusterAgentsList := agentsList c,
                      ce_agentsListDisplay := array_toString (agentsList c),
                      ce_assignedAgentsListDisplay := join [CHR 0x0A] (agentsList c),
                      ce_agentsListSelected := map label_of (agentsList c)\<rparr>))))"

definition ce_onChangeClusterName :: "string option \<Rightarrow> ClusterEditState \<Rightarrow> ClusterEditState" where
  "ce_onChangeClusterName e st = (case e of None \<Rightarrow> st | Some v \<Rightarrow> st\<lparr>ce_clusterName := v\<rparr>)"

definition ce_onChangeClusterType :: "string option \<Rightarrow> ClusterEditState \<Rightarrow> ClusterEditState" where
  "ce_onChangeClusterType selected st =
     (case selected of
        None \<Rightarrow> st
      | Some sid \<Rightarrow>
          if length sid = 0 then st\<lparr>ce_clusterType := sid\<rparr>
          else if sid = ce_clusterTypeManualEntryOption st
          then st\<lparr>ce_clusterTypeManualEntry := True, ce_clusterType := sid\<rparr>
          else st\<lparr>ce_clusterTypeManualEntry := False, ce_clusterType := sid\<rparr>)"

definition ce_onChangeManualClusterType :: "string option \<Rightarrow> ClusterEditState \<Rightarrow> ClusterEditState" where
  "ce_onChangeManualClusterType e st = (case e of None \<Rightarrow> st | Some v \<Rightarrow> st\<lparr>ce_clusterType := v\<rparr>)"

definition ce_onChangeClusterDomainName :: "string option \<Rightarrow> ClusterEditState \<Rightarrow> ClusterEditState" where
  "ce_onChangeClusterDomainName e st = (case e of None \<Rightarrow> st | Some v \<Rightarrow> st\<lparr>ce_clusterDomainName := v\<rparr>)"

definition ce_onChangeClusterManagedBy :: "string option \<Rightarrow> ClusterEditState \<Rightarrow> ClusterEditState" where
  "ce_onChangeClusterManagedBy e st = (case e of None \<Rightarrow> st | Some v \<Rightarrow> st\<lparr>ce_clusterManagedBy := v\<rparr>)"

definition ce_onChangeAgentsList :: "AgentLabels list option \<Rightarrow> ClusterEditState \<Rightarrow> ClusterEditState" where
  "ce_onChangeAgentsList selected st =
     (case selected of
        None \<Rightarrow> st
      | Some sid \<Rightarrow>
          (let ids = map label sid in
           st\<lparr>ce_clusterAgentsList := ids, ce_agentsListDisplay := agents_display ids,
              ce_assignedAgentsListDisplay := join [CHR 0x0A] ids, ce_agentsListSelected := sid\<rparr>))"

definition ce_getApiEntryCreateEndpoint ::
  "app_env \<Rightarrow> ClusterEditState \<Rightarrow> ClusterEditState \<times> string"
where
  "ce_getApiEntryCreateEndpoint env st =
     (if \<not> IsManager env then (st, api_uri env tornjakClustersApi)
      else if ce_selectedServer st \<noteq> []
      then (st, GetApiServerUri env ''/manager-api/tornjak/clusters/edit'' @ ''/'' @ ce_selectedServer st)
      else (st\<lparr>ce_message := ''Error: No server selected''\<rparr>, []))"

text \<open>Deletion: \<open>confirmed\<close> is the answer to the question asked. The continuation sees the result.\<close>

definition deleteCluster :: "app_env \<Rightarrow> RootState \<Rightarrow> bool \<Rightarrow> ClusterEditState \<Rightarrow> api_effect list" where
  "deleteCluster env props confirmed st =
     (if ce_clusterName st = [] then [Alert ''Please Choose a Cluster!'']
      else if \<not> confirmed then []
      else if IsManager env then clusterDelete env (globalServerSelected (st_servers props)) (ce_clusterName st)
      else localClusterDelete env (ce_clusterName st))"

text \<open>\<open>shown\<close> is the result as a text: the body, or the error the deletion resolved to.\<close>

definition deleteCluster_done :: "string \<Rightarrow> 'b effect list" where
  "deleteCluster_done shown =
     (if shown = ''SUCCESS'' then [Alert ''CLUSTER DELETED SUCCESSFULLY!'', Reload]
      else [Alert (''Error deleting cluster: '' @ shown)])"

definition ce_cjtData :: "ClusterEditState \<Rightarrow> cluster_body" where
  "ce_cjtData st =
     EditedCluster \<lparr>ed_Name = ce_originalClusterName st, ed_EditedName = ce_clusterName st,
       ed_PlatformType = ce_clusterType st, ed_DomainName = ce_clusterDomainName st,
       ed_ManagedBy = ce_clusterManagedBy st, ed_AgentsList = ce_clusterAgentsList st\<rparr>"

text \<open>The refresh of the list is sent together with the edit, before its reply.\<close>

definition ce_refresh :: "app_env \<Rightarrow> RootState \<Rightarrow> cluster_body effect list" where
  "ce_refresh env props =
     (let server = globalServerSelected (st_servers props) in
      lift_api (if IsManager env
        then (if server \<noteq> [] \<and> fine_message props then populateClustersUpdate env server else [])
        else populateLocalClustersUpdate env))"

definition ce_onSubmit ::
  "app_env \<Rightarrow> RootState \<Rightarrow> ClusterEditState \<Rightarrow> ClusterEditState \<times> cluster_body effect list"
where
  "ce_onSubmit env props st =
     (if ce_originalClusterName st = [] then (st, [Toast (showToast ''Please select an existing cluster.'')])
      else if ce_clusterName st = [] then (st, [Toast (showToast ''The new cluster name cannot be empty.'')])
      else if ce_clusterTypeManualEntry st \<and> ce_clusterType st = ce_clusterTypeManualEntryOption st
      then (st, [Toast (showToast ''The cluster type cannot be empty.'')])
      else if ce_clusterName st = [] then (st, [Toast (showToast ''The cluster name cannot be empty.'')])
      else
        (let (st', endpoint) = ce_getApiEntryCreateEndpoint env st in
         if endpoint = [] then (st', [])
         else (st', Request PATCH endpoint (ce_cjtData st) # ScrollBottom # ce_refresh env props)))"

definition ce_onSubmit_done ::
  "(cluster_body \<Rightarrow> string) \<Rightarrow> ('d \<Rightarrow> string) \<Rightarrow> cluster_body \<Rightarrow> 'd outcome \<Rightarrow> ClusterEditState
     \<Rightarrow> ClusterEditState \<times> cluster_body effect list"
where
  "ce_onSubmit_done json_req json_rep req out st =
     (case out of
        Resolved _ _ d \<Rightarrow>
          (st\<lparr>ce_message := ''Request:'' @ json_req req @ [CHR 0x0A, CHR 0x0A] @ ''Success:'' @ json_rep d,
              ce_statusOK := ''OK''\<rparr>, [])
      | Rejected e \<Rightarrow> (st, [Toast (showResponseToast e None)]))"

section \<open>The page around the two forms\<close>

record ClusterManagementState =
  cm_clusterTypeList :: "string list"
  cm_agentsList :: "AgentLabels list"
  cm_agentsListDisplay :: string
  cm_clusterTypeManualEntryOption :: string
  cm_selectedServer :: string

definition cluster_management_initial :: ClusterManagementState where
  "cluster_management_initial =
     \<lparr>cm_clusterTypeList = [], cm_agentsList = [], cm_agentsListDisplay = ''Select Agents'',
      cm_clusterTypeManualEntryOption = cluster_manual_option, cm_selectedServer = []\<rparr>"

definition prepareClusterTypeList :: "RootState \<Rightarrow> ClusterManagementState \<Rightarrow> ClusterManagementState" where
  "prepareClusterTypeList props st =
     st\<lparr>cm_clusterTypeList :=
        foldl (\<lambda>ts t. ts @ [t]) [cm_clusterTypeManualEntryOption st]
          (globalClusterTypeInfo (st_clusters props))\<rparr>"

text \<open>An agent's label is made of the parts of its id as they are, missing ones included.\<close>

definition prepareAgentsList :: "RootState \<Rightarrow> ClusterManagementState \<Rightarrow> ClusterManagementState throws" where
  "prepareAgentsList props st =
     (case globalAgentsList (st_agents props) of
        Undefined \<Rightarrow> Inr st
      | Null \<Rightarrow> Inl TypeError
      | Val as \<Rightarrow>
          Inr (st\<lparr>cm_agentsList := map (\<lambda>a. label_of (''spiffe://'' @
            template (trust_domain (agent_id a)) @ template (path (agent_id a)))) as\<rparr>))"

definition cluster_management_mount ::
  "app_env \<Rightarrow> RootState \<Rightarrow> ClusterManagementState \<Rightarrow> api_effect list \<times> ClusterManagementState throws"
where
  "cluster_management_mount env props st =
     (let server = globalServerSelected (st_servers props) in
      if IsManager env then
        (if server \<noteq> [] \<and> fine_message props
         then (populateAgentsUpdate env server @ populateTornjakServerInfo env server,
               prepareAgentsList props (prepareClusterTypeList props (st\<lparr>cm_selectedServer := server\<rparr>)))
         else ([], Inr st))
      else
        (let fx = populateLocalAgentsUpdate env @ populateLocalTornjakServerInfo env in
         case populateServerInfo (globalTornjakServerInfo (st_servers props)) of
           Inl err \<Rightarrow> (fx, Inl err)
         | Inr acts \<Rightarrow> (fx @ do_dispatch acts, prepareAgentsList props (prepareClusterTypeList props st))))"

definition cluster_management_update ::
  "app_env \<Rightarrow> string \<Rightarrow> bool \<Rightarrow> RootState \<Rightarrow> ClusterManagementState \<Rightarrow> ClusterManagementState throws"
where
  "cluster_management_update env prev debug_changed0 props st =
     (let st1 = (if IsManager env \<and> prev \<noteq> globalServerSelected (st_servers props)
                 then st\<lparr>cm_selectedServer := globalServerSelected (st_servers props)\<rparr> else st)
      in if debug_changed0 then prepareAgentsList props st1 else Inr st1)"

section \<open>The list of clusters\<close>

text \<open>\<open>info && Object.keys(info).length\<close>.\<close>

definition cluster_list_mount :: "app_env \<Rightarrow> RootState \<Rightarrow> api_effect list throws" where
  "cluster_list_mount env props =
     (let server = globalServerSelected (st_servers props);
          info = globalTornjakServerInfo (st_servers props) in
      if IsManager env then Inr (if server \<noteq> [] then populateClustersUpdate env server else [])
      else if is_val info
      then bindE (populateServerInfo info)
             (\<lambda>acts. Inr (populateLocalClustersUpdate env @ do_dispatch acts))
      else Inr (populateLocalClustersUpdate env))"

definition cluster_list_update ::
  "app_env \<Rightarrow> string \<Rightarrow> bool \<Rightarrow> RootState \<Rightarrow> api_effect list throws"
where
  "cluster_list_update env prev info_changed props =
     (let server = globalServerSelected (st_servers props) in
      if IsManager env then Inr (if prev \<noteq> server then populateClustersUpdate env server else [])
      else if info_changed
      then bindE (populateServerInfo (globalTornjakServerInfo (st_servers props)))
             (\<lambda>acts. Inr (do_dispatch acts))
      else Inr [])"

text \<open>The rows handed to the table; None is the empty text of a list that is not there.\<close>

definition clusterList :: "RootState \<Rightarrow> (string \<times> ClustersList) list option throws" where
  "clusterList props =
     (case globalClustersList (st_clusters props) of
        Undefined \<Rightarrow> Inr None
      | Null \<Rightarrow> Inl TypeError
      | Val cs \<Rightarrow> Inr (Some (map (\<lambda>c. (cluster_name c, c)) cs)))"

end
