(* ===== verification/JoinToken.thy ===== *)
theory JoinToken
  imports SpiffeId ApiLists
begin

text \<open>
  components/agent-create-join-token.tsx: the form that asks the server for a join token. The
  state's fields carry the prefix \<open>jt_\<close>.
\<close>

record CreateJoinTokenState =
  jt_name :: string
  jt_ttl :: string
  jt_token :: string
  jt_spiffeId :: string
  jt_trustDomain :: string
  jt_path :: string
  jt_message :: string
  jt_selectedServer :: string

definition join_token_initial :: CreateJoinTokenState where
  "join_token_initial =
     \<lparr>jt_name = [], jt_ttl = ''500'', jt_token = [], jt_spiffeId = [], jt_trustDomain = [],
      jt_path = [], jt_message = [], jt_selectedServer = []\<rparr>"

definition join_token_mount :: "app_env \<Rightarrow> RootState \<Rightarrow> CreateJoinTokenState \<Rightarrow> CreateJoinTokenState" where
  "join_token_mount env props st =
     (if IsManager env \<and> globalServerSelected (st_servers props) \<noteq> []
      then st\<lparr>jt_selectedServer := globalServerSelected (st_servers props)\<rparr> else st)"

definition join_token_update ::
  "app_env \<Rightarrow> string \<Rightarrow> RootState \<Rightarrow> CreateJoinTokenState \<Rightarrow> CreateJoinTokenState"
where
  "join_token_update env prev props st =
     (if IsManager env \<and> prev \<noteq> globalServerSelected (st_servers props)
      then st\<lparr>jt_selectedServer := globalServerSelected (st_servers props)\<rparr> else st)"

definition jt_onChangeName :: "string \<Rightarrow> CreateJoinTokenState \<Rightarrow> CreateJoinTokenState" where
  "jt_onChangeName v st = st\<lparr>jt_name := v\<rparr>"

definition jt_onChangeTtl :: "string \<Rightarrow> CreateJoinTokenState \<Rightarrow> CreateJoinTokenState" where
  "jt_onChangeTtl v st = st\<lparr>jt_ttl := v\<rparr>"

definition jt_onChangeToken :: "string \<Rightarrow> CreateJoinTokenState \<Rightarrow> CreateJoinTokenState" where
  "jt_onChangeToken v st = st\<lparr>jt_token := v\<rparr>"

definition jt_onChangeSpiffeId :: "string \<Rightarrow> CreateJoinTokenState \<Rightarrow> CreateJoinTokenState" where
  "jt_onChangeSpiffeId v st = st\<lparr>jt_spiffeId := v\<rparr>"

definition getApiTokenEndpoint ::
  "app_env \<Rightarrow> CreateJoinTokenState \<Rightarrow> CreateJoinTokenState \<times> string"
where
  "getApiTokenEndpoint env st =
     (if \<not> IsManager env then (st, api_uri env spireJoinTokenApi)
      else if jt_selectedServer st \<noteq> []
      then (st, GetApiServerUri env ''/manager-api/agent/createjointoken'' @ ''/'' @ jt_selectedServer st)
      else (st\<lparr>jt_message := ''Error: No server selected''\<rparr>, []))"

record token_request =
  tr_ttl :: jsnum
  tr_trust_domain :: string
  tr_path :: string
  tr_token :: string

text \<open>
  The first guard of \<open>onSubmit\<close>: the toasts and whether it returns. The branch for a TTL that is
  not a number has no \<open>return\<close>.
\<close>

definition ttl_guard :: "CreateJoinTokenState \<Rightarrow> token_request effect list \<times> bool" where
  "ttl_guard st =
     (if jt_ttl st = [] then ([Toast (showToast ''The TTL cannot be empty.'')], True)
      else if isNaN (Number (jt_ttl st)) then ([Toast (showToast ''The TTL must be an integer.'')], False)
      else if num_le (Number (jt_ttl st)) (Fin 0) then ([Toast (showToast ''The TTL must be positive.'')], True)
      else ([], False))"

definition jt_onSubmit ::
  "app_env \<Rightarrow> CreateJoinTokenState \<Rightarrow> CreateJoinTokenState \<times> token_request effect list"
where
  "jt_onSubmit env st =
     (let (toasts, returns) = ttl_guard st in
      if returns then (st, toasts)
      else
        (let idParts =
               (if jt_spiffeId st \<noteq> []
                then (case parseSpiffeId (jt_spiffeId st) of (isIdValid, td, p) \<Rightarrow>
                        if isIdValid then Some (td, p) else None)
                else Some ([], []))
         in case idParts of
              None \<Rightarrow> (st, toasts @ [Toast (showToast ''The SPIFFE id is invalid.'')])
            | Some (td, p) \<Rightarrow>
                (let (st', endpoint) = getApiTokenEndpoint env st in
                 if endpoint = [] then (st', toasts)
                 else (st', toasts @ [Request POST endpoint
                   \<lparr>tr_ttl = Number (jt_ttl st), tr_trust_domain = td, tr_path = p,
                    tr_token = jt_token st\<rparr>]))))"

definition jt_onSubmit_done ::
  "(token_request \<Rightarrow> string) \<Rightarrow> ('d \<Rightarrow> string) \<Rightarrow> token_request \<Rightarrow> 'd outcome \<Rightarrow> CreateJoinTokenState
     \<Rightarrow> CreateJoinTokenState \<times> token_request effect list"
where
  "jt_onSubmit_done json_req json_rep req out st =
     (case out of
        Resolved _ _ d \<Rightarrow>
          (st\<lparr>jt_message := ''Request:'' @ json_req req @ [CHR 0x0A, CHR 0x0A] @ ''Success:'' @ json_rep d\<rparr>, [])
      | Rejected e \<Rightarrow> (st, [toast_error e ''Could not create join token.'']))"

definition token_endpoint :: "app_env \<Rightarrow> CreateJoinTokenState \<Rightarrow> string" where
  "token_endpoint env st = snd (getApiTokenEndpoint env st)"

lemma ttl_guard_simps:
  "jt_ttl st = [] \<Longrightarrow> ttl_guard st = ([Toast (showToast ''The TTL cannot be empty.'')], True)"
  "jt_ttl st \<noteq> [] \<Longrightarrow> Number (jt_ttl st) = NaN \<Longrightarrow>
     ttl_guard st = ([Toast (showToast ''The TTL must be an integer.'')], False)"
  by (simp_all add: ttl_guard_def)

lemma ttl_guard_request: "Request m u b \<notin> set (fst (ttl_guard st))"
  by (simp add: ttl_guard_def)

lemma ttl_guard_returns:
  "snd (ttl_guard st) \<longleftrightarrow> jt_ttl st = [] \<or> num_le (Number (jt_ttl st)) (Fin 0)"
  by (cases "Number (jt_ttl st)") (auto simp: ttl_guard_def)

text \<open>A join token is requested exactly when the TTL field is not empty and not a number at most 0,
  the SPIFFE id is empty or parses, and there is an endpoint; the request then carries the number
  the TTL text denotes, the parsed trust domain and path (empty texts without an id) and the token.\<close>

lemma token_request_iff:
  "Request POST url b \<in> set (snd (jt_onSubmit env st)) \<longleftrightarrow>
     jt_ttl st \<noteq> [] \<and> \<not> num_le (Number (jt_ttl st)) (Fin 0) \<and>
     (if jt_spiffeId st = [] then tr_trust_domain b = [] \<and> tr_path b = []
      else parseSpiffeId (jt_spiffeId st) = (True, tr_trust_domain b, tr_path b)) \<and>
     token_endpoint env st \<noteq> [] \<and> url = token_endpoint env st \<and>
     tr_ttl b = Number (jt_ttl st) \<and> tr_token b = jt_token st"
proof -
  have guard: "ttl_guard st = (fst (ttl_guard st), snd (ttl_guard st))" by simp
  have ep: "getApiTokenEndpoint env st = (fst (getApiTokenEndpoint env st), token_endpoint env st)"
    by (simp add: token_endpoint_def)
  have eq: "b = \<lparr>tr_ttl = n, tr_trust_domain = t, tr_path = p, tr_token = k\<rparr> \<longleftrightarrow>
      tr_ttl b = n \<and> tr_trust_domain b = t \<and> tr_path b = p \<and> tr_token b = k" for n t p k
    by (cases b) auto
  show ?thesis
  proof (cases "snd (ttl_guard st)")
    case True
    then show ?thesis
      using ttl_guard_returns [of st] ttl_guard_request [of POST url b st]
      by (auto simp: jt_onSubmit_def case_prod_beta)
  next
    case False
    obtain ok t p where parsed: "parseSpiffeId (jt_spiffeId st) = (ok, t, p)" by (cases "parseSpiffeId (jt_spiffeId st)")
    show ?thesis
      using False ttl_guard_returns [of st] ttl_guard_request [of POST url b st]
      by (subst jt_onSubmit_def, subst guard, subst ep) (auto simp: Let_def parsed eq)
  qed
qed

text \<open>A TTL that is not a number is sent all the same: the toast says that it must be an integer, and
  the request follows it, with the TTL NaN (which JSON writes as null).\<close>

lemma join_token_nan_sent:
  assumes "Number (jt_ttl st) = NaN" and "jt_spiffeId st = []" and "token_endpoint env st \<noteq> []"
  shows "snd (jt_onSubmit env st) =
    [Toast (showToast ''The TTL must be an integer.''),
     Request POST (token_endpoint env st)
       \<lparr>tr_ttl = NaN, tr_trust_domain = [], tr_path = [], tr_token = jt_token st\<rparr>]"
proof -
  have ne: "jt_ttl st \<noteq> []"
    using assms(1) by (auto simp: Number_def trim_def)
  have ep: "getApiTokenEndpoint env st = (fst (getApiTokenEndpoint env st), token_endpoint env st)"
    by (simp add: token_endpoint_def)
  show ?thesis
    by (subst jt_onSubmit_def, subst ep) (simp add: ttl_guard_simps(2) [OF ne assms(1)] assms)
qed

lemma join_token_nan_sent_witness:
  "(let st = jt_onChangeTtl ''soon'' (join_token_initial\<lparr>jt_selectedServer := ''s''\<rparr>) in
    snd (jt_onSubmit manager_env st) =
    [Toast (showToast ''The TTL must be an integer.''),
     Request POST (token_endpoint manager_env st)
       \<lparr>tr_ttl = NaN, tr_trust_domain = [], tr_path = [], tr_token = jt_token st\<rparr>])"
  unfolding Let_def
proof (rule join_token_nan_sent)
  have "Number ''soon'' = NaN"
    by (simp add: Number_def trim_def is_space_def unsigned_decimal_def digits_def digit_val_def Let_def)
  then show "Number (jt_ttl (jt_onChangeTtl ''soon'' (join_token_initial\<lparr>jt_selectedServer := ''s''\<rparr>))) = NaN"
    by (simp add: jt_onChangeTtl_def)
  show "token_endpoint manager_env (jt_onChangeTtl ''soon'' (join_token_initial\<lparr>jt_selectedServer := ''s''\<rparr>)) \<noteq> []"
    by (simp add: token_endpoint_def getApiTokenEndpoint_def IsManager_def manager_env_def upper_ascii_def
        jt_onChangeTtl_def)
qed (simp add: jt_onChangeTtl_def join_token_initial_def)

end
