(* ===== verification/ClusterProps.thy ===== *)
theory ClusterProps
  imports ClusterForms JoinToken
begin

text \<open>
  What the cluster forms guarantee: when they post and what, that an edit starts from the selected
  cluster, and which cluster the delete button deletes.
\<close>

section \<open>The forms as guarded forms\<close>

definition cluster_create_ok :: "ClusterCreateState \<Rightarrow> bool" where
  "cluster_create_ok st \<longleftrightarrow> cc_clusterName st \<noteq> [] \<and> cc_clusterType st \<noteq> [] \<and>
     \<not> (cc_clusterTypeManualEntry st \<and> cc_clusterType st = cc_clusterTypeManualEntryOption st)"

definition cluster_create_endpoint :: "app_env \<Rightarrow> ClusterCreateState \<Rightarrow> string" where
  "cluster_create_endpoint env st = snd (cc_getApiEntryCreateEndpoint env st)"

interpretation create_form: form_guard
  POST "\<lambda>st. snd (cc_onSubmit env st)" cluster_create_ok "cluster_create_endpoint env" cc_cjtData
  "\<lambda>_. [ScrollBottom]" for env
  by unfold_locales
     (auto simp: cc_onSubmit_def cluster_create_ok_def cluster_create_endpoint_def case_prod_beta)

definition cluster_edit_ok :: "ClusterEditState \<Rightarrow> bool" where
  "cluster_edit_ok st \<longleftrightarrow> ce_originalClusterName st \<noteq> [] \<and> ce_clusterName st \<noteq> [] \<and>
     \<not> (ce_clusterTypeManualEntry st \<and> ce_clusterType st = ce_clusterTypeManualEntryOption st)"

definition cluster_edit_endpoint :: "app_env \<Rightarrow> ClusterEditState \<Rightarrow> string" where
  "cluster_edit_endpoint env st = snd (ce_getApiEntryCreateEndpoint env st)"

lemma refresh_gets: "e \<in> set (ce_refresh env props) \<Longrightarrow> \<not> has_method PATCH e"
  by (auto simp: ce_refresh_def lift_api_def populateClustersUpdate_def populateLocalClustersUpdate_def
      Let_def split: if_splits)

interpretation edit_form: form_guard
  PATCH "\<lambda>st. snd (ce_onSubmit env props st)" cluster_edit_ok "cluster_edit_endpoint env" ce_cjtData
  "\<lambda>_. ScrollBottom # ce_refresh env props" for env props
  by unfold_locales
     (auto simp: ce_onSubmit_def cluster_edit_ok_def cluster_edit_endpoint_def case_prod_beta
        dest: refresh_gets)

text \<open>The create form posts once, the fields as they stand, exactly when name and type are given
  (the manual option itself is no type) and there is an endpoint; the edit form likewise patches
  once, naming the cluster that was selected and the edited name, and asks for the list of clusters
  at the same moment.\<close>

lemma cluster_forms_post:
  "(Request POST url b \<in> set (snd (cc_onSubmit env cst)) \<longleftrightarrow>
      cc_clusterName cst \<noteq> [] \<and> cc_clusterType cst \<noteq> [] \<and>
      \<not> (cc_clusterTypeManualEntry cst \<and> cc_clusterType cst = cc_clusterTypeManualEntryOption cst) \<and>
      cluster_create_endpoint env cst \<noteq> [] \<and> url = cluster_create_endpoint env cst \<and> b = cc_cjtData cst) \<and>
   (Request PATCH url b \<in> set (snd (ce_onSubmit env props est)) \<longleftrightarrow>
      cluster_edit_ok est \<and> cluster_edit_endpoint env est \<noteq> [] \<and>
      url = cluster_edit_endpoint env est \<and> b = ce_cjtData est) \<and>
   length (filter (has_method POST) (snd (cc_onSubmit env cst))) \<le> 1 \<and>
   length (filter (has_method PATCH) (snd (ce_onSubmit env props est))) \<le> 1"
  by (simp add: create_form.request_iff edit_form.request_iff create_form.one_request
      edit_form.one_request cluster_create_ok_def)

section \<open>Editing\<close>

lemma find_cluster_distinct:
  assumes "distinct (map cluster_name cs)" and "c \<in> set cs"
  shows "find_cluster (cluster_name c) cs = Some c"
proof -
  have "foldl (\<lambda>acc c. if cluster_name c = n then Some c else acc) acc cs = acc"
    if "n \<notin> cluster_name ` set cs" for n acc and cs :: "ClustersList list"
    using that by (induction cs arbitrary: acc) auto
  then have "foldl (\<lambda>acc c'. if cluster_name c' = cluster_name c then Some c' else acc) acc cs = Some c" for acc
    using assms
  proof (induction cs arbitrary: acc)
    case (Cons x xs)
    then show ?case by (cases "x = c") (auto intro: rev_image_eqI)
  qed simp
  then show ?thesis by (simp add: find_cluster_def)
qed

text \<open>C35. Selecting a cluster and submitting it unchanged patches that cluster with its own data: with
  distinct cluster names the request names the cluster as it is, and the agents offered as selected
  are the cluster's agents.\<close>

theorem edit_starts_from_selected:
  assumes "globalClustersList (st_clusters props) = Val cs" and "distinct (map cluster_name cs)"
    and "c \<in> set cs" and "cluster_name c \<noteq> []" and "\<not> ce_clusterTypeManualEntry st"
    and "cluster_edit_endpoint env st \<noteq> []"
  shows "\<exists>st'. onChangeClusterNameList props (Some (cluster_name c)) st = Inr st' \<and>
    map label (ce_agentsListSelected st') = agentsList c \<and>
    Request PATCH (cluster_edit_endpoint env st)
      (EditedCluster \<lparr>ed_Name = cluster_name c, ed_EditedName = cluster_name c,
         ed_PlatformType = platformType c, ed_DomainName = domainName c, ed_ManagedBy = managedBy c,
         ed_AgentsList = agentsList c\<rparr>) \<in> set (snd (ce_onSubmit env props st'))"
proof -
  obtain st' where st': "onChangeClusterNameList props (Some (cluster_name c)) st = Inr st'"
    and f: "ce_originalClusterName st' = cluster_name c" "ce_clusterName st' = cluster_name c"
      "ce_clusterType st' = platformType c" "ce_clusterDomainName st' = domainName c"
      "ce_clusterManagedBy st' = managedBy c" "ce_clusterAgentsList st' = agentsList c"
      "ce_agentsListSelected st' = map label_of (agentsList c)"
      "ce_clusterTypeManualEntry st' = ce_clusterTypeManualEntry st"
      "ce_selectedServer st' = ce_selectedServer st"
    using assms(1) find_cluster_distinct [OF assms(2,3)] by (simp add: onChangeClusterNameList_def)
  have "cluster_edit_endpoint env st' = cluster_edit_endpoint env st"
    using f(9) by (simp add: cluster_edit_endpoint_def ce_getApiEntryCreateEndpoint_def)
  moreover have "cluster_edit_ok st'" using f assms(4,5) by (simp add: cluster_edit_ok_def)
  ultimately show ?thesis
    using st' f assms(6)
    by (simp add: edit_form.request_iff ce_cjtData_def label_of_def o_def)
qed

definition cluster_of :: "string \<Rightarrow> string list \<Rightarrow> ClustersList" where
  [js_unfold]: "cluster_of n as =
     \<lparr>cluster_name = n, editedName = [], creationTime = ''t'', domainName = ''d'', managedBy = ''m'',
      platformType = ''VMs'', agentsList = as\<rparr>"

definition cluster_props :: RootState where
  "cluster_props = dispatch (createStore (\<lambda>_. None) None)
     (GLOBAL_CLUSTERS_LIST (Val [cluster_of ''c1'' [''spiffe://td/a1''], cluster_of ''c2'' []]))"

lemma cluster_props_list:
  "globalClustersList (st_clusters cluster_props) =
     Val [cluster_of ''c1'' [''spiffe://td/a1''], cluster_of ''c2'' []]"
  by (simp add: cluster_props_def globalClustersList_cell.get_put)

lemma edit_starts_from_selected_witness:
  "\<exists>st'. onChangeClusterNameList cluster_props (Some (cluster_name (cluster_of ''c1'' [''spiffe://td/a1''])))
      ((cluster_edit_initial [])\<lparr>ce_selectedServer := ''s''\<rparr>) = Inr st' \<and>
    map label (ce_agentsListSelected st') = agentsList (cluster_of ''c1'' [''spiffe://td/a1'']) \<and>
    Request PATCH (cluster_edit_endpoint manager_env ((cluster_edit_initial [])\<lparr>ce_selectedServer := ''s''\<rparr>))
      (EditedCluster \<lparr>ed_Name = cluster_name (cluster_of ''c1'' [''spiffe://td/a1'']),
         ed_EditedName = cluster_name (cluster_of ''c1'' [''spiffe://td/a1'']),
         ed_PlatformType = platformType (cluster_of ''c1'' [''spiffe://td/a1'']),
         ed_DomainName = domainName (cluster_of ''c1'' [''spiffe://td/a1'']),
         ed_ManagedBy = managedBy (cluster_of ''c1'' [''spiffe://td/a1'']),
         ed_AgentsList = agentsList (cluster_of ''c1'' [''spiffe://td/a1''])\<rparr>)
      \<in> set (snd (ce_onSubmit manager_env cluster_props st'))"
proof (rule edit_starts_from_selected [OF cluster_props_list])
  show "cluster_edit_endpoint manager_env ((cluster_edit_initial [])\<lparr>ce_selectedServer := ''s''\<rparr>) \<noteq> []"
    by (simp add: cluster_edit_endpoint_def ce_getApiEntryCreateEndpoint_def IsManager_def
        manager_env_def upper_ascii_def)
qed (simp_all add: cluster_of_def cluster_edit_initial_def)

section \<open>Deleting\<close>

text \<open>The delete button deletes the cluster whose name stands in the name field, not the selected
  one: after the name of a selected cluster is edited to another, the confirmed deletion asks the
  back end for the other name, and its success takes that name out of the local list while the
  selected cluster stays in it.\<close>

lemma delete_follows_edited_name:
  assumes "v \<noteq> []" and "v \<noteq> ce_originalClusterName st" and "\<not> IsManager env"
    and "globalClustersList (st_clusters props) = Val cs"
    and "c \<in> set cs" and "cluster_name c = ce_originalClusterName st"
  shows "deleteCluster env props True (ce_onChangeClusterName (Some v) st) =
      [Request DELETE (api_uri env tornjakClustersApi) (ClusterBody v)] \<and>
    (\<exists>cs'. fst (localClusterDelete_done env v (Val cs) (Resolved 200 ''OK'' d)) =
        do_dispatch (clustersListUpdateFunc (Val cs')) \<and>
      c \<in> set cs' \<and> v \<notin> cluster_name ` set cs')"
  using assms
  by (auto simp: deleteCluster_def ce_onChangeClusterName_def localClusterDelete_def
      localClusterDelete_done_def local_delete_def)

lemma delete_follows_edited_name_witness:
  "(let st = (cluster_edit_initial [])\<lparr>ce_originalClusterName := ''c1'', ce_clusterName := ''c1''\<rparr>;
        env = manager_env\<lparr>REACT_APP_TORNJAK_MANAGER := None\<rparr>;
        cs = [cluster_of ''c1'' [''spiffe://td/a1''], cluster_of ''c2'' []] in
    deleteCluster env cluster_props True (ce_onChangeClusterName (Some ''c2'') st) =
      [Request DELETE (api_uri env tornjakClustersApi) (ClusterBody ''c2'')] \<and>
    (\<exists>cs'. fst (localClusterDelete_done env ''c2'' (Val cs) (Resolved 200 ''OK'' ())) =
        do_dispatch (clustersListUpdateFunc (Val cs')) \<and>
      cluster_of ''c1'' [''spiffe://td/a1''] \<in> set cs' \<and> ''c2'' \<notin> cluster_name ` set cs'))"
  unfolding Let_def
  by (rule delete_follows_edited_name [OF _ _ _ cluster_props_list])
     (simp_all add: IsManager_def cluster_of_def)

end
