(* ===== verification/Requests.thy ===== *)
theory Requests
  imports ApiLists
begin

text \<open>
  The back-end calls beside the store: requests are sent, replies arrive in any order, a
  user selects another server in between. The callbacks are those of tornjak-api-helpers.tsx; the
  requests of a selected server are the ones agent-list.tsx sends when it mounts and when the
  selection changes.
\<close>

section \<open>Deletions\<close>

text \<open>A local deletion that the back end accepts takes exactly the named cluster, or exactly the
  entries with the given ids, out of the list it was given, keeping the order of the rest, and
  resolves to the response body; a refused one leaves the store alone and resolves to the error.\<close>

lemma local_deletion:
  "localClusterDelete_done env name (Val cs) (Resolved st tx d) =
     (do_dispatch (clustersListUpdateFunc (Val (filter (\<lambda>c. cluster_name c \<noteq> name) cs))), Body d) \<and>
   localEntryDelete_done env ids (Val es) (Resolved st tx d) =
     (do_dispatch (entriesListUpdateFunc (Val (filter (\<lambda>e. entry_id e \<notin> set ids) es))), Body d) \<and>
   localClusterDelete_done env name xs (Rejected err) = ([], ErrorReturned err) \<and>
   localEntryDelete_done env ids ys (Rejected err) = ([], ErrorReturned err)"
  by (simp add: localClusterDelete_done_def localEntryDelete_done_def local_delete_def)

text \<open>In manager mode a successful deletion removes nothing from the store: for entries, clusters and
  servers the list is dispatched unchanged, and when the back end answers with a text (SUCCESS
  included) the deletion resolves to undefined.\<close>

lemma manager_deletion_kept:
  "entryDelete_done env (Val es) (Resolved st tx (Val (Reply_text m))) =
     (do_dispatch (entriesListUpdateFunc (Val es)), Fulfilled None) \<and>
   clusterDelete_done env (Val cs) (Resolved st tx (Val (Reply_text m))) =
     (do_dispatch (clustersListUpdateFunc (Val cs)), Fulfilled None) \<and>
   serverDelete_done env (Val ss) (Resolved st tx (Val (Reply_text m))) =
     (do_dispatch (serversListUpdateFunc (Val ss)), Fulfilled None)"
proof -
  have pair: "p = (a, b) \<longleftrightarrow> fst p = a \<and> snd p = b" for p :: "api_effect list \<times> manager_result" and a b
    by (cases p) auto
  show ?thesis
    by (simp add: pair entryDelete_done_def clusterDelete_done_def serverDelete_done_def
        manager_delete_keeps manager_delete_text)
qed

section \<open>Requests under way\<close>

datatype list_request =
    LocalAgents | AgentsOf string
  | LocalEntries | EntriesOf string
  | LocalFederations
  | LocalClusters | ClustersOf string

record replies =
  rep_agents :: "AgentsList list jsval jsval outcome"
  rep_entries :: "EntriesList list jsval jsval outcome"
  rep_federations :: "FederationsList list jsval jsval outcome"
  rep_clusters :: "ClustersList list jsval jsval outcome"

fun deliver :: "app_env \<Rightarrow> list_request \<Rightarrow> replies \<Rightarrow> api_effect list" where
  "deliver env LocalAgents r = populateLocalAgentsUpdate_done env (rep_agents r)"
| "deliver env (AgentsOf s) r = populateAgentsUpdate_done env s (rep_agents r)"
| "deliver env LocalEntries r = populateLocalEntriesUpdate_done env (rep_entries r)"
| "deliver env (EntriesOf s) r = populateEntriesUpdate_done env s (rep_entries r)"
| "deliver env LocalFederations r = populateLocalFederationsUpdate_done env (rep_federations r)"
| "deliver env LocalClusters r = populateLocalClustersUpdate_done env (rep_clusters r)"
| "deliver env (ClustersOf s) r = populateClustersUpdate_done env s (rep_clusters r)"

text \<open>Actions that do not write the lists of agents, entries or federations.\<close>

definition other_action :: "action \<Rightarrow> bool" where
  "other_action a \<longleftrightarrow> read_globalAgentsList a = None \<and> read_globalEntriesList a = None \<and>
     read_globalFederationsList a = None"

inductive net_step ::
  "app_env \<Rightarrow> RootState \<times> list_request list \<Rightarrow> RootState \<times> list_request list \<Rightarrow> bool" for env
where
  send: "net_step env (st, ps) (st, p # ps)"
| arrive: "net_step env (st, ps @ p # qs) (dispatches st (dispatched (deliver env p r)), ps @ qs)"
| select_server: "net_step env (st, ps) (dispatches st (serverSelectedFunc s), AgentsOf s # ps)"
| delete_entries: "net_step env (st, ps)
    (dispatches st (dispatched (fst (localEntryDelete_done env ids xs (out :: unit outcome)))), ps)"
| delete_entry_manager: "net_step env (st, ps)
    (dispatches st (dispatched (fst (entryDelete_done env xs out))), ps)"
| other: "other_action a \<Longrightarrow> net_step env (st, ps) (dispatch st a, ps)"

inductive net_reach :: "app_env \<Rightarrow> RootState \<times> list_request list \<Rightarrow> bool" for env where
  start: "net_reach env (createStore (\<lambda>_. None) None, [])"
| next_step: "net_reach env c \<Longrightarrow> net_step env c c' \<Longrightarrow> net_reach env c'"

definition lists_defined :: "RootState \<Rightarrow> bool" where
  "lists_defined st \<longleftrightarrow> is_val (globalAgentsList (st_agents st)) \<and>
     is_val (globalEntriesList (st_entries st)) \<and> is_val (globalFederationsList (st_federations st))"

definition writes_defined :: "action \<Rightarrow> bool" where
  "writes_defined a \<longleftrightarrow> (\<forall>p. read_globalAgentsList a = Some p \<longrightarrow> is_val p) \<and>
     (\<forall>p. read_globalEntriesList a = Some p \<longrightarrow> is_val p) \<and>
     (\<forall>p. read_globalFederationsList a = Some p \<longrightarrow> is_val p)"

lemma dispatches_defined:
  assumes "lists_defined st" and "\<And>a. a \<in> set as \<Longrightarrow> writes_defined a"
  shows "lists_defined (dispatches st as)"
proof -
  have w: "read_globalAgentsList a = Some p \<Longrightarrow> is_val p"
    "read_globalEntriesList a = Some e \<Longrightarrow> is_val e"
    "read_globalFederationsList a = Some f \<Longrightarrow> is_val f" if "a \<in> set as" for a p e f
    using assms(2) [OF that] by (simp_all add: writes_defined_def)
  have d: "is_val (globalAgentsList (st_agents st))" "is_val (globalEntriesList (st_entries st))"
    "is_val (globalFederationsList (st_federations st))"
    using assms(1) by (simp_all add: lists_defined_def)
  show ?thesis
    unfolding lists_defined_def
    using globalAgentsList_cell.stays [of is_val, OF d(1) w(1)]
      globalEntriesList_cell.stays [of is_val, OF d(2) w(2)]
      globalFederationsList_cell.stays [of is_val, OF d(3) w(3)]
    by simp
qed

lemma writes_simps [simp]:
  "writes_defined (GLOBAL_AGENTS_LIST p) \<longleftrightarrow> is_val p"
  "writes_defined (GLOBAL_ENTRIES_LIST e) \<longleftrightarrow> is_val e"
  "writes_defined (GLOBAL_FEDERATIONS_LIST f) \<longleftrightarrow> is_val f"
  "writes_defined (GLOBAL_CLUSTERS_LIST c)"
  "writes_defined (GLOBAL_MESSAGE m)"
  "writes_defined (GLOBAL_SERVER_SELECTED s)"
  by (simp_all add: writes_defined_def)

lemmas creators = agentsListUpdateFunc_def entriesListUpdateFunc_def federationsListUpdateFunc_def
  clustersListUpdateFunc_def tornjakMessageFunc_def serverSelectedFunc_def

lemma list_handler_defined:
  fixes out :: "'d jsval outcome"
  assumes "\<And>xs tx a. a \<in> set (dispatched (k tx xs)) \<Longrightarrow> writes_defined a"
    and "\<And>e a. a \<in> set (dispatched (g e)) \<Longrightarrow> writes_defined a"
  shows "a \<in> set (dispatched (then_catch env (\<lambda>_ tx data. with_body data (k tx)) g out)) \<Longrightarrow> writes_defined a"
proof (cases out)
  case (Resolved st tx d)
  assume "a \<in> set (dispatched (then_catch env (\<lambda>_ tx data. with_body data (k tx)) g out))"
  with Resolved assms show ?thesis by (cases d) auto
next
  case (Rejected e)
  assume "a \<in> set (dispatched (then_catch env (\<lambda>_ tx data. with_body data (k tx)) g out))"
  with Rejected assms show ?thesis by auto
qed

lemma deliver_defined: "a \<in> set (dispatched (deliver env p r)) \<Longrightarrow> writes_defined a"
  by (cases p)
     (auto simp: list_done_defs cluster_done_defs do_dispatch_def creators toast_error_def
        elim!: list_handler_defined [rotated 2])

lemma delete_defined:
  "a \<in> set (dispatched (fst (localEntryDelete_done env ids xs out))) \<Longrightarrow> writes_defined a"
  "a \<in> set (dispatched (fst (entryDelete_done env xs out2))) \<Longrightarrow> writes_defined a"
  by (auto simp: localEntryDelete_done_def local_delete_def entryDelete_done_def manager_delete_def
      do_dispatch_def creators split: outcome.splits jsval.splits)

lemma step_defined: "net_step env c c' \<Longrightarrow> lists_defined (fst c) \<Longrightarrow> lists_defined (fst c')"
proof (induction rule: net_step.induct)
  case (other a st ps)
  then have "lists_defined (dispatches st [a])"
    by (intro dispatches_defined) (simp_all add: other_action_def writes_defined_def)
  then show ?case by (simp add: dispatches_def)
qed (auto intro!: dispatches_defined dest: deliver_defined delete_defined simp: creators)

text \<open>C36. Whatever the replies are and in whatever order they arrive, the store's lists of agents, entries
  and federations are arrays in every reachable state, so no reader of them meets undefined or null.\<close>

theorem lists_always_defined:
  assumes "net_reach env (st, ps)"
  shows "(\<exists>as. globalAgentsList (st_agents st) = Val as) \<and>
    (\<exists>es. globalEntriesList (st_entries st) = Val es) \<and>
    (\<exists>fs. globalFederationsList (st_federations st) = Val fs)"
proof -
  from assms have "lists_defined (fst (st, ps))"
  proof (induction rule: net_reach.induct)
    case start
    then show ?case
      by (simp add: lists_defined_def createStore_def loadFromLocalStorage_def dispatch_defs
          agents_initialState_def entries_initialState_def federations_initialState_def)
  next
    case (next_step c c')
    then show ?case by (blast intro: step_defined)
  qed
  then show ?thesis by (simp add: lists_defined_def is_val_iff)
qed

lemma lists_always_defined_witness:
  "(let st = createStore (\<lambda>_. None) None in
    (\<exists>as. globalAgentsList (st_agents st) = Val as) \<and>
    (\<exists>es. globalEntriesList (st_entries st) = Val es) \<and>
    (\<exists>fs. globalFederationsList (st_federations st) = Val fs))"
  unfolding Let_def by (rule lists_always_defined [OF net_reach.start])

text \<open>The list of clusters has no such guard: a reply without the field clusters makes the stored list
  undefined, in local and in manager mode.\<close>

lemma clusters_become_undefined:
  "globalClustersList (st_clusters (dispatches st (dispatched
     (populateLocalClustersUpdate_done env (Resolved 200 tx (Val Undefined)))))) = Undefined \<and>
   globalClustersList (st_clusters (dispatches st (dispatched
     (populateClustersUpdate_done env server (Resolved 200 tx (Val Undefined)))))) = Undefined"
proof -
  have "globalClustersList (st_clusters (dispatches st ([] @ GLOBAL_CLUSTERS_LIST Undefined # [GLOBAL_MESSAGE m]))) = Undefined"
    for m by (rule globalClustersList_cell.get_dispatches_last) simp
  then show ?thesis by (simp add: cluster_done_defs do_dispatch_def creators)
qed



end
