(* ===== verification/StoreProps.thy ===== *)
theory StoreProps
  imports Requests
begin

text \<open>
  What the store guarantees to its readers: a field holds the payload of the last action of its own
  type, whatever else was dispatched, and the saved copy brings the same state back.
\<close>

definition last_of :: "('a \<Rightarrow> 'p option) \<Rightarrow> 'a list \<Rightarrow> 'p \<Rightarrow> 'p" where
  "last_of rd as old = (case rev (List.map_filter rd as) of [] \<Rightarrow> old | p # _ \<Rightarrow> p)"

text \<open>C6. Last write wins and nothing interferes: after any sequence of dispatches the lists of agents,
  entries, clusters, federations and servers, the uploaded entries, the expiry, the selected server
  and the message are each the payload of the last action of their own type in the sequence, and
  unchanged if there was none.\<close>

theorem store_last_write:
  "globalAgentsList (st_agents (dispatches st as)) = last_of read_globalAgentsList as (globalAgentsList (st_agents st)) \<and>
   globalEntriesList (st_entries (dispatches st as)) = last_of read_globalEntriesList as (globalEntriesList (st_entries st)) \<and>
   globalClustersList (st_clusters (dispatches st as)) = last_of read_globalClustersList as (globalClustersList (st_clusters st)) \<and>
   globalFederationsList (st_federations (dispatches st as)) =
     last_of read_globalFederationsList as (globalFederationsList (st_federations st)) \<and>
   globalServersList (st_servers (dispatches st as)) = last_of read_globalServersList as (globalServersList (st_servers st)) \<and>
   globalNewEntries (st_entries (dispatches st as)) = last_of read_globalNewEntries as (globalNewEntries (st_entries st)) \<and>
   globalEntryExpiryTime (st_entries (dispatches st as)) =
     last_of read_globalEntryExpiryTime as (globalEntryExpiryTime (st_entries st)) \<and>
   globalServerSelected (st_servers (dispatches st as)) =
     last_of read_globalServerSelected as (globalServerSelected (st_servers st)) \<and>
   globalErrorMessage (st_tornjak (dispatches st as)) =
     last_of read_globalErrorMessage as (globalErrorMessage (st_tornjak st))"
  by (simp only: last_of_def globalAgentsList_cell.get_dispatches globalEntriesList_cell.get_dispatches
      globalClustersList_cell.get_dispatches globalFederationsList_cell.get_dispatches
      globalServersList_cell.get_dispatches globalNewEntries_cell.get_dispatches
      globalEntryExpiryTime_cell.get_dispatches globalServerSelected_cell.get_dispatches
      globalErrorMessage_cell.get_dispatches simp_thms)

lemma dispatch_other: "dispatch st OtherAction = st"
  by (simp add: dispatch_defs)

lemma saved_state: "fst (foldl (dispatch_saved stringify) (st, storage) as) = dispatches st as"
  by (induction as arbitrary: st storage) (simp_all add: dispatch_saved_def dispatches_def Let_def)

text \<open>Reloading the page brings the state back: after any non-empty sequence of dispatches the session
  storage holds the JSON of the final state, so a store created from it starts in that state; while
  the state cannot be written as JSON the storage stays as it was.\<close>

lemma reload_restores:
  assumes "stringify (dispatches st (as @ [a])) = Some s" and "parse s = Some (dispatches st (as @ [a]))"
  shows "createStore parse (snd (foldl (dispatch_saved stringify) (st, storage) (as @ [a]))) =
      dispatches st (as @ [a]) \<and>
    snd (dispatch_saved (\<lambda>_. None) (st, storage) a) = storage"
proof -
  let ?c = "foldl (dispatch_saved stringify) (st, storage) as"
  have d: "dispatch (fst ?c) a = dispatches st (as @ [a])"
    using saved_state [of stringify st storage as] by (simp add: dispatches_def)
  have "snd (dispatch_saved stringify ?c a) = Some s"
    unfolding dispatch_saved_def Let_def d using assms(1) by (simp add: saveToLocalStorage_def)
  then show ?thesis
    using assms(2) dispatch_other [of "dispatches st (as @ [a])"]
    by (simp add: createStore_def loadFromLocalStorage_def dispatch_def)
       (simp add: dispatch_saved_def saveToLocalStorage_def Let_def)
qed

lemma reload_restores_witness:
  "(let st = createStore (\<lambda>_. None) None; final = dispatches st ([] @ [GLOBAL_SERVER_SELECTED ''s'']) in
    createStore (\<lambda>_. Some final)
      (snd (foldl (dispatch_saved (\<lambda>_. Some ''json'')) (st, None) ([] @ [GLOBAL_SERVER_SELECTED ''s'']))) = final \<and>
    snd (dispatch_saved (\<lambda>_. None) (st, None) (GLOBAL_SERVER_SELECTED ''s'')) = None)"
  unfolding Let_def by (rule reload_restores [where s = "''json''"]) simp_all

end
