(* ===== verification/FederationForms.thy ===== *)
theory FederationForms
  imports ApiLists
begin

text \<open>
  Federations: components/federation-create.tsx (upload a federation file, edit its endpoint,
  submit it), trustbundle-create.tsx (make such a file from this server's trust bundle) and
  federation-list.tsx. JSON.parse and JSON.stringify are parameters; of a federation object the
  fields the code reads or writes are modelled, and what else it holds is one text.
\<close>

section \<open>Federation files\<close>

text \<open>A trust bundle as a server sends it: its trust domain and the text of its JSON.\<close>

record server_bundle =
  sb_trust_domain :: "string option"
  sb_json :: string

record fed_relationship =
  rel_trust_domain :: "string option"
  rel_bundle_endpoint_url :: "string option"
  rel_endpoint_spiffe_id :: "string option"
  rel_trust_domain_bundle :: "server_bundle option"
  rel_other :: string

record Federation =
  federation_relationships :: "fed_relationship list option"
  fed_other :: string

text \<open>\<open>Federation | Federation[]\<close>; an element (or the whole file) may be null.\<close>

datatype fed_file = OneFed "Federation option" | ManyFeds "Federation option list"

record FederationCreateState =
  fc_federationJson :: string
  fc_uploadedFederation :: fed_file
  fc_federationLoaded :: bool
  fc_loading :: bool
  fc_statusOK :: string
  fc_successJsonMessage :: string
  fc_message :: string
  fc_exposedBundleEndpoint :: string
  fc_newFederationsIds :: "string list"
  fc_selectedFederationId :: int
  fc_federationSelected :: bool

definition federation_create_initial :: FederationCreateState where
  "federation_create_initial =
     \<lparr>fc_federationJson = [], fc_uploadedFederation = ManyFeds [], fc_federationLoaded = False,
      fc_loading = False, fc_statusOK = [], fc_successJsonMessage = [], fc_message = [],
      fc_exposedBundleEndpoint = [], fc_newFederationsIds = [], fc_selectedFederationId = - 1,
      fc_federationSelected = False\<rparr>"

text \<open>\<open>x || d\<close> for a text.\<close>

definition or_text :: "string option \<Rightarrow> string \<Rightarrow> string" where
  [js_unfold]: "or_text v d = (case v of None \<Rightarrow> d | Some s \<Rightarrow> if s = [] then d else s)"

definition fed_id :: "Federation option \<Rightarrow> string throws" where
  "fed_id f0 =
     (case f0 of
        None \<Rightarrow> Inl TypeError
      | Some f \<Rightarrow>
          Inr (case federation_relationships f of
                 Some (r # _) \<Rightarrow> or_text (rel_trust_domain r) ''No Trust Domain''
               | _ \<Rightarrow> ''No Trust Domain''))"

definition fed_ids :: "fed_file \<Rightarrow> string list throws" where
  "fed_ids file =
     (case file of
        ManyFeds fs \<Rightarrow> mapE fed_id fs
      | OneFed f \<Rightarrow> bindE (fed_id f) (\<lambda>i. Inr [i]))"

text \<open>
  The file has been read: \<open>text0\<close> is None when the reader failed, \<open>parse\<close> gives None when JSON.parse
  throws. The \<open>message\<close> and the scrolling follow.
\<close>

definition handleFileUpload ::
  "(string \<Rightarrow> fed_file option) \<Rightarrow> string option \<Rightarrow> FederationCreateState
     \<Rightarrow> FederationCreateState \<times> 'b effect list"
where
  "handleFileUpload parse text0 st =
     (case text0 of
        None \<Rightarrow> (st\<lparr>fc_message := ''Error reading the selected file.'', fc_statusOK := ''ERROR''\<rparr>, [ScrollTop])
      | Some result \<Rightarrow>
          (let invalid = (st\<lparr>fc_message := ''Invalid JSON format.'', fc_statusOK := ''ERROR''\<rparr>, [ScrollTop]) in
           case parse result of
             None \<Rightarrow> invalid
           | Some file \<Rightarrow>
               (case fed_ids file of
                  Inl err \<Rightarrow> invalid
                | Inr ids \<Rightarrow>
                    (st\<lparr>fc_federationJson := result, fc_uploadedFederation := file,
                        fc_federationLoaded := True, fc_message := [], fc_statusOK := [],
                        fc_newFederationsIds := ids\<rparr>, []))))"

text \<open>Clearing the file leaves the selection as it is.\<close>

definition fc_onDelete :: "FederationCreateState \<Rightarrow> FederationCreateState" where
  "fc_onDelete st =
     st\<lparr>fc_federationJson := [], fc_uploadedFederation := ManyFeds [], fc_federationLoaded := False,
        fc_message := [], fc_statusOK := [], fc_newFederationsIds := []\<rparr>"

section \<open>Submitting\<close>

definition nothing_loaded :: "fed_file \<Rightarrow> bool" where
  "nothing_loaded file \<longleftrightarrow> file = OneFed None \<or> file = ManyFeds []"

text \<open>A file with one element is posted as that element, any other as it is.\<close>

definition fed_jsonData :: "fed_file \<Rightarrow> fed_file" where
  "fed_jsonData file = (case file of ManyFeds [f] \<Rightarrow> OneFed f | _ \<Rightarrow> file)"

definition fc_onSubmit ::
  "app_env \<Rightarrow> FederationCreateState \<Rightarrow> FederationCreateState \<times> fed_file effect list"
where
  "fc_onSubmit env st =
     (if nothing_loaded (fc_uploadedFederation st)
      then (st\<lparr>fc_message := ''No federation JSON loaded.'', fc_statusOK := ''ERROR''\<rparr>, [ScrollTop])
      else (st\<lparr>fc_loading := True, fc_statusOK := []\<rparr>,
            [Request POST (GetApiServerUri env ''/api/v1/spire/federations'')
               (fed_jsonData (fc_uploadedFederation st))]))"

text \<open>
  The reply: the message of the first result, if the reply has one; \<open>json\<close> is its text. An error
  carries the reply in \<open>response.data\<close>, whose first message is \<open>err_first\<close>.
\<close>

definition fc_onSubmit_done ::
  "string \<Rightarrow> string option \<Rightarrow> string option outcome \<Rightarrow> FederationCreateState
     \<Rightarrow> FederationCreateState \<times> fed_file effect list"
where
  "fc_onSubmit_done json err_first out st =
     (case out of
        Resolved _ _ first \<Rightarrow>
          (let responseMessage = or_text first ''OK'' in
           (st\<lparr>fc_loading := False,
               fc_statusOK := if responseMessage = ''OK'' then ''OK'' else ''ERROR'',
               fc_successJsonMessage := responseMessage, fc_message := json\<rparr>, [ScrollTop]))
      | Rejected e \<Rightarrow>
          (st\<lparr>fc_loading := False, fc_statusOK := ''ERROR'',
              fc_successJsonMessage := or_text err_first ''Failed to create federation.'',
              fc_message := json\<rparr>, [ScrollTop]))"

section \<open>Editing the endpoint\<close>

definition fed_at :: "fed_file \<Rightarrow> nat \<Rightarrow> Federation option" where
  "fed_at file i =
     (case file of
        ManyFeds fs \<Rightarrow> if i < length fs then fs ! i else None
      | OneFed f \<Rightarrow> f)"

text \<open>
  \<open>confirmed\<close> is the answer of \<open>window.confirm\<close>, asked while a federation is selected; here Cancel
  keeps the selection, although the question says that Cancel continues without saving.
\<close>

definition setSelectedFederation :: "bool \<Rightarrow> nat \<Rightarrow> FederationCreateState \<Rightarrow> FederationCreateState" where
  "setSelectedFederation confirmed index st =
     (if fc_federationSelected st \<and> \<not> confirmed then st
      else if (case fc_uploadedFederation st of OneFed f \<Rightarrow> index \<noteq> 0 | ManyFeds fs \<Rightarrow> False) then st
      else
        (let fedRel = (case fed_at (fc_uploadedFederation st) index of
                Some f \<Rightarrow> (case federation_relationships f of Some (r # _) \<Rightarrow> Some r | _ \<Rightarrow> None)
              | None \<Rightarrow> None);
             url = (case fedRel of None \<Rightarrow> [] | Some r \<Rightarrow> or_text (rel_bundle_endpoint_url r) [])
         in st\<lparr>fc_selectedFederationId := int index, fc_federationSelected := True,
               fc_exposedBundleEndpoint := url\<rparr>))"

definition fc_onChangeEndpoint :: "string \<Rightarrow> FederationCreateState \<Rightarrow> FederationCreateState" where
  "fc_onChangeEndpoint v st = st\<lparr>fc_exposedBundleEndpoint := v\<rparr>"

definition set_endpoint :: "string \<Rightarrow> Federation \<Rightarrow> Federation" where
  "set_endpoint url f =
     (case federation_relationships f of
        Some (r # rs) \<Rightarrow>
          f\<lparr>federation_relationships := Some (r\<lparr>rel_bundle_endpoint_url := Some (trim url)\<rparr> # rs)\<rparr>
      | _ \<Rightarrow> f)"

text \<open>
  The edit: outside the array, or without a relationship, nothing is changed, and the alert is the
  same. A null element throws.
\<close>

definition applyEditToFederation ::
  "FederationCreateState \<Rightarrow> FederationCreateState throws \<times> fed_file effect list"
where
  "applyEditToFederation st =
     (let i = fc_selectedFederationId st in
      if i = - 1 then
        (Inr st, [Alert ''Please select a Federation from the list, and make necessary changes to apply edit!''])
      else
        (let feds = (case fc_uploadedFederation st of ManyFeds fs \<Rightarrow> fs | OneFed f \<Rightarrow> [f]);
             inside = (0 \<le> i \<and> i < int (length feds))
         in if inside \<and> feds ! nat i = None then (Inl TypeError, [])
            else
              (let feds' = (if inside
                     then feds[nat i := map_option (set_endpoint (fc_exposedBundleEndpoint st)) (feds ! nat i)]
                     else feds);
                   file' = (case fc_uploadedFederation st of ManyFeds fs \<Rightarrow> ManyFeds feds' | OneFed f \<Rightarrow> OneFed (hd feds'))
               in (Inr (st\<lparr>fc_uploadedFederation := file', fc_selectedFederationId := - 1,
                       fc_federationSelected := False, fc_exposedBundleEndpoint := []\<rparr>),
                   [Alert (''Federation '' @ int_toString (i + 1) @ '' Updated!'')]))))"

text \<open>What the page shows: the notice, the list of federations and the button.\<close>

record federation_view =
  fv_kind_info :: bool
  fv_created :: bool
  fv_failed :: bool
  fv_loaded :: "nat option"
  fv_links :: "(string \<times> bool) list"
  fv_endpoint_enabled :: bool
  fv_submit_enabled :: bool
  fv_loading :: bool

definition federation_render :: "FederationCreateState \<Rightarrow> federation_view" where
  "federation_render st =
     (let notice = fc_statusOK st \<noteq> []; file = fc_uploadedFederation st in
      \<lparr>fv_kind_info = (notice \<and> fc_statusOK st = ''OK''),
       fv_created = (notice \<and> fc_statusOK st = ''OK'' \<and> fc_successJsonMessage st = ''OK''),
       fv_failed = (notice \<and> fc_statusOK st = ''ERROR''),
       fv_loaded = (if fc_federationLoaded st
         then (case file of OneFed f \<Rightarrow> Some 1
               | ManyFeds fs \<Rightarrow> if length fs \<ge> 1 then Some (length fs) else None) else None),
       fv_links = (if fc_federationLoaded st
         then map (\<lambda>(i, d). (nat_toString (i + 1) @ ''. '' @ d, int i = fc_selectedFederationId st))
                (enumerate 0 (fc_newFederationsIds st)) else []),
       fv_endpoint_enabled = fc_federationSelected st,
       fv_submit_enabled = (\<not> nothing_loaded file),
       fv_loading = fc_loading st\<rparr>)"

section \<open>The trust bundle\<close>

record TrustBundleCreateState =
  tb_trustBundle :: string
  tb_loading :: bool
  tb_error :: string
  tb_bundleEndpointUrl :: string

definition trust_bundle_initial :: TrustBundleCreateState where
  "trust_bundle_initial =
     \<lparr>tb_trustBundle = [], tb_loading = False, tb_error = [], tb_bundleEndpointUrl = []\<rparr>"

definition tb_handleInputChange :: "string \<Rightarrow> TrustBundleCreateState \<Rightarrow> TrustBundleCreateState" where
  "tb_handleInputChange v st = st\<lparr>tb_bundleEndpointUrl := v\<rparr>"

definition getTrustBundle ::
  "app_env \<Rightarrow> TrustBundleCreateState \<Rightarrow> TrustBundleCreateState \<times> api_effect list"
where
  "getTrustBundle env st =
     (st\<lparr>tb_loading := True, tb_error := [], tb_trustBundle := []\<rparr>,
      [Request GET (GetApiServerUri env ''/api/v1/spire/bundle'') NoBody])"

text \<open>The federation object made from a fetched bundle.\<close>

definition federationData :: "string \<Rightarrow> server_bundle \<Rightarrow> Federation" where
  "federationData url b =
     \<lparr>federation_relationships =
        Some [\<lparr>rel_trust_domain = sb_trust_domain b, rel_bundle_endpoint_url = Some url,
          rel_endpoint_spiffe_id = Some (''spiffe://'' @ template (sb_trust_domain b) @ ''/spire/server''),
          rel_trust_domain_bundle = Some b, rel_other = []\<rparr>],
      fed_other = []\<rparr>"

text \<open>
  \<open>url\<close> is the endpoint typed when the request was made. \<open>has_request\<close>: the error came after the
  request was sent (axios sets \<open>err.request\<close>).
\<close>

definition getTrustBundle_done ::
  "app_env \<Rightarrow> (Federation \<Rightarrow> string) \<Rightarrow> string \<Rightarrow> bool \<Rightarrow> server_bundle jsval outcome \<Rightarrow> TrustBundleCreateState
     \<Rightarrow> TrustBundleCreateState \<times> api_effect list"
where
  "getTrustBundle_done env stringify url has_request out st =
     (let failed = (\<lambda>e sent. (st\<lparr>tb_loading := False, tb_error :=
            (case err_response e of
               Some (_, status) \<Rightarrow> ''Failed to fetch trust bundle. Server returned status '' @ int_toString status
             | None \<Rightarrow>
                 if sent then ''Failed to fetch trust bundle. No response received from backend.''
                 else ''Failed to fetch trust bundle. Could not connect to backend'')\<rparr>,
          [Toast (showResponseToast e None)]))
      in case out of
           Rejected e \<Rightarrow> failed e has_request
         | Resolved _ _ d \<Rightarrow>
             (case d of
                Val b \<Rightarrow> (st\<lparr>tb_trustBundle := stringify (federationData url b), tb_loading := False\<rparr>, [])
              | _ \<Rightarrow> failed (thrown env) False))"

text \<open>The text offered for download, when there is one.\<close>

definition downloadTrustBundle :: "TrustBundleCreateState \<Rightarrow> string option" where
  "downloadTrustBundle st =
     (if \<not> tb_loading st \<and> tb_error st = [] \<and> tb_trustBundle st \<noteq> [] then Some (tb_trustBundle st) else None)"

section \<open>The list of federations\<close>

definition federation_list_mount :: "app_env \<Rightarrow> RootState \<Rightarrow> api_effect list throws" where
  "federation_list_mount env props =
     (let info = globalTornjakServerInfo (st_servers props) in
      if is_val info
      then bindE (populateServerInfo info)
             (\<lambda>acts. Inr (populateLocalFederationsUpdate env @ do_dispatch acts))
      else Inr (populateLocalFederationsUpdate env))"

definition federation_list_update :: "bool \<Rightarrow> RootState \<Rightarrow> api_effect list throws" where
  "federation_list_update info_changed props =
     (if info_changed
      then bindE (populateServerInfo (globalTornjakServerInfo (st_servers props)))
             (\<lambda>acts. Inr (do_dispatch acts))
      else Inr [])"

definition federationList :: "RootState \<Rightarrow> FederationsList list option throws" where
  "federationList props =
     (case globalFederationsList (st_federations props) of
        Undefined \<Rightarrow> Inr None
      | Null \<Rightarrow> Inl TypeError
      | Val fs \<Rightarrow> Inr (Some fs))"

section \<open>Properties\<close>

definition fed_endpoint :: "app_env \<Rightarrow> string" where
  "fed_endpoint env = GetApiServerUri env ''/api/v1/spire/federations''"

text \<open>C33. The trust bundle page and the federation form fit together: the bundle fetched, downloaded and
  uploaded as a file is loaded as one federation listed under the server's trust domain, selecting
  it shows the endpoint typed when it was fetched, and submitting posts exactly the object made
  from the bundle.\<close>

theorem bundle_to_federation:
  assumes "parse (stringify (federationData url b)) = Some (OneFed (Some (federationData url b)))" and "stringify (federationData url b) \<noteq> []"
    and "sb_trust_domain b = Some td" and "td \<noteq> []" and "tb_error st = []"
    and "\<not> fc_federationSelected fst0"
  shows "\<exists>text0 st1. downloadTrustBundle
        (fst (getTrustBundle_done env stringify url sent (Resolved 200 ''OK'' (Val b)) st)) = Some text0 \<and>
      st1 = fst (handleFileUpload parse (Some text0) fst0) \<and>
      fc_newFederationsIds st1 = [td] \<and>
      fc_exposedBundleEndpoint (setSelectedFederation c 0 st1) = url \<and>
      snd (fc_onSubmit env st1) = [Request POST (fed_endpoint env) (OneFed (Some (federationData url b)))]"
proof -
  let ?text = "stringify (federationData url b)"
  have "downloadTrustBundle
      (fst (getTrustBundle_done env stringify url sent (Resolved 200 ''OK'' (Val b)) st)) = Some ?text"
    using assms(2,5) by (simp add: downloadTrustBundle_def getTrustBundle_done_def Let_def)
  moreover have "fed_ids (OneFed (Some (federationData url b))) = Inr [td]"
    using assms(3,4) by (simp add: fed_ids_def fed_id_def federationData_def or_text_def)
  ultimately show ?thesis
    using assms(1,6)
    by (simp add: handleFileUpload_def setSelectedFederation_def fc_onSubmit_def nothing_loaded_def
        fed_jsonData_def fed_endpoint_def fed_at_def Let_def)
       (simp add: federationData_def or_text_def)
qed

lemma bundle_to_federation_witness:
  "(let b = \<lparr>sb_trust_domain = Some ''td'', sb_json = ''{}''\<rparr>; f = federationData ''https://h'' b;
        env = \<lparr>REACT_APP_API_SERVER_URI = None, REACT_APP_API_VERSION = None,
          REACT_APP_TORNJAK_MANAGER = None, REACT_APP_AUTH_SERVER_URI = None, urljoin = (@),
          thrown_message = [], thrown_string = []\<rparr> in
    \<exists>text0 st1. downloadTrustBundle
        (fst (getTrustBundle_done env (\<lambda>_. ''j'') ''https://h'' True (Resolved 200 ''OK'' (Val b)) trust_bundle_initial)) = Some text0 \<and>
      st1 = fst (handleFileUpload (\<lambda>_. Some (OneFed (Some f))) (Some text0) federation_create_initial) \<and>
      fc_newFederationsIds st1 = [''td''] \<and>
      fc_exposedBundleEndpoint (setSelectedFederation False 0 st1) = ''https://h'' \<and>
      snd (fc_onSubmit env st1) = [Request POST (fed_endpoint env) (OneFed (Some f))])"
  unfolding Let_def
  by (rule bundle_to_federation) (simp_all add: trust_bundle_initial_def federation_create_initial_def)

text \<open>Applying an edit sets the endpoint of the first relationship of the selected federation to the
  trimmed text and leaves every other federation and field as it is.\<close>

lemma federation_edit_exact:
  assumes "fc_uploadedFederation st = ManyFeds fs" and "fc_selectedFederationId st = int i"
    and "i < length fs" and "fs ! i = Some f" and "federation_relationships f = Some (r # rs)"
  shows "\<exists>st'. fst (applyEditToFederation st) = Inr st' \<and>
    fc_uploadedFederation st' = ManyFeds (fs[i := Some (f\<lparr>federation_relationships :=
      Some (r\<lparr>rel_bundle_endpoint_url := Some (trim (fc_exposedBundleEndpoint st))\<rparr> # rs)\<rparr>)]) \<and>
    fc_selectedFederationId st' = - 1"
  using assms by (simp add: applyEditToFederation_def set_endpoint_def Let_def)

definition fed1 :: Federation where
  "fed1 = \<lparr>federation_relationships = Some [\<lparr>rel_trust_domain = Some ''td'',
     rel_bundle_endpoint_url = Some ''https://h'', rel_endpoint_spiffe_id = None,
     rel_trust_domain_bundle = None, rel_other = []\<rparr>], fed_other = []\<rparr>"

definition fed_state1 :: FederationCreateState where
  "fed_state1 = federation_create_initial\<lparr>fc_uploadedFederation := ManyFeds [Some fed1],
     fc_selectedFederationId := 0, fc_federationSelected := True, fc_exposedBundleEndpoint := '' https://k ''\<rparr>"

lemma federation_edit_exact_witness:
  "\<exists>st'. fst (applyEditToFederation fed_state1) = Inr st' \<and>
    fc_uploadedFederation st' = ManyFeds ([Some fed1][0 := Some (fed1\<lparr>federation_relationships :=
      Some ((hd (the (federation_relationships fed1)))\<lparr>rel_bundle_endpoint_url :=
        Some (trim (fc_exposedBundleEndpoint fed_state1))\<rparr> # [])\<rparr>)]) \<and>
    fc_selectedFederationId st' = - 1"
  by (rule federation_edit_exact) (simp_all add: fed_state1_def fed1_def)

text \<open>The alert that a federation was updated appears also when nothing was: a federation without
  relationships, or a selection left over from a longer file, leaves the uploaded file as it is and
  reports the update.\<close>

lemma federation_update_misreported:
  assumes "fc_uploadedFederation st = ManyFeds fs" and "fc_selectedFederationId st = int i"
    and "length fs \<le> i \<or> (\<exists>f. fs ! i = Some f \<and> federation_relationships f = None)"
  shows "\<exists>st'. applyEditToFederation st =
      (Inr st', [Alert (''Federation '' @ int_toString (int i + 1) @ '' Updated!'')]) \<and>
    fc_uploadedFederation st' = fc_uploadedFederation st"
proof (cases "length fs \<le> i")
  case True
  then show ?thesis using assms by (simp add: applyEditToFederation_def Let_def)
next
  case False
  then obtain f where f: "fs ! i = Some f" "federation_relationships f = None" using assms(3) by blast
  then have "fs[i := Some (set_endpoint (fc_exposedBundleEndpoint st) f)] = fs"
    using list_update_id [of fs i] by (simp add: set_endpoint_def)
  then show ?thesis using assms(1,2) f by (simp add: applyEditToFederation_def Let_def)
qed

lemma federation_update_misreported_witness:
  "\<exists>st'. applyEditToFederation (fc_onDelete fed_state1) =
      (Inr st', [Alert (''Federation '' @ int_toString (int 0 + 1) @ '' Updated!'')]) \<and>
    fc_uploadedFederation st' = fc_uploadedFederation (fc_onDelete fed_state1)"
  by (rule federation_update_misreported [where fs = "[]"]) (simp_all add: fc_onDelete_def fed_state1_def)

end
