(* ===== verification/Servers.thy ===== *)
theory Servers
  imports Requests ClusterForms
begin

text \<open>
  The servers of a manager: registering one (components/server-management.tsx), choosing one
  (select-server.tsx), what is shown of it (tornjak-server-info.tsx), the plugin of an agent's
  workload attestor (work-load-attestor-modal.tsx). \<open>Buffer\<close>'s base64 encodings and JSON.stringify
  are parameters.
\<close>

section \<open>Registering a server\<close>

record ServerManagementState =
  sm_formServerName :: string
  sm_formServerAddress :: string
  sm_formTLS :: bool
  sm_formMTLS :: bool
  sm_formCAData :: "string option"
  sm_formCertData :: "string option"
  sm_formKeyData :: "string option"
  sm_CAFileText :: string
  sm_certFileText :: string
  sm_keyFileText :: string
  sm_message :: string
  sm_statusOK :: string

definition sm_constructor :: ServerManagementState where
  "sm_constructor =
     \<lparr>sm_formServerName = [], sm_formServerAddress = [], sm_formTLS = False, sm_formMTLS = False,
      sm_formCAData = None, sm_formCertData = None, sm_formKeyData = None,
      sm_CAFileText = [], sm_certFileText = [], sm_keyFileText = [], sm_message = [], sm_statusOK = []\<rparr>"

datatype 'b server_body = Register 'b | ServerApi api_body

record server_registration =
  rg_name :: string
  rg_address :: string
  rg_tls :: bool
  rg_mtls :: bool
  rg_ca :: "string option"
  rg_cert :: "string option"
  rg_key :: "string option"

type_synonym server_effect = "server_registration server_body effect"

definition refreshServerState :: "app_env \<Rightarrow> server_effect list" where
  "refreshServerState env = [Request GET (GetApiServerUri env ''/manager-api/server/list'') (ServerApi NoBody)]"

definition refreshServerState_done ::
  "app_env \<Rightarrow> ServersList list jsval jsval outcome \<Rightarrow> server_effect list"
where
  "refreshServerState_done env =
     then_catch env
       (\<lambda>_ _ data. with_body data (\<lambda>servers. do_dispatch (serversListUpdateFunc servers)))
       (\<lambda>e. [toast_error e ''Could not refresh server state.''])"

text \<open>The check boxes write the field their name says; a name the state does not have is never read.\<close>

definition sm_handleInputChange :: "string \<Rightarrow> bool \<Rightarrow> ServerManagementState \<Rightarrow> ServerManagementState" where
  "sm_handleInputChange name value st =
     (if name = ''formTLS'' then st\<lparr>sm_formTLS := value\<rparr>
      else if name = ''formMTLS'' then st\<lparr>sm_formMTLS := value\<rparr> else st)"

definition onChangeServerName :: "string option \<Rightarrow> ServerManagementState \<Rightarrow> ServerManagementState" where
  "onChangeServerName e st = (case e of None \<Rightarrow> st | Some sid \<Rightarrow> st\<lparr>sm_formServerName := sid\<rparr>)"

definition onChangeServerAddress :: "string option \<Rightarrow> ServerManagementState \<Rightarrow> ServerManagementState" where
  "onChangeServerAddress e st = (case e of None \<Rightarrow> st | Some sid \<Rightarrow> st\<lparr>sm_formServerAddress := sid\<rparr>)"

text \<open>What a reader hands to \<open>onload\<close>; an empty text is falsy and is passed over.\<close>

datatype read_result = Text_read string | Bytes_read "nat list"

definition loaded_data ::
  "(string \<Rightarrow> string) \<Rightarrow> (nat list \<Rightarrow> string) \<Rightarrow> read_result option \<Rightarrow> string option"
where
  "loaded_data base64_text base64_bytes result =
     (case result of
        None \<Rightarrow> None
      | Some (Text_read s) \<Rightarrow> if s = [] then None else Some (base64_text s)
      | Some (Bytes_read bs) \<Rightarrow> Some (base64_bytes bs))"

definition onCAFileChange ::
  "(string \<Rightarrow> string) \<Rightarrow> (nat list \<Rightarrow> string) \<Rightarrow> read_result option \<Rightarrow> ServerManagementState \<Rightarrow> ServerManagementState"
where
  "onCAFileChange base64_text base64_bytes result st =
     (case loaded_data base64_text base64_bytes result of
        None \<Rightarrow> st
      | Some d \<Rightarrow> st\<lparr>sm_formCAData := Some d, sm_CAFileText := ''CA file load success''\<rparr>)"

definition onCertFileChange ::
  "(string \<Rightarrow> string) \<Rightarrow> (nat list \<Rightarrow> string) \<Rightarrow> read_result option \<Rightarrow> ServerManagementState \<Rightarrow> ServerManagementState"
where
  "onCertFileChange base64_text base64_bytes result st =
     (case loaded_data base64_text base64_bytes result of
        None \<Rightarrow> st
      | Some d \<Rightarrow> st\<lparr>sm_formCertData := Some d, sm_certFileText := ''cert file load success''\<rparr>)"

definition onKeyFileChange ::
  "(string \<Rightarrow> string) \<Rightarrow> (nat list \<Rightarrow> string) \<Rightarrow> read_result option \<Rightarrow> ServerManagementState \<Rightarrow> ServerManagementState"
where
  "onKeyFileChange base64_text base64_bytes result st =
     (case loaded_data base64_text base64_bytes result of
        None \<Rightarrow> st
      | Some d \<Rightarrow> st\<lparr>sm_formKeyData := Some d, sm_keyFileText := ''key file load success''\<rparr>)"

definition sm_cjtData :: "ServerManagementState \<Rightarrow> server_registration" where
  "sm_cjtData st =
     \<lparr>rg_name = sm_formServerName st, rg_address = sm_formServerAddress st, rg_tls = sm_formTLS st,
      rg_mtls = sm_formMTLS st, rg_ca = sm_formCAData st, rg_cert = sm_formCertData st,
      rg_key = sm_formKeyData st\<rparr>"

definition sm_onSubmit :: "app_env \<Rightarrow> ServerManagementState \<Rightarrow> server_effect list" where
  "sm_onSubmit env st =
     [Request POST (GetApiServerUri env ''/manager-api/server/register'') (Register (sm_cjtData st))]"

text \<open>\<open>err.response.data\<close> is a text here, as everywhere in the model.\<close>

definition sm_onSubmit_done ::
  "(server_registration \<Rightarrow> string) \<Rightarrow> ('d \<Rightarrow> string) \<Rightarrow> app_env \<Rightarrow> server_registration \<Rightarrow> 'd outcome
     \<Rightarrow> ServerManagementState \<Rightarrow> ServerManagementState \<times> server_effect list"
where
  "sm_onSubmit_done json_req json_rep env req out st =
     (case out of
        Resolved _ _ d \<Rightarrow>
          (st\<lparr>sm_message := ''Requst:'' @ json_req req @ [CHR 0x0A, CHR 0x0A] @ ''Success:'' @ json_rep d,
             sm_statusOK := ''OK''\<rparr>, refreshServerState env)
      | Rejected e \<Rightarrow>
          (st\<lparr>sm_message := ''ERROR:'' @ err_string e @
               (case err_response e of None \<Rightarrow> [] | Some (data, _) \<Rightarrow> data),
             sm_statusOK := ''ERROR''\<rparr>, [Toast (showResponseToast e None)]))"

text \<open>The list handed to the table below the form.\<close>

definition serverList :: "RootState \<Rightarrow> ServersList list option throws" where
  "serverList props =
     (case globalServersList (st_servers props) of
        Undefined \<Rightarrow> Inr None | Null \<Rightarrow> Inl TypeError | Val ss \<Rightarrow> Inr (Some ss))"

section \<open>Choosing a server\<close>

definition populateServers :: "app_env \<Rightarrow> api_effect list" where
  "populateServers env = [Request GET (GetApiServerUri env ''/manager-api/server/list'') NoBody]"

definition populateServers_done ::
  "app_env \<Rightarrow> ServersList list jsval jsval outcome \<Rightarrow> api_effect list"
where
  "populateServers_done env =
     then_catch env
       (\<lambda>_ _ data. with_body data (\<lambda>servers. do_dispatch (serversListUpdateFunc servers)))
       (\<lambda>e. [toast_error e ''Could not populate servers.''])"

text \<open>An object with a key: of the fields of the debug information at least one is there.\<close>

definition has_debug_info :: "DebugServerInfo jsval \<Rightarrow> bool" where
  "has_debug_info d =
     (case d of Val i \<Rightarrow> svid_chain i \<noteq> None \<or> uptime i \<noteq> None \<or> federated_bundles_count i \<noteq> None | _ \<Rightarrow> False)"

text \<open>\<open>populateServerInfo\<close> runs at once, on the information of the props; what it throws ends the rest.\<close>

definition server_info_then ::
  "TornjakServerInfo jsval \<Rightarrow> api_effect list \<Rightarrow> api_effect list \<times> unit throws"
where
  "server_info_then info rest =
     (case populateServerInfo info of
        Inl e \<Rightarrow> ([], Inl e) | Inr acts \<Rightarrow> (do_dispatch acts @ rest, Inr ()))"

definition select_server_mount :: "app_env \<Rightarrow> RootState \<Rightarrow> api_effect list \<times> unit throws" where
  "select_server_mount env props =
     (if \<not> IsManager env then ([], Inr ())
      else
        (let server = globalServerSelected (st_servers props);
             requests = populateServers env @
               (if server \<noteq> [] \<and> fine_message props then populateTornjakServerInfo env server else [])
         in if has_debug_info (globalDebugServerInfo (st_servers props)) \<and> fine_message props
            then (let (effs, z) = server_info_then (globalTornjakServerInfo (st_servers props))
                        (populateAgentsUpdate env server)
                  in (requests @ effs, z))
            else (requests, Inr ())))"

definition select_server_update :: "app_env \<Rightarrow> bool \<Rightarrow> RootState \<Rightarrow> api_effect list \<times> unit throws" where
  "select_server_update env server_changed props =
     (if IsManager env \<and> server_changed
      then (let server = globalServerSelected (st_servers props);
                (effs, z) = server_info_then (globalTornjakServerInfo (st_servers props))
                  (populateAgentsUpdate env server)
            in (populateTornjakServerInfo env server @ effs, z))
      else ([], Inr ()))"

text \<open>The names offered, the choice of one (an empty name is falsy), and a server by its name.\<close>

definition server_items :: "RootState \<Rightarrow> string list" where
  "server_items props =
     (case globalServersList (st_servers props) of Val ss \<Rightarrow> map server_name ss | _ \<Rightarrow> [])"

definition onServerSelect :: "string \<Rightarrow> api_effect list" where
  "onServerSelect selectedItem =
     (if selectedItem \<noteq> [] then do_dispatch (serverSelectedFunc selectedItem) else [])"

definition getServer :: "RootState \<Rightarrow> string \<Rightarrow> ServersList option throws" where
  "getServer props serverName =
     (case globalServersList (st_servers props) of
        Val ss \<Rightarrow> Inr (List.find (\<lambda>s. server_name s = serverName) ss) | _ \<Rightarrow> Inl TypeError)"

section \<open>Server information\<close>

text \<open>
  The page asks for the debug information with \<open>this.props.spireDebugServerInfoUpdateFunc\<close>, which
  its \<open>connect\<close> does not provide: calling \<open>undefined\<close> throws in the callback.
\<close>

definition debug_info_done_unconnected :: "app_env \<Rightarrow> 'd outcome \<Rightarrow> api_effect list" where
  "debug_info_done_unconnected env =
     then_catch env (\<lambda>_ _ _. ([], True)) (\<lambda>e. [toast_error e ''Could not populate tornjak debug info.''])"

definition server_info_mount :: "app_env \<Rightarrow> RootState \<Rightarrow> api_effect list" where
  "server_info_mount env props =
     (let server = globalServerSelected (st_servers props) in
      if IsManager env then (if server \<noteq> [] then populateTornjakServerInfo env server else [])
      else populateLocalTornjakServerInfo env @ populateLocalTornjakDebugServerInfo env)"

definition server_info_update :: "app_env \<Rightarrow> bool \<Rightarrow> RootState \<Rightarrow> api_effect list" where
  "server_info_update env server_changed props =
     (if IsManager env \<and> server_changed
      then populateTornjakServerInfo env (globalServerSelected (st_servers props)) else [])"

text \<open>The plugins are tagged in the order of the interface's fields (the code takes the order of the
  reply's JSON). The information is shown, trust domain, plugin tags and configuration, or a note takes the place
  of the last two when the server has no access to the configuration.\<close>

record info_display =
  id_trustDomain :: string
  id_plugins :: "string list option"
  id_config :: "string option"

definition PluginTags :: "string \<Rightarrow> string list \<Rightarrow> string list" where
  "PluginTags kind names = map (\<lambda>v. kind @ '': '' @ v) names"

definition plugin_tags :: "ServerPlugins \<Rightarrow> string list" where
  "plugin_tags pl =
     PluginTags ''DataStore'' (DataStore pl) @ PluginTags ''KeyManager'' (KeyManager pl) @
     PluginTags ''NodeAttestor'' (NodeAttestor pl) @ PluginTags ''NodeResolver'' (NodeResolver pl) @
     PluginTags ''Notifier'' (Notifier pl)"

definition TornjakServerInfoDisplay :: "TornjakServerInfo \<Rightarrow> info_display" where
  "TornjakServerInfoDisplay si =
     (let configured = tsi_trustDomain si \<noteq> [] \<and> verboseConfig si \<noteq> [] in
      \<lparr>id_trustDomain = tsi_trustDomain si,
       id_plugins = (if configured
         then Some (case plugins si of None \<Rightarrow> [] | Some pl \<Rightarrow> plugin_tags pl) else None),
       id_config = (if configured then Some (verboseConfig si) else None)\<rparr>)"

definition tornjakServerInfo :: "RootState \<Rightarrow> info_display option throws" where
  "tornjakServerInfo props =
     (if has_debug_info (globalDebugServerInfo (st_servers props))
      then (case globalTornjakServerInfo (st_servers props) of
              Val si \<Rightarrow> Inr (Some (TornjakServerInfoDisplay si)) | _ \<Rightarrow> Inl TypeError)
      else Inr None)"

section \<open>The workload attestor of an agent\<close>

record WorkLoadAttestorState =
  wl_workloadPlugin :: string
  wl_selectorsList :: string
  wl_agentSpiffeId :: string

definition wl_constructor :: WorkLoadAttestorState where
  "wl_constructor = \<lparr>wl_workloadPlugin = [], wl_selectorsList = [], wl_agentSpiffeId = []\<rparr>"

definition prepareAgentData :: "string \<Rightarrow> WorkLoadAttestorState \<Rightarrow> WorkLoadAttestorState" where
  "prepareAgentData spiffeid st = st\<lparr>wl_agentSpiffeId := spiffeid\<rparr>"

text \<open>The refresh is sent together with the registration; registering refreshes once more when it is done.\<close>

definition wl_handleSubmit :: "app_env \<Rightarrow> RootState \<Rightarrow> WorkLoadAttestorState \<Rightarrow> api_effect list" where
  "wl_handleSubmit env props st =
     (let server = globalServerSelected (st_servers props) in
      if IsManager env
      then registerSelectors env server (wl_agentSpiffeId st) (wl_workloadPlugin st) @ refreshSelectorsState env server
      else registerLocalSelectors env (wl_agentSpiffeId st) (wl_workloadPlugin st) @ refreshLocalSelectorsState env)"

text \<open>The loop compares its index with the length of the plugin's name.\<close>

definition attestor_text :: "string \<Rightarrow> StringLabels list \<Rightarrow> string" where
  "attestor_text sid ls =
     foldl (\<lambda>text (i, l). text @ label l @ (if int i \<noteq> int (length sid) - 1 then [CHR '':'', CHR 0x0A] else '':''))
       [] (enumerate 0 ls)"

definition onChangeWorkloadPlugin ::
  "RootState \<Rightarrow> string \<Rightarrow> WorkLoadAttestorState \<Rightarrow> WorkLoadAttestorState throws"
where
  "onChangeWorkloadPlugin props sid st =
     (case index_labels (globalWorkloadSelectorInfo (st_servers props)) sid of
        None \<Rightarrow> Inl TypeError
      | Some ls \<Rightarrow> Inr (st\<lparr>wl_workloadPlugin := sid, wl_selectorsList := attestor_text sid ls\<rparr>))"

end
