(* ===== verification/Health.thy ===== *)
theory Health
  imports Servers
begin

text \<open>
  components/spire-health-check.tsx: the periodic check of the SPIRE server and the choice of its
  rate. A timer is started with \<open>setTimeout\<close> and never cleared; the browser keeps it until it fires, so
  the pending timers are part of the state, each with its delay. React runs the updates of one
  callback together: one \<open>componentDidUpdate\<close> follows them.
\<close>

section \<open>The rates\<close>

definition spireHealthCheckTimeOptions :: "string list" where
  "spireHealthCheckTimeOptions =
     [''10 Secs'', ''30 Secs'', ''1 Min'', ''2 Mins'', ''5 Mins'', ''10 Mins'', ''30 Mins'', ''1 Hr'', ''1 Day'']"

definition conversion_factor :: "string option \<Rightarrow> rat" where
  "conversion_factor unit =
     (if unit = Some ''Min'' \<or> unit = Some ''Mins'' then 60
      else if unit = Some ''Hrs'' \<or> unit = Some ''Hr'' then 3600
      else if unit = Some ''Days'' \<or> unit = Some ''Day'' then 86400
      else 1)"

definition convertDurationToSeconds :: "string \<Rightarrow> jsnum" where
  "convertDurationToSeconds durationString =
     (let parts = split_on (CHR '' '') durationString in
      times_pos (parseInt10 (hd parts))
        (conversion_factor (if 1 < length parts then Some (parts ! 1) else None)))"

definition refresh_rate :: "string \<Rightarrow> SpireHealthCheckFreq" where
  "refresh_rate sid =
     \<lparr>SpireHealtCheckTime = convertDurationToSeconds sid, SpireHealthCheckFreqDisplay = sid\<rparr>"

definition onChangeSpireRefreshRate :: "string option \<Rightarrow> api_effect list" where
  "onChangeSpireRefreshRate selected =
     (case selected of
        None \<Rightarrow> []
      | Some sid \<Rightarrow> do_dispatch (spireHealthCheckRefreshTimeFunc (refresh_rate sid)))"

section \<open>The timers\<close>

text \<open>The rate is the prop; a timer of the state is a fresh object every time.\<close>

record health_state =
  hc_rate :: SpireHealthCheckFreq
  hc_pending :: "jsnum list"

definition startTimer :: "health_state \<Rightarrow> health_state" where
  "startTimer st = st\<lparr>hc_pending := hc_pending st @ [times_pos (SpireHealtCheckTime (hc_rate st)) 1000]\<rparr>"

text \<open>Mounting checks twice: once for itself, once for the update that the new timer causes.\<close>

definition health_mount :: "app_env \<Rightarrow> SpireHealthCheckFreq \<Rightarrow> health_state \<times> api_effect list" where
  "health_mount env rate =
     (startTimer \<lparr>hc_rate = rate, hc_pending = []\<rparr>, spireHealthCheck env @ spireHealthCheck env)"

text \<open>A timer fires and starts the next one; a new rate in the props starts one more.\<close>

datatype health_event = Fire nat | RateProp SpireHealthCheckFreq

fun health_enabled :: "health_event \<Rightarrow> health_state \<Rightarrow> bool" where
  "health_enabled (Fire i) st \<longleftrightarrow> i < length (hc_pending st)"
| "health_enabled (RateProp f) st \<longleftrightarrow> True"

fun health_step :: "app_env \<Rightarrow> health_event \<Rightarrow> health_state \<Rightarrow> health_state \<times> api_effect list" where
  "health_step env (Fire i) st =
     (startTimer (st\<lparr>hc_pending := take i (hc_pending st) @ drop (i + 1) (hc_pending st)\<rparr>), spireHealthCheck env)"
| "health_step env (RateProp f) st = (startTimer (st\<lparr>hc_rate := f\<rparr>), spireHealthCheck env)"

text \<open>What the component shows: a check under way, or the last result.\<close>

definition health_shown :: "RootState \<Rightarrow> string" where
  "health_shown props =
     (if \<not> globalSpireHealthChecking (st_servers props) then ''Checking''
      else if globalSpireHealthCheck (st_servers props) then ''Active'' else ''InActive'')"

section \<open>Runs\<close>

inductive health_run ::
  "app_env \<Rightarrow> SpireHealthCheckFreq \<Rightarrow> health_event list \<Rightarrow> health_state \<Rightarrow> api_effect list \<Rightarrow> bool"
  for env f0
where
  mounted: "health_run env f0 [] (fst (health_mount env f0)) (snd (health_mount env f0))"
| step: "health_run env f0 evs st effs \<Longrightarrow> health_enabled ev st \<Longrightarrow>
    health_run env f0 (evs @ [ev]) (fst (health_step env ev st)) (effs @ snd (health_step env ev st))"

definition is_rate :: "health_event \<Rightarrow> bool" where
  "is_rate ev \<longleftrightarrow> (case ev of RateProp _ \<Rightarrow> True | Fire _ \<Rightarrow> False)"

definition health_request :: "app_env \<Rightarrow> api_effect" where
  "health_request env = Request GET (api_uri env spireHealthCheckApi) NoBody"

lemma count_check: "filter ((=) (health_request env)) (spireHealthCheck env) = [health_request env]"
  by (simp add: spireHealthCheck_def health_request_def do_dispatch_def spireHealthCheckingFunc_def)

lemma pending_step:
  "health_enabled ev st \<Longrightarrow>
     length (hc_pending (fst (health_step env ev st))) = length (hc_pending st) + (if is_rate ev then 1 else 0)"
  by (cases ev) (auto simp: startTimer_def is_rate_def)

lemma health_run_counts:
  "health_run env f0 evs st effs \<Longrightarrow>
     length (hc_pending st) = 1 + length (filter is_rate evs) \<and>
     length (filter ((=) (health_request env)) effs) = 2 + length evs"
proof (induction rule: health_run.induct)
  case mounted
  then show ?case by (simp add: health_mount_def startTimer_def count_check)
next
  case (step evs st effs ev)
  then have "length (filter ((=) (health_request env)) (snd (health_step env ev st))) = 1"
    by (cases ev) (simp_all add: count_check)
  with step show ?case by (simp add: pending_step)
qed

text \<open>C24. The health check never stops: in every state of every run a timer is pending, whose firing is
  possible, sends one request and leaves a timer pending again. But the timers add up: every choice of
  a rate, the same one included, adds one for good, and each fires on its own.\<close>

theorem health_check_goes_on:
  assumes "health_run env f0 evs st effs"
  shows "length (hc_pending st) = 1 + length (filter is_rate evs) \<and>
    length (filter ((=) (health_request env)) effs) = 2 + length evs \<and>
    (\<exists>st' effs'. health_run env f0 (evs @ [Fire 0]) st' (effs @ effs') \<and>
       filter ((=) (health_request env)) effs' = [health_request env] \<and> hc_pending st' \<noteq> [])"
proof -
  from assms have c: "length (hc_pending st) = 1 + length (filter is_rate evs)"
    "length (filter ((=) (health_request env)) effs) = 2 + length evs"
    using health_run_counts by blast+
  then have en: "health_enabled (Fire 0) st" by simp
  from step [OF assms en] have "health_run env f0 (evs @ [Fire 0]) (fst (health_step env (Fire 0) st))
      (effs @ spireHealthCheck env)" by simp
  moreover have "hc_pending (fst (health_step env (Fire 0) st)) \<noteq> []" by (simp add: startTimer_def)
  ultimately show ?thesis using c count_check by blast
qed

lemma health_check_goes_on_witness:
  "\<exists>st effs. health_run manager_env (refresh_rate ''1 Min'') [RateProp (refresh_rate ''1 Min'')] st effs \<and>
     length (hc_pending st) = 2"
proof -
  let ?f = "refresh_rate ''1 Min''"
  let ?m = "health_mount manager_env ?f"
  have run: "health_run manager_env ?f ([] @ [RateProp ?f]) (fst (health_step manager_env (RateProp ?f) (fst ?m)))
      (snd ?m @ snd (health_step manager_env (RateProp ?f) (fst ?m)))"
    by (rule step [OF mounted]) simp
  from health_check_goes_on [OF this] run show ?thesis by (auto simp: is_rate_def)
qed

text \<open>A rate of a positive whole number and a unit, as the menu offers them, is stored as that many
  seconds together with its text.\<close>

lemma refresh_rate_stored:
  assumes "CHR '' '' \<notin> set unit"
  shows "globalSpireHealthTime (st_servers (dispatches props (dispatched
      (onChangeSpireRefreshRate (Some (nat_toString n @ '' '' @ unit)))))) =
    \<lparr>SpireHealtCheckTime = Fin (of_nat n * conversion_factor (Some unit)),
     SpireHealthCheckFreqDisplay = nat_toString n @ '' '' @ unit\<rparr>"
proof -
  have "CHR '' '' \<notin> set (nat_toString n)" using nat_toString_digits [of n] by (auto simp: is_digit_def)
  then have "split_on (CHR '' '') (nat_toString n @ CHR '' '' # unit) = [nat_toString n, unit]"
    using assms by (simp add: split_on_append_sep split_on_no_sep)
  moreover have "parseInt10 (nat_toString n) = Fin (of_nat n)" using parseInt10_prefix [of "[]" n] by simp
  ultimately show ?thesis
    by (simp add: onChangeSpireRefreshRate_def do_dispatch_def spireHealthCheckRefreshTimeFunc_def refresh_rate_def
        dispatches_def globalSpireHealthTime_cell.get_dispatch convertDurationToSeconds_def)
qed

lemma refresh_rate_stored_witness:
  "SpireHealtCheckTime (globalSpireHealthTime (st_servers (dispatches (createStore (\<lambda>_. None) None) (dispatched
      (onChangeSpireRefreshRate (Some (nat_toString 5 @ '' '' @ ''Mins'')))))))  = num 300"
  by (subst refresh_rate_stored) (simp_all add: conversion_factor_def)

text \<open>The menu's rates in seconds.\<close>

lemma offered_rates:
  "map convertDurationToSeconds spireHealthCheckTimeOptions =
     map num [10, 30, 60, 120, 300, 600, 1800, 3600, 86400]"
  by code_simp

end
