(* ===== verification/Page.thy ===== *)
theory Page
  imports JsNumber ApiTypes
begin

text \<open>
  What the pages have in common: the controls a \<open>render\<close> returns with the callbacks attached to them,
  what a user can make them call, the states a page can get into, and the updates React runs after
  a change. The controls are those of HTML and of the Carbon and MUI packages; what is used of them
  is documented behaviour only: a drop-down hands over one of its items, a multi-select some of
  its items, a number field a text that is empty or denotes a finite number.
\<close>

section \<open>Controls\<close>

datatype notice_kind = Success | Failure | Info | Warning

datatype shown_number = As_text string | As_number "jsnum option"

text \<open>
  A callback is the function from what the user enters to the event of the page it causes.
  A shown value or selection is None when the control is not given one.
\<close>

datatype ('f, 'h) widget =
    Heading string
  | Shown string
  | Notice notice_kind string string
  | TextField string "string option" "string \<Rightarrow> 'h"
  | NumberField string shown_number "string \<Rightarrow> 'h"
  | Area string "string \<Rightarrow> 'h"
  | ReadOnlyArea string
  | Choice string "string list" "string option" "string \<Rightarrow> 'h"
  | MultiChoice string "StringLabels list" "StringLabels list \<Rightarrow> 'h"
  | Tick string "bool option" "bool \<Rightarrow> 'h"
  | FileField string "'f \<Rightarrow> 'h"
  | Press string 'h
  | Disabled string
  | Child string

definition only_if :: "bool \<Rightarrow> 'a list \<Rightarrow> 'a list" where
  [simp]: "only_if b ws = (if b then ws else [])"

text \<open>What a control can call.\<close>

inductive offers :: "('f, 'h) widget \<Rightarrow> 'h \<Rightarrow> bool" where
  typed: "offers (TextField l v f) (f t)"
| number: "t = [] \<or> Number t \<in> range Fin \<Longrightarrow> offers (NumberField l v f) (f t)"
| written: "offers (Area l f) (f t)"
| chosen: "x \<in> set items \<Longrightarrow> offers (Choice l items v f) (f x)"
| several: "set xs \<subseteq> set items \<Longrightarrow> offers (MultiChoice l items f) (f xs)"
| ticked: "offers (Tick l v f) (f b)"
| loaded: "offers (FileField l f) (f r)"
| pressed: "offers (Press l h) h"

inductive_simps offers_simps [simp]:
  "offers (Heading l) h" "offers (Shown l) h" "offers (Notice k l t) h"
  "offers (TextField l v f) h" "offers (NumberField l v' f) h" "offers (Area l f) h"
  "offers (ReadOnlyArea l) h" "offers (Choice l items v f) h" "offers (MultiChoice l ls g) h"
  "offers (Tick l b k) h" "offers (FileField l r) h" "offers (Press l h') h"
  "offers (Disabled l) h" "offers (Child l) h"

definition page_offers :: "('f, 'h) widget list \<Rightarrow> 'h \<Rightarrow> bool" where
  "page_offers ws h \<longleftrightarrow> (\<exists>w \<in> set ws. offers w h)"

lemma page_offers_simps [simp]:
  "\<not> page_offers [] h"
  "page_offers (w # ws) h \<longleftrightarrow> offers w h \<or> page_offers ws h"
  "page_offers (xs @ ys) h \<longleftrightarrow> page_offers xs h \<or> page_offers ys h"
  by (auto simp: page_offers_def)

lemma page_offers_if [simp]:
  "page_offers (if b then ws else vs) h \<longleftrightarrow> (if b then page_offers ws h else page_offers vs h)"
  by simp

fun notices :: "('f, 'h) widget list \<Rightarrow> (notice_kind \<times> string \<times> string) list" where
  "notices [] = []"
| "notices (Notice k l t # ws) = (k, l, t) # notices ws"
| "notices (_ # ws) = notices ws"

lemma notices_append [simp]: "notices (xs @ ys) = notices xs @ notices ys"
  by (induction xs rule: notices.induct) auto

lemma notices_if [simp]: "notices (if b then ws else vs) = (if b then notices ws else notices vs)"
  by simp

section \<open>Pages\<close>

text \<open>
  A page renders its state with the properties it has at the moment, runs the callback of a control
  the user reaches, and changes by other steps (replies, updates after a change of properties).
  The properties may be different each time, within what \<open>ok\<close> allows.
\<close>

inductive page_reach ::
  "('p \<Rightarrow> bool) \<Rightarrow> ('p \<Rightarrow> 's \<Rightarrow> ('f, 'h) widget list) \<Rightarrow> ('p \<Rightarrow> 'h \<Rightarrow> 's \<Rightarrow> 's) \<Rightarrow> ('p \<Rightarrow> 's \<Rightarrow> 's \<Rightarrow> bool) \<Rightarrow>
    's \<Rightarrow> 's \<Rightarrow> bool"
  for ok render handle other init
where
  start: "page_reach ok render handle other init init"
| user: "page_reach ok render handle other init s \<Longrightarrow> ok p \<Longrightarrow> page_offers (render p s) h \<Longrightarrow>
    page_reach ok render handle other init (handle p h s)"
| change: "page_reach ok render handle other init s \<Longrightarrow> ok p \<Longrightarrow> other p s s' \<Longrightarrow>
    page_reach ok render handle other init s'"

lemma page_invariant:
  assumes "page_reach ok render handle other init s"
    and "I init"
    and "\<And>s p h. I s \<Longrightarrow> ok p \<Longrightarrow> page_offers (render p s) h \<Longrightarrow> I (handle p h s)"
    and "\<And>s p s'. I s \<Longrightarrow> ok p \<Longrightarrow> other p s s' \<Longrightarrow> I s'"
  shows "I s"
  using assms(1) by induction (auto intro: assms(2-4))

text \<open>What the events say last of a field, or its initial value.\<close>

definition last_value :: "('e \<Rightarrow> 'v option) \<Rightarrow> 'v \<Rightarrow> 'e list \<Rightarrow> 'v" where
  "last_value f d evs = last (d # List.map_filter f evs)"

lemma last_value_simps [simp]:
  "last_value f d [] = d"
  "last_value f d (evs @ [ev]) = (case f ev of None \<Rightarrow> last_value f d evs | Some v \<Rightarrow> v)"
  by (simp_all add: last_value_def map_filter_def split: option.splits)

text \<open>
  The contract between a field of a form and what is read of it: one event sets the field or
  leaves it. Every form's fields are shown to keep it; then the field holds what was entered last.
\<close>

locale form_field =
  fixes step :: "'e \<Rightarrow> 's \<Rightarrow> 's"
    and get :: "'s \<Rightarrow> 'v"
    and entered :: "'e \<Rightarrow> 'v option"
  assumes get_step: "get (step ev st) = (case entered ev of None \<Rightarrow> get st | Some v \<Rightarrow> v)"
begin

lemma holds_last: "get (foldl (\<lambda>st ev. step ev st) st0 evs) = last_value entered (get st0) evs"
  by (induction evs rule: rev_induct) (simp_all add: get_step split: option.splits)

lemma untouched: "(\<And>ev. ev \<in> set evs \<Longrightarrow> entered ev = None) \<Longrightarrow>
    get (foldl (\<lambda>st ev. step ev st) st0 evs) = get st0"
  by (induction evs rule: rev_induct) (simp_all add: get_step)

end

section \<open>Updates\<close>

text \<open>
  After a component has changed, React calls \<open>componentDidUpdate\<close>, and again after each change
  that this causes. \<open>upd s\<close> is the next state, or None when the call causes no change; None as
  the result is a cascade without an end.
\<close>

partial_function (option) settle :: "('s \<Rightarrow> 's option) \<Rightarrow> 's \<Rightarrow> 's option" where
  "settle upd s = (case upd s of None \<Rightarrow> Some s | Some s' \<Rightarrow> settle upd s')"

lemma settle_done: "upd s = None \<Longrightarrow> settle upd s = Some s"
  by (subst settle.simps) simp

lemma settle_step: "upd s = Some s' \<Longrightarrow> settle upd s = settle upd s'"
  by (subst settle.simps) simp

text \<open>
  When only the state has changed, the earlier properties are the present ones, so an update that
  looks at changes of properties only is followed by one that does nothing.
\<close>

definition guarded :: "('p \<Rightarrow> 'p \<Rightarrow> 's \<Rightarrow> 's option) \<Rightarrow> 'p \<times> 'p \<times> 's \<Rightarrow> ('p \<times> 'p \<times> 's) option" where
  "guarded upd = (\<lambda>(prev, props, st). map_option (\<lambda>st'. (props, props, st')) (upd prev props st))"

lemma guarded_settles:
  assumes "\<And>p st. upd p p st = None"
  shows "settle (guarded upd) (prev, props, st) =
    Some (case upd prev props st of None \<Rightarrow> (prev, props, st) | Some st' \<Rightarrow> (props, props, st'))"
proof (cases "upd prev props st")
  case None
  then show ?thesis by (simp add: guarded_def settle_done)
next
  case (Some st')
  then have "settle (guarded upd) (prev, props, st) = settle (guarded upd) (props, props, st')"
    by (intro settle_step) (simp add: guarded_def)
  also have "\<dots> = Some (props, props, st')"
    by (rule settle_done) (simp add: guarded_def assms)
  finally show ?thesis using Some by simp
qed

lemma guarded_ends:
  assumes "\<And>p st. upd p p st = None"
  shows "\<exists>r. settle (guarded upd) s = Some r"
proof (cases s)
  case (fields prev props st)
  then show ?thesis using guarded_settles [of upd prev props st, OF assms] by blast
qed

end
