(* ===== verification/ServerProps.thy ===== *)
theory ServerProps
  imports Servers Page
begin

text \<open>
  The server pages: what the registration form posts, which server the stored server information is
  of, what becomes of the debug information, and the selectors an agent's plugin is shown with.
\<close>

section \<open>The registration form\<close>

datatype sm_event =
    NameTyped string | AddressTyped string | TLS_box bool | MTLS_box bool
  | CA_file read_result | Cert_file read_result | Key_file read_result

fun sm_step :: "(string \<Rightarrow> string) \<Rightarrow> (nat list \<Rightarrow> string) \<Rightarrow> sm_event \<Rightarrow> ServerManagementState \<Rightarrow> ServerManagementState" where
  "sm_step bt bb (NameTyped v) st = onChangeServerName (Some v) st"
| "sm_step bt bb (AddressTyped v) st = onChangeServerAddress (Some v) st"
| "sm_step bt bb (TLS_box b) st = sm_handleInputChange ''formTLS'' b st"
| "sm_step bt bb (MTLS_box b) st = sm_handleInputChange ''formMTLS'' b st"
| "sm_step bt bb (CA_file r) st = onCAFileChange bt bb (Some r) st"
| "sm_step bt bb (Cert_file r) st = onCertFileChange bt bb (Some r) st"
| "sm_step bt bb (Key_file r) st = onKeyFileChange bt bb (Some r) st"

definition sm_run ::
  "(string \<Rightarrow> string) \<Rightarrow> (nat list \<Rightarrow> string) \<Rightarrow> sm_event list \<Rightarrow> ServerManagementState"
where
  "sm_run bt bb evs = foldl (\<lambda>st ev. sm_step bt bb ev st) sm_constructor evs"

fun name_of :: "sm_event \<Rightarrow> string option" where
  "name_of (NameTyped v) = Some v" | "name_of _ = None"

fun address_of :: "sm_event \<Rightarrow> string option" where
  "address_of (AddressTyped v) = Some v" | "address_of _ = None"

fun tls_of :: "sm_event \<Rightarrow> bool option" where
  "tls_of (TLS_box b) = Some b" | "tls_of _ = None"

fun mtls_of :: "sm_event \<Rightarrow> bool option" where
  "mtls_of (MTLS_box b) = Some b" | "mtls_of _ = None"

text \<open>A file that was read with some content.\<close>

definition file_data :: "(string \<Rightarrow> string) \<Rightarrow> (nat list \<Rightarrow> string) \<Rightarrow> read_result \<Rightarrow> string option option" where
  "file_data bt bb r = map_option Some (loaded_data bt bb (Some r))"

fun ca_of :: "(string \<Rightarrow> string) \<Rightarrow> (nat list \<Rightarrow> string) \<Rightarrow> sm_event \<Rightarrow> string option option" where
  "ca_of bt bb (CA_file r) = file_data bt bb r" | "ca_of bt bb _ = None"

fun cert_of :: "(string \<Rightarrow> string) \<Rightarrow> (nat list \<Rightarrow> string) \<Rightarrow> sm_event \<Rightarrow> string option option" where
  "cert_of bt bb (Cert_file r) = file_data bt bb r" | "cert_of bt bb _ = None"

fun key_of :: "(string \<Rightarrow> string) \<Rightarrow> (nat list \<Rightarrow> string) \<Rightarrow> sm_event \<Rightarrow> string option option" where
  "key_of bt bb (Key_file r) = file_data bt bb r" | "key_of bt bb _ = None"

lemmas sm_ops = onChangeServerName_def onChangeServerAddress_def sm_handleInputChange_def
  onCAFileChange_def onCertFileChange_def onKeyFileChange_def file_data_def

lemma sm_step_fields:
  "sm_formServerName (sm_step bt bb ev st) = (case name_of ev of None \<Rightarrow> sm_formServerName st | Some v \<Rightarrow> v)"
  "sm_formServerAddress (sm_step bt bb ev st) = (case address_of ev of None \<Rightarrow> sm_formServerAddress st | Some v \<Rightarrow> v)"
  "sm_formTLS (sm_step bt bb ev st) = (case tls_of ev of None \<Rightarrow> sm_formTLS st | Some v \<Rightarrow> v)"
  "sm_formMTLS (sm_step bt bb ev st) = (case mtls_of ev of None \<Rightarrow> sm_formMTLS st | Some v \<Rightarrow> v)"
  "sm_formCAData (sm_step bt bb ev st) = (case ca_of bt bb ev of None \<Rightarrow> sm_formCAData st | Some v \<Rightarrow> v)"
  "sm_formCertData (sm_step bt bb ev st) = (case cert_of bt bb ev of None \<Rightarrow> sm_formCertData st | Some v \<Rightarrow> v)"
  "sm_formKeyData (sm_step bt bb ev st) = (case key_of bt bb ev of None \<Rightarrow> sm_formKeyData st | Some v \<Rightarrow> v)"
  by (cases ev; simp add: sm_ops split: option.splits)+

text \<open>Every field of the form keeps the contract of a field.\<close>

interpretation name_field: form_field "sm_step bt bb" sm_formServerName name_of for bt bb
  by unfold_locales (rule sm_step_fields)

interpretation address_field: form_field "sm_step bt bb" sm_formServerAddress address_of for bt bb
  by unfold_locales (rule sm_step_fields)

interpretation tls_field: form_field "sm_step bt bb" sm_formTLS tls_of for bt bb
  by unfold_locales (rule sm_step_fields)

interpretation mtls_field: form_field "sm_step bt bb" sm_formMTLS mtls_of for bt bb
  by unfold_locales (rule sm_step_fields)

interpretation ca_field: form_field "sm_step bt bb" sm_formCAData "ca_of bt bb" for bt bb
  by unfold_locales (rule sm_step_fields)

interpretation cert_field: form_field "sm_step bt bb" sm_formCertData "cert_of bt bb" for bt bb
  by unfold_locales (rule sm_step_fields)

interpretation key_field: form_field "sm_step bt bb" sm_formKeyData "key_of bt bb" for bt bb
  by unfold_locales (rule sm_step_fields)

text \<open>C21. Whatever the user types, ticks and loads, in any order, the registration posts the last name
  and address typed, the boxes as they were last set, and for each of the three files the
  last one that was read with content, encoded in base64, or null; also when the box that asks for
  the file has been cleared since.\<close>

theorem registration_posts_last_values:
  "sm_onSubmit env (sm_run bt bb evs) =
     [Request POST (GetApiServerUri env ''/manager-api/server/register'')
       (Register \<lparr>rg_name = last_value name_of [] evs, rg_address = last_value address_of [] evs,
          rg_tls = last_value tls_of False evs, rg_mtls = last_value mtls_of False evs,
          rg_ca = last_value (ca_of bt bb) None evs, rg_cert = last_value (cert_of bt bb) None evs,
          rg_key = last_value (key_of bt bb) None evs\<rparr>)]"
  by (simp add: sm_onSubmit_def sm_cjtData_def sm_run_def name_field.holds_last address_field.holds_last
      tls_field.holds_last mtls_field.holds_last ca_field.holds_last cert_field.holds_last
      key_field.holds_last) (simp add: sm_constructor_def)

section \<open>The selected server\<close>




text \<open>The server information page throws its debug information away: it is not connected to
  the action, so whatever the reply, the store stays and the user is told that the request failed.\<close>

lemma debug_info_lost:
  "dispatched (debug_info_done_unconnected env out) = [] \<and>
   (\<exists>e. debug_info_done_unconnected env out = [toast_error e ''Could not populate tornjak debug info.''])"
  by (cases out) (auto simp: debug_info_done_unconnected_def toast_error_def)

section \<open>The workload attestor\<close>

lemma attestor_text_concat:
  "attestor_text sid ls =
     concat (map (\<lambda>(i, l). label l @ (if int i \<noteq> int (length sid) - 1 then [CHR '':'', CHR 0x0A] else '':''))
       (enumerate 0 ls))"
proof -
  have "foldl (\<lambda>text (i, l). text @ label l @ g i) t ps = t @ concat (map (\<lambda>(i, l). label l @ g i) ps)"
    for g :: "nat \<Rightarrow> string" and t and ps :: "(nat \<times> StringLabels) list"
    by (induction ps arbitrary: t) auto
  then show ?thesis by (simp add: attestor_text_def)
qed

text \<open>The plugin stored for an agent is the one chosen, for the agent of the row, and the reply to the
  registration asks for the list again.\<close>

lemma attestor_registered:
  assumes "onChangeWorkloadPlugin props sid (prepareAgentData spid st) = Inr st'"
  shows "Request POST
      (if IsManager env
       then GetApiServerUri env ''/manager-api/tornjak/selectors/register/'' @ globalServerSelected (st_servers props)
       else api_uri env tornjakSelectorsApi) (PluginBody spid sid) \<in> set (wl_handleSubmit env props st')"
  using assms
  by (auto simp: onChangeWorkloadPlugin_def prepareAgentData_def wl_handleSubmit_def Let_def
      registerSelectors_def registerLocalSelectors_def split: option.splits)

text \<open>The selectors of the Kubernetes plugin: the tenth and the eleventh share a line, since the name has
  ten letters.\<close>

lemma kubernetes_lines_merge:
  "split_on (CHR 0x0A) (attestor_text ''Kubernetes'' (the (index_labels workloadSelectors ''Kubernetes''))) ! 9 =
     ''k8s:pod-name:k8s:pod-image:''"
  by code_simp

end
