(* ===== verification/Tables.thy ===== *)
theory Tables
  imports ClusterForms FederationForms
begin

text \<open>
  The list tables (tables/*.tsx) and the lists that feed them (agent-list.tsx, entry-list.tsx):
  the rows prepared from the store, deleting and banning the selected rows, exporting entries,
  paging, and who sees the actions. A selected row is the row record; its fields are the cells
  in the order of the headers. \<open>stringify\<close> is JSON.stringify. A callback that runs later reads the
  props of the last render.
\<close>

section \<open>Preparing rows\<close>

text \<open>The data of a table: rows, or the empty text (or \<open>undefined\<close>), which leaves the old rows.\<close>

datatype 'x table_data = NoTable | Rows "'x list"

definition prepare_rows :: "(nat \<Rightarrow> 'x \<Rightarrow> 'r throws) \<Rightarrow> 'x list \<Rightarrow> 'r list throws" where
  "prepare_rows row xs = mapE (\<lambda>(i, x). row i x) (enumerate 0 xs)"

definition prepareTableData ::
  "(nat \<Rightarrow> 'x \<Rightarrow> 'r throws) \<Rightarrow> 'x table_data \<Rightarrow> 'r list \<Rightarrow> 'r list throws"
where
  "prepareTableData row data old =
     (case data of NoTable \<Rightarrow> Inr old | Rows xs \<Rightarrow> prepare_rows row xs)"

definition row_number :: "nat \<Rightarrow> string" where
  "row_number i = nat_toString (i + 1)"

record agent_table_row =
  at_id :: string
  at_trustdomain :: "string option"
  at_spiffeid :: string
  at_info :: string
  at_plugin :: string

definition no_plugin :: string where
  "no_plugin = ''No Plugin Configured For Agent''"

definition agent_table_row_of ::
  "(AgentsList \<Rightarrow> string) \<Rightarrow> AgentsWorkLoadAttestorInfo list jsval \<Rightarrow> nat \<Rightarrow> AgentsList
     \<Rightarrow> agent_table_row throws"
where
  "agent_table_row_of stringify infos i a =
     (let sid = ''spiffe://'' @ template (trust_domain (agent_id a)) @ template (path (agent_id a)) in
      bindE (case infos of
               Undefined \<Rightarrow> Inr no_plugin
             | Null \<Rightarrow> Inl TypeError
             | Val ms \<Rightarrow> Inr (case filter (\<lambda>m. info_spiffeid m = sid) ms of
                 [] \<Rightarrow> no_plugin | m # _ \<Rightarrow> info_plugin m))
        (\<lambda>plugin. Inr \<lparr>at_id = row_number i, at_trustdomain = trust_domain (agent_id a),
           at_spiffeid = sid, at_info = stringify a, at_plugin = plugin\<rparr>))"

record entry_table_row =
  et_idx :: string
  et_id :: string
  et_spiffeid :: string
  et_parentid :: string
  et_selectors :: string
  et_info :: string
  et_expired :: string

definition id_cell :: "SPIFFEID option \<Rightarrow> string throws" where
  "id_cell i =
     (case i of None \<Rightarrow> Inl TypeError
      | Some j \<Rightarrow> Inr (''spiffe://'' @ template (trust_domain j) @ template (path j)))"

definition entry_table_row_of ::
  "int \<Rightarrow> (EntriesList \<Rightarrow> string) \<Rightarrow> nat \<Rightarrow> EntriesList \<Rightarrow> entry_table_row throws"
where
  "entry_table_row_of now stringify i e =
     bindE (id_cell (spiffe_id e)) (\<lambda>sid.
     bindE (id_cell (parent_id e)) (\<lambda>pid.
       case entry_selectors e of
         None \<Rightarrow> Inl TypeError
       | Some ss \<Rightarrow>
           Inr \<lparr>et_idx = row_number i, et_id = entry_id e, et_spiffeid = sid, et_parentid = pid,
                et_selectors = join '', '' (map formatSelectors ss), et_info = stringify e,
                et_expired = (case expires_at e of
                  None \<Rightarrow> ''Active''
                | Some t \<Rightarrow> if num_le t (num (now div 1000)) then ''Expired'' else ''Active'')\<rparr>))"

record cluster_table_row =
  ct_id :: string
  ct_name :: string
  ct_type :: string
  ct_managedBy :: string
  ct_domainName :: string
  ct_agents :: string

definition cluster_table_row_of ::
  "(string list \<Rightarrow> string) \<Rightarrow> nat \<Rightarrow> ClustersList \<Rightarrow> cluster_table_row throws"
where
  "cluster_table_row_of stringify i c =
     Inr \<lparr>ct_id = row_number i, ct_name = cluster_name c, ct_type = platformType c,
          ct_managedBy = managedBy c, ct_domainName = domainName c, ct_agents = stringify (agentsList c)\<rparr>"

record server_table_row =
  st_id :: string
  st_name :: string
  st_address :: string
  st_tls :: string
  st_mtls :: string

definition server_table_row_of :: "nat \<Rightarrow> ServersList \<Rightarrow> server_table_row throws" where
  "server_table_row_of i s =
     Inr \<lparr>st_id = row_number i, st_name = server_name s, st_address = address s,
          st_tls = (if tls s \<noteq> [] then tls s else ''None''),
          st_mtls = (if mtls s \<noteq> [] then mtls s else ''None'')\<rparr>"

record federation_table_row =
  ft_id :: string
  ft_trustDomain :: string
  ft_bundleUrl :: string
  ft_bundleProfile :: string
  ft_info :: string

definition federation_table_row_of ::
  "(FederationsList \<Rightarrow> string) \<Rightarrow> nat \<Rightarrow> FederationsList \<Rightarrow> federation_table_row throws"
where
  "federation_table_row_of stringify i f =
     Inr \<lparr>ft_id = row_number i, ft_trustDomain = fed_trust_domain f, ft_bundleUrl = bundle_endpoint_url f,
          ft_bundleProfile = (if HttpsSpiffe (fed_BundleEndpointProfile f) \<noteq> None
            then ''https_spiffe'' else ''https_web''),
          ft_info = stringify f\<rparr>"

section \<open>The lists\<close>

text \<open>agent-list.tsx: an empty list and a list that is not there both give the empty text.\<close>

definition agentList :: "RootState \<Rightarrow> AgentsList table_data" where
  "agentList props =
     (case globalAgentsList (st_agents props) of Val (a # as) \<Rightarrow> Rows (a # as) | _ \<Rightarrow> NoTable)"

definition agent_list_mount :: "app_env \<Rightarrow> RootState \<Rightarrow> api_effect list \<times> unit throws" where
  "agent_list_mount env props =
     (let server = globalServerSelected (st_servers props);
          info = globalTornjakServerInfo (st_servers props);
          setup = do_dispatch (clusterTypeInfoFunc clusterType @ selectorInfoFunc selectors @
            workloadSelectorInfoFunc workloadSelectors)
      in if IsManager env then
           (setup @ (if server \<noteq> [] then populateAgentsUpdate env server @
              refreshSelectorsState env server @ populateTornjakServerInfo env server else []), Inr ())
         else
           (let effs = setup @ refreshLocalSelectorsState env @ populateLocalAgentsUpdate env @
                  populateLocalTornjakServerInfo env @ populateLocalTornjakDebugServerInfo env
            in if is_val info then
                 (case populateServerInfo info of
                    Inl err \<Rightarrow> (effs, Inl err) | Inr acts \<Rightarrow> (effs @ do_dispatch acts, Inr ()))
               else (effs, Inr ())))"

definition agent_list_update ::
  "app_env \<Rightarrow> bool \<Rightarrow> bool \<Rightarrow> RootState \<Rightarrow> api_effect list throws"
where
  "agent_list_update env server_changed info_changed props =
     (let server = globalServerSelected (st_servers props) in
      if IsManager env then
        Inr (if server_changed
             then populateAgentsUpdate env server @ refreshSelectorsState env server else [])
      else if info_changed then
        bindE (populateServerInfo (globalTornjakServerInfo (st_servers props)))
          (\<lambda>acts. Inr (do_dispatch acts @ refreshLocalSelectorsState env))
      else Inr [])"

definition entryList :: "RootState \<Rightarrow> EntriesList table_data throws" where
  "entryList props =
     (case globalEntriesList (st_entries props) of
        Undefined \<Rightarrow> Inr NoTable | Null \<Rightarrow> Inl TypeError | Val es \<Rightarrow> Inr (Rows es))"

definition entry_list_mount :: "app_env \<Rightarrow> RootState \<Rightarrow> api_effect list" where
  "entry_list_mount env props =
     (let server = globalServerSelected (st_servers props) in
      if IsManager env then (if server \<noteq> [] then populateEntriesUpdate env server else [])
      else populateLocalEntriesUpdate env)"

definition entry_list_update :: "app_env \<Rightarrow> bool \<Rightarrow> bool \<Rightarrow> RootState \<Rightarrow> api_effect list" where
  "entry_list_update env server_changed debug_changed props =
     (if IsManager env
      then (if server_changed then populateEntriesUpdate env (globalServerSelected (st_servers props)) else [])
      else (if debug_changed then populateLocalEntriesUpdate env else []))"

end
