(* ===== verification/TableActions.thy ===== *)
theory TableActions
  imports Tables TornjakHelper Requests
begin

text \<open>
  What the tables do with the selected rows (agents-, entries-, clusters-, servers- and
  federations-list-table.tsx), which actions the toolbar and the rows show (table-toolbar.tsx,
  table-body.tsx), and the pages (list-table.tsx). An action reads the item a row stands for back from
  its cells. The callbacks of a request run later, with the props of that time.
\<close>

section \<open>From the selected rows to the requests\<close>

text \<open>A loop over the rows that sends a request for each: an exception ends it, and what was sent
  before stays sent.\<close>

fun each_row :: "('r \<Rightarrow> 'e + 'k) \<Rightarrow> 'r list \<Rightarrow> 'k list \<times> ('e + unit)" where
  "each_row f [] = ([], Inr ())"
| "each_row f (r # rs) =
     (case f r of
        Inl e \<Rightarrow> ([], Inl e)
      | Inr k \<Rightarrow> (let (ks, z) = each_row f rs in (k # ks, z)))"

lemma each_row_total:
  "(\<And>r. r \<in> set rs \<Longrightarrow> f r = Inr (g r)) \<Longrightarrow> each_row f rs = (map g rs, Inr ())"
  by (induction rs) auto

lemma each_row_map: "map f rs = map (\<lambda>x. Inr (k x)) xs \<Longrightarrow> each_row f rs = (map k xs, Inr ())"
  by (induction xs arbitrary: rs) auto

text \<open>
  A table whose actions name the items of the rows: the reference of an acceptable item's row is the
  item's key. Whatever rows are selected, the references are those of the items shown there.
\<close>

locale row_table =
  fixes row :: "nat \<Rightarrow> 'x \<Rightarrow> 'r throws" and ref :: "'r \<Rightarrow> 'k throws"
    and key :: "'x \<Rightarrow> 'k" and ok :: "'x \<Rightarrow> bool"
  assumes row_ref: "row i x = Inr r \<Longrightarrow> ok x \<Longrightarrow> ref r = Inr (key x)"
begin

lemma prepared_from:
  "mapE (\<lambda>(i, x). row i x) (enumerate n xs) = Inr rows \<Longrightarrow> (\<And>x. x \<in> set xs \<Longrightarrow> ok x) \<Longrightarrow>
    map ref rows = map (\<lambda>x. Inr (key x)) xs"
  by (induction xs arbitrary: n rows) (auto elim!: bindE_InrE dest: row_ref)

lemmas prepared = prepared_from [where n = 0, folded prepare_rows_def]

lemma selected:
  assumes "prepare_rows row xs = Inr rows" and "\<And>x. x \<in> set xs \<Longrightarrow> ok x"
  shows "each_row ref (nths rows I) = (map key (nths xs I), Inr ())"
  using prepared [OF assms] by (intro each_row_map) (simp flip: nths_map)

end

section \<open>Agents\<close>

text \<open>The body of a deletion and of a ban: the id of an agent.\<close>

record agent_ref =
  ref_trust_domain :: string
  ref_path :: string

text \<open>The path is what follows the scheme and the trust domain in the SPIFFE ID cell.\<close>

definition agent_ref_of :: "agent_table_row \<Rightarrow> agent_ref throws" where
  "agent_ref_of r =
     (case at_trustdomain r of
        None \<Rightarrow> Inl TypeError
      | Some td \<Rightarrow> Inr \<lparr>ref_trust_domain = td,
          ref_path = substr (at_spiffeid r) (length (td @ ''spiffe://''))\<rparr>)"

definition deleteAgent ::
  "app_env \<Rightarrow> RootState \<Rightarrow> agent_table_row list \<Rightarrow> agent_ref effect list \<times> unit throws"
where
  "deleteAgent env props rows =
     (let endpoint = (if IsManager env
            then GetApiServerUri env ''/manager-api/agent/delete'' @ ''/'' @ globalServerSelected (st_servers props)
            else api_uri env spireAgentsApi);
          (ids, z) = each_row agent_ref_of rows
      in (map (Request DELETE endpoint) ids, z))"

text \<open>\<open>Promise.all\<close>, over the outcomes in the order they arrive: the first rejection decides.\<close>

fun promise_all :: "'d outcome list \<Rightarrow> 'd list outcome" where
  "promise_all [] = Resolved 0 [] []"
| "promise_all (Rejected e # os) = Rejected e"
| "promise_all (Resolved st tx d # os) =
     (case promise_all os of
        Rejected e \<Rightarrow> Rejected e
      | Resolved st' tx' ds \<Rightarrow> Resolved st' tx' (d # ds))"

definition named_by :: "agent_ref \<Rightarrow> AgentsList \<Rightarrow> bool" where
  "named_by r a \<longleftrightarrow>
     trust_domain (agent_id a) = Some (ref_trust_domain r) \<and> path (agent_id a) = Some (ref_path r)"

text \<open>The props do not change while the callback runs: every round filters the same list.\<close>

definition deleteAgent_done ::
  "app_env \<Rightarrow> RootState \<Rightarrow> agent_ref list \<Rightarrow> 'd outcome list \<Rightarrow> agent_ref effect list"
where
  "deleteAgent_done env props ids outs =
     then_catch env
       (\<lambda>_ _ _. case globalAgentsList (st_agents props) of
          Undefined \<Rightarrow> ([], False)
        | Null \<Rightarrow> ([], ids \<noteq> [])
        | Val as \<Rightarrow>
            (concat (map (\<lambda>r. do_dispatch (agentsListUpdateFunc (Val (filter (\<lambda>a. \<not> named_by r a) as)))) ids) @
               [Alert ''Agents deleted successfully!''], False))
       (\<lambda>e. [toast_error e ''Could not delete agent.''])
       (promise_all outs)"

definition banAgent ::
  "app_env \<Rightarrow> RootState \<Rightarrow> agent_table_row list \<Rightarrow> agent_ref effect list \<times> unit throws"
where
  "banAgent env props rows =
     (let endpoint = (if IsManager env
            then GetApiServerUri env ''/manager-api/agent/ban'' @ ''/'' @ globalServerSelected (st_servers props)
            else api_uri env spireAgentsBanApi);
          (ids, z) = each_row agent_ref_of rows
      in (map (Request POST endpoint) ids, z))"

text \<open>A ban prepares the rows again, from the list of the props; \<open>prepared\<close> is the outcome of that.\<close>

definition banAgent_done ::
  "app_env \<Rightarrow> agent_table_row list throws \<Rightarrow> 'd outcome \<Rightarrow> agent_table_row list
     \<Rightarrow> agent_table_row list \<times> agent_ref effect list"
where
  "banAgent_done env prepared out rows =
     (case out of Resolved _ _ _ \<Rightarrow> (case prepared of Inr rows' \<Rightarrow> rows' | Inl _ \<Rightarrow> rows) | Rejected _ \<Rightarrow> rows,
      then_catch env (\<lambda>_ _ _. ([Alert ''Ban SUCCESS''], (case prepared of Inl _ \<Rightarrow> True | Inr _ \<Rightarrow> False)))
        (\<lambda>e. [toast_error e ''Could not ban agent.'']) out)"

section \<open>Entries\<close>

text \<open>The part of a reply the table reads: \<open>results\<close>, when it is an array, and the id of each result.\<close>

type_synonym delete_reply = "string option jsval list option"

definition entry_ids :: "entry_table_row list \<Rightarrow> string list" where
  "entry_ids rows = map et_id rows"

definition deleteEntry :: "app_env \<Rightarrow> RootState \<Rightarrow> entry_table_row list \<Rightarrow> api_effect list" where
  "deleteEntry env props rows =
     (if rows = [] then []
      else if IsManager env then entryDelete env (globalServerSelected (st_servers props)) (entry_ids rows)
      else localEntryDelete env (entry_ids rows))"

definition entry_delete_failed :: "string \<Rightarrow> api_effect list" where
  "entry_delete_failed message = [Alert (''Error deleting entries: '' @ message)]"

definition unexpected_format :: "api_effect list" where
  "unexpected_format = [Alert ''Unexpected response format. Could not delete entries.'']"

definition report_results :: "app_env \<Rightarrow> string list \<Rightarrow> string option jsval list \<Rightarrow> api_effect list" where
  "report_results env ids results =
     (case mapE (\<lambda>r. case r of Val i \<Rightarrow> Inr i | _ \<Rightarrow> Inl TypeError) results of
        Inl _ \<Rightarrow> entry_delete_failed (thrown_message env)
      | Inr oks \<Rightarrow>
          (let failed = filter (\<lambda>i. Some i \<notin> set oks) ids in
           if failed = [] then [Alert ''Entries deleted successfully!'', Reload]
           else [Alert (''Error deleting entries with IDs: '' @ join '', '' failed)]))"

definition deleteEntry_done ::
  "app_env \<Rightarrow> string list \<Rightarrow> EntriesList list jsval \<Rightarrow> delete_reply jsval outcome \<Rightarrow> api_effect list"
where
  "deleteEntry_done env ids es out =
     (let (effs, result) = localEntryDelete_done env ids es out in
      effs @ (case result of
          ErrorReturned _ \<Rightarrow> unexpected_format
        | Body (Val (Some results)) \<Rightarrow> report_results env ids results
        | Body (Val None) \<Rightarrow> unexpected_format
        | Body _ \<Rightarrow> entry_delete_failed (thrown_message env)))"

definition deleteEntry_manager_done ::
  "app_env \<Rightarrow> EntriesList list jsval \<Rightarrow> reply jsval outcome \<Rightarrow> api_effect list"
where
  "deleteEntry_manager_done env es out =
     (let (effs, result) = entryDelete_done env es out in
      effs @ (case result of
          Fulfilled None \<Rightarrow> entry_delete_failed (thrown_message env)
        | Fulfilled (Some _) \<Rightarrow> unexpected_format
        | RejectedPromise \<Rightarrow> entry_delete_failed (thrown_message env)))"

text \<open>The exported file: the parts of the blob, one after the other.\<close>

definition nl :: string where
  "nl = [CHR 0x0A]"

definition export_open :: string where
  "export_open = ''{'' @ nl @ ''  '' @ [CHR 0x22] @ ''entries'' @ [CHR 0x22] @ '': ['' @ nl"

definition export_close :: string where
  "export_close = nl @ '']'' @ nl @ ''}''"

definition downloadEntries :: "entry_table_row list \<Rightarrow> string" where
  "downloadEntries rows =
     concat ((if rows = [] then [] else [export_open]) @
       map (\<lambda>(i, r). et_info r @ (if i < length rows - 1 then '','' @ nl else export_close))
         (enumerate 0 rows))"

section \<open>Clusters, servers and federations\<close>

definition quoted :: "string \<Rightarrow> string" where
  "quoted s = [CHR 0x22] @ s @ [CHR 0x22]"

text \<open>\<open>shown\<close> is the result as a text, compared with SUCCESS and, when it differs, shown.\<close>

definition report_deleted :: "string \<Rightarrow> string \<Rightarrow> string \<Rightarrow> string \<Rightarrow> api_effect list" where
  "report_deleted kind KIND name shown =
     (if shown = ''SUCCESS'' then [Alert (KIND @ '' '' @ quoted name @ '' DELETED SUCCESSFULLY!''), Reload]
      else [Alert (''Error deleting '' @ kind @ '' '' @ quoted name @ '': '' @ shown)])"

definition report_cluster :: "string \<Rightarrow> string \<Rightarrow> api_effect list" where
  "report_cluster = report_deleted ''cluster'' ''CLUSTER''"

definition report_server :: "string \<Rightarrow> string \<Rightarrow> api_effect list" where
  "report_server = report_deleted ''server'' ''SERVER''"

definition table_deleteCluster :: "app_env \<Rightarrow> RootState \<Rightarrow> cluster_table_row list \<Rightarrow> api_effect list" where
  "table_deleteCluster env props rows =
     concat (map (\<lambda>r. if IsManager env
       then clusterDelete env (globalServerSelected (st_servers props)) (ct_name r)
       else localClusterDelete env (ct_name r)) rows)"

text \<open>A body that is \<open>undefined\<close> prints as such. A rejected promise has no handler here.\<close>

definition manager_shown :: "manager_result \<Rightarrow> string option" where
  "manager_shown r = (case r of Fulfilled d \<Rightarrow> Some (template d) | RejectedPromise \<Rightarrow> None)"

definition table_deleteCluster_done ::
  "app_env \<Rightarrow> string \<Rightarrow> ClustersList list jsval \<Rightarrow> string option outcome \<Rightarrow> api_effect list"
where
  "table_deleteCluster_done env name cs out =
     (let (effs, result) = localClusterDelete_done env name cs out in
      effs @ report_cluster name (case result of Body d \<Rightarrow> template d | ErrorReturned e \<Rightarrow> err_string e))"

definition table_deleteCluster_manager_done ::
  "app_env \<Rightarrow> string \<Rightarrow> ClustersList list jsval \<Rightarrow> reply jsval outcome \<Rightarrow> api_effect list"
where
  "table_deleteCluster_manager_done env name cs out =
     (let (effs, result) = clusterDelete_done env cs out in
      effs @ (case manager_shown result of None \<Rightarrow> [] | Some s \<Rightarrow> report_cluster name s))"

definition deleteServer :: "app_env \<Rightarrow> server_table_row list \<Rightarrow> api_effect list" where
  "deleteServer env rows =
     (if \<not> IsManager env then [] else concat (map (\<lambda>r. serverDelete env (st_name r)) rows))"

definition deleteServer_done ::
  "app_env \<Rightarrow> string \<Rightarrow> ServersList list jsval \<Rightarrow> reply jsval outcome \<Rightarrow> api_effect list"
where
  "deleteServer_done env name ss out =
     (let (effs, result) = serverDelete_done env ss out in
      effs @ (case manager_shown result of None \<Rightarrow> [] | Some s \<Rightarrow> report_server name s))"

section \<open>Who sees the actions\<close>

datatype table_kind = Agent_table | Entry_table | Cluster_table | Server_table | Federation_table

datatype table_action = Delete_action | Download_action | Ban_action

text \<open>The functions a table gives its toolbar. The federations table gives one that does nothing.\<close>

definition entity_actions :: "table_kind \<Rightarrow> table_action list" where
  "entity_actions k =
     (case k of
        Agent_table \<Rightarrow> [Delete_action, Ban_action]
      | Entry_table \<Rightarrow> [Delete_action, Download_action]
      | _ \<Rightarrow> [Delete_action])"

text \<open>\<open>(defined && isAdmin) || (defined && !Auth_Server_Uri)\<close>\<close>

definition guarded :: "app_env \<Rightarrow> string list jsval \<Rightarrow> bool \<Rightarrow> bool throws" where
  "guarded env roles defined =
     (if \<not> defined then Inr False
      else bindE (checkRolesAdminUser roles)
        (\<lambda>r. Inr (truthy r \<or> \<not> truthy (REACT_APP_AUTH_SERVER_URI env))))"

definition toolbar_shows ::
  "app_env \<Rightarrow> string list jsval \<Rightarrow> table_kind \<Rightarrow> table_action \<Rightarrow> bool throws"
where
  "toolbar_shows env roles k act =
     (let defined = act \<in> set (entity_actions k) in
      if act = Download_action then Inr defined else guarded env roles defined)"

definition row_shows_attestor :: "app_env \<Rightarrow> string list jsval \<Rightarrow> table_kind \<Rightarrow> bool throws" where
  "row_shows_attestor env roles k = guarded env roles (k = Agent_table)"

section \<open>Pages\<close>

record page_state =
  page :: nat
  pageSize :: nat

definition page_initial :: page_state where
  "page_initial = \<lparr>page = 1, pageSize = 10\<rparr>"

definition page_onChange :: "nat \<Rightarrow> nat \<Rightarrow> page_state \<Rightarrow> page_state" where
  "page_onChange p n st = (if p \<noteq> 0 \<and> n \<noteq> 0 then st\<lparr>page := p, pageSize := n\<rparr> else st)"

text \<open>\<open>rows.slice((page - 1) * pageSize, page * pageSize)\<close>, for a page from 1.\<close>

definition page_rows :: "page_state \<Rightarrow> 'r list \<Rightarrow> 'r list" where
  "page_rows st rows = drop ((page st - 1) * pageSize st) (take (page st * pageSize st) rows)"

end
