(* ===== verification/Access.thy ===== *)
theory Access
  imports TableActions
begin

text \<open>
  Who gets to see what: the start of the application behind Keycloak (index.tsx,
  auth/KeycloakAuth.js), the user's roles (navbar.tsx), the pages and their addresses (App.tsx),
  the guard around three of them (RenderOnAdminRole.tsx), and the links of the sidebar, expanded
  (NavDropdown.tsx) and collapsed. Keycloak, jwt-decode and the matching of an address by
  react-router are parameters.
\<close>

section \<open>Starting\<close>

datatype start_action = RenderApp | GoToLogin | LogError

text \<open>\<open>keycloak.init\<close> resolves with whether the user is authenticated, or rejects (None).\<close>

definition initKeycloak :: "bool option \<Rightarrow> start_action" where
  "initKeycloak authenticated =
     (case authenticated of None \<Rightarrow> LogError | Some b \<Rightarrow> if b then RenderApp else GoToLogin)"

definition start_app :: "app_env \<Rightarrow> bool option \<Rightarrow> start_action" where
  "start_app env authenticated =
     (if truthy (REACT_APP_AUTH_SERVER_URI env) then initKeycloak authenticated else RenderApp)"

text \<open>A user is logged in with a token that is not empty.\<close>

definition isLoggedIn :: "string option \<Rightarrow> bool" where
  "isLoggedIn token \<longleftrightarrow> truthy token"

text \<open>
  The sidebar stores what the token says. \<open>decode\<close> gives the roles of the token's realm access, None
  when either is missing.
\<close>

definition navbar_auth :: "app_env \<Rightarrow> (string \<Rightarrow> AccessToken option) \<Rightarrow> string option \<Rightarrow> api_effect list" where
  "navbar_auth env decode token =
     (if truthy (REACT_APP_AUTH_SERVER_URI env) then
        do_dispatch (isAuthenticatedUpdateFunc (isLoggedIn token)) @
        (if isLoggedIn token then
           do_dispatch (accessTokenUpdateFunc token) @
           (case decode (the token) of
              None \<Rightarrow> [] | Some t \<Rightarrow> do_dispatch (UserRolesUpdateFunc (Val (realm_access_roles t))))
         else [])
      else [])"

definition navbar_mount ::
  "app_env \<Rightarrow> (string \<Rightarrow> AccessToken option) \<Rightarrow> string option \<Rightarrow> RootState \<Rightarrow> api_effect list \<times> unit throws"
where
  "navbar_mount env decode token props =
     (let auth = navbar_auth env decode token in
      if IsManager env then (auth, Inr ())
      else
        (let requests = auth @ populateLocalTornjakServerInfo env @ populateLocalTornjakDebugServerInfo env
         in case populateServerInfo (globalTornjakServerInfo (st_servers props)) of
              Inl e \<Rightarrow> (requests, Inl e)
            | Inr acts \<Rightarrow> (requests @ do_dispatch acts, Inr ())))"

section \<open>Pages\<close>

datatype page =
    AgentList_page | ClusterList_page | FederationList_page | TrustBundleCreate_page
  | FederationCreate_page | EntryList_page | EntryCreate_page | CreateJoinToken_page
  | ClusterManagement_page | TornjakServerInfo_page | TornjakDashBoard_page
  | DashboardDetails_page | ServerManagement_page | AccessNotAllowed_page

definition open_routes :: "(string \<times> page) list" where
  "open_routes =
     [(''/'', AgentList_page), (''/clusters'', ClusterList_page), (''/federations'', FederationList_page),
      (''/trustbundle'', TrustBundleCreate_page), (''/federation/create'', FederationCreate_page),
      (''/agents'', AgentList_page), (''/entries'', EntryList_page)]"

definition guarded_routes :: "(string \<times> page) list" where
  "guarded_routes =
     [(''/entry/create'', EntryCreate_page), (''/agent/createjointoken'', CreateJoinToken_page),
      (''/cluster/clustermanagement'', ClusterManagement_page)]"

definition other_routes :: "(string \<times> page) list" where
  "other_routes =
     [(''/tornjak/serverinfo'', TornjakServerInfo_page), (''/tornjak/dashboard'', TornjakDashBoard_page),
      (''/tornjak/dashboard/details/:entity'', DashboardDetails_page), (''/server/manage'', ServerManagement_page)]"

text \<open>\<open>matches\<close> says whether a route's pattern matches the address; every route that matches is rendered.\<close>

definition routed :: "(string \<Rightarrow> string \<Rightarrow> bool) \<Rightarrow> string \<Rightarrow> (string \<times> page) list \<Rightarrow> page list" where
  "routed matches pathname routes = map snd (filter (\<lambda>(p, _). matches p pathname) routes)"

definition pathsWithAdminRestr :: "string list" where
  "pathsWithAdminRestr = [''/entry/create'', ''/agent/createjointoken'', ''/cluster/clustermanagement'']"

text \<open>The address has to be a part of a restricted path.\<close>

definition checkPath :: "string \<Rightarrow> string option" where
  "checkPath pathname =
     List.find (\<lambda>element. pathname \<noteq> ''/'' \<and> str_includes element pathname) pathsWithAdminRestr"

definition RenderOnAdminRole ::
  "app_env \<Rightarrow> string list jsval \<Rightarrow> string \<Rightarrow> page list \<Rightarrow> page list throws"
where
  "RenderOnAdminRole env roles pathname children =
     bindE (checkRolesAdminUser roles) (\<lambda>admin. Inr (
       (if \<not> truthy (REACT_APP_AUTH_SERVER_URI env) then children else []) @
       (if truthy admin then children else []) @
       (if \<not> truthy admin \<and> truthy (checkPath pathname) \<and> truthy (REACT_APP_AUTH_SERVER_URI env)
        then [AccessNotAllowed_page] else [])))"

definition App ::
  "app_env \<Rightarrow> string list jsval \<Rightarrow> (string \<Rightarrow> string \<Rightarrow> bool) \<Rightarrow> string \<Rightarrow> page list throws"
where
  "App env roles matches pathname =
     bindE (RenderOnAdminRole env roles pathname (routed matches pathname guarded_routes))
       (\<lambda>ps. Inr (routed matches pathname open_routes @ ps @ routed matches pathname other_routes))"

section \<open>Links\<close>

record sub_link =
  sl_label :: string
  sl_to :: string
  sl_adminOnly :: bool

definition plain_link :: "string \<Rightarrow> string \<Rightarrow> sub_link" where
  "plain_link l p = \<lparr>sl_label = l, sl_to = p, sl_adminOnly = False\<rparr>"

definition admin_link :: "string \<Rightarrow> string \<Rightarrow> sub_link" where
  "admin_link l p = \<lparr>sl_label = l, sl_to = p, sl_adminOnly = True\<rparr>"

text \<open>The four drop-downs of the expanded sidebar, one after the other.\<close>

definition sidebar_subLinks :: "sub_link list list" where
  "sidebar_subLinks =
     [[plain_link ''Clusters List'' ''/clusters'',
       admin_link ''Cluster Management'' ''/cluster/clustermanagement''],
      [plain_link ''Agents List'' ''/agents'', admin_link ''Create Token'' ''/agent/createjointoken''],
      [plain_link ''Entries List'' ''/entries'', admin_link ''Create Entries'' ''/entry/create''],
      [plain_link ''Federations List'' ''/federations'', admin_link ''Obtain Trust Bundle'' ''/trustbundle'',
       admin_link ''Create Federation'' ''/federation/create'']]"

definition toggle :: "bool \<Rightarrow> bool" where
  "toggle isOpen = (\<not> isOpen)"

definition NavDropdown :: "bool \<Rightarrow> bool \<Rightarrow> bool \<Rightarrow> sub_link list \<Rightarrow> sub_link list" where
  "NavDropdown isOpen isAdmin withAuth subLinks =
     (if isOpen then filter (\<lambda>l. \<not> (sl_adminOnly l \<and> \<not> (isAdmin \<or> \<not> withAuth))) subLinks else [])"

text \<open>Every address the expanded sidebar can lead to, with all drop-downs open.\<close>

definition expanded_links :: "app_env \<Rightarrow> string list jsval \<Rightarrow> string list throws" where
  "expanded_links env roles =
     bindE (checkRolesAdminUser roles) (\<lambda>admin. Inr (
       [''/''] @ (if IsManager env then [''/server/manage''] else []) @
       concat (map (\<lambda>ls. map sl_to
         (NavDropdown True (truthy admin) (truthy (REACT_APP_AUTH_SERVER_URI env)) ls)) sidebar_subLinks) @
       [''/tornjak/serverinfo'', ''/tornjak/dashboard'']))"

definition collapsed_links :: "app_env \<Rightarrow> string list jsval \<Rightarrow> string list throws" where
  "collapsed_links env roles =
     bindE (checkRolesAdminUser roles) (\<lambda>admin.
       let allowed = (truthy admin \<or> \<not> truthy (REACT_APP_AUTH_SERVER_URI env)) in Inr (
       [''/'', ''/clusters''] @ (if allowed then [''/cluster/clustermanagement''] else []) @
       [''/agents''] @ (if allowed then [''/agent/createjointoken''] else []) @
       [''/entries''] @ (if allowed then [''/entry/create''] else []) @
       [''/federations'', ''/trustbundle'', ''/federation/create'', ''/tornjak/serverinfo'',
        ''/tornjak/dashboard'']))"

text \<open>The link to the dashboard also leaves the table that was open there.\<close>

definition dashboard_link :: "RootState \<Rightarrow> api_effect list" where
  "dashboard_link props =
     (if globalClickedDashboardTable (st_tornjak props) \<noteq> ''dashboard''
      then do_dispatch (clickedDashboardTableFunc ''dashboard'') else [])"

text \<open>The identifier of the server under the links: the path of the first certificate of the chain.\<close>

definition server_identifier :: "RootState \<Rightarrow> (string \<times> string option) throws" where
  "server_identifier props =
     (case globalDebugServerInfo (st_servers props) of
        Val d \<Rightarrow> (case svid_chain d of
            Some (c # _) \<Rightarrow> Inr (trustDomain (globalServerInfo (st_servers props)), path (svid_id c))
          | _ \<Rightarrow> Inl TypeError)
      | _ \<Rightarrow> Inl TypeError)"

end
