(* ===== verification/TableProps.thy ===== *)
theory TableProps
  imports TableActions
begin

text \<open>
  The tables keep what their users rely on: a request names the item of the row that was selected,
  what a deletion leaves in the store, what the user is told about it, who is offered the actions, and
  that the pages show every row once.
\<close>

section \<open>Rows name their items\<close>

definition agent_key :: "AgentsList \<Rightarrow> agent_ref" where
  "agent_key a = \<lparr>ref_trust_domain = the (trust_domain (agent_id a)), ref_path = the (path (agent_id a))\<rparr>"

definition has_full_id :: "AgentsList \<Rightarrow> bool" where
  "has_full_id a \<longleftrightarrow> trust_domain (agent_id a) \<noteq> None \<and> path (agent_id a) \<noteq> None"

lemma agent_ref_of_row:
  "agent_table_row_of js infos i a = Inr r \<Longrightarrow> has_full_id a \<Longrightarrow> agent_ref_of r = Inr (agent_key a)"
  by (auto simp: agent_table_row_of_def Let_def has_full_id_def agent_ref_of_def agent_key_def
      js_unfold split: jsval.splits elim!: bindE_InrE)

interpretation agent_rows: row_table "agent_table_row_of js infos" agent_ref_of agent_key has_full_id
  for js infos
  by unfold_locales (rule agent_ref_of_row)

interpretation entry_rows: row_table "entry_table_row_of now js" "\<lambda>r. Inr (et_id r)" entry_id "\<lambda>_. True"
  for now js
  by unfold_locales (auto simp: entry_table_row_of_def split: option.splits elim!: bindE_InrE)

interpretation cluster_rows: row_table "cluster_table_row_of js" "\<lambda>r. Inr (ct_name r)" cluster_name "\<lambda>_. True"
  for js
  by unfold_locales (auto simp: cluster_table_row_of_def)

interpretation server_rows: row_table server_table_row_of "\<lambda>r. Inr (st_name r)" server_name "\<lambda>_. True"
  by unfold_locales (auto simp: server_table_row_of_def)

text \<open>A reference that cannot fail reads the keys off the rows.\<close>

lemma map_of_refs: "map (\<lambda>r. Inr (f r) :: 'e + 'k) rows = map (\<lambda>x. Inr (k x)) xs \<longleftrightarrow> map f rows = map k xs"
proof -
  have "map (\<lambda>r. Inr (f r) :: 'e + 'k) rows = map Inr (map f rows)"
    and "map (\<lambda>x. Inr (k x) :: 'e + 'k) xs = map Inr (map k xs)" by simp_all
  then show ?thesis by (simp only: inj_map_eq_map [of Inr] inj_Inr)
qed

lemma selected_keys:
  "prepare_rows (entry_table_row_of now js) es = Inr ers \<Longrightarrow>
     map et_id (nths ers I) = map entry_id (nths es I)"
  "prepare_rows (cluster_table_row_of js2) cs = Inr crs \<Longrightarrow>
     map ct_name (nths crs I) = map cluster_name (nths cs I)"
  "prepare_rows server_table_row_of ss = Inr srs \<Longrightarrow>
     map st_name (nths srs I) = map server_name (nths ss I)"
  using entry_rows.prepared [of now js es ers] cluster_rows.prepared [of js2 cs crs]
    server_rows.prepared [of ss srs]
  by (simp_all add: map_of_refs flip: nths_map)

lemma concat_of_keys: "map f rs = map k xs \<Longrightarrow> concat (map (\<lambda>r. h (f r)) rs) = concat (map (\<lambda>x. h (k x)) xs)"
  by (drule arg_cong [where f = "map h"]) (simp add: comp_def)

text \<open>C20. The agents of the selected rows, and no others, are named in the requests of a deletion
  and of a ban, in their order: the path cut out of the SPIFFE ID cell is the agent's own. In
  manager mode they go to the selected server.\<close>

theorem agent_requests_name_agents:
  assumes "prepare_rows (agent_table_row_of js infos) as = Inr rows" and "\<forall>a \<in> set as. has_full_id a"
  shows "deleteAgent env props (nths rows I) =
      (map (\<lambda>a. Request DELETE
         (if IsManager env
          then GetApiServerUri env ''/manager-api/agent/delete'' @ ''/'' @ globalServerSelected (st_servers props)
          else api_uri env spireAgentsApi) (agent_key a)) (nths as I), Inr ()) \<and>
    banAgent env props (nths rows I) =
      (map (\<lambda>a. Request POST
         (if IsManager env
          then GetApiServerUri env ''/manager-api/agent/ban'' @ ''/'' @ globalServerSelected (st_servers props)
          else api_uri env spireAgentsBanApi) (agent_key a)) (nths as I), Inr ())"
  using agent_rows.selected [OF assms(1), of I] assms(2)
  by (simp add: deleteAgent_def banAgent_def Let_def comp_def)

text \<open>Sample rows for the witnesses.\<close>

definition table_agent :: "string \<Rightarrow> AgentsList" where
  "table_agent p = \<lparr>agent_id = \<lparr>trust_domain = Some ''d'', path = Some p\<rparr>, attetstation_type = [],
     x509svid_serial_number = [], x509svid_expires_at = None, agent_selectors = None, banned = False\<rparr>"

definition table_entry :: "string \<Rightarrow> EntriesList" where
  "table_entry i = \<lparr>entry_id = i, spiffe_id = Some \<lparr>trust_domain = Some ''d'', path = Some ''/w''\<rparr>,
     parent_id = Some \<lparr>trust_domain = Some ''d'', path = Some ''/a''\<rparr>, entry_selectors = Some [],
     jwt_svid_ttl = None, x509_svid_ttl = None, federates_with = None, admin = None, downstream = None,
     expires_at = None, dns_names = None, revision_number = None, store_svid = None\<rparr>"

definition table_cluster :: "string \<Rightarrow> ClustersList" where
  "table_cluster n = \<lparr>cluster_name = n, editedName = [], creationTime = [], domainName = [],
     managedBy = [], platformType = [], agentsList = []\<rparr>"

definition table_server :: "string \<Rightarrow> ServersList" where
  "table_server n = \<lparr>server_name = n, address = [], mtls = [], tls = []\<rparr>"

lemmas table_samples = table_agent_def table_entry_def table_cluster_def table_server_def

lemma agent_requests_name_agents_witness:
  "\<exists>rows. prepare_rows (agent_table_row_of (\<lambda>_. []) (Val [])) [table_agent ''/a'', table_agent ''/b''] = Inr rows \<and>
     fst (deleteAgent manager_env (createStore (\<lambda>_. None) None) (nths rows {1})) =
       [Request DELETE ''//manager-api/agent/delete/'' \<lparr>ref_trust_domain = ''d'', ref_path = ''/b''\<rparr>]"
proof -
  let ?as = "[table_agent ''/a'', table_agent ''/b'']"
  have "\<exists>rows. prepare_rows (agent_table_row_of (\<lambda>_. []) (Val [])) ?as = Inr rows"
    by (simp add: prepare_rows_def agent_table_row_of_def Let_def)
  then obtain rows where p: "prepare_rows (agent_table_row_of (\<lambda>_. []) (Val [])) ?as = Inr rows" ..
  have "globalServerSelected (st_servers (createStore (\<lambda>_. None) None)) = []" by code_simp
  then have "fst (deleteAgent manager_env (createStore (\<lambda>_. None) None) (nths rows {1})) =
      [Request DELETE ''//manager-api/agent/delete/'' \<lparr>ref_trust_domain = ''d'', ref_path = ''/b''\<rparr>]"
    using agent_requests_name_agents [OF p, of manager_env "createStore (\<lambda>_. None) None" "{1}"]
    by (simp add: has_full_id_def table_agent_def agent_key_def nths_Cons manager_env_def IsManager_def
        GetApiServerUri_def truthy_def upper_ascii_def)
  with p show ?thesis by blast
qed

text \<open>Deleting the selected rows of the other tables asks for exactly the entries, clusters and
  servers shown in those rows, in their order: entries in one request, clusters and servers in one
  each. Servers are deleted in manager mode only.\<close>

lemma row_requests_name_items:
  assumes "prepare_rows (entry_table_row_of now js) es = Inr ers"
    and "prepare_rows (cluster_table_row_of js2) cs = Inr crs"
    and "prepare_rows server_table_row_of ss = Inr srs"
    and "nths es I \<noteq> []"
  shows "deleteEntry env props (nths ers I) =
      (if IsManager env
       then entryDelete env (globalServerSelected (st_servers props)) (map entry_id (nths es I))
       else localEntryDelete env (map entry_id (nths es I))) \<and>
    table_deleteCluster env props (nths crs J) =
      concat (map (\<lambda>c. if IsManager env
        then clusterDelete env (globalServerSelected (st_servers props)) (cluster_name c)
        else localClusterDelete env (cluster_name c)) (nths cs J)) \<and>
    deleteServer env (nths srs K) =
      (if IsManager env then concat (map (\<lambda>s. serverDelete env (server_name s)) (nths ss K)) else [])"
proof -
  note keys = selected_keys(1) [OF assms(1), of I] selected_keys(2) [OF assms(2), of J]
    selected_keys(3) [OF assms(3), of K]
  have "nths ers I \<noteq> []" using keys(1) assms(4) by auto
  with keys(1) have "deleteEntry env props (nths ers I) =
      (if IsManager env
       then entryDelete env (globalServerSelected (st_servers props)) (map entry_id (nths es I))
       else localEntryDelete env (map entry_id (nths es I)))"
    by (simp add: deleteEntry_def entry_ids_def)
  moreover have "table_deleteCluster env props (nths crs J) =
      concat (map (\<lambda>c. if IsManager env
        then clusterDelete env (globalServerSelected (st_servers props)) (cluster_name c)
        else localClusterDelete env (cluster_name c)) (nths cs J))"
    unfolding table_deleteCluster_def by (rule concat_of_keys [OF keys(2)])
  moreover have "concat (map (\<lambda>r. serverDelete env (st_name r)) (nths srs K)) =
      concat (map (\<lambda>s. serverDelete env (server_name s)) (nths ss K))"
    by (rule concat_of_keys [OF keys(3)])
  ultimately show ?thesis by (simp add: deleteServer_def)
qed

lemma row_requests_name_items_witness:
  "\<exists>ers crs srs. prepare_rows (entry_table_row_of 0 (\<lambda>_. [])) [table_entry ''i'', table_entry ''j''] = Inr ers \<and>
     prepare_rows (cluster_table_row_of (\<lambda>_. [])) [table_cluster ''c''] = Inr crs \<and>
     prepare_rows server_table_row_of [table_server ''s''] = Inr srs \<and>
     deleteServer manager_env (nths srs {0}) = serverDelete manager_env ''s''"
proof -
  have "\<exists>ers crs srs. prepare_rows (entry_table_row_of 0 (\<lambda>_. [])) [table_entry ''i'', table_entry ''j''] = Inr ers \<and>
     prepare_rows (cluster_table_row_of (\<lambda>_. [])) [table_cluster ''c''] = Inr crs \<and>
     prepare_rows server_table_row_of [table_server ''s''] = Inr srs"
    by (simp add: prepare_rows_def entry_table_row_of_def cluster_table_row_of_def server_table_row_of_def
        table_samples id_cell_def)
  then obtain ers crs srs where
    p: "prepare_rows (entry_table_row_of 0 (\<lambda>_. [])) [table_entry ''i'', table_entry ''j''] = Inr ers"
    "prepare_rows (cluster_table_row_of (\<lambda>_. [])) [table_cluster ''c''] = Inr crs"
    "prepare_rows server_table_row_of [table_server ''s''] = Inr srs" by blast
  have "IsManager manager_env" by code_simp
  then have "deleteServer manager_env (nths srs {0}) = serverDelete manager_env ''s''"
    using row_requests_name_items [OF p, of "{1}" manager_env "createStore (\<lambda>_. None) None" "{}" "{0}"]
    by (simp add: nths_Cons table_server_def)
  with p show ?thesis by blast
qed

section \<open>What a deletion leaves and what the user is told\<close>

text \<open>C25. Deleting several agents at once takes only the last of them out of the store, although the
  user is told that all are deleted: every round filters the same list.\<close>

theorem deleteAgent_removes_last:
  assumes "promise_all outs = Resolved st tx ds" and "ids \<noteq> []"
    and "globalAgentsList (st_agents props) = Val as"
  shows "globalAgentsList (st_agents (dispatches props (dispatched (deleteAgent_done env props ids outs)))) =
      Val (filter (\<lambda>a. \<not> named_by (last ids) a) as) \<and>
    Alert ''Agents deleted successfully!'' \<in> set (deleteAgent_done env props ids outs)"
proof -
  let ?one = "\<lambda>r. do_dispatch (agentsListUpdateFunc (Val (filter (\<lambda>a. \<not> named_by r a) as))) :: agent_ref effect list"
  have *: "deleteAgent_done env props ids outs =
      concat (map ?one ids) @ [Alert ''Agents deleted successfully!'']"
    using assms by (simp add: deleteAgent_done_def)
  have "concat (map ?one ids) = concat (map ?one (butlast ids)) @ ?one (last ids)"
    using assms(2) by (subst append_butlast_last_id [symmetric]) (simp_all del: append_butlast_last_id)
  then show ?thesis
    by (simp add: * do_dispatch_def agentsListUpdateFunc_def dispatches_def
        globalAgentsList_cell.get_dispatch)
qed

lemma deleteAgent_removes_last_witness:
  "(let st = createStore (\<lambda>_. None) None; st2 = dispatch st (GLOBAL_AGENTS_LIST (Val [table_agent ''/a'', table_agent ''/b'']));
        ids = [\<lparr>ref_trust_domain = ''d'', ref_path = ''/a''\<rparr>, \<lparr>ref_trust_domain = ''d'', ref_path = ''/b''\<rparr>];
        effs = deleteAgent_done manager_env st2 ids [Resolved 200 [] (), Resolved 200 [] ()]
    in globalAgentsList (st_agents (dispatches st2 (dispatched effs))) = Val [table_agent ''/a''] \<and>
       Alert ''Agents deleted successfully!'' \<in> set effs)"
proof -
  let ?st2 = "dispatch (createStore (\<lambda>_. None) None) (GLOBAL_AGENTS_LIST (Val [table_agent ''/a'', table_agent ''/b'']))"
  have "globalAgentsList (st_agents ?st2) = Val [table_agent ''/a'', table_agent ''/b'']"
    by (simp add: globalAgentsList_cell.get_dispatch)
  then show ?thesis
    using deleteAgent_removes_last [where props = ?st2 and env = manager_env and st = 0 and tx = "[]"
        and outs = "[Resolved 200 [] (), Resolved 200 [] ()]" and ds = "[(), ()]"
        and ids = "[\<lparr>ref_trust_domain = ''d'', ref_path = ''/a''\<rparr>, \<lparr>ref_trust_domain = ''d'', ref_path = ''/b''\<rparr>]"
        and as = "[table_agent ''/a'', table_agent ''/b'']"]
    by (simp add: named_by_def table_agent_def)
qed

text \<open>When the only agent is deleted the store's list becomes empty, and the table goes on
  showing its row: the list hands an empty text to the table, which then keeps its rows.\<close>

lemma deleted_agent_row_stays:
  assumes "promise_all outs = Resolved st tx ds"
    and "globalAgentsList (st_agents props) = Val [a]" and "has_full_id a"
    and "prepare_rows (agent_table_row_of js infos) [a] = Inr rows"
    and "fst (each_row agent_ref_of rows) = ids"
  shows "let props' = dispatches props (dispatched (deleteAgent_done env props ids outs)) in
    globalAgentsList (st_agents props') = Val [] \<and>
    prepareTableData (agent_table_row_of js infos') (agentList props') rows = Inr rows"
proof -
  have "each_row agent_ref_of (nths rows UNIV) = (map agent_key (nths [a] UNIV), Inr ())"
    by (rule agent_rows.selected [OF assms(4)]) (use assms(3) in simp)
  then have ids: "ids = [agent_key a]" using assms(5) by (simp add: nths_all)
  have "globalAgentsList (st_agents (dispatches props (dispatched (deleteAgent_done env props ids outs)))) = Val []"
    using assms(1-3)
    by (simp add: ids deleteAgent_done_def do_dispatch_def agentsListUpdateFunc_def dispatches_def
        globalAgentsList_cell.get_dispatch named_by_def agent_key_def has_full_id_def)
  then show ?thesis by (simp add: Let_def agentList_def prepareTableData_def)
qed

lemma deleted_agent_row_stays_witness:
  "\<exists>rows. rows \<noteq> [] \<and> (let st = dispatch (createStore (\<lambda>_. None) None) (GLOBAL_AGENTS_LIST (Val [table_agent ''/a'']));
      st' = dispatches st (dispatched (deleteAgent_done manager_env st
        (fst (each_row agent_ref_of rows)) [Resolved 200 [] ()]))
    in globalAgentsList (st_agents st') = Val [] \<and>
       prepareTableData (agent_table_row_of (\<lambda>_. []) (Val [])) (agentList st') rows = Inr rows)"
proof -
  have "\<exists>rows. rows \<noteq> [] \<and> prepare_rows (agent_table_row_of (\<lambda>_. []) (Val [])) [table_agent ''/a''] = Inr rows"
    by (simp add: prepare_rows_def agent_table_row_of_def Let_def)
  then obtain rows where p: "rows \<noteq> []"
    "prepare_rows (agent_table_row_of (\<lambda>_. []) (Val [])) [table_agent ''/a''] = Inr rows" by blast
  have "globalAgentsList (st_agents (dispatch (createStore (\<lambda>_. None) None)
      (GLOBAL_AGENTS_LIST (Val [table_agent ''/a''])))) = Val [table_agent ''/a'']"
    by (simp add: globalAgentsList_cell.get_dispatch)
  from deleted_agent_row_stays [OF _ this _ p(2) refl, where outs = "[Resolved 200 [] ()]" and st = 0
      and tx = "[]" and ds = "[()]" and env = manager_env and infos' = "Val []"] p(1)
  show ?thesis by (intro exI [of _ rows]) (simp add: has_full_id_def table_agent_def Let_def)
qed

text \<open>C27. A local deletion of entries answered with results takes every requested entry out of the
  store, and then reports success exactly when the reply lists all of them; otherwise it names those
  that are missing, which the store has lost all the same.\<close>

theorem entry_deletion_report:
  "deleteEntry_done env ids (Val es) (Resolved st tx (Val (Some (map Val oks)))) =
     do_dispatch (entriesListUpdateFunc (Val (filter (\<lambda>e. entry_id e \<notin> set ids) es))) @
     (if Some ` set ids \<subseteq> set oks then [Alert ''Entries deleted successfully!'', Reload]
      else [Alert (''Error deleting entries with IDs: '' @
        join '', '' (filter (\<lambda>i. Some i \<notin> set oks) ids))])"
proof -
  have "mapE (\<lambda>r. case r of Val i \<Rightarrow> Inr i | _ \<Rightarrow> (Inl TypeError :: string option throws)) (map Val oks) = Inr oks"
    by (subst mapE_total [where g = the_val]) (auto simp: comp_def)
  moreover have "filter (\<lambda>i. Some i \<notin> set oks) ids = [] \<longleftrightarrow> Some ` set ids \<subseteq> set oks"
    by (auto simp: filter_empty_conv)
  ultimately show ?thesis
    by (simp add: deleteEntry_done_def localEntryDelete_done_def local_delete_def report_results_def)
qed

text \<open>In manager mode a deletion that the back end accepts with a text, SUCCESS included, removes
  nothing from the store and is reported as a failure: for entries as an error, for clusters and
  servers with the reason undefined.\<close>

lemma manager_deletion_reported_failed:
  "deleteEntry_manager_done env (Val es) (Resolved st tx (Val (Reply_text m))) =
     do_dispatch (entriesListUpdateFunc (Val es)) @
     [Alert (''Error deleting entries: '' @ thrown_message env)] \<and>
   table_deleteCluster_manager_done env n (Val cs) (Resolved st tx (Val (Reply_text m))) =
     do_dispatch (clustersListUpdateFunc (Val cs)) @
     [Alert (''Error deleting cluster '' @ quoted n @ '': undefined'')] \<and>
   deleteServer_done env n (Val ss) (Resolved st tx (Val (Reply_text m))) =
     do_dispatch (serversListUpdateFunc (Val ss)) @
     [Alert (''Error deleting server '' @ quoted n @ '': undefined'')]"
  using manager_deletion_kept [of env es st tx m cs ss]
  by (simp add: deleteEntry_manager_done_def table_deleteCluster_manager_done_def deleteServer_done_def
      manager_shown_def report_cluster_def report_server_def report_deleted_def entry_delete_failed_def
      template_def)

section \<open>Exporting\<close>

text \<open>The exported file is the array of the selected entries' texts, or empty with none selected.\<close>

lemma downloadEntries_join:
  assumes "rows \<noteq> []"
  shows "downloadEntries rows = export_open @ join ('','' @ nl) (map et_info rows) @ export_close"
proof -
  have parts: "concat (map (\<lambda>(i, r). et_info r @ (if i < n + length rows - 1 then '','' @ nl else export_close))
      (enumerate n rows)) = join ('','' @ nl) (map et_info rows) @ export_close" for n
    using assms
  proof (induction rows arbitrary: n rule: list_nonempty_induct)
    case (single r)
    then show ?case by simp
  next
    case (cons r rs)
    then show ?case using cons.IH [of "Suc n"] by (cases rs) simp_all
  qed
  show ?thesis using parts [of 0] assms by (simp add: downloadEntries_def)
qed

section \<open>Who sees the actions\<close>

definition has_admin_role :: "string list \<Rightarrow> bool" where
  "has_admin_role roles \<longleftrightarrow> list_ex (\<lambda>r. str_includes (toLowerCase r) ''admin'') roles"

definition may_administer :: "app_env \<Rightarrow> string list \<Rightarrow> bool" where
  "may_administer env roles \<longleftrightarrow> \<not> truthy (REACT_APP_AUTH_SERVER_URI env) \<or> has_admin_role roles"

lemma check_roles:
  "\<exists>r. checkRolesAdminUser (Val roles) = Inr r \<and> truthy r = has_admin_role roles"
proof -
  have a: "toLowerCase ''admin'' = ''admin''" by code_simp
  have "\<not> str_includes (toLowerCase []) ''admin''" by code_simp
  then have "truthy (List.find (\<lambda>r. str_includes (toLowerCase r) ''admin'') roles) = has_admin_role roles"
    by (induction roles) (auto simp: truthy_def has_admin_role_def)
  then show ?thesis by (simp add: checkRolesAdminUser_def a)
qed

lemma guarded_roles: "guarded env (Val roles) d = Inr (d \<and> may_administer env roles)"
proof -
  obtain r where "checkRolesAdminUser (Val roles) = Inr r" "truthy r = has_admin_role roles"
    using check_roles by blast
  then show ?thesis by (auto simp: guarded_def may_administer_def)
qed

text \<open>C28. With an authentication server, deleting, banning and assigning a workload attestor are
  offered only to a user one of whose roles contains admin, in any case, and banning and assigning
  only on agents; without one they are offered to everybody. Exporting is offered to everybody.\<close>

theorem row_actions_need_admin:
  "toolbar_shows env (Val roles) k Delete_action = Inr (may_administer env roles) \<and>
   toolbar_shows env (Val roles) k Ban_action = Inr (k = Agent_table \<and> may_administer env roles) \<and>
   row_shows_attestor env (Val roles) k = toolbar_shows env (Val roles) k Ban_action \<and>
   toolbar_shows env (Val roles) k Download_action = Inr (k = Entry_table)"
  by (cases k) (simp_all add: toolbar_shows_def row_shows_attestor_def guarded_roles entity_actions_def)

section \<open>Pages\<close>

text \<open>The pages from the first to the n-th show the first n times pageSize rows, each once and in
  order; so enough pages show all of them.\<close>

lemma pages_partition:
  "concat (map (\<lambda>p. page_rows (st\<lparr>page := p\<rparr>) rows) [1..<Suc n]) = take (n * pageSize st) rows"
proof (induction n)
  case 0
  then show ?case by simp
next
  case (Suc n)
  have "take (n * pageSize st) rows = take (n * pageSize st) (take (Suc n * pageSize st) rows)"
    by (simp add: min_def)
  with Suc show ?case
    by (simp add: page_rows_def del: mult_Suc take_take)
qed

lemma page_onChange_positive:
  "page st \<noteq> 0 \<Longrightarrow> pageSize st \<noteq> 0 \<Longrightarrow> page (page_onChange p n st) \<noteq> 0 \<and> pageSize (page_onChange p n st) \<noteq> 0"
  by (simp add: page_onChange_def)

end
