(* ===== verification/AccessProps.thy ===== *)
theory AccessProps
  imports Access TableProps
begin

text \<open>
  What the guards of the front end guarantee: the restricted pages are rendered for administrators
  only, whatever the router matches; and where they do not reach: the federation pages, the
  roles of an earlier session, and an administrator without an authentication server.
\<close>

definition restricted_pages :: "page list" where
  "restricted_pages = map snd guarded_routes"

lemma routed_other:
  "set (routed matches p open_routes) \<inter> set restricted_pages = {}"
  "set (routed matches p other_routes) \<inter> set restricted_pages = {}"
  by (auto simp: routed_def open_routes_def other_routes_def restricted_pages_def guarded_routes_def)

lemma routed_guarded: "set (routed matches p guarded_routes) \<subseteq> set restricted_pages"
  by (auto simp: routed_def restricted_pages_def)

text \<open>C19. However the router matches an address, the pages for creating entries and join tokens and for
  managing clusters are rendered only for a user who may administer: everybody without an
  authentication server, with one only a user with a role that contains admin; such a user sees
  them exactly where the router matches their routes.\<close>

theorem admin_pages_guarded:
  "\<exists>ps. App env (Val roles) matches pathname = Inr ps \<and>
     set ps \<inter> set restricted_pages =
       (if may_administer env roles then set (routed matches pathname guarded_routes) else {})"
proof -
  obtain r where r: "checkRolesAdminUser (Val roles) = Inr r" "truthy r = has_admin_role roles"
    using check_roles by blast
  have "AccessNotAllowed_page \<notin> set restricted_pages"
    by (simp add: restricted_pages_def guarded_routes_def)
  then show ?thesis
    using r routed_other [of matches pathname] routed_guarded [of matches pathname]
    by (auto simp: App_def RenderOnAdminRole_def may_administer_def)
qed

text \<open>C30. The pages that obtain a trust bundle and create a federation are marked for administrators in
  the expanded sidebar, which hides their links from anybody else; the collapsed sidebar offers them to
  everybody, and the application renders them for everybody.\<close>

theorem federation_pages_unguarded:
  assumes "\<not> may_administer env roles"
    and "matches ''/federation/create'' ''/federation/create''" and "matches ''/trustbundle'' ''/trustbundle''"
  shows "\<exists>expanded collapsed ps qs.
    expanded_links env (Val roles) = Inr expanded \<and> collapsed_links env (Val roles) = Inr collapsed \<and>
    App env (Val roles) matches ''/federation/create'' = Inr ps \<and> App env (Val roles) matches ''/trustbundle'' = Inr qs \<and>
    ''/federation/create'' \<notin> set expanded \<and> ''/trustbundle'' \<notin> set expanded \<and>
    ''/federation/create'' \<in> set collapsed \<and> ''/trustbundle'' \<in> set collapsed \<and>
    FederationCreate_page \<in> set ps \<and> TrustBundleCreate_page \<in> set qs"
proof -
  obtain r where r: "checkRolesAdminUser (Val roles) = Inr r" "truthy r = has_admin_role roles"
    using check_roles by blast
  have "FederationCreate_page \<in> set (routed matches ''/federation/create'' open_routes)"
    "TrustBundleCreate_page \<in> set (routed matches ''/trustbundle'' open_routes)"
    using assms(2,3) by (auto simp: routed_def open_routes_def)
  moreover have "truthy (REACT_APP_AUTH_SERVER_URI env)" "\<not> truthy r"
    using assms(1) r(2) by (auto simp: may_administer_def)
  ultimately show ?thesis
    using r(1)
    by (simp add: expanded_links_def collapsed_links_def App_def RenderOnAdminRole_def NavDropdown_def
        sidebar_subLinks_def plain_link_def admin_link_def)
qed

definition auth_env :: app_env where
  "auth_env = manager_env\<lparr>REACT_APP_AUTH_SERVER_URI := Some ''https://keycloak''\<rparr>"

lemma federation_pages_unguarded_witness:
  "\<exists>ps. App auth_env (Val [''viewer'']) (=) ''/federation/create'' = Inr ps \<and> FederationCreate_page \<in> set ps"
proof -
  have "\<not> may_administer auth_env [''viewer'']" by code_simp
  from federation_pages_unguarded [OF this, of "(=)"] show ?thesis by auto
qed

text \<open>A user whose token carries no roles keeps the roles that the store has from an earlier
  session: when those name an administrator, the actions of administrators are offered and their
  pages are rendered.\<close>

lemma former_roles_stay:
  assumes "truthy (REACT_APP_AUTH_SERVER_URI env)" and "token \<noteq> []" and "decode token = None"
    and "globalUserRoles (st_auth st) = Val roles" and "has_admin_role roles"
  shows "let st' = dispatches st (dispatched (navbar_auth env decode (Some token))) in
    globalAccessToken (st_auth st') = Some token \<and> globalUserRoles (st_auth st') = Val roles \<and>
    toolbar_shows env (globalUserRoles (st_auth st')) k Delete_action = Inr True \<and>
    (\<exists>ps. App env (globalUserRoles (st_auth st')) matches pathname = Inr ps \<and>
       set (routed matches pathname guarded_routes) \<subseteq> set ps)"
proof -
  let ?st' = "dispatches st (dispatched (navbar_auth env decode (Some token)))"
  have s: "globalAccessToken (st_auth ?st') = Some token" "globalUserRoles (st_auth ?st') = Val roles"
    using assms(1-4)
    by (simp_all add: navbar_auth_def isLoggedIn_def truthy_def do_dispatch_def isAuthenticatedUpdateFunc_def
        accessTokenUpdateFunc_def dispatches_def globalAccessToken_cell.get_dispatch
        globalUserRoles_cell.get_dispatch)
  obtain r where r: "checkRolesAdminUser (Val roles) = Inr r" "truthy r = has_admin_role roles"
    using check_roles by blast
  have "toolbar_shows env (Val roles) k Delete_action = Inr True"
    using r assms(5) by (cases k) (simp_all add: toolbar_shows_def guarded_def entity_actions_def)
  then show ?thesis
    using s r assms(5) by (auto simp: Let_def App_def RenderOnAdminRole_def)
qed

lemma former_roles_stay_witness:
  "(let st' = dispatches (dispatch (createStore (\<lambda>_. None) None) (GLOBAL_USER_ROLES (Val [''admin''])))
          (dispatched (navbar_auth auth_env (\<lambda>_. None) (Some ''t'')))
    in toolbar_shows auth_env (globalUserRoles (st_auth st')) Agent_table Delete_action = Inr True)"
proof -
  let ?st = "dispatch (createStore (\<lambda>_. None) None) (GLOBAL_USER_ROLES (Val [''admin'']))"
  have "truthy (REACT_APP_AUTH_SERVER_URI auth_env)" "has_admin_role [''admin'']" by code_simp+
  moreover have "globalUserRoles (st_auth ?st) = Val [''admin'']"
    by (simp add: globalUserRoles_cell.get_dispatch)
  ultimately show ?thesis
    using former_roles_stay [of auth_env "''t''" "\<lambda>_. None" ?st "[''admin'']" Agent_table "(=)" "''/''"]
    unfolding Let_def by blast
qed

text \<open>Without an authentication server and with a stored role of an administrator the guarded pages are
  rendered twice.\<close>

lemma rendered_twice:
  assumes "\<not> truthy (REACT_APP_AUTH_SERVER_URI env)" and "has_admin_role roles"
  shows "RenderOnAdminRole env (Val roles) pathname children = Inr (children @ children)"
proof -
  obtain r where "checkRolesAdminUser (Val roles) = Inr r" "truthy r = has_admin_role roles"
    using check_roles by blast
  with assms show ?thesis by (simp add: RenderOnAdminRole_def)
qed

text \<open>The refusal is shown on the restricted paths, and on any address that is a part of one.\<close>

lemma refusal_shown:
  assumes "\<not> may_administer env roles"
  shows "RenderOnAdminRole env (Val roles) pathname children =
    Inr (if pathname \<noteq> ''/'' \<and> list_ex (\<lambda>p. str_includes p pathname) pathsWithAdminRestr
         then [AccessNotAllowed_page] else [])"
proof -
  obtain r where "checkRolesAdminUser (Val roles) = Inr r" "truthy r = has_admin_role roles"
    using check_roles by blast
  moreover have "truthy (checkPath pathname) \<longleftrightarrow>
      pathname \<noteq> ''/'' \<and> list_ex (\<lambda>p. str_includes p pathname) pathsWithAdminRestr"
    by (auto simp: checkPath_def pathsWithAdminRestr_def truthy_def)
  ultimately show ?thesis using assms by (auto simp: RenderOnAdminRole_def may_administer_def)
qed

end
