(* ===== verification/ClusterPages.thy ===== *)
theory ClusterPages
  imports ClusterProps Page
begin

text \<open>
  The pages of the cluster forms: the controls \<open>render\<close> of cluster-create.tsx and cluster-edit.tsx
  returns, the callbacks attached to them, and the tabs of cluster-management.tsx. The theorems
  range over everything a user can do on the page.
\<close>

section \<open>Creating\<close>

datatype cc_event =
    CC_name string | CC_type string | CC_manual string | CC_domain string | CC_managed string
  | CC_agents "AgentLabels list" | CC_submit

fun cc_handle :: "app_env \<Rightarrow> cc_event \<Rightarrow> ClusterCreateState \<Rightarrow> ClusterCreateState \<times> cluster_body effect list" where
  "cc_handle env (CC_name v) st = (cc_onChangeClusterName (Some v) st, [])"
| "cc_handle env (CC_type v) st = (cc_onChangeClusterType (Some v) st, [])"
| "cc_handle env (CC_manual v) st = (cc_onChangeManualClusterType (Some v) st, [])"
| "cc_handle env (CC_domain v) st = (cc_onChangeClusterDomainName (Some v) st, [])"
| "cc_handle env (CC_managed v) st = (cc_onChangeClusterManagedBy (Some v) st, [])"
| "cc_handle env (CC_agents xs) st = (cc_onChangeAgentsList (Some xs) st, [])"
| "cc_handle env CC_submit st = cc_onSubmit env st"

definition cc_notices :: "ClusterCreateState \<Rightarrow> (unit, cc_event) widget list" where
  "cc_notices st =
     only_if (cc_statusOK st = ''OK'') [Notice Success ''CLUSTER SUCCESSFULLY CREATED'' (cc_message st)] @
     only_if (cc_statusOK st = ''ERROR'') [Notice Failure ''CLUSTER CREATION FAILED'' (cc_message st)]"

definition cc_render ::
  "string list \<times> AgentLabels list \<Rightarrow> ClusterCreateState \<Rightarrow> (unit, cc_event) widget list"
where
  "cc_render props st =
     (case props of (clusterTypeList, agents) \<Rightarrow>
       [Heading ''Create Cluster'',
        TextField ''Cluster Name [*required]'' None CC_name,
        Choice ''Cluster Type [*required]'' clusterTypeList None CC_type] @
       only_if (cc_clusterTypeManualEntry st)
         [TextField ''Cluster Type - Manual Entry'' None CC_manual] @
       [TextField ''Cluster Domain Name/ URL'' None CC_domain,
        TextField ''Cluster Managed By'' None CC_managed,
        MultiChoice (cc_agentsListDisplay st) agents CC_agents,
        ReadOnlyArea (cc_assignedAgentsListDisplay st),
        Press ''CREATE CLUSTER'' CC_submit] @
       cc_notices st)"

text \<open>
  A reply to some request, of any content (\<open>json_rep\<close> of any text is any text), or mounting and the
  update after a change of properties.
\<close>

inductive cc_other :: "app_env \<Rightarrow> 'p \<Rightarrow> ClusterCreateState \<Rightarrow> ClusterCreateState \<Rightarrow> bool" for env where
  reply: "cc_other env p st (fst (cc_onSubmit_done json_req json_rep req (out :: string outcome) st))"
| updated: "cc_other env p st (cluster_create_update env prev props st)"
| mounted: "snd (cluster_create_mount env props st) = Inr st' \<Longrightarrow> cc_other env p st st'"

inductive_cases cc_otherE: "cc_other env p st st'"

section \<open>Editing\<close>

datatype ce_event =
    CE_cluster string | CE_name string | CE_type string | CE_manual string | CE_domain string
  | CE_managed string | CE_agents "AgentLabels list" | CE_submit | CE_delete


definition ce_notices :: "ClusterEditState \<Rightarrow> (unit, ce_event) widget list" where
  "ce_notices st =
     only_if (ce_statusOK st = ''OK'') [Notice Success ''CLUSTER SUCCESSFULLY EDITED'' (ce_message st)] @
     only_if (ce_statusOK st = ''ERROR'') [Notice Failure ''CLUSTER EDIT FAILED'' (ce_message st)]"

definition ce_render ::
  "string list \<times> AgentLabels list \<Rightarrow> ClusterEditState \<Rightarrow> (unit, ce_event) widget list"
where
  "ce_render props st =
     (case props of (clusterTypeList, agents) \<Rightarrow>
       [Heading ''Edit Cluster'',
        Choice ''Choose Cluster [*required]'' (ce_clusterNameList st) None CE_cluster,
        TextField ''Edit Cluster Name'' (Some (ce_clusterName st)) CE_name,
        Choice ''Edit Cluster Type'' clusterTypeList (Some (ce_clusterType st)) CE_type] @
       only_if (ce_clusterTypeManualEntry st)
         [TextField ''Cluster Type - Manual Entry'' None CE_manual] @
       [TextField ''Edit Cluster Domain Name/ URL'' (Some (ce_clusterDomainName st)) CE_domain,
        TextField ''Edit Cluster Managed By'' (Some (ce_clusterManagedBy st)) CE_managed,
        MultiChoice (ce_agentsListDisplay st) agents CE_agents,
        ReadOnlyArea (ce_assignedAgentsListDisplay st),
        Press ''EDIT CLUSTER'' CE_submit,
        Press ''Delete Cluster'' CE_delete] @
       ce_notices st)"

inductive ce_other :: "app_env \<Rightarrow> 'p \<Rightarrow> ClusterEditState \<Rightarrow> ClusterEditState \<Rightarrow> bool" for env where
  reply: "ce_other env p st (fst (ce_onSubmit_done json_req json_rep req (out :: string outcome) st))"
| updated: "cluster_edit_update env prev lists_changed props st = Inr st' \<Longrightarrow> ce_other env p st st'"
| mounted: "snd (cluster_edit_mount env props st) = Inr st' \<Longrightarrow> ce_other env p st st'"

inductive_cases ce_otherE: "ce_other env p st st'"


section \<open>The tabs\<close>

text \<open>A tab shows one of the two forms, with the lists prepared here; choosing one dismisses the toasts.\<close>

datatype cm_event = Tab_create | Tab_edit

definition cm_render :: "ClusterManagementState \<Rightarrow> (unit, cm_event) widget list" where
  "cm_render st =
     [Press ''Create Cluster'' Tab_create, Press ''Edit Cluster'' Tab_edit,
      Child ''ClusterCreate'', Child ''ClusterEdit'']"

definition cm_child_props :: "ClusterManagementState \<Rightarrow> string list \<times> AgentLabels list" where
  "cm_child_props st = (cm_clusterTypeList st, cm_agentsList st)"

section \<open>Reachable pages\<close>

text \<open>The types offered are always among some list \<open>offered\<close> and the manual option.\<close>

definition cc_page :: "app_env \<Rightarrow> string list \<Rightarrow> string list \<Rightarrow> ClusterCreateState \<Rightarrow> bool" where
  "cc_page env offered types0 =
     page_reach (\<lambda>(types, _). set types \<subseteq> insert cluster_manual_option (set offered))
       cc_render (\<lambda>_ ev st. fst (cc_handle env ev st))
       (cc_other env) (cluster_create_initial types0)"


lemmas cc_ops = cc_onChangeClusterName_def cc_onChangeClusterType_def cc_onChangeManualClusterType_def
  cc_onChangeClusterDomainName_def cc_onChangeClusterManagedBy_def cc_onChangeAgentsList_def


lemma cc_onSubmit_state:
  "fst (cc_onSubmit env st) = st \<or> fst (cc_onSubmit env st) = st\<lparr>cc_message := ''Error: No server selected''\<rparr>"
  by (simp add: cc_onSubmit_def cc_getApiEntryCreateEndpoint_def)


definition cc_inv :: "string list \<Rightarrow> ClusterCreateState \<Rightarrow> bool" where
  "cc_inv offered st \<longleftrightarrow> (cc_statusOK st = [] \<or> cc_statusOK st = ''OK'') \<and>
     cc_clusterTypeManualEntryOption st = cluster_manual_option \<and>
     (cc_clusterTypeManualEntry st \<or> cc_clusterType st = [] \<or>
      cc_clusterType st \<noteq> cluster_manual_option \<and> cc_clusterType st \<in> set offered)"

lemma cc_inv_cong:
  "cc_statusOK st' = cc_statusOK st \<Longrightarrow> cc_clusterTypeManualEntryOption st' = cc_clusterTypeManualEntryOption st \<Longrightarrow>
   cc_clusterTypeManualEntry st' = cc_clusterTypeManualEntry st \<Longrightarrow> cc_clusterType st' = cc_clusterType st \<Longrightarrow>
   cc_inv offered st' = cc_inv offered st"
  by (simp add: cc_inv_def)

lemma cc_page_inv: "cc_page env offered types0 st \<Longrightarrow> cc_inv offered st"
  unfolding cc_page_def
proof (erule page_invariant)
  show "cc_inv offered (cluster_create_initial types0)"
    by (simp add: cc_inv_def cluster_create_initial_def)
next
  fix st p ev
  assume *: "cc_inv offered st"
    "case p of (types, _) \<Rightarrow> set types \<subseteq> insert cluster_manual_option (set offered)"
    "page_offers (cc_render p st) ev"
  show "cc_inv offered (fst (cc_handle env ev st))"
  proof (cases ev)
    case (CC_type v)
    then have "v \<in> insert cluster_manual_option (set offered)"
      using * by (auto simp: cc_render_def cc_notices_def split: prod.splits if_splits)
    then show ?thesis using * CC_type by (auto simp: cc_inv_def cc_onChangeClusterType_def)
  next
    case (CC_manual v)
    then have "cc_clusterTypeManualEntry st"
      using * by (auto simp: cc_render_def cc_notices_def split: prod.splits if_splits)
    then show ?thesis using * CC_manual by (auto simp: cc_inv_def cc_onChangeManualClusterType_def)
  next
    case CC_submit
    then show ?thesis using *(1) cc_onSubmit_state [of env st] by (auto simp: cc_inv_def)
  qed (use *(1) in \<open>simp_all add: cc_ops cc_inv_def Let_def\<close>)
next
  fix st p st'
  assume "cc_inv offered st" "cc_other env p st st'"
  then show "cc_inv offered st'"
    by (auto elim!: cc_otherE simp: cc_inv_def cc_onSubmit_done_def cluster_create_update_def
        cluster_create_mount_def Let_def split: outcome.splits if_splits sum.splits)
qed


section \<open>What the pages say\<close>

lemma cc_render_notices: "notices (cc_render p st) = notices (cc_notices st)"
  by (cases p) (simp add: cc_render_def)



lemma cc_page_start: "cc_page env offered types0 (cluster_create_initial types0)"
  unfolding cc_page_def by (rule page_reach.start)



text \<open>Without a server the message is set all the same: it is not shown, or stands under the title of the
  earlier success.\<close>

lemma no_server_under_success:
  assumes "IsManager env" and "cc_selectedServer st = []" and "cluster_create_ok st"
  shows "notices (cc_render p (fst (cc_handle env CC_submit st))) =
    (if cc_statusOK st = ''OK'' then [(Success, ''CLUSTER SUCCESSFULLY CREATED'', ''Error: No server selected'')]
     else if cc_statusOK st = ''ERROR'' then [(Failure, ''CLUSTER CREATION FAILED'', ''Error: No server selected'')]
     else [])"
  using assms
  by (auto simp: cc_render_notices cc_notices_def cc_onSubmit_def cc_getApiEntryCreateEndpoint_def cluster_create_ok_def)

section \<open>The type of a cluster\<close>

text \<open>C13. The type a cluster is created with was chosen: whatever a user does on the page, a request to
  create a cluster carries a type that is neither empty nor the text of the option for a type of
  one's own, and it is one of the types offered unless the field for such a type is on the page.\<close>

theorem created_type_is_chosen:
  assumes "cc_page env offered types0 st"
    and "Request POST url (NewCluster c) \<in> set (snd (cc_handle env CC_submit st))"
  shows "nc_platformType c \<noteq> [] \<and> nc_platformType c \<noteq> cluster_manual_option \<and>
    (nc_platformType c \<in> set offered \<or>
     TextField ''Cluster Type - Manual Entry'' None CC_manual \<in> set (cc_render p st))"
proof -
  have "Request POST url (NewCluster c) \<in> set (snd (cc_onSubmit env st))" using assms(2) by simp
  then have "cluster_create_ok st" "NewCluster c = cc_cjtData st"
    unfolding create_form.request_iff by blast+
  then show ?thesis
    using cc_page_inv [OF assms(1)]
    by (cases p) (auto simp: cc_inv_def cluster_create_ok_def cc_cjtData_def cc_render_def)
qed

definition filled_form :: ClusterCreateState where
  "filled_form = cc_onChangeClusterType (Some ''VMs'') (cc_onChangeClusterName (Some ''c'') (cluster_create_initial []))"

lemma filled_form_reached: "cc_page local_env [''VMs''] [] filled_form"
proof -
  let ?p = "([cluster_manual_option, ''VMs''], [])"
  let ?s1 = "cc_onChangeClusterName (Some ''c'') (cluster_create_initial [])"
  have 1: "cc_page local_env [''VMs''] [] ?s1"
    using page_reach.user [OF cc_page_start [of local_env "[''VMs'']" "[]", unfolded cc_page_def], of ?p "CC_name ''c''"]
    by (simp add: cc_page_def cc_render_def)
  show ?thesis
    using page_reach.user [OF 1 [unfolded cc_page_def], of ?p "CC_type ''VMs''"]
    by (simp add: cc_page_def cc_render_def filled_form_def)
qed

lemma created_type_is_chosen_witness:
  "\<exists>c. cc_cjtData filled_form = NewCluster c \<and> nc_platformType c \<in> set [''VMs''] \<and>
     Request POST (cluster_create_endpoint local_env filled_form) (NewCluster c)
       \<in> set (snd (cc_handle local_env CC_submit filled_form))"
proof -
  have manual: "\<not> cc_clusterTypeManualEntry filled_form"
    by (simp add: filled_form_def cc_ops cluster_create_initial_def cluster_manual_option_def)
  obtain c where c: "cc_cjtData filled_form = NewCluster c" by (simp add: cc_cjtData_def)
  have "cluster_create_ok filled_form" "cluster_create_endpoint local_env filled_form \<noteq> []"
    by (simp_all add: cluster_create_ok_def filled_form_def cc_ops cluster_create_initial_def
        cluster_manual_option_def cluster_create_endpoint_def cc_getApiEntryCreateEndpoint_def)
  then have "Request POST (cluster_create_endpoint local_env filled_form) (NewCluster c)
      \<in> set (snd (cc_handle local_env CC_submit filled_form))"
    by (simp add: create_form.request_iff c)
  then show ?thesis
    using created_type_is_chosen [OF filled_form_reached, of _ c "([], [])"] c manual
    by (auto simp: cc_render_def cc_notices_def)
qed

text \<open>The page for editing does not ask whether the type is empty: once the field for a type of one's own is
  cleared, the cluster is saved without one.\<close>

lemma edit_saves_empty_type:
  assumes "ce_clusterTypeManualEntry st" and "ce_originalClusterName st \<noteq> []" and "ce_clusterName st \<noteq> []"
    and "cluster_edit_endpoint env st \<noteq> []" and "ce_clusterTypeManualEntryOption st = cluster_manual_option"
  shows "page_offers (ce_render p st) (CE_manual []) \<and>
    (\<exists>b. Request PATCH (cluster_edit_endpoint env st) (EditedCluster b)
       \<in> set (snd (ce_onSubmit env props (ce_onChangeManualClusterType (Some []) st))) \<and> ed_PlatformType b = [])"
proof -
  let ?st = "ce_onChangeManualClusterType (Some []) st"
  have "cluster_edit_ok ?st"
    using assms by (simp add: ce_onChangeManualClusterType_def cluster_edit_ok_def cluster_manual_option_def)
  moreover have "cluster_edit_endpoint env ?st = cluster_edit_endpoint env st"
    by (simp add: ce_onChangeManualClusterType_def cluster_edit_endpoint_def ce_getApiEntryCreateEndpoint_def)
  ultimately have "Request PATCH (cluster_edit_endpoint env st) (ce_cjtData ?st) \<in> set (snd (ce_onSubmit env props ?st))"
    using assms(4) by (simp add: edit_form.request_iff)
  moreover have "page_offers (ce_render p st) (CE_manual [])"
    using assms(1) by (cases p) (simp add: ce_render_def)
  ultimately show ?thesis by (auto simp: ce_cjtData_def ce_onChangeManualClusterType_def)
qed

end
