(* ===== verification/ServerPages.thy ===== *)
theory ServerPages
  imports ServerProps JoinToken Health
begin

text \<open>
  The pages around servers and agents: the join token form, the registration of a server, the
  choice of a server, the server information, the dialog of the workload attestor and the
  refresh rate of the health check, each as the controls its \<open>render\<close> returns, with the handlers
  of theories JoinToken, Servers and Health behind them.
\<close>

section \<open>The join token form\<close>

datatype jt_event = JT_ttl string | JT_token string | JT_spiffeId string | JT_submit

fun jt_handle ::
  "app_env \<Rightarrow> jt_event \<Rightarrow> CreateJoinTokenState \<Rightarrow> CreateJoinTokenState \<times> token_request effect list"
where
  "jt_handle env (JT_ttl v) st = (jt_onChangeTtl v st, [])"
| "jt_handle env (JT_token v) st = (jt_onChangeToken v st, [])"
| "jt_handle env (JT_spiffeId v) st = (jt_onChangeSpiffeId v st, [])"
| "jt_handle env JT_submit st = jt_onSubmit env st"

definition jt_render :: "'p \<Rightarrow> CreateJoinTokenState \<Rightarrow> (unit, jt_event) widget list" where
  "jt_render props st =
     [Heading ''Create New Agent Join Token'', Shown (jt_message st),
      NumberField ''Time to live (TTL): '' (As_text (jt_ttl st)) JT_ttl,
      TextField ''Token (optional): i.e. 1adcc067-18e5-4d6f-be97-aa74b5ba5c28'' (Some (jt_token st)) JT_token,
      TextField ''SPIFFE ID (optional): i.e. spiffe://example.org/sample/spiffe/id''
        (Some (jt_spiffeId st)) JT_spiffeId,
      Press ''Create Join Token'' JT_submit]"

inductive jt_other :: "app_env \<Rightarrow> 'p \<Rightarrow> CreateJoinTokenState \<Rightarrow> CreateJoinTokenState \<Rightarrow> bool" for env where
  reply: "jt_other env p st (fst (jt_onSubmit_done json_req json_rep req (out :: string outcome) st))"
| updated: "jt_other env p st (join_token_update env prev props st)"
| mounted: "jt_other env p st (join_token_mount env props st)"

definition jt_page :: "app_env \<Rightarrow> CreateJoinTokenState \<Rightarrow> bool" where
  "jt_page env =
     page_reach (\<lambda>_ :: unit. True) jt_render (\<lambda>_ ev st. fst (jt_handle env ev st)) (jt_other env)
       join_token_initial"

definition ttl_entered :: "string \<Rightarrow> bool" where
  "ttl_entered t \<longleftrightarrow> t = [] \<or> Number t \<in> range Fin"

lemma jt_page_ttl: "jt_page env st \<Longrightarrow> ttl_entered (jt_ttl st)"
  unfolding jt_page_def
proof (erule page_invariant)
  have "nat_toString 500 = ''500''" by code_simp
  then have "Number ''500'' \<in> range Fin" using Number_nat_toString [of 500] by simp
  then show "ttl_entered (jt_ttl join_token_initial)"
    by (simp add: ttl_entered_def join_token_initial_def)
next
  fix st and p :: unit and ev
  assume *: "ttl_entered (jt_ttl st)" "page_offers (jt_render p st) ev"
  show "ttl_entered (jt_ttl (fst (jt_handle env ev st)))"
  proof (cases ev)
    case JT_submit
    then show ?thesis using *(1)
      by (auto simp: jt_onSubmit_def getApiTokenEndpoint_def Let_def split: prod.splits option.splits)
  qed (use * in \<open>auto simp: jt_render_def jt_onChangeTtl_def jt_onChangeToken_def jt_onChangeSpiffeId_def
      ttl_entered_def\<close>)
next
  fix st p st'
  assume "ttl_entered (jt_ttl st)" "jt_other env p st st'"
  then show "ttl_entered (jt_ttl st')"
    by (auto elim!: jt_other.cases simp: jt_onSubmit_done_def join_token_update_def join_token_mount_def
        split: outcome.splits)
qed

text \<open>C17. The join token page sends a request exactly when the number in the TTL field is positive, the
  SPIFFE id is empty or parses, and there is an endpoint; the request then carries that number,
  which is finite, the parsed trust domain and path (empty texts without an id) and the token.
  The field hands over an empty text or a finite number only, so on the page the check without a
  \<open>return\<close>, for a TTL that is no number, is never needed.\<close>

theorem token_page_requests:
  assumes "jt_page env st"
  shows "Request POST url b \<in> set (snd (jt_handle env JT_submit st)) \<longleftrightarrow>
     (\<exists>q > 0. Number (jt_ttl st) = Fin q \<and> tr_ttl b = Fin q) \<and>
     (if jt_spiffeId st = [] then tr_trust_domain b = [] \<and> tr_path b = []
      else parseSpiffeId (jt_spiffeId st) = (True, tr_trust_domain b, tr_path b)) \<and>
     token_endpoint env st \<noteq> [] \<and> url = token_endpoint env st \<and> tr_token b = jt_token st"
proof -
  have zero: "Number [] = Fin 0" by (simp add: Number_def trim_def)
  have ttl: "jt_ttl st = [] \<or> (\<exists>q. Number (jt_ttl st) = Fin q)"
    using jt_page_ttl [OF assms] by (auto simp: ttl_entered_def)
  show ?thesis
    unfolding jt_handle.simps token_request_iff using ttl zero by (cases "jt_ttl st = []") auto
qed

lemma jt_page_start: "jt_page env join_token_initial"
  unfolding jt_page_def by (rule page_reach.start)

lemma token_page_requests_witness:
  "Request POST (token_endpoint local_env join_token_initial)
     \<lparr>tr_ttl = Fin 500, tr_trust_domain = [], tr_path = [], tr_token = []\<rparr>
   \<in> set (snd (jt_handle local_env JT_submit join_token_initial))"
proof -
  have "nat_toString 500 = ''500''" by code_simp
  then have "Number ''500'' = Fin 500" using Number_nat_toString [of 500] by simp
  moreover have "token_endpoint local_env join_token_initial \<noteq> []"
    by (simp add: token_endpoint_def getApiTokenEndpoint_def)
  ultimately show ?thesis
    unfolding token_page_requests [OF jt_page_start] by (simp add: join_token_initial_def)
qed

section \<open>Registering a server\<close>

datatype sm_page_event = SM_field sm_event | SM_submit

text \<open>The files of the form are asked for while the box they belong to is ticked.\<close>

definition tlsFormOptions :: "ServerManagementState \<Rightarrow> (read_result, sm_page_event) widget list" where
  "tlsFormOptions st = [FileField ''CAfile'' (\<lambda>r. SM_field (CA_file r)), Shown (sm_CAFileText st)]"

definition mtlsFormOptions :: "ServerManagementState \<Rightarrow> (read_result, sm_page_event) widget list" where
  "mtlsFormOptions st =
     [FileField ''certfile'' (\<lambda>r. SM_field (Cert_file r)), Shown (sm_certFileText st),
      FileField ''keyfile'' (\<lambda>r. SM_field (Key_file r)), Shown (sm_keyFileText st)]"

definition sm_notices :: "ServerManagementState \<Rightarrow> (read_result, sm_page_event) widget list" where
  "sm_notices st =
     only_if (sm_statusOK st = ''OK'') [Notice Success ''SERVER SUCCESSFULLY CREATED'' (sm_message st)] @
     only_if (sm_statusOK st = ''ERROR'') [Notice Failure ''SERVER CREATION FAILED'' (sm_message st)]"

text \<open>A row of the list of servers: name, address, and whether the two kinds of TLS are on.\<close>

definition server_cells :: "ServersList \<Rightarrow> string list" where
  "server_cells s =
     [server_name s, address s, if mtls s \<noteq> [] then ''mTLS'' else ''None'', if tls s \<noteq> [] then ''TLS'' else ''None'']"

definition sm_render ::
  "app_env \<Rightarrow> RootState \<Rightarrow> ServerManagementState \<Rightarrow> (read_result, sm_page_event) widget list throws"
where
  "sm_render env props st =
     (if \<not> IsManager env then Inr [Heading ''Only manager deployments have use of this page'']
      else bindE (serverList props) (\<lambda>_. Inr (
        [Heading '' Register New Server '',
         TextField ''Server Name (Unique)'' None (\<lambda>v. SM_field (NameTyped v)),
         TextField ''Server Address (Url)'' None (\<lambda>v. SM_field (AddressTyped v)),
         Tick ''TLS Enabled'' (Some (sm_formTLS st)) (\<lambda>b. SM_field (TLS_box b))] @
        only_if (sm_formTLS st) (tlsFormOptions st) @
        [Tick ''mTLS Enabled'' (Some (sm_formMTLS st)) (\<lambda>b. SM_field (MTLS_box b))] @
        only_if (sm_formMTLS st) (mtlsFormOptions st) @
        [Press ''Register Server'' SM_submit] @
        sm_notices st @
        [Heading ''Servers List'', Child ''Table''])))"

lemma sm_render_notices: "sm_render env props st = Inr ws \<Longrightarrow>
    notices ws = (if IsManager env then notices (sm_notices st) else [])"
  by (auto simp: sm_render_def tlsFormOptions_def mtlsFormOptions_def bindE_eq_Inr split: if_splits)

lemma sm_render_files: "sm_render env props st = Inr ws \<Longrightarrow> IsManager env \<Longrightarrow>
    (page_offers ws (SM_field (CA_file r)) \<longleftrightarrow> sm_formTLS st) \<and>
    (page_offers ws (SM_field (Cert_file r)) \<longleftrightarrow> sm_formMTLS st) \<and>
    (page_offers ws (SM_field (Key_file r)) \<longleftrightarrow> sm_formMTLS st)"
  by (auto simp: sm_render_def tlsFormOptions_def mtlsFormOptions_def sm_notices_def bindE_eq_Inr
      split: if_splits)

text \<open>C23. The registration page tells how the last registration went: after a reply it shows exactly one
  notice, of success with the request and the reply, or of failure with the error, whatever was
  shown before; a file can be chosen exactly while the box it belongs to is ticked.\<close>

theorem registration_outcome_shown:
  assumes "IsManager env" and "sm_render env props (fst (sm_onSubmit_done jq jr env req out st)) = Inr ws"
  shows "notices ws =
      (case out of
         Resolved c tx d \<Rightarrow> [(Success, ''SERVER SUCCESSFULLY CREATED'',
           ''Requst:'' @ jq req @ [CHR 0x0A, CHR 0x0A] @ ''Success:'' @ jr d)]
       | Rejected e \<Rightarrow> [(Failure, ''SERVER CREATION FAILED'', ''ERROR:'' @ err_string e @
           (case err_response e of None \<Rightarrow> [] | Some (body, _) \<Rightarrow> body))]) \<and>
    (page_offers ws (SM_field (CA_file r)) \<longleftrightarrow> sm_formTLS st) \<and>
    (page_offers ws (SM_field (Cert_file r)) \<longleftrightarrow> sm_formMTLS st) \<and>
    (page_offers ws (SM_field (Key_file r)) \<longleftrightarrow> sm_formMTLS st)"
  using assms sm_render_notices [OF assms(2)] sm_render_files [OF assms(2,1), of r]
  by (cases out) (auto simp: sm_onSubmit_done_def sm_notices_def)

lemma registration_outcome_shown_witness:
  "\<exists>ws. sm_render manager_env (createStore (\<lambda>_. None) None)
     (fst (sm_onSubmit_done (\<lambda>_. []) (\<lambda>_ :: unit. []) manager_env (sm_cjtData sm_constructor)
        (Rejected (thrown manager_env)) sm_constructor)) = Inr ws \<and>
   notices ws = [(Failure, ''SERVER CREATION FAILED'', ''ERROR:TypeError: m'')]"
proof -
  let ?st = "fst (sm_onSubmit_done (\<lambda>_. []) (\<lambda>_ :: unit. []) manager_env (sm_cjtData sm_constructor)
        (Rejected (thrown manager_env)) sm_constructor)"
  have "\<not> isl (sm_render manager_env (createStore (\<lambda>_. None) None) ?st)" by code_simp
  then obtain ws where ws: "sm_render manager_env (createStore (\<lambda>_. None) None) ?st = Inr ws"
    by (cases "sm_render manager_env (createStore (\<lambda>_. None) None) ?st") auto
  then show ?thesis
    using registration_outcome_shown [OF local_env_simps(2) ws]
    by (simp add: thrown_def) (simp add: manager_env_def)
qed

section \<open>Choosing a server\<close>

definition select_server_render :: "app_env \<Rightarrow> RootState \<Rightarrow> (unit, string) widget list" where
  "select_server_render env props =
     only_if (IsManager env)
       [Choice ''Choose a Server'' (server_items props) (Some (globalServerSelected (st_servers props))) (\<lambda>s. s)]"

text \<open>Only servers of the list can be chosen, and choosing one stores its name.\<close>

lemma chosen_server_listed:
  assumes "page_offers (select_server_render env props) s" and "globalServersList (st_servers props) = Val ss"
  shows "s \<in> server_name ` set ss \<and>
    (s \<noteq> [] \<longrightarrow> globalServerSelected (st_servers (dispatches props (dispatched (onServerSelect s)))) = s)"
  using assms
  by (auto simp: select_server_render_def server_items_def onServerSelect_def do_dispatch_def
      serverSelectedFunc_def dispatches_def globalServerSelected_cell.get_put split: if_splits)

section \<open>Server information\<close>

definition info_widgets :: "info_display \<Rightarrow> (unit, unit) widget list" where
  "info_widgets d =
     [Heading ''Trust Domain'', Shown (id_trustDomain d), Heading ''Plugins''] @
     (case id_plugins d of
        Some tags \<Rightarrow> map Shown tags
      | None \<Rightarrow> [Notice Warning ''Note: No Plugin Info Provided from server. Tornjak Backend does not have access to SPIRE config!'' []]) @
     [Heading ''Verbose Config (click to expand)''] @
     (case id_config d of
        Some c \<Rightarrow> [Shown c]
      | None \<Rightarrow> [Notice Warning ''Note: No Server Config Provided from server. Tornjak Backend does not have access to SPIRE config!'' []])"

text \<open>The message of the last request is shown unless it is one of the two of a success; an error object
  cannot be rendered, and React throws.\<close>

definition shown_message :: "tornjak_message \<Rightarrow> string option throws" where
  "shown_message m =
     (case m of
        Message s \<Rightarrow> Inr (if s \<noteq> ''OK'' \<and> s \<noteq> ''No Content'' then Some s else None)
      | ErrorObject _ \<Rightarrow> Inl TypeError
      | NoMessage \<Rightarrow> Inr (Some []))"

definition server_info_render :: "RootState \<Rightarrow> (unit, unit) widget list throws" where
  "server_info_render props =
     bindE (shown_message (globalErrorMessage (st_tornjak props))) (\<lambda>msg.
     bindE (tornjakServerInfo props) (\<lambda>info. Inr (
       [Heading ''Server Info''] @
       (case msg of Some s \<Rightarrow> [Shown s] | None \<Rightarrow> []) @
       (case info of Some d \<Rightarrow> info_widgets d | None \<Rightarrow> []))))"

text \<open>Plugins and configuration are shown together or not at all.\<close>

lemma info_together: "id_plugins (TornjakServerInfoDisplay si) = None \<longleftrightarrow> id_config (TornjakServerInfoDisplay si) = None"
  by (simp add: TornjakServerInfoDisplay_def Let_def)

section \<open>The workload attestor\<close>

definition PluginList :: "(string \<times> string) list" where
  "PluginList = [(''1'', ''Docker''), (''2'', ''Kubernetes''), (''3'', ''Unix'')]"

datatype wl_event = WL_plugin string | WL_save

definition wl_render :: "WorkLoadAttestorState \<Rightarrow> (unit, wl_event) widget list" where
  "wl_render st =
     [Shown '' Define WorkLoad Attestor Information: '',
      Choice ''WorkLoad Attestor Plugin'' (map snd PluginList) None WL_plugin,
      ReadOnlyArea (wl_selectorsList st),
      Press ''Save & Add'' WL_save]"

text \<open>Every plugin offered has selectors in the table, so choosing one never throws.\<close>

lemma offered_plugin_known:
  assumes "globalWorkloadSelectorInfo (st_servers props) = workloadSelectors"
    and "page_offers (wl_render st) (WL_plugin sid)"
  shows "\<exists>st'. onChangeWorkloadPlugin props sid st = Inr st' \<and> wl_workloadPlugin st' = sid"
proof -
  have "sid \<in> set (map snd PluginList)" using assms(2) by (simp add: wl_render_def)
  moreover have "\<forall>s \<in> set (map snd PluginList). index_labels workloadSelectors s \<noteq> None" by code_simp
  ultimately obtain ls where "index_labels workloadSelectors sid = Some ls" by auto
  then show ?thesis using assms(1) by (simp add: onChangeWorkloadPlugin_def)
qed

section \<open>The refresh rate\<close>

definition health_render :: "RootState \<Rightarrow> (unit, string) widget list" where
  "health_render props =
     [Choice ''Refresh Rate'' spireHealthCheckTimeOptions
        (Some (SpireHealthCheckFreqDisplay (globalSpireHealthTime (st_servers props)))) (\<lambda>s. s),
      Shown (health_shown props)]"

text \<open>Every rate offered is a positive number of seconds, so the timers never run without a pause.\<close>

lemma offered_rates_positive:
  assumes "page_offers (health_render props) s"
  shows "\<exists>q > 0. SpireHealtCheckTime (refresh_rate s) = Fin q"
proof -
  have "\<forall>s \<in> set spireHealthCheckTimeOptions.
      case SpireHealtCheckTime (refresh_rate s) of Fin q \<Rightarrow> 0 < q | _ \<Rightarrow> False" by code_simp
  with assms have "case SpireHealtCheckTime (refresh_rate s) of Fin q \<Rightarrow> 0 < q | _ \<Rightarrow> False"
    by (auto simp: health_render_def)
  then show ?thesis by (cases "SpireHealtCheckTime (refresh_rate s)") auto
qed

end
