(* ===== verification/EntryPages.thy ===== *)
theory EntryPages
  imports UploadProps Page
begin

text \<open>
  The pages of the entry forms: the controls \<open>render\<close> of entry-create.tsx returns (the upload part
  and the custom form) and those of the editor of entry-create-json.tsx, with their handlers. The
  theorems about the forms' reachable states hold on the pages, which offer no more.
\<close>

section \<open>The entry page\<close>

datatype ec_event =
    EC_parent string | EC_manual_parent string | EC_spiffeId string | EC_recommended "StringLabels list"
  | EC_selectors string | EC_x509 string | EC_jwt string | EC_federates string | EC_dns string
  | EC_admin bool | EC_downstream bool | EC_submit | EC_create_entries

fun ec_handle ::
  "app_env \<Rightarrow> RootState \<Rightarrow> (array_ref \<Rightarrow> EntriesList list) \<Rightarrow> ec_event \<Rightarrow> CreateEntryState
     \<Rightarrow> CreateEntryState \<times> entry_body effect list"
where
  "ec_handle env props arrays (EC_parent v) st = (onChangeParentId v st, [])"
| "ec_handle env props arrays (EC_manual_parent v) st = (onChangeManualParentId v st, [])"
| "ec_handle env props arrays (EC_spiffeId v) st = (spiffeId_typed v st, [])"
| "ec_handle env props arrays (EC_recommended ls) st = (onChangeSelectorsRecommended (Some ls) st, [])"
| "ec_handle env props arrays (EC_selectors v) st = (onChangeSelectors v st, [])"
| "ec_handle env props arrays (EC_x509 v) st = (onChangex509Ttl v st, [])"
| "ec_handle env props arrays (EC_jwt v) st = (onChangeJwtTtl v st, [])"
| "ec_handle env props arrays (EC_federates v) st = (onChangeFederatesWith (Some v) st, [])"
| "ec_handle env props arrays (EC_dns v) st = (onChangeDnsNames (Some v) st, [])"
| "ec_handle env props arrays (EC_admin b) st = (onChangeAdminFlag b st, [])"
| "ec_handle env props arrays (EC_downstream b) st = (onChangeDownStream b st, [])"
| "ec_handle env props arrays EC_submit st = (st, entry_onSubmit env props st)"
| "ec_handle env props arrays EC_create_entries st = (st, onYAMLEntryCreate env props arrays st)"

text \<open>The counts are of entries created and failed.\<close>

definition counted :: "int option \<Rightarrow> string \<Rightarrow> (unit, ec_event) widget list" where
  "counted n what = (case n of None \<Rightarrow> [] | Some k \<Rightarrow> [Shown (''-- '' @ int_toString k @ what)])"

definition ec_notification :: "entry_create_view \<Rightarrow> CreateEntryState \<Rightarrow> (unit, ec_event) widget list" where
  "ec_notification v st =
     only_if (notification v)
       (counted (created_count v) '' ENTRY/ ENTRIES SUCCESSFULLY CREATED--'' @
        counted (failed_count v) '' ENTRY/ ENTRIES FAILED TO BE CREATED--'' @
        only_if (entry_created v) [Shown ''--ENTRY SUCCESSFULLY CREATED--''] @
        only_if (creation_failed v) [Shown ''--ALL ENTRIES CREATION FAILED--''] @
        [Notice Info ''Entry Creation Notification'' (ec_message st)])"

definition ec_upload :: "entry_create_view \<Rightarrow> (unit, ec_event) widget list" where
  "ec_upload v =
     Heading ''Upload New Entry/ Entries'' # Child ''CreateEntryJson'' #
     (if create_entries_enabled v then [Press ''Create Entries'' EC_create_entries]
      else [Disabled ''Create Entries'', Shown ''(Upload JSON File to Enable)''])"

definition ec_ids :: "CreateEntryState \<Rightarrow> (unit, ec_event) widget list" where
  "ec_ids st =
     Choice ''Parent ID [*required]'' (ec_agentsIdList st) None EC_parent #
     only_if (ec_parentIDManualEntry st)
       [TextField ''Parent ID - Manual Entry [*required]'' None EC_manual_parent] @
     [TextField ''SPIFFE ID [*required]'' (Some (ec_spiffeIdPrefix st)) EC_spiffeId]"

definition ec_selector_fields :: "CreateEntryState \<Rightarrow> (unit, ec_event) widget list" where
  "ec_selector_fields st =
     [MultiChoice ''Selectors Recommendation [*required]''
        (case ec_selectorsList st of None \<Rightarrow> [] | Some ls \<Rightarrow> ls) EC_recommended,
      Area (ec_selectorsRecommendationList st) EC_selectors]"

definition ec_advanced :: "CreateEntryState \<Rightarrow> (unit, ec_event) widget list" where
  "ec_advanced st =
     [NumberField ''x509 Time to Leave (Ttl)'' (As_number (Some (ec_x509_svid_ttl st))) EC_x509,
      NumberField ''JWT Time to Leave (Ttl)'' (As_number (Some (ec_jwt_svid_ttl st))) EC_jwt,
      Child ''EntryExpiryFeatures'',
      TextField ''Federates With'' None EC_federates,
      TextField ''DNS Names'' None EC_dns,
      Tick ''Admin Flag'' None EC_admin,
      Tick ''Down Stream'' None EC_downstream]"

definition ec_form :: "CreateEntryState \<Rightarrow> (unit, ec_event) widget list" where
  "ec_form st =
     [Heading ''Custom Entry Form''] @ ec_ids st @ ec_selector_fields st @ ec_advanced st @
     [Press ''CREATE ENTRY'' EC_submit]"

definition ec_render ::
  "RootState \<times> (array_ref \<Rightarrow> EntriesList list) \<Rightarrow> CreateEntryState \<Rightarrow> (unit, ec_event) widget list throws"
where
  "ec_render p st =
     (case p of (props, arrays) \<Rightarrow>
       bindE (entry_create_render props arrays st) (\<lambda>v. Inr (
         [Heading ''Create New Entry/ Entries''] @ ec_notification v st @ ec_upload v @ ec_form st)))"

text \<open>A page that throws offers nothing.\<close>

definition or_nothing :: "('f, 'h) widget list throws \<Rightarrow> ('f, 'h) widget list" where
  "or_nothing r = (case r of Inl _ \<Rightarrow> [] | Inr ws \<Rightarrow> ws)"

inductive ec_other :: "app_env \<Rightarrow> 'p \<Rightarrow> CreateEntryState \<Rightarrow> CreateEntryState \<Rightarrow> bool" for env where
  mounted: "entry_create_mount env props fresh st = (fx, Inr st') \<Longrightarrow> ec_other env p st st'"
| updated: "entry_create_update env ch props prev st = Inr st' \<Longrightarrow> ec_other env p st st'"
| reply_one: "entry_onSubmit_done env jq jr req out st = (st', fx) \<Longrightarrow> ec_other env p st st'"
| reply_many: "onYAMLEntryCreate_done env jq' jr ref arrays out st = (st', fx) \<Longrightarrow> ec_other env p st st'"

definition ec_page :: "app_env \<Rightarrow> CreateEntryState \<Rightarrow> bool" where
  "ec_page env =
     page_reach (\<lambda>_. True) (\<lambda>p st. or_nothing (ec_render p st))
       (\<lambda>p ev st. fst (ec_handle env (fst p) (snd p) ev st)) (ec_other env) entry_create_initial"

lemma ec_page_reach: "ec_page env st \<Longrightarrow> entry_reach env st"
  unfolding ec_page_def
proof (erule page_invariant)
  show "entry_reach env entry_create_initial" by (rule entry_reach.initial)
next
  fix st p ev
  assume "entry_reach env st"
  then show "entry_reach env (fst (ec_handle env (fst p) (snd p) ev st))"
    by (cases ev) (auto intro: entry_reach.intros)
next
  fix st p st'
  assume "entry_reach env st" "ec_other env p st st'"
  then show "entry_reach env st'"
    by (auto elim!: ec_other.cases intro: entry_reach.intros)
qed

section \<open>What an entry is created with\<close>

definition finite_ttls :: "CreateEntryState \<Rightarrow> bool" where
  "finite_ttls st \<longleftrightarrow> ec_x509_svid_ttl st \<in> range Fin \<and> ec_jwt_svid_ttl st \<in> range Fin"

text \<open>What each part of the page offers.\<close>

lemma ec_part_offers [simp]:
  "\<not> page_offers (ec_notification v st) h"
  "page_offers (ec_upload v) h \<longleftrightarrow> create_entries_enabled v \<and> h = EC_create_entries"
  "page_offers (ec_advanced st) (EC_x509 t) \<longleftrightarrow> t = [] \<or> Number t \<in> range Fin"
  "page_offers (ec_advanced st) (EC_jwt t) \<longleftrightarrow> t = [] \<or> Number t \<in> range Fin"
  "\<not> page_offers (ec_ids st) (EC_x509 t)" "\<not> page_offers (ec_ids st) (EC_jwt t)"
  "\<not> page_offers (ec_selector_fields st) (EC_x509 t)" "\<not> page_offers (ec_selector_fields st) (EC_jwt t)"
  by (auto simp: ec_notification_def counted_def ec_upload_def ec_advanced_def ec_ids_def
      ec_selector_fields_def split: option.splits)

lemma ec_page_offers:
  assumes "page_offers (or_nothing (ec_render p st)) h"
  obtains v where "entry_create_render (fst p) (snd p) st = Inr v"
    and "page_offers (ec_upload v) h \<or> page_offers (ec_form st) h"
proof (cases "entry_create_render (fst p) (snd p) st")
  case (Inl e)
  then show ?thesis using assms by (simp add: ec_render_def or_nothing_def case_prod_beta)
next
  case (Inr v)
  then show ?thesis using assms that by (simp add: ec_render_def or_nothing_def case_prod_beta del: ec_part_offers(2))
qed

lemma ec_render_numbers:
  assumes "page_offers (or_nothing (ec_render p st)) ev" and "ev = EC_x509 t \<or> ev = EC_jwt t"
  shows "Number t \<in> range Fin"
proof -
  have zero: "Number [] = Fin 0" by (simp add: Number_def trim_def)
  obtain v where "page_offers (ec_upload v) ev \<or> page_offers (ec_form st) ev"
    using ec_page_offers [OF assms(1)] by blast
  with assms(2) show ?thesis using zero by (cases "t = []") (auto simp: ec_form_def)
qed

lemma same_ids_ttls: "same_ids st st' \<Longrightarrow> finite_ttls st \<Longrightarrow> finite_ttls st'"
  by (simp add: same_ids_def finite_ttls_def)

lemma ec_page_ttls: "ec_page env st \<Longrightarrow> finite_ttls st"
  unfolding ec_page_def
proof (erule page_invariant)
  show "finite_ttls entry_create_initial" by (simp add: finite_ttls_def entry_create_initial_def)
next
  fix st p ev
  assume *: "finite_ttls st" "page_offers (or_nothing (ec_render p st)) ev"
  note number = ec_render_numbers [OF *(2)]
  show "finite_ttls (fst (ec_handle env (fst p) (snd p) ev st))"
    using *(1) number
    by (cases ev) (auto simp: finite_ttls_def onChangex509Ttl_def onChangeJwtTtl_def onChangeParentId_def
        onChangeManualParentId_def parent_parsed_def spiffeId_typed_def onChangeSpiffeId_def
        onChangeSelectorsRecommended_def onChangeSelectors_def onChangeFederatesWith_def
        onChangeDnsNames_def onChangeAdminFlag_def onChangeDownStream_def Let_def split: prod.splits)
next
  fix st p st'
  assume "finite_ttls st" "ec_other env p st st'"
  then show "finite_ttls st'"
    by (auto elim!: ec_other.cases intro: same_ids_ttls mount_same update_same replies_same)
qed

text \<open>Each TTL the custom form posts is a finite number, also when its field was cleared.\<close>

lemma entry_page_ttls:
  assumes "ec_page env st" and "Request POST url (OneEntry e) \<in> set (snd (ec_handle env props arrays EC_submit st))"
  shows "new_x509_svid_ttl e \<in> range Fin \<and> new_jwt_svid_ttl e \<in> range Fin"
proof -
  have "new_x509_svid_ttl e = ec_x509_svid_ttl st \<and> new_jwt_svid_ttl e = ec_jwt_svid_ttl st"
    using assms(2)
    by (auto simp: entry_onSubmit_def Let_def getApiEntryCreateEndpoint_def cjtData_def split: if_splits)
  then show ?thesis using ec_page_ttls [OF assms(1)] by (simp add: finite_ttls_def)
qed

section \<open>The upload part and its editor\<close>

datatype up_event =
    UP_file | UP_clear | UP_select nat | UP_parent string | UP_parent_text string | UP_spiffeId string
  | UP_selectors string | UP_x509 string | UP_jwt string | UP_expires string | UP_federates string
  | UP_dns string | UP_admin bool | UP_downstream bool | UP_apply

text \<open>A field of the editor, as the change of the state it makes.\<close>

fun up_field :: "up_event \<Rightarrow> (CreateEntryJsonState \<Rightarrow> CreateEntryJsonState) option" where
  "up_field (UP_parent v) = Some (up_onChangeParentId v)"
| "up_field (UP_parent_text v) = Some (up_onChangeParentIdInput v)"
| "up_field (UP_spiffeId v) = Some (up_spiffeId_typed v)"
| "up_field (UP_selectors v) = Some (up_onChangeSelectors v)"
| "up_field (UP_x509 v) = Some (up_onChangex509Ttl v)"
| "up_field (UP_jwt v) = Some (up_onChangeJwtTtl v)"
| "up_field (UP_expires v) = Some (up_onChangeExpiresAt v)"
| "up_field (UP_federates v) = Some (up_onChangeFederatesWith (Some v))"
| "up_field (UP_dns v) = Some (up_onChangeDnsNames (Some v))"
| "up_field (UP_admin b) = Some (up_onChangeAdminFlag b)"
| "up_field (UP_downstream b) = Some (up_onChangeDownStream b)"
| "up_field _ = None"

text \<open>\<open>confirmed\<close> is the answer to the question asked before another entry is selected.\<close>

fun up_handle :: "bool \<Rightarrow> up_event \<Rightarrow> upload_world \<Rightarrow> entry_body effect list \<times> upload_world throws" where
  "up_handle confirmed UP_file w = ([], Inr (set_up (upload_reset (w_state w)) w))"
| "up_handle confirmed UP_clear w = ([], Inr (upload_onDelete w))"
| "up_handle confirmed (UP_select i) w = ([], select_entry confirmed i w)"
| "up_handle confirmed UP_apply w = applyEditToEntry w"
| "up_handle confirmed ev w =
     ([], Inr (set_up (case up_field ev of None \<Rightarrow> w_state w | Some f \<Rightarrow> f (w_state w)) w))"

definition up_loaded_text :: "nat \<Rightarrow> string" where
  "up_loaded_text n =
     nat_toString n @
     (if n = 0 then '' Entries Loaded/ No Entries Found in File''
      else if n = 1 then '' Entry Loaded from File'' else '' Entries Loaded from File'')"

definition up_links :: "upload_view \<Rightarrow> (unit, up_event) widget list" where
  "up_links v =
     map (\<lambda>(i, sid, _). Press (nat_toString (i + 1) @ ''. '' @ template sid) (UP_select i))
       (enumerate 0 (entry_links v))"

definition up_editor_ids :: "string list \<Rightarrow> CreateEntryJsonState \<Rightarrow> (unit, up_event) widget list" where
  "up_editor_ids parents st =
     [if up_entrySelected st then Choice ''Parent ID - [*optional Selection]'' parents None UP_parent
      else Disabled ''Parent ID'',
      TextField ''PARENT ID [*required]'' (Some (up_parentId st)) UP_parent_text,
      TextField ''SPIFFE ID [*required]'' (Some (up_spiffeId st)) UP_spiffeId,
      Area (up_selectorsList st) UP_selectors]"

definition up_editor_advanced :: "CreateEntryJsonState \<Rightarrow> (unit, up_event) widget list" where
  "up_editor_advanced st =
     [NumberField ''x509 Time to Leave (Ttl)'' (As_number (up_x509_svid_ttl st)) UP_x509,
      NumberField ''JWT Time to Leave (Ttl)'' (As_number (up_jwt_svid_ttl st)) UP_jwt,
      NumberField ''Expires At'' (As_number (up_expiresAt st)) UP_expires,
      TextField ''Federates With'' (Some (up_federatesWith st)) UP_federates,
      TextField ''DNS Names'' (Some (up_dnsNames st)) UP_dns,
      Tick ''Admin Flag'' (up_adminFlag st) UP_admin,
      Tick ''Down Stream'' (up_downstream st) UP_downstream]"

definition up_render ::
  "string list \<Rightarrow> (EntriesList list \<Rightarrow> string) \<Rightarrow> upload_world \<Rightarrow> (unit, up_event) widget list"
where
  "up_render parents json w =
     (let st = w_state w; v = upload_render st in
      only_if (parse_error_shown v)
        [Notice Failure ''New Entry JSON Format Notification'' ''Invalid JSON Format/ JSON File Empty.''] @
      [FileField ''Upload file'' (\<lambda>_. UP_file), Press ''Clear file'' UP_clear] @
      (case loaded_notice v of None \<Rightarrow> []
       | Some n \<Rightarrow> [Notice Info ''Entries Upload Notification'' (up_loaded_text n)]) @
      only_if (editor_shown v)
        ([Shown (json (w_arrays w (up_uploadedEntries st)))] @ up_links v @
         up_editor_ids parents st @ up_editor_advanced st @ [Press ''Step 3. Apply'' UP_apply]))"

inductive up_other :: "bool \<Rightarrow> upload_world \<Rightarrow> upload_world \<Rightarrow> bool" where
  loaded: "up_other c w (fst (upload_loaded confirmed parsed w))"
| updated: "up_other c w (upload_componentDidUpdate b w)"
| dispatched: "up_other c w (w\<lparr>w_root := dispatch (w_root w) a\<rparr>)"

text \<open>The world after an event; a handler that throws leaves nothing to go on with.\<close>

definition up_after :: "bool \<Rightarrow> up_event \<Rightarrow> upload_world \<Rightarrow> upload_world" where
  "up_after confirmed ev w = (case snd (up_handle confirmed ev w) of Inl _ \<Rightarrow> w | Inr w' \<Rightarrow> w')"

definition up_page :: "string list \<Rightarrow> (EntriesList list \<Rightarrow> string) \<Rightarrow> upload_world \<Rightarrow> upload_world \<Rightarrow> bool" where
  "up_page parents json = page_reach (\<lambda>_. True) (\<lambda>_. up_render parents json) up_after up_other"

lemma up_page_reach:
  assumes "up_page parents json w0 w" and "upload_start w0"
  shows "upload_reach w"
  using assms(1) unfolding up_page_def
proof (rule page_invariant)
  show "upload_reach w0" using assms(2) by (rule upload_reach.initial)
next
  fix w c ev
  assume r: "upload_reach w"
  show "upload_reach (up_after c ev w)"
  proof (cases "snd (up_handle c ev w)")
    case (Inl e)
    then show ?thesis using r by (simp add: up_after_def)
  next
    case (Inr w')
    then have "upload_reach w'"
    proof (cases ev)
      case UP_apply
      then show ?thesis using r Inr by (cases "applyEditToEntry w") (auto intro: upload_reach.apply_edit)
    next
      case UP_file
      then show ?thesis using r Inr by (auto intro: upload_reach.reset)
    next
      case UP_clear
      then show ?thesis using r Inr by (auto intro: upload_reach.delete)
    next
      case (UP_select i)
      then show ?thesis using r Inr by (auto intro: upload_reach.select)
    qed (use Inr in \<open>auto intro!: upload_reach.edit_field [OF r]\<close>)
    then show ?thesis using Inr by (simp add: up_after_def)
  qed
next
  fix w c w'
  assume "upload_reach w" "up_other c w w'"
  then show "upload_reach w'"
    by (auto elim!: up_other.cases intro: upload_reach.loaded upload_reach.props_update
        upload_reach.other_dispatch)
qed

lemma up_select_offered:
  assumes "page_offers (up_render parents json w) (UP_select i)"
  shows "i < length (up_newEntriesIds (w_state w))"
proof -
  have "page_offers (up_links (upload_render (w_state w))) (UP_select i)"
    using assms by (auto simp: up_render_def up_editor_ids_def up_editor_advanced_def Let_def
        split: option.splits if_splits)
  then show ?thesis
    by (auto simp: page_offers_def up_links_def upload_render_def Let_def in_set_enumerate_eq
        split: if_splits)
qed

text \<open>C4. Every link of the editor leads to its entry: on every page a user can reach, the entries listed
  are in step with the uploaded array, so a click on a link never throws and, unless the user
  stays with the entry being edited, selects the entry with that position in the array.\<close>

theorem editor_links_safe:
  assumes "up_page parents json w0 w" and "upload_start w0"
    and "page_offers (up_render parents json w) (UP_select i)"
  shows "i < length (w_arrays w (up_uploadedEntries (w_state w))) \<and>
    length (up_newEntriesIds (w_state w)) = length (w_arrays w (up_uploadedEntries (w_state w))) \<and>
    (\<exists>w'. up_handle confirmed (UP_select i) w = ([], Inr w') \<and>
      (if up_entrySelected (w_state w) \<and> confirmed then w' = w
       else up_selectedEntryId (w_state w') = int i \<and>
         up_newEntrySelected (w_state w') = w_arrays w (up_uploadedEntries (w_state w)) ! i))"
proof -
  have step: "in_step w" using reach_in_step up_page_reach [OF assms(1,2)] by blast
  have i: "i < length (up_newEntriesIds (w_state w))" by (rule up_select_offered [OF assms(3)])
  then show ?thesis
    using step by (auto simp: in_step_def select_entry_def setSelectedEntriesIds_def Let_def)
qed

definition page1 :: upload_world where
  "page1 = fst (upload_loaded False (EntriesArray [entry1]) (set_up (upload_reset (w_state world0)) world0))"

lemma start0: "upload_start world0"
  by (simp add: upload_start_def world0_def exI [of _ "Suc 0"])

lemma page1_reached: "up_page [] (\<lambda>_. []) world0 page1"
proof -
  have "page_offers (up_render [] (\<lambda>_. []) world0) UP_file"
    by (simp add: up_render_def Let_def)
  then have "up_page [] (\<lambda>_. []) world0 (up_after False UP_file world0)"
    unfolding up_page_def by (intro page_reach.user page_reach.start) simp_all
  then have "up_page [] (\<lambda>_. []) world0
      (fst (upload_loaded False (EntriesArray [entry1]) (up_after False UP_file world0)))"
    unfolding up_page_def by (rule page_reach.change [where p = False]) (simp_all add: up_other.loaded)
  then show ?thesis by (simp add: page1_def up_after_def)
qed

lemma page1_link: "page_offers (up_render [] (\<lambda>_. []) page1) (UP_select 0)"
proof -
  have id1: "mapE uploaded_id [entry1] = Inr [Some ''spiffe://td/w1'']"
    by (simp add: uploaded_id_def getEntrySpiffeid_def entry1_def work1_def entry_of_def id_of_def
        render_id_def checkSpiffeidValidity_def charAt0_def slice_last_def)
  then have "editor_shown (upload_render (w_state page1))" "up_newEntriesIds (w_state page1) = [Some ''spiffe://td/w1'']"
    by (simp_all add: page1_def upload_loaded_def alloc_def Let_def setSelectedEntriesIds_def world0_def
        upload_initial_def upload_reset_def upload_render_def del: mapE.simps)
  then show ?thesis
    by (simp add: up_render_def up_links_def upload_render_def Let_def)
qed

lemma editor_links_safe_witness:
  "length (up_newEntriesIds (w_state page1)) = length (w_arrays page1 (up_uploadedEntries (w_state page1))) \<and>
   (\<exists>w'. up_handle False (UP_select 0) page1 = ([], Inr w') \<and> up_selectedEntryId (w_state w') = int 0)"
  using editor_links_safe [OF page1_reached start0 page1_link, of False] by auto

end
