(* ===== verification/Updates.thy ===== *)
theory Updates
  imports ClusterPages ServerPages EntryPages
begin

text \<open>
  The updates that follow one another: \<open>componentDidUpdate\<close> of the forms calls \<open>setState\<close> or
  dispatches, which brings the next update. Here every such cascade is shown to end. A call that turns out to
  change nothing is counted as a change, so the cascades are at least as long as React's. The
  store's objects are compared by identity, which is a parameter (\<open>differ\<close>, \<open>changes\<close>).
\<close>

section \<open>Forms that follow the selected server and the lists\<close>






section \<open>The entry form\<close>



section \<open>The expiry field\<close>


section \<open>Every cascade ends\<close>





end
