(* ===== verification/ManagerMode.thy ===== *)
theory ManagerMode
  imports StoreProps DetailsPage ServerProps Health AccessProps EntryOffers Tables ClusterProps FederationForms
begin

text \<open>
  The front end in manager mode as a whole: what its pages do when they are mounted or updated and
  what the replies to their requests write into the store. Only local mode asks SPIRE for the debug
  information of the server, so a manager keeps the one the store starts with, on which the entry
  form relies.
\<close>

section \<open>What the pages do\<close>


section \<open>What the replies do\<close>


section \<open>The debug information stays\<close>

text \<open>Effects that do not write the debug information.\<close>

definition quiet :: "'b effect list \<Rightarrow> bool" where
  "quiet fx \<longleftrightarrow> list_all (\<lambda>a. read_globalDebugServerInfo a = None) (dispatched fx)"

lemma quiet_simps [simp]:
  "quiet []" "quiet (xs @ ys) \<longleftrightarrow> quiet xs \<and> quiet ys"
  "quiet (Request m u b # xs) \<longleftrightarrow> quiet xs" "quiet (Toast t # xs) \<longleftrightarrow> quiet xs"
  "quiet (do_dispatch as) \<longleftrightarrow> list_all (\<lambda>a. read_globalDebugServerInfo a = None) as"
  by (simp_all add: quiet_def do_dispatch_def)

lemma calls_quiet [simp]:
  "quiet (populateAgentsUpdate env s)" "quiet (populateEntriesUpdate env s)"
  "quiet (populateClustersUpdate env s)" "quiet (populateLocalFederationsUpdate env)"
  "quiet (populateTornjakServerInfo env s)" "quiet (populateTornjakAgentInfo env s b)"
  "quiet (refreshSelectorsState env s)" "quiet (registerSelectors env s i p)" "quiet (populateServers env)"
  by (simp_all add: populateAgentsUpdate_def populateEntriesUpdate_def populateClustersUpdate_def
      populateLocalFederationsUpdate_def populateTornjakServerInfo_def populateTornjakAgentInfo_def
      refreshSelectorsState_def registerSelectors_def populateServers_def)

lemma info_quiet [dest]:
  "populateServerInfo info = Inr acts \<Longrightarrow> list_all (\<lambda>a. read_globalDebugServerInfo a = None) acts"
  by (auto simp: populateServerInfo_def serverInfoUpdateFunc_def Let_def split: jsval.splits option.splits list.splits)

lemma health_quiet [simp]: "quiet (spireHealthCheck env)"
  by (simp add: spireHealthCheck_def spireHealthCheckingFunc_def)












end
