(* ===== verification/ListPages.thy ===== *)
theory ListPages
  imports TableProps Page
begin

text \<open>
  The pages of the lists as they are shown (agent-list, entry-list, cluster-list, federation-list, and
  tables/: list-table, table-head, table-body, table-toolbar, with the headers of each table). The
  carbon DataTable hands the callbacks denormalized rows: the cells of a row in the order of the headers,
  each with the value the row has under the header's key. The code finds a cell by its number; the
  other theories name the field.
\<close>

section \<open>Headers and cells\<close>

text \<open>A header is its text and its key. A cell of a key the row lacks, or has as \<open>undefined\<close>, is None.\<close>

type_synonym headers = "(string \<times> string) list"

definition agent_headers :: headers where
  "agent_headers =
     [(''#No'', ''id''), (''Trust Domain'', ''trustdomain''), (''SPIFFE ID'', ''spiffeid''), (''Info'', ''info''),
      (''Workload Attestor Plugin'', ''plugin'')]"

definition entry_headers :: headers where
  "entry_headers =
     [(''#No'', ''idx''), (''Id'', ''id''), (''SPIFFE ID'', ''spiffeid''), (''Parent ID'', ''parentid''),
      (''Selectors'', ''selectors''), (''Info'', ''info''), (''Expiry Status'', ''expired'')]"

definition cluster_headers :: headers where
  "cluster_headers =
     [(''#No'', ''id''), (''Cluster Name'', ''clusterName''), (''Cluster Type'', ''clusterType''),
      (''Cluster Managed By'', ''clusterManagedBy''), (''Cluster Domain Name'', ''clusterDomainName''),
      (''Assigned Agents'', ''clusterAssignedAgents'')]"

definition server_headers :: headers where
  "server_headers =
     [(''#No'', ''id''), (''Server Name'', ''serverName''), (''Server Address'', ''serverAddress''),
      (''TLS'', ''tls''), (''mTLS'', ''mtls'')]"

definition federation_headers :: headers where
  "federation_headers =
     [(''#No'', ''id''), (''Trust Domain'', ''federationTrustDomain''),
      (''Bundle Endpoint URL'', ''federationBundleUrl''),
      (''Bundle Endpoint Profile'', ''federationBundleProfile''), (''Info'', ''info'')]"

definition agent_field :: "agent_table_row \<Rightarrow> string \<Rightarrow> string option" where
  "agent_field r key =
     Option.bind (map_of
       [(''id'', Some (at_id r)), (''trustdomain'', at_trustdomain r), (''spiffeid'', Some (at_spiffeid r)),
        (''info'', Some (at_info r)), (''plugin'', Some (at_plugin r))] key) id"

definition entry_field :: "entry_table_row \<Rightarrow> string \<Rightarrow> string option" where
  "entry_field r = map_of
     [(''idx'', et_idx r), (''id'', et_id r), (''spiffeid'', et_spiffeid r), (''parentid'', et_parentid r),
      (''selectors'', et_selectors r), (''info'', et_info r), (''expired'', et_expired r)]"

definition cluster_field :: "cluster_table_row \<Rightarrow> string \<Rightarrow> string option" where
  "cluster_field r = map_of
     [(''id'', ct_id r), (''clusterName'', ct_name r), (''clusterType'', ct_type r),
      (''clusterManagedBy'', ct_managedBy r), (''clusterDomainName'', ct_domainName r),
      (''clusterAssignedAgents'', ct_agents r)]"

definition server_field :: "server_table_row \<Rightarrow> string \<Rightarrow> string option" where
  "server_field r = map_of
     [(''id'', st_id r), (''serverName'', st_name r), (''serverAddress'', st_address r),
      (''tls'', st_tls r), (''mtls'', st_mtls r)]"

definition federation_field :: "federation_table_row \<Rightarrow> string \<Rightarrow> string option" where
  "federation_field r = map_of
     [(''id'', ft_id r), (''federationTrustDomain'', ft_trustDomain r), (''federationBundleUrl'', ft_bundleUrl r),
      (''federationBundleProfile'', ft_bundleProfile r), (''info'', ft_info r)]"

text \<open>A denormalized row: for each header its key and the value.\<close>

type_synonym cells = "(string \<times> string option) list"

definition cells_of :: "headers \<Rightarrow> (string \<Rightarrow> string option) \<Rightarrow> cells" where
  "cells_of hs field = map (\<lambda>(_, key). (key, field key)) hs"

text \<open>\<open>row.cells[k].value\<close>\<close>

definition cell_at :: "nat \<Rightarrow> cells \<Rightarrow> string option throws" where
  "cell_at k cs = (if k < length cs then Inr (snd (cs ! k)) else Inl TypeError)"

text \<open>A method of the value, which throws when there is none.\<close>

definition text_at :: "nat \<Rightarrow> cells \<Rightarrow> string throws" where
  "text_at k cs = bindE (cell_at k cs) (\<lambda>v. case v of None \<Rightarrow> Inl TypeError | Some t \<Rightarrow> Inr t)"

lemmas table_fields = agent_headers_def entry_headers_def cluster_headers_def server_headers_def
  federation_headers_def agent_field_def entry_field_def cluster_field_def server_field_def
  federation_field_def cells_of_def cell_at_def text_at_def

section \<open>What the actions read\<close>

text \<open>agents-list-table.tsx, deleteAgent and banAgent: the id from cells 1 and 2.\<close>

definition agent_ref_of_cells :: "cells \<Rightarrow> agent_ref throws" where
  "agent_ref_of_cells cs =
     bindE (text_at 2 cs) (\<lambda>spiffeid. bindE (text_at 1 cs) (\<lambda>td.
       Inr \<lparr>ref_trust_domain = td, ref_path = substr spiffeid (length (td @ ''spiffe://''))\<rparr>))"

text \<open>The id of an entry is its cell 1, its text for the export cell 5; the names of clusters and servers are
  cell 1; the dialog of the workload attestor gets cell 2.\<close>

definition entry_id_of_cells :: "cells \<Rightarrow> string throws" where
  "entry_id_of_cells = text_at 1"

definition export_of_cells :: "cells \<Rightarrow> string throws" where
  "export_of_cells = text_at 5"

definition name_of_cells :: "cells \<Rightarrow> string throws" where
  "name_of_cells = text_at 1"

definition attestor_of_cells :: "cells \<Rightarrow> string throws" where
  "attestor_of_cells = text_at 2"

text \<open>The numbers of the cells agree with the headers: what a deletion, a ban, an export and the dialog
  of the workload attestor take from the numbered cells of a row is the field of the row they
  mean: the agent's id, the entry's id and text, the cluster's or server's name, the agent's SPIFFE id.\<close>

lemma actions_read_right_cells:
  "agent_ref_of_cells (cells_of agent_headers (agent_field a)) = agent_ref_of a \<and>
   attestor_of_cells (cells_of agent_headers (agent_field a)) = Inr (at_spiffeid a) \<and>
   entry_id_of_cells (cells_of entry_headers (entry_field e)) = Inr (et_id e) \<and>
   export_of_cells (cells_of entry_headers (entry_field e)) = Inr (et_info e) \<and>
   name_of_cells (cells_of cluster_headers (cluster_field c)) = Inr (ct_name c) \<and>
   name_of_cells (cells_of server_headers (server_field s)) = Inr (st_name s)"
  by (intro conjI)
    (simp_all add: table_fields agent_ref_of_cells_def agent_ref_of_def attestor_of_cells_def
      entry_id_of_cells_def export_of_cells_def name_of_cells_def split: option.split)

text \<open>Every header has a value in the rows of its table, except the trust domain an agent may lack.\<close>

lemma cells_filled:
  "list_all (\<lambda>(k, v). v \<noteq> None) (cells_of entry_headers (entry_field e))"
  "list_all (\<lambda>(k, v). v \<noteq> None) (cells_of cluster_headers (cluster_field c))"
  "list_all (\<lambda>(k, v). v \<noteq> None) (cells_of server_headers (server_field s))"
  "list_all (\<lambda>(k, v). v \<noteq> None) (cells_of federation_headers (federation_field f))"
  "list_all (\<lambda>(k, v). v = None \<longrightarrow> k = ''trustdomain'') (cells_of agent_headers (agent_field a))"
  by (simp_all add: table_fields)

section \<open>The table\<close>

text \<open>How table-body.tsx shows a cell: in a box that scrolls, in red, or as it is.\<close>

datatype shown_cell = Boxed "string option" | Red "string option" | As_is "string option"

definition shown_cell_of :: "string \<times> string option \<Rightarrow> shown_cell" where
  "shown_cell_of c =
     (case c of (header, v) \<Rightarrow>
        if header = ''info'' then Boxed v
        else if header = ''expired'' then (if v = Some ''Expired'' then Red v else As_is v)
        else As_is v)"

record table_view =
  tv_toolbar :: "table_action list"
  tv_head :: "string list"
  tv_body :: "(shown_cell list \<times> bool) list"
  tv_total :: nat

definition Head :: "headers \<Rightarrow> string list" where
  "Head hs = map fst hs"

text \<open>A row ends with the dialog of the workload attestor for those who may use it.\<close>

definition Body_rows ::
  "app_env \<Rightarrow> string list jsval \<Rightarrow> table_kind \<Rightarrow> cells list \<Rightarrow> (shown_cell list \<times> bool) list throws"
where
  "Body_rows env roles k rows =
     mapE (\<lambda>cs. bindE (row_shows_attestor env roles k) (\<lambda>att. Inr (map shown_cell_of cs, att))) rows"

definition ToolBar :: "app_env \<Rightarrow> string list jsval \<Rightarrow> table_kind \<Rightarrow> table_action list throws" where
  "ToolBar env roles k = filterE (toolbar_shows env roles k) [Delete_action, Download_action, Ban_action]"

text \<open>\<open>rows\<close> are those the DataTable passes on, after its search and sorting.\<close>

definition DataTableRender ::
  "app_env \<Rightarrow> string list jsval \<Rightarrow> table_kind \<Rightarrow> headers \<Rightarrow> page_state \<Rightarrow> cells list \<Rightarrow> table_view throws"
where
  "DataTableRender env roles k hs st rows =
     bindE (ToolBar env roles k) (\<lambda>acts.
     bindE (Body_rows env roles k (page_rows st rows)) (\<lambda>body.
       Inr \<lparr>tv_toolbar = acts, tv_head = Head hs, tv_body = body, tv_total = length rows\<rparr>))"

lemma body_rows_length: "Body_rows env roles k rows = Inr body \<Longrightarrow> length body = length rows"
  by (induction rows arbitrary: body) (auto simp: Body_rows_def elim!: bindE_InrE)

text \<open>The table shows no more rows than the size of its page.\<close>

lemma page_bounded:
  assumes "DataTableRender env roles k hs st rows = Inr v" and "page st \<noteq> 0"
  shows "length (tv_body v) \<le> pageSize st \<and> tv_total v = length rows"
proof -
  obtain p where p: "page st = Suc p" using assms(2) by (cases "page st") auto
  from assms(1) have "length (tv_body v) = length (page_rows st rows)" "tv_total v = length rows"
    by (auto simp: DataTableRender_def dest: body_rows_length elim!: bindE_InrE)
  then show ?thesis by (simp add: page_rows_def p min_def le_diff_conv)
qed

section \<open>The pages\<close>

text \<open>\<open>globalErrorMessage !== "OK" &&\<close> a box with the message; an error object cannot be rendered.\<close>

definition list_message :: "tornjak_message \<Rightarrow> string option throws" where
  "list_message m =
     (case m of
        Message s \<Rightarrow> Inr (if s \<noteq> ''OK'' then Some s else None)
      | ErrorObject _ \<Rightarrow> Inl TypeError
      | NoMessage \<Rightarrow> Inr (Some []))"

text \<open>What a page shows: its title, the message if any, and the data its table is given.\<close>

type_synonym 'x list_page = "string \<times> string option \<times> 'x"

definition list_page_render :: "string \<Rightarrow> RootState \<Rightarrow> 'x throws \<Rightarrow> 'x list_page throws" where
  "list_page_render title props list =
     bindE (list_message (globalErrorMessage (st_tornjak props))) (\<lambda>m.
     bindE list (\<lambda>data. Inr (title, m, data)))"

definition agent_list_render :: "RootState \<Rightarrow> AgentsList table_data list_page throws" where
  "agent_list_render props = list_page_render ''Agents List'' props (Inr (agentList props))"

definition entry_list_render :: "RootState \<Rightarrow> EntriesList table_data list_page throws" where
  "entry_list_render props = list_page_render ''Entries List'' props (entryList props)"

definition cluster_list_render :: "RootState \<Rightarrow> (string \<times> ClustersList) list option list_page throws" where
  "cluster_list_render props = list_page_render ''Clusters List'' props (clusterList props)"

definition federation_list_render :: "RootState \<Rightarrow> FederationsList list option list_page throws" where
  "federation_list_render props = list_page_render ''Federations List'' props (federationList props)"

lemma failed_load_dispatched:
  "dispatched (populateAgentsUpdate_done env server (Rejected e)) =
     [GLOBAL_AGENTS_LIST (Val []), GLOBAL_MESSAGE (retrieving server (err_message e))]"
  "dispatched (populateEntriesUpdate_done env server (Rejected e)) =
     [GLOBAL_ENTRIES_LIST (Val []), GLOBAL_MESSAGE (retrieving server
        (err_string e @ (case err_response e of None \<Rightarrow> [] | Some (d, _) \<Rightarrow> CHR '':'' # d)))]"
  by (simp_all add: populateAgentsUpdate_done_def populateEntriesUpdate_done_def do_dispatch_def
      agentsListUpdateFunc_def entriesListUpdateFunc_def tornjakMessageFunc_def toast_error_def)

text \<open>C26. When the lists of a newly selected server cannot be loaded, both pages show the error, but the agents
  page shows it above the rows it had: the failure stores an empty list, for which the page
  gives its table no data, and the table keeps its rows, those of the server selected before. The
  table of entries is emptied.\<close>

theorem failed_load_keeps_agent_rows:
  "let p = dispatches props (dispatched (populateAgentsUpdate_done env server (Rejected e)));
       q = dispatches props (dispatched (populateEntriesUpdate_done env server (Rejected e)))
   in agent_list_render p = Inr (''Agents List'', Some (''Error retrieving '' @ server @ '' : '' @ err_message e), agentList p) \<and>
      prepareTableData (agent_table_row_of js infos) (agentList p) old = Inr old \<and>
      entry_list_render q = Inr (''Entries List'', Some (''Error retrieving '' @ server @ '' : '' @ err_string e @
        (case err_response e of None \<Rightarrow> [] | Some (d, _) \<Rightarrow> CHR '':'' # d)), Rows []) \<and>
      prepareTableData (entry_table_row_of now js') (Rows []) old' = Inr []"
  by (simp add: failed_load_dispatched dispatches_def agent_list_render_def entry_list_render_def
      list_page_render_def list_message_def retrieving_def agentList_def entryList_def prepareTableData_def
      prepare_rows_def globalErrorMessage_cell.get_dispatch globalAgentsList_cell.get_dispatch
      globalEntriesList_cell.get_dispatch Let_def)

end
