(* ===== verification/Shell.thy ===== *)
theory Shell
  imports AccessProps DetailsPage Page
begin

text \<open>
  What surrounds the pages: the branding and start of the document (index.tsx, reportWebVitals.js), the sidebar and its
  drop-downs as they open and close (navbar.tsx, NavDropdown.tsx), the toolbar of the header
  (navbar-header-toolbar.tsx), and the small parts the dashboard is drawn with: the cell that
  unfolds (dashboard/render-cell-expand.tsx), the chart's options (charts/PieChart.tsx), titles and
  columns. The browser's URL parser is a parameter.
\<close>

section \<open>Branding\<close>

text \<open>\<open>icon_href\<close> is None in a document without a link to an icon.\<close>

record document =
  doc_title :: string
  icon_href :: "string option"

record parsed_url =
  url_protocol :: string
  url_href :: string

definition favicon_ok :: "parsed_url \<Rightarrow> bool" where
  "favicon_ok u \<longleftrightarrow> url_protocol u = ''http:'' \<or> url_protocol u = ''https:''"

text \<open>The parser resolves the value against the page's origin; None is a malformed value. The flag is
  the warning on the console.\<close>

definition applyBranding ::
  "(string \<Rightarrow> parsed_url option) \<Rightarrow> string option \<Rightarrow> string option \<Rightarrow> document \<Rightarrow> document \<times> bool"
where
  "applyBranding parse title favicon doc =
     (let doc1 = (if truthy title then doc\<lparr>doc_title := the title\<rparr> else doc) in
      if truthy favicon then
        (case parse (the favicon) of
           None \<Rightarrow> (doc1, True)
         | Some u \<Rightarrow>
             (if favicon_ok u then doc1\<lparr>icon_href := map_option (\<lambda>_. url_href u) (icon_href doc1)\<rparr> else doc1,
              False))
      else (doc1, False))"

text \<open>The document is branded before the application starts, which a malformed value does not prevent.\<close>

definition boot ::
  "(string \<Rightarrow> parsed_url option) \<Rightarrow> app_env \<Rightarrow> string option \<Rightarrow> string option \<Rightarrow> bool option \<Rightarrow> document
     \<Rightarrow> document \<times> start_action"
where
  "boot parse env title favicon authenticated doc =
     (fst (applyBranding parse title favicon doc), start_app env authenticated)"

text \<open>reportWebVitals.js: the measurements a function is registered for; the start passes none.\<close>

datatype web_vital = CLS | FID | FCP | LCP | TTFB

definition reportWebVitals :: "bool \<Rightarrow> web_vital list" where
  "reportWebVitals onPerfEntry_is_function =
     (if onPerfEntry_is_function then [CLS, FID, FCP, LCP, TTFB] else [])"

text \<open>Branding replaces the icon only by an address of the web: with a parser whose addresses begin with
  their protocol, a configured \<open>javascript:\<close> or \<open>data:\<close> text never becomes the icon, and whatever is
  configured, the application starts as without it.\<close>

lemma branding_icon:
  assumes "\<And>v u. parse v = Some u \<Longrightarrow> startsWith (url_href u) (url_protocol u)"
    and "boot parse env title favicon auth doc = (doc', act)"
  shows "act = start_app env auth \<and>
    (icon_href doc' = icon_href doc \<or>
     (\<exists>h. icon_href doc' = Some h \<and> (startsWith h ''http:'' \<or> startsWith h ''https:'')))"
  using assms(1) assms(2)
  by (fastforce simp: boot_def applyBranding_def Let_def favicon_ok_def split: option.splits if_splits)

section \<open>The sidebar\<close>

text \<open>Closing the sidebar unmounts its drop-downs, so they are closed when it is opened again.\<close>

record nav_state =
  sidebarOpen :: bool
  dropdowns_open :: "bool list"

datatype nav_event = ToggleSidebar | ToggleDropdown nat

definition closed_dropdowns :: "bool list" where
  "closed_dropdowns = map (\<lambda>_. False) sidebar_subLinks"

definition nav_initial :: nav_state where
  "nav_initial = \<lparr>sidebarOpen = True, dropdowns_open = closed_dropdowns\<rparr>"

fun nav_step :: "nav_event \<Rightarrow> nav_state \<Rightarrow> nav_state" where
  "nav_step ToggleSidebar st =
     st\<lparr>sidebarOpen := toggle (sidebarOpen st), dropdowns_open := closed_dropdowns\<rparr>"
| "nav_step (ToggleDropdown i) st =
     (if sidebarOpen st \<and> i < length (dropdowns_open st)
      then st\<lparr>dropdowns_open := (dropdowns_open st)[i := toggle (dropdowns_open st ! i)]\<rparr> else st)"

definition dropdown_titles :: "(string \<times> string) list" where
  "dropdown_titles =
     [(''Clusters'', ''/clusters''), (''Agents'', ''/agents''), (''Entries'', ''/entries''),
      (''Federations'', ''/federations'')]"

text \<open>The headers above the links: administrators behind authentication, and managers.\<close>

definition portal_headers :: "app_env \<Rightarrow> bool \<Rightarrow> string list" where
  "portal_headers env isAdmin =
     (if truthy (REACT_APP_AUTH_SERVER_URI env) \<and> isAdmin then [''ADMIN PORTAL''] else []) @
     (if IsManager env then [''MANAGER PORTAL''] else [])"

text \<open>The links shown at the moment. The expanded sidebar also shows the identifier of the server, which
  can throw.\<close>

definition nav_links :: "app_env \<Rightarrow> RootState \<Rightarrow> nav_state \<Rightarrow> string list throws" where
  "nav_links env props st =
     (let roles = globalUserRoles (st_auth props) in
      if sidebarOpen st then
        bindE (checkRolesAdminUser roles) (\<lambda>admin.
        bindE (server_identifier props) (\<lambda>_. Inr (
          [''/''] @ (if IsManager env then [''/server/manage''] else []) @
          concat (map (\<lambda>((t, l), isOpen, ls). l # map sl_to
              (NavDropdown isOpen (truthy admin) (truthy (REACT_APP_AUTH_SERVER_URI env)) ls))
            (zip dropdown_titles (zip (dropdowns_open st) sidebar_subLinks))) @
          [''/tornjak/serverinfo'', ''/tornjak/dashboard''])))
      else collapsed_links env roles)"

definition nav_run :: "nav_event list \<Rightarrow> nav_state" where
  "nav_run evs = foldl (\<lambda>st ev. nav_step ev st) nav_initial evs"

lemma nav_run_length: "length (dropdowns_open (nav_run evs)) = length sidebar_subLinks"
proof (induction evs rule: rev_induct)
  case Nil
  then show ?case by (simp add: nav_run_def nav_initial_def closed_dropdowns_def)
next
  case (snoc ev evs)
  then show ?case by (cases ev) (simp_all add: nav_run_def closed_dropdowns_def)
qed

section \<open>The toolbar of the header\<close>

datatype toolbar_event = User_logout | Placeholder_click

definition placeholder_text :: string where
  "placeholder_text = ''This is a place holder, functionality to be implemented on future work!''"

definition HeaderToolBar :: "app_env \<Rightarrow> string option \<Rightarrow> string \<Rightarrow> (unit, toolbar_event) widget list" where
  "HeaderToolBar env token firstName =
     only_if (truthy (REACT_APP_AUTH_SERVER_URI env))
       (Child ''User'' # only_if (isLoggedIn token) [Press (''Logout '' @ firstName) User_logout]) @
     [Press ''Notifications'' Placeholder_click, Press ''Search'' Placeholder_click]"

text \<open>Logging out is Keycloak's; the others only say that they do nothing yet.\<close>

fun toolbar_handle :: "toolbar_event \<Rightarrow> 'b effect list" where
  "toolbar_handle User_logout = []"
| "toolbar_handle Placeholder_click = [Alert placeholder_text]"

lemma logout_offered:
  "page_offers (HeaderToolBar env token n) User_logout \<longleftrightarrow>
     truthy (REACT_APP_AUTH_SERVER_URI env) \<and> isLoggedIn token"
  by (auto simp: HeaderToolBar_def)

text \<open>Whatever is opened and closed, a user who is not an administrator is shown no link to a page of
  administrators' when there is authentication.\<close>

lemma restricted_links_hidden:
  assumes "truthy (REACT_APP_AUTH_SERVER_URI env)"
    and "checkRolesAdminUser (globalUserRoles (st_auth props)) = Inr role" and "\<not> truthy role"
    and "nav_links env props (nav_run evs) = Inr links"
  shows "set links \<inter> set pathsWithAdminRestr = {}"
proof (cases "sidebarOpen (nav_run evs)")
  case False
  then show ?thesis
    using assms by (auto simp: nav_links_def collapsed_links_def pathsWithAdminRestr_def)
next
  case True
  have len: "length (dropdowns_open (nav_run evs)) = 4"
    using nav_run_length [of evs] by (simp add: sidebar_subLinks_def)
  then obtain a b c d where "dropdowns_open (nav_run evs) = [a, b, c, d]"
    by (auto simp: length_Suc_conv numeral_eq_Suc)
  then show ?thesis
    using True assms
    by (auto simp: nav_links_def bindE_eq_Inr sidebar_subLinks_def dropdown_titles_def NavDropdown_def
        plain_link_def admin_link_def pathsWithAdminRestr_def split: if_splits)
qed

section \<open>A cell that unfolds\<close>

text \<open>
  The state of GridCellExpand: whether the cell overflowed when the mouse last entered, whether the anchor is
  set, whether the full cell is shown, and how many listeners for keys the effect has installed and
  not removed.
\<close>

record cell_state =
  showPopper :: bool
  anchored :: bool
  showFullCell :: bool
  key_listeners :: nat

definition cell_initial :: cell_state where
  "cell_initial = \<lparr>showPopper = False, anchored = False, showFullCell = False, key_listeners = 0\<rparr>"

text \<open>What a mouse event measures: None without the element, else the two sizes of the content and the room.\<close>

record cell_size =
  scrollHeight :: nat
  clientHeight :: nat
  scrollWidth :: nat
  clientWidth :: nat

datatype cell_event = MouseEnter "cell_size option" | MouseLeave | KeyDown string

definition overflown :: "cell_size \<Rightarrow> bool" where
  "overflown z \<longleftrightarrow> scrollHeight z > clientHeight z \<or> scrollWidth z > clientWidth z"

fun cell_handle :: "cell_event \<Rightarrow> cell_state \<Rightarrow> cell_state" where
  "cell_handle (MouseEnter None) st = st"
| "cell_handle (MouseEnter (Some z)) st =
     st\<lparr>showPopper := overflown z, anchored := True, showFullCell := True\<rparr>"
| "cell_handle MouseLeave st = st\<lparr>showFullCell := False\<rparr>"
| "cell_handle (KeyDown key) st =
     (if key_listeners st > 0 \<and> (key = ''Escape'' \<or> key = ''Esc'') then st\<lparr>showFullCell := False\<rparr> else st)"

text \<open>The effect runs again when \<open>showFullCell\<close> has changed: first the cleanup of the earlier run, which
  exists if the full cell was shown then, then the new run.\<close>

definition cell_effect :: "bool \<Rightarrow> cell_state \<Rightarrow> cell_state" where
  "cell_effect was st =
     (if was = showFullCell st then st
      else (let n = (if was then key_listeners st - 1 else key_listeners st) in
            st\<lparr>key_listeners := (if showFullCell st then n + 1 else n)\<rparr>))"

definition cell_step :: "cell_event \<Rightarrow> cell_state \<Rightarrow> cell_state" where
  "cell_step ev st = cell_effect (showFullCell st) (cell_handle ev st)"

definition cell_run :: "cell_event list \<Rightarrow> cell_state" where
  "cell_run evs = foldl (\<lambda>st ev. cell_step ev st) cell_initial evs"

definition popper_open :: "cell_state \<Rightarrow> bool" where
  "popper_open st \<longleftrightarrow> showPopper st \<and> showFullCell st \<and> anchored st"

definition cell_closed :: "cell_state \<Rightarrow> bool" where
  "cell_closed st \<longleftrightarrow> \<not> popper_open st \<and> key_listeners st = 0"

text \<open>\<open>params.value ? params.value.toString() : ''\<close>: the number zero is shown as an empty cell.\<close>

datatype cell_value = Missing_value | Number_value jsnum | Text_value string | Bool_value bool

definition renderCellExpand :: "(jsnum \<Rightarrow> string) \<Rightarrow> cell_value \<Rightarrow> string" where
  "renderCellExpand num_text v =
     (case v of
        Missing_value \<Rightarrow> []
      | Number_value n \<Rightarrow> if n = NaN \<or> n = Fin 0 then [] else num_text n
      | Text_value s \<Rightarrow> s
      | Bool_value b \<Rightarrow> if b then ''true'' else [])"

lemma cell_run_snoc: "cell_run (evs @ [ev]) = cell_step ev (cell_run evs)"
  by (simp add: cell_run_def)

text \<open>One listener for keys is installed exactly while the full cell is shown.\<close>

lemma one_listener: "key_listeners (cell_run evs) = (if showFullCell (cell_run evs) then 1 else 0)"
proof (induction evs rule: rev_induct)
  case Nil
  then show ?case by (simp add: cell_run_def cell_initial_def)
next
  case (snoc ev evs)
  then show ?case
    by (cases "(ev, cell_run evs)" rule: cell_handle.cases)
      (simp_all add: cell_run_snoc cell_step_def cell_effect_def Let_def)
qed

text \<open>The unfolding cell cleans up after itself: after any sequence of mouse movements and keys, exactly
  one key listener is installed while the full cell is shown and none otherwise; the text pops up
  only over a cell that overflowed when the mouse entered it last; and leaving the cell or pressing
  Escape closes it and leaves no listener behind.\<close>

lemma cell_cleans_up:
  "key_listeners (cell_run evs) = (if showFullCell (cell_run evs) then 1 else 0) \<and>
   popper_open (cell_run (evs @ [MouseEnter (Some z)])) = overflown z \<and>
   cell_closed (cell_run (evs @ [MouseLeave])) \<and> cell_closed (cell_run (evs @ [KeyDown ''Escape''])) \<and>
   cell_closed (cell_run (evs @ [KeyDown ''Esc'']))"
  using one_listener [of evs]
  by (auto simp: cell_run_snoc cell_step_def cell_effect_def popper_open_def cell_closed_def Let_def)

section \<open>Charts, titles and columns\<close>

text \<open>charts/PieChart.tsx: the options are made once, when the chart is mounted; the heading is the title
  at the moment.\<close>

record pie_options =
  po_title :: string
  po_resizable :: bool
  po_height :: string
  po_legend_position :: string
  po_truncation :: "string \<times> nat \<times> nat"
  po_alignment :: string

definition pie_constructor :: "string \<Rightarrow> pie_options" where
  "pie_constructor title =
     \<lparr>po_title = title, po_resizable = True, po_height = ''300px'', po_legend_position = ''right'',
      po_truncation = (''mid_line'', 15, 12), po_alignment = ''center''\<rparr>"

definition pie_render ::
  "pie_options \<Rightarrow> PieChartEntry list \<Rightarrow> string \<Rightarrow> string \<times> PieChartEntry list \<times> pie_options"
where
  "pie_render options data title = (title, data, options)"

definition Title :: "string \<Rightarrow> (unit, unit) widget list" where
  "Title children = [Heading children]"

text \<open>The columns of the dashboard's tables: field and header.\<close>

definition agents_columns :: "(string \<times> string) list" where
  "agents_columns =
     [(''spiffeid'', ''Name''), (''clusterName'', ''Cluster Name''), (''numEntries'', ''Number of Entries''),
      (''status'', ''Status''), (''platformType'', ''Platform Type'')]"

definition entries_columns :: "(string \<times> string) list" where
  "entries_columns =
     [(''id'', ''ID''), (''spiffeid'', ''Name''), (''parentId'', ''Parent ID''), (''clusterName'', ''Cluster Name''),
      (''entryExpireTime'', ''Entry Expire Time''), (''expiryStatus'', ''Status''),
      (''platformType'', ''Platform Type''), (''adminFlag'', ''Admin Flag'')]"

definition clusters_columns :: "(string \<times> string) list" where
  "clusters_columns =
     [(''name'', ''Name''), (''created'', ''Created''), (''numNodes'', ''Number Of Nodes''),
      (''numEntries'', ''Number of Entries'')]"

text \<open>The fields of the rows, by the names the columns use.\<close>

definition agent_cell :: "agent_row \<Rightarrow> string \<rightharpoonup> cell_value" where
  "agent_cell r = map_of
     [(''id'', Text_value (ar_id r)), (''spiffeid'', Text_value (ar_spiffeid r)),
      (''numEntries'', Number_value (Fin (of_nat (ar_numEntries r)))), (''status'', Text_value (ar_status r)),
      (''platformType'', Text_value (ar_platformType r)), (''clusterName'', Text_value (ar_clusterName r))]"

definition entry_cell :: "entry_row \<Rightarrow> string \<rightharpoonup> cell_value" where
  "entry_cell r = map_of
     [(''id'', Text_value (er_id r)), (''spiffeid'', Text_value (er_spiffeid r)),
      (''parentId'', Text_value (er_parentId r)), (''adminFlag'', Bool_value (er_adminFlag r)),
      (''entryExpireTime'', Text_value (er_entryExpireTime r)), (''expiryStatus'', Text_value (er_expiryStatus r)),
      (''platformType'', Text_value (er_platformType r)), (''clusterName'', Text_value (er_clusterName r)),
      (''canonicalAgentId'', Text_value (er_canonicalAgentId r))]"

definition cluster_cell :: "cluster_row \<Rightarrow> string \<rightharpoonup> cell_value" where
  "cluster_cell r = map_of
     [(''id'', Text_value (cr_id r)), (''name'', Text_value (cr_name r)), (''created'', Text_value (cr_created r)),
      (''numNodes'', Number_value (Fin (of_nat (cr_numNodes r)))),
      (''numEntries'', Number_value (Fin (of_nat (cr_numEntries r))))]"

text \<open>Every column shows a field its rows have.\<close>

lemma columns_have_fields:
  "fst ` set agents_columns \<subseteq> dom (agent_cell a)" "fst ` set entries_columns \<subseteq> dom (entry_cell e)"
  "fst ` set clusters_columns \<subseteq> dom (cluster_cell c)"
  by (simp_all add: agents_columns_def agent_cell_def entries_columns_def entry_cell_def
      clusters_columns_def cluster_cell_def)

section \<open>The page of those who have no access\<close>

definition AccessNotAllowed :: "(unit, unit) widget list" where
  "AccessNotAllowed = [Heading ''Access is not allowed!'']"

end
