(* ===== verification/DashboardPages.thy ===== *)
theory DashboardPages
  imports Shell
begin

text \<open>
  The dashboard as it is shown: a table with its title, link and grid (table/dashboard-table.tsx and the
  three tables that use it), the charts, the whole dashboard, the text of a details page, what the
  titles on it do (dashboard-details.js), and the tabs of the drawer (dashboard-drawer.js).
\<close>

section \<open>Tables\<close>

text \<open>The grid gets the rows and the columns; a cell is None when a row has no such field.\<close>

record grid_view =
  gv_title :: string
  gv_details :: "string option"
  gv_columns :: "(string \<times> string) list"
  gv_cells :: "cell_value option list list"

definition TableDashboard ::
  "string \<Rightarrow> (string \<times> string) list \<Rightarrow> ('r \<Rightarrow> string \<rightharpoonup> cell_value) \<Rightarrow> string \<Rightarrow> string \<Rightarrow> 'r list \<Rightarrow> grid_view"
where
  "TableDashboard title columns cell selectedRows search data =
     \<lparr>gv_title = title, gv_details = detailsLink selectedRows title search, gv_columns = columns,
      gv_cells = map (\<lambda>r. map (\<lambda>(field, _). cell r field) columns) data\<rparr>"

text \<open>The three tables. The rows selected are those of the table's own state.\<close>

definition AgentDashboardTable ::
  "int \<Rightarrow> dash_filter \<Rightarrow> string \<Rightarrow> string \<Rightarrow> RootState \<Rightarrow> grid_view throws"
where
  "AgentDashboardTable now flt selectedRows search props =
     bindE (dash_agentList now flt props)
       (\<lambda>data. Inr (TableDashboard ''Agents'' agents_columns agent_cell selectedRows search data))"

definition EntriesDashBoardTable ::
  "int \<Rightarrow> (jsnum \<Rightarrow> string) \<Rightarrow> dash_filter \<Rightarrow> string \<Rightarrow> string \<Rightarrow> RootState \<Rightarrow> grid_view throws"
where
  "EntriesDashBoardTable now date_text flt selectedRows search props =
     bindE (dash_entryList now date_text flt props)
       (\<lambda>data. Inr (TableDashboard ''Entries'' entries_columns entry_cell selectedRows search data))"

definition ClusterDashboardTable ::
  "string option \<Rightarrow> string \<Rightarrow> string \<Rightarrow> RootState \<Rightarrow> grid_view throws"
where
  "ClusterDashboardTable name selectedRows search props =
     bindE (dash_clusterList \<lparr>filterByCluster = name, filterByAgentId = None\<rparr> props)
       (\<lambda>data. Inr (TableDashboard ''Clusters'' clusters_columns cluster_cell selectedRows search data))"

definition dash_table_render ::
  "int \<Rightarrow> (jsnum \<Rightarrow> string) \<Rightarrow> string \<Rightarrow> string \<Rightarrow> RootState \<Rightarrow> dash_table \<Rightarrow> grid_view throws"
where
  "dash_table_render now date_text selectedRows search props t =
     (case t of
        ClustersTable name \<Rightarrow> ClusterDashboardTable name selectedRows search props
      | AgentsTable flt \<Rightarrow> AgentDashboardTable now flt selectedRows search props
      | EntriesTable flt \<Rightarrow> EntriesDashBoardTable now date_text flt selectedRows search props)"

text \<open>Every cell of every table has a value.\<close>

lemma cells_have_values:
  assumes "dash_table_render now date_text selectedRows search props t = Inr v"
  shows "list_all (list_all (\<lambda>c. c \<noteq> None)) (gv_cells v)"
  using assms
  by (cases t) (auto simp: dash_table_render_def ClusterDashboardTable_def AgentDashboardTable_def
      EntriesDashBoardTable_def TableDashboard_def list_all_iff agents_columns_def agent_cell_def
      entries_columns_def entry_cell_def clusters_columns_def cluster_cell_def elim!: bindE_InrE)

section \<open>Charts\<close>

datatype chart_view = NoData_text string | Chart "string \<times> PieChartEntry list \<times> pie_options"

definition chart_render :: "string \<Rightarrow> PieChartEntry list \<Rightarrow> chart_view" where
  "chart_render title groups =
     (if groups = [] then NoData_text ''No Data To Display''
      else Chart (pie_render (pie_constructor title) groups title))"

definition AgentsPieChart :: "RootState \<Rightarrow> chart_view throws" where
  "AgentsPieChart props =
     bindE (pie_agentList props) (\<lambda>groups. Inr (chart_render ''Number of Workloads per Agent'' groups))"

definition ClustersPieChart :: "RootState \<Rightarrow> chart_view throws" where
  "ClustersPieChart props =
     bindE (pie_clusterList props) (\<lambda>sections. Inr (chart_render ''Number of Agents per Cluster'' sections))"

text \<open>The whole dashboard; each table keeps its own selection.\<close>

datatype part_view = Chart_part chart_view | Grid_part grid_view

definition dashboard_render ::
  "int \<Rightarrow> (jsnum \<Rightarrow> string) \<Rightarrow> (dash_table \<Rightarrow> string) \<Rightarrow> string \<Rightarrow> RootState \<Rightarrow> part_view list throws"
where
  "dashboard_render now date_text selectedRows search props =
     mapE (\<lambda>p. case p of
         ClustersChart \<Rightarrow> bindE (ClustersPieChart props) (\<lambda>c. Inr (Chart_part c))
       | AgentsChart \<Rightarrow> bindE (AgentsPieChart props) (\<lambda>c. Inr (Chart_part c))
       | TablePart t \<Rightarrow> bindE (dash_table_render now date_text (selectedRows t) search props t)
           (\<lambda>g. Inr (Grid_part g)))
       (dashboard_parts (globalClickedDashboardTable (st_tornjak props)))"

section \<open>The text of a details page\<close>

text \<open>A property of the selected data, whatever the data is of; the text React renders for it.\<close>

definition data_field :: "selected_data \<Rightarrow> string \<rightharpoonup> cell_value" where
  "data_field d =
     (case d of
        NoData \<Rightarrow> Map.empty
      | ClusterData r \<Rightarrow> cluster_cell r
      | AgentData r \<Rightarrow> agent_cell r
      | EntryData r \<Rightarrow> entry_cell r)"

definition shown_field :: "(jsnum \<Rightarrow> string) \<Rightarrow> cell_value option \<Rightarrow> string" where
  "shown_field num_text v =
     (case v of Some (Text_value t) \<Rightarrow> t | Some (Number_value n) \<Rightarrow> num_text n | _ \<Rightarrow> [])"

text \<open>Labels and values. Whether it is a page of a cluster, an agent or an entry is decided by the clicked
  table, not by the data: \<open>adminFlag.toString()\<close> throws for data without a flag.\<close>

definition details_metadata ::
  "(jsnum \<Rightarrow> string) \<Rightarrow> string \<Rightarrow> selected_data \<Rightarrow> (string \<times> string) list throws"
where
  "details_metadata num_text clicked d =
     (let f = (\<lambda>key. shown_field num_text (data_field d key)) in
      if d = NoData then Inr []
      else if clicked = ''clustersdetails'' then Inr
        [(''Cluster Name'', f ''name''), (''Created'', f ''created''), (''Number of Nodes'', f ''numNodes''),
         (''Number of Entries'', f ''numEntries'')]
      else if clicked = ''agentsdetails'' then Inr
        [(''Agent Name'', f ''spiffeid''), (''Belongs to Cluster'', f ''clusterName''), (''Status'', f ''status''),
         (''Platform Type'', f ''platformType''), (''Number of Entries'', f ''numEntries'')]
      else if clicked = ''entriesdetails'' then
        (case data_field d ''adminFlag'' of
           Some (Bool_value b) \<Rightarrow> Inr
             [(''Entry ID'', f ''id''), (''Entry Name'', f ''spiffeid''), (''Parent ID'', f ''parentId''),
              (''Belongs to Cluster'', f ''clusterName''), (''Platform Type'', f ''platformType''),
              (''Is Admin'', if b then ''TRUE'' else ''FALSE''), (''Entry Expire Time'', f ''entryExpireTime'')]
         | _ \<Rightarrow> Inl TypeError)
      else Inr [])"

text \<open>So the page of an agent or a cluster throws while the clicked table is still that of an entry's
  page, which only the button of a table sets; with the entry's own data it does not.\<close>

lemma stale_kind_throws:
  "details_metadata nt ''entriesdetails'' (AgentData a) = Inl TypeError"
  "details_metadata nt ''entriesdetails'' (ClusterData c) = Inl TypeError"
  "\<not> isl (details_metadata nt ''entriesdetails'' (EntryData e))"
  "details_metadata nt ''agentsdetails'' (AgentData a) =
     Inr [(''Agent Name'', ar_spiffeid a), (''Belongs to Cluster'', ar_clusterName a), (''Status'', ar_status a),
       (''Platform Type'', ar_platformType a), (''Number of Entries'', nt (Fin (of_nat (ar_numEntries a))))]"
  by (simp_all add: details_metadata_def data_field_def shown_field_def agent_cell_def cluster_cell_def
      entry_cell_def)

section \<open>The titles of a details page\<close>

fun table_title :: "dash_table \<Rightarrow> string" where
  "table_title (ClustersTable _) = ''Clusters''"
| "table_title (AgentsTable _) = ''Agents''"
| "table_title (EntriesTable _) = ''Entries''"

text \<open>No row is named by the filter of the table in the other way: an agent's id is no cluster's name.\<close>

definition keeps_apart :: "int \<Rightarrow> (jsnum \<Rightarrow> string) \<Rightarrow> RootState \<Rightarrow> dash_table \<Rightarrow> bool" where
  "keeps_apart now date_text props T \<longleftrightarrow>
     (case T of
        ClustersTable _ \<Rightarrow> True
      | AgentsTable flt \<Rightarrow>
          (case dash_agentList now unfiltered props of
             Inl _ \<Rightarrow> True
           | Inr rows \<Rightarrow> filterByCluster flt \<notin> Some ` ar_id ` set rows \<and>
               filterByAgentId flt \<notin> Some ` ar_clusterName ` set rows)
      | EntriesTable flt \<Rightarrow>
          (case dash_entryList now date_text unfiltered props of
             Inl _ \<Rightarrow> True
           | Inr rows \<Rightarrow> filterByCluster flt \<notin> Some ` (er_parentId ` set rows \<union> er_canonicalAgentId ` set rows) \<and>
               filterByAgentId flt \<notin> Some ` er_clusterName ` set rows))"

text \<open>A list filtered after it was computed, by a test that two filters agree on.\<close>

lemma filtered_agree:
  assumes "\<And>rows. all = Inr rows \<Longrightarrow> (\<forall>r \<in> set rows. P r = Q r)"
  shows "bindE all (\<lambda>rows. Inr (filter P rows) :: 'e + 'r list) = bindE all (\<lambda>rows. Inr (filter Q rows))"
  using assms by (cases all) (auto intro: filter_cong)

lemma filter_unless: "(if b then xs else filter P xs) = filter (\<lambda>x. b \<or> P x) xs"
  by simp

lemma agents_filtered:
  "dash_agentList now flt props =
     bindE (dash_agentList now unfiltered props)
       (\<lambda>rows. Inr (filter (\<lambda>r. (filterByCluster flt = None \<and> filterByAgentId flt = None) \<or>
         filterByCluster flt = Some (ar_clusterName r) \<or> filterByAgentId flt = Some (ar_id r)) rows))"
  by (cases "globalAgentsList (st_agents props)") (simp_all add: dash_agentList_def Let_def bindE_assoc filter_unless del: agent_row_of_def)

lemma entries_filtered:
  "dash_entryList now date_text flt props =
     bindE (dash_entryList now date_text unfiltered props)
       (\<lambda>rows. Inr (filter (\<lambda>r. (filterByCluster flt = None \<and> filterByAgentId flt = None) \<or>
         filterByCluster flt = Some (er_clusterName r) \<or> filterByAgentId flt = Some (er_parentId r) \<or>
         filterByAgentId flt = Some (er_canonicalAgentId r)) rows))"
  by (cases "globalEntriesList (st_entries props)") (simp_all add: dash_entryList_def Let_def bindE_assoc filter_unless del: entry_row_of_def)

text \<open>Filtering by a value in both ways is filtering by it in the one way that was meant.\<close>

definition both_ways :: "string option \<Rightarrow> dash_filter" where
  "both_ways v = \<lparr>filterByCluster = v, filterByAgentId = v\<rparr>"

lemma agents_both_ways:
  assumes "keeps_apart now date_text props (AgentsTable flt)"
    and "flt = \<lparr>filterByCluster = v, filterByAgentId = None\<rparr> \<or> flt = \<lparr>filterByCluster = None, filterByAgentId = v\<rparr>"
  shows "dash_agentList now (both_ways v) props = dash_agentList now flt props"
  unfolding agents_filtered [of now "both_ways v"] agents_filtered [of now flt]
  by (rule filtered_agree) (use assms in \<open>auto simp: keeps_apart_def both_ways_def image_iff\<close>)

lemma entries_both_ways:
  assumes "keeps_apart now date_text props (EntriesTable flt)"
    and "flt = \<lparr>filterByCluster = v, filterByAgentId = None\<rparr> \<or> flt = \<lparr>filterByCluster = None, filterByAgentId = v\<rparr>"
  shows "dash_entryList now date_text (both_ways v) props = dash_entryList now date_text flt props"
  unfolding entries_filtered [of now _ "both_ways v"] entries_filtered [of now _ flt]
  by (rule filtered_agree) (use assms in \<open>auto simp: keeps_apart_def both_ways_def image_iff\<close>)

lemma both_ways_grid:
  assumes "keeps_apart now date_text props T"
    and "T = AgentsTable flt \<and> T' = AgentsTable (both_ways v) \<or> T = EntriesTable flt \<and> T' = EntriesTable (both_ways v) \<or> T' = T"
    and "flt = \<lparr>filterByCluster = v, filterByAgentId = None\<rparr> \<or> flt = \<lparr>filterByCluster = None, filterByAgentId = v\<rparr>"
  shows "dash_table_render now date_text sel search props T' = dash_table_render now date_text sel search props T"
  using assms agents_both_ways [of now date_text props flt v] entries_both_ways [of now date_text props flt v]
  by (auto simp: dash_table_render_def AgentDashboardTable_def EntriesDashBoardTable_def)

text \<open>What a title does on a page of details opened as such.\<close>

definition title_click :: "string \<Rightarrow> selected_data \<Rightarrow> string \<Rightarrow> string \<times> selected_data \<times> DashboardDetails" where
  "title_click kind d title =
     details_step (Click (toLowerCase title)) (kind, d, details_constructor kind d)"

definition page_tables :: "string \<times> selected_data \<times> DashboardDetails \<Rightarrow> dash_table list" where
  "page_tables s = (case s of (clicked, d, st) \<Rightarrow> details_render clicked d st)"

lemmas details_kinds = page_tables_def title_click_def details_render_def details_constructor_def
  details_tables_def cluster_details_def agent_details_def entry_details_def whole_tables_def
  details_componentDidUpdate_def selectedDataKey_def no_key_def both_ways_def titles

lemma title_zooms:
  assumes "kind \<in> {''clustersdetails'', ''agentsdetails'', ''entriesdetails''}"
    and "T \<in> set (page_tables (kind, d, details_constructor kind d))"
  shows "\<exists>T' flt v. page_tables (title_click kind d (table_title T)) = [T'] \<and> table_title T' = table_title T \<and>
    (T = AgentsTable flt \<and> T' = AgentsTable (both_ways v) \<or>
     T = EntriesTable flt \<and> T' = EntriesTable (both_ways v) \<or> T' = T) \<and>
    (flt = \<lparr>filterByCluster = v, filterByAgentId = None\<rparr> \<or> flt = \<lparr>filterByCluster = None, filterByAgentId = v\<rparr>)"
  using assms by (auto simp: details_kinds split: if_splits)

text \<open>C11. On the page of a cluster, an agent or an entry, the title of either of its tables leaves that table
  alone on the page with the same rows, columns and cells, provided no cluster is named like the
  agent the rows are chosen by, or the other way round: although the table is then filtered by that
  text in both ways. But as soon as the page gets new data its filters are worked out for the title,
  and the table is that of everything.\<close>

theorem title_keeps_rows:
  assumes "kind \<in> {''clustersdetails'', ''agentsdetails'', ''entriesdetails''}"
    and "T \<in> set (page_tables (kind, d, details_constructor kind d))"
    and "keeps_apart now date_text props T" and "d' \<noteq> NoData"
  shows "(\<exists>T'. page_tables (title_click kind d (table_title T)) = [T'] \<and> table_title T' = table_title T \<and>
      dash_table_render now date_text [] search props T' = dash_table_render now date_text [] search props T) \<and>
    (\<exists>T'. page_tables (details_step (New_data d') (title_click kind d (table_title T))) = [T'] \<and>
      T' \<in> {ClustersTable None, AgentsTable unfiltered, EntriesTable unfiltered})"
proof
  show "\<exists>T'. page_tables (title_click kind d (table_title T)) = [T'] \<and> table_title T' = table_title T \<and>
      dash_table_render now date_text [] search props T' = dash_table_render now date_text [] search props T"
    using title_zooms [OF assms(1,2)] both_ways_grid [OF assms(3)] by blast
  show "\<exists>T'. page_tables (details_step (New_data d') (title_click kind d (table_title T))) = [T'] \<and>
      T' \<in> {ClustersTable None, AgentsTable unfiltered, EntriesTable unfiltered}"
    using assms(4) by (cases T) (simp_all add: details_kinds)
qed

definition shown_agent :: agent_row where
  "shown_agent = projr (getDashboardAgentMetaData 0 agent1 [node1, work1] (Val []))"

definition agents_entries :: dash_table where
  "agents_entries = EntriesTable \<lparr>filterByCluster = None, filterByAgentId = Some ''spiffe://td/a1''\<rparr>"

lemma title_keeps_rows_witness:
  "(\<exists>T'. page_tables (title_click ''agentsdetails'' (AgentData shown_agent) (table_title agents_entries)) = [T'] \<and>
      table_title T' = table_title agents_entries \<and>
      dash_table_render 0 (\<lambda>_. []) [] [] page_props T' = dash_table_render 0 (\<lambda>_. []) [] [] page_props agents_entries) \<and>
    (\<exists>T'. page_tables (details_step (New_data (AgentData shown_agent))
        (title_click ''agentsdetails'' (AgentData shown_agent) (table_title agents_entries))) = [T'] \<and>
      T' \<in> {ClustersTable None, AgentsTable unfiltered, EntriesTable unfiltered})"
proof (rule title_keeps_rows)
  show "agents_entries \<in> set (page_tables (''agentsdetails'', AgentData shown_agent,
      details_constructor ''agentsdetails'' (AgentData shown_agent)))"
    by code_simp
  show "keeps_apart 0 (\<lambda>_. []) page_props agents_entries"
    by code_simp
qed simp_all

section \<open>The tabs of the drawer\<close>

datatype drawer_event = Tab_click string nat

definition drawer_render :: "nat \<Rightarrow> nat \<times> (string \<times> drawer_event) list" where
  "drawer_render selectedTab =
     (selectedTab,
      [(''Dashboard'', Tab_click ''dashboard'' 0), (''Clusters'', Tab_click ''clusters'' 1),
       (''Agents'', Tab_click ''agents'' 2), (''Entries'', Tab_click ''entries'' 3)])"

text \<open>From another page a click on a tab loads the dashboard's address, whose drawer starts on the first
  tab, while the clicked table is remembered: the chosen table is shown under the tab Dashboard.\<close>

lemma drawer_tab_lost:
  assumes "href \<noteq> origin @ ''/tornjak/dashboard''"
  shows "assignDashboardPath ''clusters'' 1 href origin =
      (1, [Dispatch (GLOBAL_CLICKED_DASHBOARD_TABLE ''clusters'')], Some ''/tornjak/dashboard'') \<and>
    drawer_tab ''/tornjak/dashboard'' = 0 \<and>
    dashboard_parts ''clusters'' = [TablePart (ClustersTable None)]"
proof -
  have "drawer_tab ''/tornjak/dashboard'' = 0" by code_simp
  then show ?thesis
    using assms by (simp add: assignDashboardPath_def clickedDashboardTableFunc_def do_dispatch_def dashboard_parts_def)
qed

end
