(* ===== verification/FederationPages.thy ===== *)
theory FederationPages
  imports FederationForms Page Backend
begin

text \<open>
  The two pages around federations as pages of controls: federation-create.tsx (upload, choose, edit,
  submit) and trustbundle-create.tsx (fetch and download), over the handlers of theory
  FederationForms.
\<close>

section \<open>Creating federations\<close>

text \<open>A file event carries what the reader gives: the text, or None when it fails.\<close>

datatype fc_event =
    FC_file "string option" | FC_clear | FC_select nat | FC_endpoint string | FC_apply | FC_submit

fun fc_handle ::
  "app_env \<Rightarrow> (string \<Rightarrow> fed_file option) \<Rightarrow> bool \<Rightarrow> fc_event \<Rightarrow> FederationCreateState
     \<Rightarrow> FederationCreateState throws \<times> fed_file effect list"
where
  "fc_handle env parse confirmed (FC_file r) st = map_prod Inr id (handleFileUpload parse r st)"
| "fc_handle env parse confirmed FC_clear st = (Inr (fc_onDelete st), [])"
| "fc_handle env parse confirmed (FC_select i) st = (Inr (setSelectedFederation confirmed i st), [])"
| "fc_handle env parse confirmed (FC_endpoint v) st = (Inr (fc_onChangeEndpoint v st), [])"
| "fc_handle env parse confirmed FC_apply st = applyEditToFederation st"
| "fc_handle env parse confirmed FC_submit st = map_prod Inr id (fc_onSubmit env st)"

definition fc_notification :: "FederationCreateState \<Rightarrow> (string option, fc_event) widget list" where
  "fc_notification st =
     (let v = federation_render st in
      only_if (fc_statusOK st \<noteq> [])
        (only_if (fv_created v) [Shown ''--FEDERATION SUCCESSFULLY CREATED--''] @
         only_if (fv_failed v) [Shown ''--FEDERATION CREATION FAILED--''] @
         [Notice (if fv_kind_info v then Info else Failure) ''Federation Creation Notification'' (fc_message st)]))"

definition fc_loaded_text :: "nat \<Rightarrow> string" where
  "fc_loaded_text n =
     (if n = 1 then ''1 Federation Loaded from File'' else nat_toString n @ '' Federations Loaded from File'')"

definition fc_links :: "FederationCreateState \<Rightarrow> (string option, fc_event) widget list" where
  "fc_links st =
     map (\<lambda>(i, text0, _). Press text0 (FC_select i)) (enumerate 0 (fv_links (federation_render st)))"

definition fc_endpoint_field :: "FederationCreateState \<Rightarrow> (string option, fc_event) widget" where
  "fc_endpoint_field st =
     (if fv_endpoint_enabled (federation_render st)
      then TextField ''Exposed Bundle Endpoint URL [*required]'' (Some (fc_exposedBundleEndpoint st)) FC_endpoint
      else Disabled ''Exposed Bundle Endpoint URL [*required]'')"

definition fc_editor ::
  "(fed_file \<Rightarrow> string) \<Rightarrow> FederationCreateState \<Rightarrow> (string option, fc_event) widget list"
where
  "fc_editor json st =
     only_if (fc_federationLoaded st)
       ([Notice Info ''Federations Upload Notification''
           (case fv_loaded (federation_render st) of None \<Rightarrow> [] | Some n \<Rightarrow> fc_loaded_text n),
         ReadOnlyArea (json (fc_uploadedFederation st))] @
        fc_links st @ [fc_endpoint_field st, Press ''Step 3. Apply'' FC_apply])"

definition fc_submit_button :: "FederationCreateState \<Rightarrow> (string option, fc_event) widget list" where
  "fc_submit_button st =
     (if fv_submit_enabled (federation_render st) then [Press ''Create Federation'' FC_submit]
      else [Disabled ''Create Federation'', Shown ''(Upload JSON File to Enable)'']) @
     only_if (fv_loading (federation_render st)) [Notice Info ''Loading...'' ''Uploading federation JSON...'']"

definition fc_render ::
  "(fed_file \<Rightarrow> string) \<Rightarrow> FederationCreateState \<Rightarrow> (string option, fc_event) widget list"
where
  "fc_render json st =
     [Heading ''Create Federation''] @ fc_notification st @
     [FileField ''Upload file'' FC_file, Press ''Clear file'' FC_clear] @
     fc_editor json st @ fc_submit_button st"

lemma fc_link_offers [simp]:
  "page_offers (fc_links st) h \<longleftrightarrow>
     fc_federationLoaded st \<and> (\<exists>i < length (fc_newFederationsIds st). h = FC_select i)"
proof -
  have "page_offers (map (\<lambda>(i, text0, _). Press text0 (FC_select i)) (enumerate 0 xs)) h \<longleftrightarrow>
      (\<exists>i < length xs. h = FC_select i)" for xs :: "(string \<times> bool) list"
    by (fastforce simp: page_offers_def in_set_enumerate_eq split: prod.splits)
  note this [simp]
  show ?thesis
    by (simp add: fc_links_def federation_render_def Let_def)
qed

lemma fc_part_offers [simp]:
  "\<not> page_offers (fc_notification st) h"
  "page_offers (fc_submit_button st) h \<longleftrightarrow> \<not> nothing_loaded (fc_uploadedFederation st) \<and> h = FC_submit"
  "offers (fc_endpoint_field st) h \<longleftrightarrow> fc_federationSelected st \<and> (\<exists>v. h = FC_endpoint v)"
  by (simp_all add: fc_notification_def fc_submit_button_def fc_endpoint_field_def federation_render_def Let_def)
    blast?

lemma fc_offers:
  "page_offers (fc_render json st) FC_submit \<longleftrightarrow> \<not> nothing_loaded (fc_uploadedFederation st)"
  "page_offers (fc_render json st) FC_apply \<longleftrightarrow> fc_federationLoaded st"
  "page_offers (fc_render json st) (FC_select i) \<longleftrightarrow>
     fc_federationLoaded st \<and> i < length (fc_newFederationsIds st)"
  by (auto simp: fc_render_def fc_editor_def)

definition fc_after ::
  "app_env \<Rightarrow> (string \<Rightarrow> fed_file option) \<Rightarrow> bool \<Rightarrow> fc_event \<Rightarrow> FederationCreateState \<Rightarrow> FederationCreateState"
where
  "fc_after env parse confirmed ev st =
     (case fst (fc_handle env parse confirmed ev st) of Inl _ \<Rightarrow> st | Inr st' \<Rightarrow> st')"

inductive fc_other :: "bool \<Rightarrow> FederationCreateState \<Rightarrow> FederationCreateState \<Rightarrow> bool" where
  reply: "fc_other c st (fst (fc_onSubmit_done text0 err_first out st))"

definition fc_page ::
  "app_env \<Rightarrow> (string \<Rightarrow> fed_file option) \<Rightarrow> (fed_file \<Rightarrow> string) \<Rightarrow> FederationCreateState \<Rightarrow> bool"
where
  "fc_page env parse json =
     page_reach (\<lambda>_. True) (\<lambda>_. fc_render json) (fc_after env parse) fc_other federation_create_initial"

section \<open>What an edit leaves\<close>

text \<open>A federation, and a file, with the endpoint of each first relationship left out.\<close>

definition without_endpoint :: "Federation \<Rightarrow> Federation" where
  "without_endpoint f =
     (case federation_relationships f of
        Some (r # rs) \<Rightarrow> f\<lparr>federation_relationships := Some (r\<lparr>rel_bundle_endpoint_url := None\<rparr> # rs)\<rparr>
      | _ \<Rightarrow> f)"

fun without_endpoints :: "fed_file \<Rightarrow> fed_file" where
  "without_endpoints (OneFed f) = OneFed (map_option without_endpoint f)"
| "without_endpoints (ManyFeds fs) = ManyFeds (map (map_option without_endpoint) fs)"

lemma without_set_endpoint [simp]: "without_endpoint (set_endpoint url f) = without_endpoint f"
  by (auto simp: without_endpoint_def set_endpoint_def split: option.split list.split)

lemma fed_id_without [simp]: "fed_id (map_option without_endpoint f) = fed_id f"
  by (auto simp: fed_id_def without_endpoint_def split: option.split list.split)

lemma fed_ids_without [simp]: "fed_ids (without_endpoints fl) = fed_ids fl"
  by (cases fl) (simp_all add: fed_ids_def mapE_of_map)

lemma jsonData_without: "without_endpoints (fed_jsonData fl) = fed_jsonData (without_endpoints fl)"
  by (cases fl) (auto simp: fed_jsonData_def split: list.split)

lemma without_same_ids: "without_endpoints a = without_endpoints b \<Longrightarrow> fed_ids a = fed_ids b"
  by (metis fed_ids_without)

lemma some_fed_present: "fed_ids (ManyFeds fs) = Inr ids \<Longrightarrow> f \<in> set fs \<Longrightarrow> f \<noteq> None"
  by (induction fs arbitrary: ids) (auto simp: fed_ids_def fed_id_def elim!: bindE_InrE split: option.splits)

lemma without_edited:
  "fs ! n = Some f \<Longrightarrow>
     map (map_option without_endpoint) (fs[n := map_option (set_endpoint u) (fs ! n)]) =
     map (map_option without_endpoint) fs"
  by (simp add: map_update) (metis list_update_beyond list_update_id map_update not_le option.simps(9))

text \<open>An edit changes endpoints only, and throws on a null element only.\<close>

lemma apply_keeps:
  assumes "fed_ids (fc_uploadedFederation st) = Inr ids"
  shows "\<exists>st'. fst (applyEditToFederation st) = Inr st' \<and>
    without_endpoints (fc_uploadedFederation st') = without_endpoints (fc_uploadedFederation st) \<and>
    fc_federationLoaded st' = fc_federationLoaded st \<and> fc_federationJson st' = fc_federationJson st \<and>
    fc_newFederationsIds st' = fc_newFederationsIds st"
proof (cases "fc_uploadedFederation st")
  case (OneFed f)
  then have "f \<noteq> None" using assms by (auto simp: fed_ids_def fed_id_def split: option.splits)
  then show ?thesis using OneFed
    by (auto simp: applyEditToFederation_def Let_def option.map_comp comp_def nth_Cons')
next
  case (ManyFeds fs)
  have *: "fs ! i \<noteq> None" if "i < length fs" for i
    using some_fed_present assms ManyFeds that nth_mem by metis
  then have "\<exists>f. fs ! i = Some f" if "i < length fs" for i
    using that by blast
  then have "map (map_option without_endpoint) (fs[nat i := map_option (set_endpoint u) (fs ! nat i)]) =
      map (map_option without_endpoint) fs" if "0 \<le> i" "i < int (length fs)" for i u
    using that without_edited [of fs "nat i"] by (metis nat_less_iff)
  then show ?thesis using ManyFeds *
    by (auto simp: applyEditToFederation_def Let_def)
qed

section \<open>Reachable pages\<close>

text \<open>
  What the page has loaded is the file it keeps the text of, up to edited endpoints, and the list
  beside it is that file's; without a file nothing is loaded.
\<close>

definition fc_inv :: "(string \<Rightarrow> fed_file option) \<Rightarrow> FederationCreateState \<Rightarrow> bool" where
  "fc_inv parse st \<longleftrightarrow>
     (if fc_federationLoaded st
      then \<exists>fl. parse (fc_federationJson st) = Some fl \<and>
        without_endpoints (fc_uploadedFederation st) = without_endpoints fl \<and>
        fed_ids fl = Inr (fc_newFederationsIds st)
      else fc_uploadedFederation st = ManyFeds [])"

lemma fc_inv_ids: "fc_inv parse st \<Longrightarrow> fc_federationLoaded st \<Longrightarrow>
    fed_ids (fc_uploadedFederation st) = Inr (fc_newFederationsIds st)"
  by (auto simp: fc_inv_def dest!: without_same_ids)

lemma fc_inv_other [simp]:
  "fc_inv parse (st\<lparr>fc_loading := b\<rparr>) = fc_inv parse st"
  "fc_inv parse (st\<lparr>fc_statusOK := t\<rparr>) = fc_inv parse st"
  "fc_inv parse (st\<lparr>fc_successJsonMessage := t\<rparr>) = fc_inv parse st"
  "fc_inv parse (st\<lparr>fc_message := t\<rparr>) = fc_inv parse st"
  "fc_inv parse (st\<lparr>fc_exposedBundleEndpoint := t\<rparr>) = fc_inv parse st"
  "fc_inv parse (st\<lparr>fc_selectedFederationId := n\<rparr>) = fc_inv parse st"
  "fc_inv parse (st\<lparr>fc_federationSelected := b\<rparr>) = fc_inv parse st"
  by (simp_all add: fc_inv_def)

lemma fc_inv_apply:
  assumes "fc_inv parse st" and "fc_federationLoaded st"
  shows "\<exists>st'. fst (applyEditToFederation st) = Inr st' \<and> fc_inv parse st'"
  using apply_keeps [OF fc_inv_ids [OF assms]] assms by (auto simp: fc_inv_def)

lemma fc_inv_loaded: "fc_inv parse st \<Longrightarrow> fc_inv parse (fst (handleFileUpload parse r st))"
  by (auto simp: handleFileUpload_def Let_def fc_inv_def split: option.split sum.split)

lemma fc_inv_handle:
  assumes "fc_inv parse st" and "page_offers (fc_render json st) ev"
  shows "fc_inv parse (fc_after env parse confirmed ev st)"
proof (cases ev)
  case (FC_file r)
  then show ?thesis using fc_inv_loaded [OF assms(1)] by (simp add: fc_after_def)
next
  case FC_clear
  then show ?thesis by (simp add: fc_after_def fc_onDelete_def fc_inv_def)
next
  case (FC_select i)
  then show ?thesis
    using assms(1) by (simp add: fc_after_def setSelectedFederation_def Let_def)
next
  case (FC_endpoint v)
  then show ?thesis using assms(1) by (simp add: fc_after_def fc_onChangeEndpoint_def)
next
  case FC_apply
  then have "fc_federationLoaded st" using assms(2) fc_offers by simp
  then show ?thesis
    using fc_inv_apply [OF assms(1)] FC_apply by (auto simp: fc_after_def)
next
  case FC_submit
  then show ?thesis using assms(1) by (simp add: fc_after_def fc_onSubmit_def)
qed

lemma fc_page_inv: "fc_page env parse json st \<Longrightarrow> fc_inv parse st"
  unfolding fc_page_def
proof (erule page_invariant)
  show "fc_inv parse federation_create_initial"
    by (simp add: fc_inv_def federation_create_initial_def)
next
  fix s c s' assume "fc_inv parse s" "fc_other c s s'"
  then show "fc_inv parse s'"
    by (auto elim!: fc_other.cases simp: fc_onSubmit_done_def Let_def split: outcome.split)
qed (rule fc_inv_handle)

section \<open>The outcome of creating\<close>

text \<open>
  The reply to the post: \<open>results\<close> as the messages of its elements (None: no such field, for the list
  and for an element). The handler reads the first one.
\<close>

type_synonym fed_results = "string option list option"

definition first_message :: "fed_results \<Rightarrow> string option" where
  "first_message rs = (case rs of Some (m # _) \<Rightarrow> m | _ \<Rightarrow> None)"

definition first_ok :: "fed_results \<Rightarrow> bool" where
  "first_ok rs \<longleftrightarrow> first_message rs \<in> {None, Some [], Some ''OK''}"

text \<open>
  The page after the reply to a post: \<open>json\<close> is the text of what it shows of it, \<open>err_results\<close> the
  results an error's response carries.
\<close>

definition fc_replied ::
  "string \<Rightarrow> fed_results \<Rightarrow> fed_results outcome \<Rightarrow> FederationCreateState \<Rightarrow> FederationCreateState"
where
  "fc_replied json err_results out st =
     fst (fc_onSubmit_done json (first_message err_results)
       (case out of Resolved status text0 rs \<Rightarrow> Resolved status text0 (first_message rs) | Rejected e \<Rightarrow> Rejected e) st)"

definition created_shown :: "FederationCreateState \<Rightarrow> bool" where
  "created_shown st \<longleftrightarrow>
     Shown ''--FEDERATION SUCCESSFULLY CREATED--'' \<in> set (fc_notification st) \<and>
     Notice Info ''Federation Creation Notification'' (fc_message st) \<in> set (fc_notification st)"

definition failure_shown :: "FederationCreateState \<Rightarrow> bool" where
  "failure_shown st \<longleftrightarrow>
     Shown ''--FEDERATION CREATION FAILED--'' \<in> set (fc_notification st) \<and>
     Notice Failure ''Federation Creation Notification'' (fc_message st) \<in> set (fc_notification st)"

lemma shown_by_status:
  "fc_statusOK st = ''OK'' \<Longrightarrow> fc_successJsonMessage st = ''OK'' \<Longrightarrow> created_shown st \<and> \<not> failure_shown st"
  "fc_statusOK st = ''ERROR'' \<Longrightarrow> failure_shown st \<and> \<not> created_shown st"
  by (simp_all add: created_shown_def failure_shown_def fc_notification_def federation_render_def Let_def)

lemma first_ok_text: "first_ok rs \<longleftrightarrow> or_text (first_message rs) ''OK'' = ''OK''"
  by (auto simp: first_ok_def or_text_def split: option.splits if_splits)

lemma fc_replied_resolved:
  "first_ok rs \<Longrightarrow> fc_statusOK (fc_replied json er (Resolved s t rs) st) = ''OK'' \<and>
     fc_successJsonMessage (fc_replied json er (Resolved s t rs) st) = ''OK''"
  "\<not> first_ok rs \<Longrightarrow> fc_statusOK (fc_replied json er (Resolved s t rs) st) = ''ERROR''"
  by (simp_all add: fc_replied_def fc_onSubmit_done_def first_ok_text Let_def)

lemma fc_replied_rejected: "fc_statusOK (fc_replied json er (Rejected e) st) = ''ERROR''"
  by (simp add: fc_replied_def fc_onSubmit_done_def)

lemma fc_replied_ends:
  "fc_loading (fc_replied json er out st) = False" "fc_message (fc_replied json er out st) = json"
  by (simp_all add: fc_replied_def fc_onSubmit_done_def Let_def split: outcome.split)

text \<open>C22. What the page says of a created file is what its first result says: for any reply, it reports
  success exactly when the first result's message is missing, empty or "OK", failure in every other
  case and for every error, with the reply beneath and the loading notice gone; the results after
  the first are not looked at, so a file of several federations counts as created when only its
  first one was.\<close>

theorem federation_outcome_shown:
  "created_shown (fc_replied json er (Resolved status text0 rs) st) = first_ok rs \<and>
   failure_shown (fc_replied json er (Resolved status text0 rs) st) = (\<not> first_ok rs) \<and>
   created_shown (fc_replied json er (Resolved status text0 (Some (Some ''OK'' # later))) st) \<and>
   failure_shown (fc_replied json er (Rejected e) st) \<and>
   \<not> created_shown (fc_replied json er (Rejected e) st) \<and>
   fc_message (fc_replied json er out st) = json \<and>
   fv_loading (federation_render (fc_replied json er out st)) = False"
proof -
  have "first_ok (Some (Some ''OK'' # later))"
    by (simp add: first_ok_def first_message_def)
  then show ?thesis
    using shown_by_status fc_replied_resolved fc_replied_rejected
    by (simp add: fc_replied_ends federation_render_def Let_def) metis
qed

section \<open>What is posted\<close>

text \<open>C10. Whatever is done on the page (files loaded, refused and cleared, selections, edits applied or
  not, replies coming in), pressing Create posts, to the federations endpoint, the very content of
  the file whose text the page keeps, as read by JSON.parse and unwrapped when it has one element,
  with nothing but first endpoints changed; the list to edit from names that file's trust domains, and
  applying an edit does not throw.\<close>

theorem posted_federation_is_uploaded:
  assumes "fc_page env parse json st"
    and "Request POST url body \<in> set (snd (fc_handle env parse c FC_submit st))"
  shows "url = fed_endpoint env \<and>
    (\<exists>fl. parse (fc_federationJson st) = Some fl \<and>
      without_endpoints body = without_endpoints (fed_jsonData fl) \<and>
      fed_ids fl = Inr (fc_newFederationsIds st)) \<and>
    \<not> isl (fst (fc_handle env parse c FC_apply st))"
proof -
  have inv: "fc_inv parse st" by (rule fc_page_inv [OF assms(1)])
  have *: "\<not> nothing_loaded (fc_uploadedFederation st)" "url = fed_endpoint env"
    "body = fed_jsonData (fc_uploadedFederation st)"
    using assms(2) by (auto simp: fc_onSubmit_def fed_endpoint_def split: if_splits)
  then have "fc_federationLoaded st" using inv by (auto simp: fc_inv_def nothing_loaded_def split: if_splits)
  then show ?thesis
    using inv fc_inv_apply [OF inv] * by (auto simp: fc_inv_def jsonData_without)
qed

definition fc_path :: "fc_event list" where
  "fc_path = [FC_file (Some ''j''), FC_select 0, FC_endpoint '' https://k '', FC_apply]"

definition fc_path_end :: FederationCreateState where
  "fc_path_end =
     foldl (\<lambda>st ev. fc_after local_env (\<lambda>_. Some (ManyFeds [Some fed1])) True ev st) federation_create_initial fc_path"

lemma fc_path_page: "fc_page local_env (\<lambda>_. Some (ManyFeds [Some fed1])) (\<lambda>_. []) fc_path_end"
  unfolding fc_page_def fc_path_end_def fc_path_def foldl.simps
  by (intro page_reach.user page_reach.start TrueI)
    (simp_all add: fc_render_def fc_editor_def fc_after_def handleFileUpload_def fed_ids_def fed_id_def
      setSelectedFederation_def fc_onChangeEndpoint_def federation_create_initial_def fed_at_def fed1_def
      or_text_def Let_def)

lemma posted_federation_is_uploaded_witness:
  "fed_endpoint local_env = fed_endpoint local_env \<and>
    (\<exists>fl. Some (ManyFeds [Some fed1]) = Some fl \<and>
      without_endpoints (fed_jsonData (fc_uploadedFederation fc_path_end)) = without_endpoints (fed_jsonData fl) \<and>
      fed_ids fl = Inr (fc_newFederationsIds fc_path_end)) \<and>
    \<not> isl (fst (fc_handle local_env (\<lambda>_. Some (ManyFeds [Some fed1])) True FC_apply fc_path_end))"
  by (rule posted_federation_is_uploaded [OF fc_path_page])
    (simp add: fc_onSubmit_def fed_endpoint_def, code_simp)

text \<open>The page of the witness posts the edited endpoint.\<close>

lemma fc_path_posts:
  "fed_jsonData (fc_uploadedFederation fc_path_end) = OneFed (Some (set_endpoint ''https://k'' fed1))"
  by code_simp

section \<open>The trust bundle page\<close>

datatype tb_event = TB_url string | TB_get | TB_download

text \<open>The handler of a control; the last component is the text of the file it makes the browser save.\<close>

fun tb_handle ::
  "app_env \<Rightarrow> tb_event \<Rightarrow> TrustBundleCreateState \<Rightarrow> TrustBundleCreateState \<times> api_effect list \<times> string option"
where
  "tb_handle env (TB_url v) st = (tb_handleInputChange v st, [], None)"
| "tb_handle env TB_get st = (case getTrustBundle env st of (st', effs) \<Rightarrow> (st', effs, None))"
| "tb_handle env TB_download st = (st, [], downloadTrustBundle st)"

definition tb_render :: "TrustBundleCreateState \<Rightarrow> (unit, tb_event) widget list" where
  "tb_render st =
     [Heading ''Obtain Trust Bundle'',
      TextField ''Exposed Bundle Endpoint URL [*required]'' (Some (tb_bundleEndpointUrl st)) TB_url,
      Press ''Get Trust Bundle'' TB_get] @
     only_if (tb_loading st)
       [Notice Info ''Loading...'' ''Fetching the trust bundle from the SPIRE server.''] @
     only_if (tb_error st \<noteq> []) [Notice Failure ''Error'' (tb_error st)] @
     only_if (\<not> tb_loading st \<and> tb_error st = [] \<and> tb_trustBundle st \<noteq> [])
       [ReadOnlyArea (tb_trustBundle st), Press ''Download Bundle'' TB_download]"

lemma tb_offers_download:
  "page_offers (tb_render st) TB_download \<longleftrightarrow> downloadTrustBundle st \<noteq> None"
  by (simp add: tb_render_def downloadTrustBundle_def)

lemma tb_download_shown:
  "downloadTrustBundle st = Some text0 \<longleftrightarrow> page_offers (tb_render st) TB_download \<and> ReadOnlyArea text0 \<in> set (tb_render st)"
  by (auto simp: tb_render_def downloadTrustBundle_def)

text \<open>
  Two requests in flight: the reply that fails leaves its error, which the later success does not
  clear, so the fetched bundle is kept and not shown.
\<close>

definition tb_two_replies ::
  "app_env \<Rightarrow> (Federation \<Rightarrow> string) \<Rightarrow> string \<Rightarrow> bool \<Rightarrow> axios_error \<Rightarrow> server_bundle \<Rightarrow> TrustBundleCreateState \<Rightarrow> TrustBundleCreateState"
where
  "tb_two_replies env stringify url sent e b st =
     fst (getTrustBundle_done env stringify url True (Resolved 200 ''OK'' (Val b))
       (fst (getTrustBundle_done env stringify url sent (Rejected e) (fst (getTrustBundle env (fst (getTrustBundle env st)))))))"

lemma late_bundle_hidden:
  "tb_trustBundle (tb_two_replies env stringify url sent e b st) = stringify (federationData url b)"
  "\<not> page_offers (tb_render (tb_two_replies env stringify url sent e b st)) TB_download"
  "Notice Failure ''Error'' (tb_error (tb_two_replies env stringify url sent e b st)) \<in>
     set (tb_render (tb_two_replies env stringify url sent e b st))"
  by (simp_all add: tb_two_replies_def tb_render_def getTrustBundle_def getTrustBundle_done_def Let_def
      split: option.split)

end
