(* ===== verification/Export.thy ===== *)
theory Export
  imports TableProps UploadProps
begin

text \<open>
  The two ends of an entry's file: entries-list-table.tsx writes the selected rows to it
  (\<open>downloadEntries\<close>, theory TableActions), entry-create-json.tsx reads it (\<open>upload_loaded\<close>, theory
  EntryUpload) and entry-create.tsx posts what was read. Here the two are put together.
\<close>

text \<open>
  What JSON.parse and JSON.stringify do with the object written: the array of the texts of some
  entries, under its key \<open>entries\<close>, is read as the array of those entries.
\<close>

definition reads_back :: "(string \<Rightarrow> file_text) \<Rightarrow> (EntriesList \<Rightarrow> string) \<Rightarrow> EntriesList list \<Rightarrow> bool" where
  "reads_back parse stringify es \<longleftrightarrow>
     parse (export_open @ join ('','' @ nl) (map stringify es) @ export_close) = EntriesArray es"

definition full_spiffe_id :: "EntriesList \<Rightarrow> bool" where
  "full_spiffe_id e \<longleftrightarrow>
     (case spiffe_id e of None \<Rightarrow> False | Some i \<Rightarrow> checkSpiffeidValidity (trust_domain i) (path i))"

text \<open>A row holds the text of its entry, and the SPIFFE ID it shows is the one the upload lists.\<close>

interpretation entry_texts: row_table "entry_table_row_of now js" "\<lambda>r. Inr (et_info r)" js "\<lambda>_. True"
  for now js
  by unfold_locales (auto simp: entry_table_row_of_def split: option.splits elim!: bindE_InrE)

lemma uploaded_id_cell:
  "full_spiffe_id e \<Longrightarrow> id_cell (spiffe_id e) = Inr s \<Longrightarrow> uploaded_id e = Inr (Some s)"
  by (auto simp: full_spiffe_id_def uploaded_id_def getEntrySpiffeid_def render_id_def id_cell_def
      template_def checkSpiffeidValidity_def split: option.splits if_splits)

lemma full_spiffe_uploads: "full_spiffe_id e \<Longrightarrow> \<exists>s. uploaded_id e = Inr s"
  by (auto simp: full_spiffe_id_def uploaded_id_def getEntrySpiffeid_def split: option.splits)

interpretation spiffe_cells: row_table "entry_table_row_of now js" "\<lambda>r. Inr (Some (et_spiffeid r))"
  "\<lambda>e. projr (uploaded_id e)" full_spiffe_id
  for now js
  by unfold_locales
    (auto simp: entry_table_row_of_def uploaded_id_cell split: option.splits elim!: bindE_InrE)

lemma downloaded_texts:
  assumes "prepare_rows (entry_table_row_of now js) es = Inr rows" and "nths es I \<noteq> []"
  shows "downloadEntries (nths rows I) = export_open @ join ('','' @ nl) (map js (nths es I)) @ export_close"
proof -
  have *: "map et_info (nths rows I) = map js (nths es I)"
    using entry_texts.prepared [OF assms(1)] by (simp add: map_of_refs flip: nths_map)
  then have "nths rows I \<noteq> []" using assms(2) by auto
  with * show ?thesis by (simp add: downloadEntries_join)
qed

lemma upload_lists:
  assumes "mapE uploaded_id es = Inr ids" and "es \<noteq> []"
  shows "up_newEntriesIds (w_state (fst (upload_loaded confirmed (EntriesArray es) w))) = ids"
  using assms
  by (cases es) (simp_all add: upload_loaded_def alloc_def Let_def setSelectedEntriesIds_def del: mapE.simps)

text \<open>C9. Exporting and uploading undo each other: whatever rows are selected, the file exported from
  them, uploaded on the page of entries, is accepted, lists the SPIFFE IDs shown in those rows, and
  posts, when Create Entries is pressed, exactly their entries in their order; in any state of the
  page, whatever the user answers when asked about unsaved changes.\<close>

theorem exported_entries_repost:
  assumes "prepare_rows (entry_table_row_of now stringify) es = Inr rows"
    and "nths es I \<noteq> []" and "reads_back parse stringify (nths es I)"
    and "\<And>e. e \<in> set es \<Longrightarrow> full_spiffe_id e" and "entry_endpoint env cst \<noteq> []"
  shows "let w' = fst (upload_loaded confirmed (parse (downloadEntries (nths rows I))) w) in
    \<not> up_parseError (w_state w') \<and>
    up_newEntriesIds (w_state w') = map (\<lambda>r. Some (et_spiffeid r)) (nths rows I) \<and>
    onYAMLEntryCreate env (w_root w') (w_arrays w') cst =
      [Request POST (entry_endpoint env cst) (UploadedEntries (nths es I))]"
proof -
  let ?es = "nths es I"
  define w' where "w' = fst (upload_loaded confirmed (EntriesArray ?es) w)"
  have read: "parse (downloadEntries (nths rows I)) = EntriesArray ?es"
    using assms(3) downloaded_texts [OF assms(1,2)] by (simp add: reads_back_def)
  obtain e es' where cons: "?es = e # es'" using assms(2) by (cases ?es) auto
  have ids: "mapE uploaded_id ?es = Inr (map (\<lambda>r. Some (et_spiffeid r)) (nths rows I))"
  proof (subst mapE_total)
    show "uploaded_id x = Inr (projr (uploaded_id x))" if "x \<in> set ?es" for x
      using full_spiffe_uploads [OF assms(4)] that set_nths_subset by fastforce
    have "map (\<lambda>r. Some (et_spiffeid r)) rows = map (\<lambda>x. projr (uploaded_id x)) es"
      using spiffe_cells.prepared [OF assms(1,4)] by (simp add: map_of_refs)
    then show "Inr (map (\<lambda>x. projr (uploaded_id x)) ?es) = Inr (map (\<lambda>r. Some (et_spiffeid r)) (nths rows I))"
      by (simp flip: nths_map)
  qed
  have "full_spiffe_id x" if "x \<in> set ?es" for x
    using assms(4) that set_nths_subset [of es I] by blast
  then have "spiffe_id x \<noteq> None" if "x \<in> set ?es" for x
    using that by (cases "spiffe_id x") (fastforce simp: full_spiffe_id_def)+
  from upload_shares [OF cons this, of confirmed w] upload_lists [OF ids assms(2), of confirmed w]
  show ?thesis
    using yaml_posts [OF _ assms(5), of "w_root w'"]
    by (simp add: read shared_def Let_def flip: w'_def)
qed

text \<open>The second of two entries, exported and uploaded again.\<close>

definition one_file :: "string \<Rightarrow> file_text" where
  "one_file t = (if t = export_open @ ''j'' @ export_close then EntriesArray [table_entry ''j''] else Malformed)"

lemma exported_entries_repost_witness:
  "\<exists>rows. prepare_rows (entry_table_row_of 0 entry_id) [table_entry ''i'', table_entry ''j''] = Inr rows \<and>
    (let w' = fst (upload_loaded True (one_file (downloadEntries (nths rows {1}))) world1) in
      \<not> up_parseError (w_state w') \<and>
      up_newEntriesIds (w_state w') = map (\<lambda>r. Some (et_spiffeid r)) (nths rows {1}) \<and>
      onYAMLEntryCreate env_local (w_root w') (w_arrays w') form1 =
        [Request POST (entry_endpoint env_local form1)
          (UploadedEntries (nths [table_entry ''i'', table_entry ''j''] {1}))])"
proof -
  have "\<exists>rows. prepare_rows (entry_table_row_of 0 entry_id) [table_entry ''i'', table_entry ''j''] = Inr rows"
    by (simp add: prepare_rows_def entry_table_row_of_def table_entry_def id_cell_def)
  then obtain rows where p: "prepare_rows (entry_table_row_of 0 entry_id) [table_entry ''i'', table_entry ''j''] = Inr rows" ..
  have "full_spiffe_id (table_entry i)" for i
    by (simp add: full_spiffe_id_def table_entry_def checkSpiffeidValidity_def slice_last_def charAt0_def)
  then have full: "full_spiffe_id e" if "e \<in> set [table_entry ''i'', table_entry ''j'']" for e
    using that by auto
  have n: "nths [table_entry ''i'', table_entry ''j''] {1} = [table_entry ''j'']" by (simp add: nths_Cons)
  have reads: "reads_back one_file entry_id (nths [table_entry ''i'', table_entry ''j''] {1})"
    unfolding n by (simp add: reads_back_def one_file_def table_entry_def)
  have "nths [table_entry ''i'', table_entry ''j''] {1} \<noteq> []" unfolding n by simp
  from exported_entries_repost [OF p this reads full local_endpoint] p
  show ?thesis by (intro exI [of _ rows] conjI)
qed

end
