(* ===== verification/Wiring.thy ===== *)
theory Wiring
  imports ClusterProps FederationForms ServerProps AccessProps DetailsPage EntryOffers
begin

text \<open>
  How the components are wired to the store: for each connected component the properties it
  declares (or, written in JavaScript, reads), the store fields its \<open>mapStateToProps\<close> selects, the
  actions its \<open>connect\<close> binds, and the properties its parents pass. The other theories give every
  component the whole store as its properties; the theorems here say that this is right: the
  components look at no field they are not connected to, with the exceptions named.
\<close>

section \<open>Fields of the store\<close>

datatype store_field =
    S_agents
  | F_globalAgentsList
  | F_globalAgentsWorkLoadAttestorInfo
  | F_globalAccessToken
  | F_globalIsAuthenticated
  | F_globalUserRoles
  | F_globalClusterTypeInfo
  | F_globalClustersList
  | S_entries
  | F_globalEntriesList
  | F_globalEntryExpiryTime
  | F_globalNewEntries
  | F_globalFederationsList
  | F_globalDebugServerInfo
  | F_globalSelectorInfo
  | F_globalServerInfo
  | F_globalServerSelected
  | F_globalServersList
  | F_globalSpireHealthCheck
  | F_globalSpireHealthChecking
  | F_globalSpireHealthTime
  | F_globalTornjakServerInfo
  | F_globalWorkloadSelectorInfo
  | F_globalClickedDashboardTable
  | F_globalErrorMessage

text \<open>Two stores hold the same in a field; \<open>S_\<close> is a whole slice.\<close>

fun same_field :: "store_field \<Rightarrow> RootState \<Rightarrow> RootState \<Rightarrow> bool" where
  "same_field S_agents p q \<longleftrightarrow> st_agents p = st_agents q"
| "same_field F_globalAgentsList p q \<longleftrightarrow> globalAgentsList (st_agents p) = globalAgentsList (st_agents q)"
| "same_field F_globalAgentsWorkLoadAttestorInfo p q \<longleftrightarrow> globalAgentsWorkLoadAttestorInfo (st_agents p) = globalAgentsWorkLoadAttestorInfo (st_agents q)"
| "same_field F_globalAccessToken p q \<longleftrightarrow> globalAccessToken (st_auth p) = globalAccessToken (st_auth q)"
| "same_field F_globalIsAuthenticated p q \<longleftrightarrow> globalIsAuthenticated (st_auth p) = globalIsAuthenticated (st_auth q)"
| "same_field F_globalUserRoles p q \<longleftrightarrow> globalUserRoles (st_auth p) = globalUserRoles (st_auth q)"
| "same_field F_globalClusterTypeInfo p q \<longleftrightarrow> globalClusterTypeInfo (st_clusters p) = globalClusterTypeInfo (st_clusters q)"
| "same_field F_globalClustersList p q \<longleftrightarrow> globalClustersList (st_clusters p) = globalClustersList (st_clusters q)"
| "same_field S_entries p q \<longleftrightarrow> st_entries p = st_entries q"
| "same_field F_globalEntriesList p q \<longleftrightarrow> globalEntriesList (st_entries p) = globalEntriesList (st_entries q)"
| "same_field F_globalEntryExpiryTime p q \<longleftrightarrow> globalEntryExpiryTime (st_entries p) = globalEntryExpiryTime (st_entries q)"
| "same_field F_globalNewEntries p q \<longleftrightarrow> globalNewEntries (st_entries p) = globalNewEntries (st_entries q)"
| "same_field F_globalFederationsList p q \<longleftrightarrow> globalFederationsList (st_federations p) = globalFederationsList (st_federations q)"
| "same_field F_globalDebugServerInfo p q \<longleftrightarrow> globalDebugServerInfo (st_servers p) = globalDebugServerInfo (st_servers q)"
| "same_field F_globalSelectorInfo p q \<longleftrightarrow> globalSelectorInfo (st_servers p) = globalSelectorInfo (st_servers q)"
| "same_field F_globalServerInfo p q \<longleftrightarrow> globalServerInfo (st_servers p) = globalServerInfo (st_servers q)"
| "same_field F_globalServerSelected p q \<longleftrightarrow> globalServerSelected (st_servers p) = globalServerSelected (st_servers q)"
| "same_field F_globalServersList p q \<longleftrightarrow> globalServersList (st_servers p) = globalServersList (st_servers q)"
| "same_field F_globalSpireHealthCheck p q \<longleftrightarrow> globalSpireHealthCheck (st_servers p) = globalSpireHealthCheck (st_servers q)"
| "same_field F_globalSpireHealthChecking p q \<longleftrightarrow> globalSpireHealthChecking (st_servers p) = globalSpireHealthChecking (st_servers q)"
| "same_field F_globalSpireHealthTime p q \<longleftrightarrow> globalSpireHealthTime (st_servers p) = globalSpireHealthTime (st_servers q)"
| "same_field F_globalTornjakServerInfo p q \<longleftrightarrow> globalTornjakServerInfo (st_servers p) = globalTornjakServerInfo (st_servers q)"
| "same_field F_globalWorkloadSelectorInfo p q \<longleftrightarrow> globalWorkloadSelectorInfo (st_servers p) = globalWorkloadSelectorInfo (st_servers q)"
| "same_field F_globalClickedDashboardTable p q \<longleftrightarrow> globalClickedDashboardTable (st_tornjak p) = globalClickedDashboardTable (st_tornjak q)"
| "same_field F_globalErrorMessage p q \<longleftrightarrow> globalErrorMessage (st_tornjak p) = globalErrorMessage (st_tornjak q)"

section \<open>The components\<close>

definition AgentList_declared :: "string list" where
  "AgentList_declared =
     [''spireDebugServerInfoUpdateFunc'', ''clusterTypeInfoFunc'', ''selectorInfoFunc'',
      ''workloadSelectorInfoFunc'', ''agentsListUpdateFunc'', ''tornjakMessageFunc'',
      ''agentworkloadSelectorInfoFunc'', ''tornjakServerInfoUpdateFunc'', ''serverInfoUpdateFunc'',
      ''globalServerSelected'', ''globalErrorMessage'', ''globalTornjakServerInfo'',
      ''globalAgentsList'']"

definition AgentList_state :: "(string \<times> store_field) list" where
  [js_unfold]: "AgentList_state =
     [(''globalServerSelected'', F_globalServerSelected),
      (''globalAgentsList'', F_globalAgentsList),
      (''globalTornjakServerInfo'', F_globalTornjakServerInfo),
      (''globalErrorMessage'', F_globalErrorMessage)]"

definition AgentList_actions :: "string list" where
  "AgentList_actions =
     [''serverSelectedFunc'', ''agentsListUpdateFunc'', ''tornjakServerInfoUpdateFunc'',
      ''serverInfoUpdateFunc'', ''selectorInfoFunc'', ''tornjakMessageFunc'',
      ''workloadSelectorInfoFunc'', ''agentworkloadSelectorInfoFunc'', ''clusterTypeInfoFunc'',
      ''spireDebugServerInfoUpdateFunc'']"

definition EntryList_declared :: "string list" where
  "EntryList_declared =
     [''globalDebugServerInfo'', ''serverSelectedFunc'', ''entriesListUpdateFunc'',
      ''tornjakMessageFunc'', ''globalServerSelected'', ''globalErrorMessage'',
      ''globalEntriesList'', ''globalTornjakServerInfo'']"

definition EntryList_state :: "(string \<times> store_field) list" where
  [js_unfold]: "EntryList_state =
     [(''globalServerSelected'', F_globalServerSelected),
      (''globalEntriesList'', F_globalEntriesList), (''globalErrorMessage'', F_globalErrorMessage),
      (''globalTornjakServerInfo'', F_globalTornjakServerInfo),
      (''globalDebugServerInfo'', F_globalDebugServerInfo)]"

definition EntryList_actions :: "string list" where
  "EntryList_actions =
     [''serverSelectedFunc'', ''entriesListUpdateFunc'', ''tornjakMessageFunc'']"

definition ClusterList_declared :: "string list" where
  "ClusterList_declared =
     [''clustersListUpdateFunc'', ''tornjakMessageFunc'', ''serverInfoUpdateFunc'',
      ''globalServerSelected'', ''globalErrorMessage'', ''globalTornjakServerInfo'',
      ''globalClustersList'']"

definition ClusterList_state :: "(string \<times> store_field) list" where
  [js_unfold]: "ClusterList_state =
     [(''globalServerSelected'', F_globalServerSelected),
      (''globalClustersList'', F_globalClustersList),
      (''globalTornjakServerInfo'', F_globalTornjakServerInfo),
      (''globalErrorMessage'', F_globalErrorMessage)]"

definition ClusterList_actions :: "string list" where
  "ClusterList_actions =
     [''serverSelectedFunc'', ''agentsListUpdateFunc'', ''tornjakServerInfoUpdateFunc'',
      ''serverInfoUpdateFunc'', ''selectorInfoFunc'', ''tornjakMessageFunc'',
      ''workloadSelectorInfoFunc'', ''agentworkloadSelectorInfoFunc'', ''clustersListUpdateFunc'']"

definition FederationList_declared :: "string list" where
  "FederationList_declared =
     [''federationsListUpdateFunc'', ''tornjakMessageFunc'', ''serverInfoUpdateFunc'',
      ''globalServerSelected'', ''globalErrorMessage'', ''globalTornjakServerInfo'',
      ''globalFederationsList'']"

definition FederationList_state :: "(string \<times> store_field) list" where
  [js_unfold]: "FederationList_state =
     [(''globalServerSelected'', F_globalServerSelected),
      (''globalFederationsList'', F_globalFederationsList),
      (''globalTornjakServerInfo'', F_globalTornjakServerInfo),
      (''globalErrorMessage'', F_globalErrorMessage)]"

definition FederationList_actions :: "string list" where
  "FederationList_actions =
     [''serverSelectedFunc'', ''agentsListUpdateFunc'', ''tornjakServerInfoUpdateFunc'',
      ''serverInfoUpdateFunc'', ''selectorInfoFunc'', ''tornjakMessageFunc'',
      ''workloadSelectorInfoFunc'', ''agentworkloadSelectorInfoFunc'', ''clustersListUpdateFunc'',
      ''federationsListUpdateFunc'']"

definition ClusterCreate_declared :: "string list" where
  "ClusterCreate_declared =
     [''serverInfoUpdateFunc'', ''agentsListUpdateFunc'', ''tornjakMessageFunc'',
      ''tornjakServerInfoUpdateFunc'', ''clusterTypeInfoFunc'', ''agentsList'',
      ''clusterTypeList'', ''globalServerSelected'', ''globalErrorMessage'',
      ''globalTornjakServerInfo'']"

definition ClusterCreate_state :: "(string \<times> store_field) list" where
  [js_unfold]: "ClusterCreate_state =
     [(''globalClusterTypeInfo'', F_globalClusterTypeInfo),
      (''globalServerSelected'', F_globalServerSelected),
      (''globalSelectorInfo'', F_globalSelectorInfo), (''globalAgentsList'', F_globalAgentsList),
      (''globalServerInfo'', F_globalServerInfo),
      (''globalTornjakServerInfo'', F_globalTornjakServerInfo),
      (''globalErrorMessage'', F_globalErrorMessage),
      (''globalWorkloadSelectorInfo'', F_globalWorkloadSelectorInfo),
      (''globalAgentsWorkLoadAttestorInfo'', F_globalAgentsWorkLoadAttestorInfo)]"

definition ClusterCreate_actions :: "string list" where
  "ClusterCreate_actions =
     [''clusterTypeInfoFunc'', ''serverSelectedFunc'', ''selectorInfoFunc'',
      ''agentsListUpdateFunc'', ''tornjakMessageFunc'', ''tornjakServerInfoUpdateFunc'',
      ''serverInfoUpdateFunc'']"

definition ClusterEdit_declared :: "string list" where
  "ClusterEdit_declared =
     [''globalDebugServerInfo'', ''clustersListUpdateFunc'', ''tornjakMessageFunc'',
      ''clusterTypeList'', ''globalServerSelected'', ''globalErrorMessage'',
      ''globalClustersList'', ''globalAgentsList'', ''globalServerInfo'', ''agentsList'']"

definition ClusterEdit_state :: "(string \<times> store_field) list" where
  [js_unfold]: "ClusterEdit_state =
     [(''globalClusterTypeInfo'', F_globalClusterTypeInfo),
      (''globalClustersList'', F_globalClustersList),
      (''globalServerSelected'', F_globalServerSelected),
      (''globalSelectorInfo'', F_globalSelectorInfo), (''globalAgentsList'', F_globalAgentsList),
      (''globalServerInfo'', F_globalServerInfo),
      (''globalTornjakServerInfo'', F_globalTornjakServerInfo),
      (''globalErrorMessage'', F_globalErrorMessage),
      (''globalWorkloadSelectorInfo'', F_globalWorkloadSelectorInfo),
      (''globalAgentsWorkLoadAttestorInfo'', F_globalAgentsWorkLoadAttestorInfo),
      (''globalDebugServerInfo'', F_globalDebugServerInfo)]"

definition ClusterEdit_actions :: "string list" where
  "ClusterEdit_actions =
     [''clusterTypeInfoFunc'', ''serverSelectedFunc'', ''selectorInfoFunc'',
      ''agentsListUpdateFunc'', ''tornjakMessageFunc'', ''tornjakServerInfoUpdateFunc'',
      ''serverInfoUpdateFunc'', ''clustersListUpdateFunc'']"

definition ClusterManagement_declared :: "string list" where
  "ClusterManagement_declared =
     [''globalDebugServerInfo'', ''agentsListUpdateFunc'', ''tornjakMessageFunc'',
      ''tornjakServerInfoUpdateFunc'', ''serverInfoUpdateFunc'', ''globalServerSelected'',
      ''globalErrorMessage'', ''globalTornjakServerInfo'', ''globalServerInfo'',
      ''globalClusterTypeInfo'', ''globalAgentsList'']"

definition ClusterManagement_state :: "(string \<times> store_field) list" where
  [js_unfold]: "ClusterManagement_state =
     [(''globalClusterTypeInfo'', F_globalClusterTypeInfo),
      (''globalServerSelected'', F_globalServerSelected),
      (''globalAgentsList'', F_globalAgentsList), (''globalServerInfo'', F_globalServerInfo),
      (''globalTornjakServerInfo'', F_globalTornjakServerInfo),
      (''globalErrorMessage'', F_globalErrorMessage),
      (''globalDebugServerInfo'', F_globalDebugServerInfo)]"

definition ClusterManagement_actions :: "string list" where
  "ClusterManagement_actions =
     [''clusterTypeInfoFunc'', ''serverSelectedFunc'', ''selectorInfoFunc'',
      ''agentsListUpdateFunc'', ''tornjakMessageFunc'', ''tornjakServerInfoUpdateFunc'',
      ''serverInfoUpdateFunc'']"

definition CreateJoinToken_declared :: "string list" where
  "CreateJoinToken_declared =
     [''globalServerSelected'']"

definition CreateJoinToken_state :: "(string \<times> store_field) list" where
  [js_unfold]: "CreateJoinToken_state =
     [(''globalServerSelected'', F_globalServerSelected)]"

definition CreateJoinToken_actions :: "string list" where
  "CreateJoinToken_actions =
     [''serverSelectedFunc'']"

definition CreateEntry_declared :: "string list" where
  "CreateEntry_declared =
     [''globalDebugServerInfo'', ''globalEntryExpiryTime'', ''serverSelectedFunc'',
      ''agentsListUpdateFunc'', ''tornjakServerInfoUpdateFunc'', ''serverInfoUpdateFunc'',
      ''entriesListUpdateFunc'', ''newEntriesUpdateFunc'', ''selectorInfoFunc'',
      ''tornjakMessageFunc'', ''agentworkloadSelectorInfoFunc'', ''globalServerSelected'',
      ''globalErrorMessage'', ''globalTornjakServerInfo'', ''globalSelectorInfo'',
      ''globalAgentsList'', ''globalEntriesList'', ''globalNewEntries'',
      ''globalWorkloadSelectorInfo'', ''globalAgentsWorkLoadAttestorInfo'', ''globalServerInfo'']"

definition CreateEntry_state :: "(string \<times> store_field) list" where
  [js_unfold]: "CreateEntry_state =
     [(''globalServerSelected'', F_globalServerSelected),
      (''globalSelectorInfo'', F_globalSelectorInfo), (''globalAgentsList'', F_globalAgentsList),
      (''globalEntriesList'', F_globalEntriesList),
      (''globalEntryExpiryTime'', F_globalEntryExpiryTime),
      (''globalNewEntries'', F_globalNewEntries), (''globalServerInfo'', F_globalServerInfo),
      (''globalTornjakServerInfo'', F_globalTornjakServerInfo),
      (''globalErrorMessage'', F_globalErrorMessage),
      (''globalWorkloadSelectorInfo'', F_globalWorkloadSelectorInfo),
      (''globalAgentsWorkLoadAttestorInfo'', F_globalAgentsWorkLoadAttestorInfo),
      (''globalDebugServerInfo'', F_globalDebugServerInfo)]"

definition CreateEntry_actions :: "string list" where
  "CreateEntry_actions =
     [''serverSelectedFunc'', ''agentworkloadSelectorInfoFunc'', ''selectorInfoFunc'',
      ''agentsListUpdateFunc'', ''entriesListUpdateFunc'', ''tornjakMessageFunc'',
      ''tornjakServerInfoUpdateFunc'', ''serverInfoUpdateFunc'', ''newEntriesUpdateFunc'']"

definition CreateEntryJson_declared :: "string list" where
  "CreateEntryJson_declared =
     [''newEntriesUpdateFunc'', ''globalNewEntries'', ''globalAgentsList'', ''ParentIdList'']"

definition CreateEntryJson_state :: "(string \<times> store_field) list" where
  [js_unfold]: "CreateEntryJson_state =
     [(''globalNewEntries'', F_globalNewEntries), (''globalAgentsList'', F_globalAgentsList)]"

definition CreateEntryJson_actions :: "string list" where
  "CreateEntryJson_actions =
     [''newEntriesUpdateFunc'']"

definition EntryExpiryFeatures_declared :: "string list" where
  "EntryExpiryFeatures_declared =
     [''entryExpiryUpdateFunc'']"

definition EntryExpiryFeatures_state :: "(string \<times> store_field) list" where
  [js_unfold]: "EntryExpiryFeatures_state =
     []"

definition EntryExpiryFeatures_actions :: "string list" where
  "EntryExpiryFeatures_actions =
     [''entryExpiryUpdateFunc'']"

definition FederationCreate_declared :: "string list" where
  "FederationCreate_declared =
     [''tornjakMessageFunc'', ''federationsListUpdateFunc'', ''globalServerSelected'',
      ''globalErrorMessage'']"

definition FederationCreate_state :: "(string \<times> store_field) list" where
  [js_unfold]: "FederationCreate_state =
     [(''globalServerSelected'', F_globalServerSelected),
      (''globalErrorMessage'', F_globalErrorMessage)]"

definition FederationCreate_actions :: "string list" where
  "FederationCreate_actions =
     [''tornjakMessageFunc'', ''federationsListUpdateFunc'']"

definition TrustBundleCreate_declared :: "string list" where
  "TrustBundleCreate_declared =
     [''tornjakMessageFunc'', ''serverInfoUpdateFunc'', ''agentsListUpdateFunc'',
      ''clusterTypeInfoFunc'', ''tornjakServerInfoUpdateFunc'', ''selectorInfoFunc'',
      ''serverSelectedFunc'', ''globalErrorMessage'', ''globalServerSelected'']"

definition TrustBundleCreate_state :: "(string \<times> store_field) list" where
  [js_unfold]: "TrustBundleCreate_state =
     [(''globalServerSelected'', F_globalServerSelected),
      (''globalErrorMessage'', F_globalErrorMessage)]"

definition TrustBundleCreate_actions :: "string list" where
  "TrustBundleCreate_actions =
     [''tornjakMessageFunc'', ''serverInfoUpdateFunc'', ''agentsListUpdateFunc'',
      ''clusterTypeInfoFunc'', ''tornjakServerInfoUpdateFunc'', ''selectorInfoFunc'',
      ''serverSelectedFunc'']"

definition NavigationBar_declared :: "string list" where
  "NavigationBar_declared =
     [''isAuthenticatedUpdateFunc'', ''globalIsAuthenticated'', ''accessTokenUpdateFunc'',
      ''globalAccessToken'', ''UserRolesUpdateFunc'', ''globalUserRoles'',
      ''clickedDashboardTableFunc'', ''globalClickedDashboardTable'', ''globalServerInfo'',
      ''globalDebugServerInfo'', ''globalTornjakServerInfo'', ''serverInfoUpdateFunc'',
      ''tornjakServerInfoUpdateFunc'', ''spireDebugServerInfoUpdateFunc'', ''tornjakMessageFunc'',
      ''globalServerSelected'', ''globalErrorMessage'']"

definition NavigationBar_state :: "(string \<times> store_field) list" where
  [js_unfold]: "NavigationBar_state =
     [(''globalClickedDashboardTable'', F_globalClickedDashboardTable),
      (''globalIsAuthenticated'', F_globalIsAuthenticated),
      (''globalAccessToken'', F_globalAccessToken), (''globalUserRoles'', F_globalUserRoles),
      (''globalServerInfo'', F_globalServerInfo),
      (''globalDebugServerInfo'', F_globalDebugServerInfo),
      (''globalTornjakServerInfo'', F_globalTornjakServerInfo),
      (''globalServerSelected'', F_globalServerSelected),
      (''globalErrorMessage'', F_globalErrorMessage)]"

definition NavigationBar_actions :: "string list" where
  "NavigationBar_actions =
     [''clickedDashboardTableFunc'', ''isAuthenticatedUpdateFunc'', ''accessTokenUpdateFunc'',
      ''UserRolesUpdateFunc'', ''serverInfoUpdateFunc'', ''tornjakServerInfoUpdateFunc'',
      ''spireDebugServerInfoUpdateFunc'', ''tornjakMessageFunc'']"

definition SelectServer_declared :: "string list" where
  "SelectServer_declared =
     [''globalDebugServerInfo'', ''serversListUpdateFunc'', ''serverSelectedFunc'',
      ''serverInfoUpdateFunc'', ''tornjakServerInfoUpdateFunc'', ''agentsListUpdateFunc'',
      ''tornjakMessageFunc'', ''globalServerSelected'', ''globalTornjakServerInfo'',
      ''globalServersList'', ''globalErrorMessage'']"

definition SelectServer_state :: "(string \<times> store_field) list" where
  [js_unfold]: "SelectServer_state =
     [(''globalServerSelected'', F_globalServerSelected),
      (''globalServersList'', F_globalServersList),
      (''globalTornjakServerInfo'', F_globalTornjakServerInfo),
      (''globalErrorMessage'', F_globalErrorMessage),
      (''globalDebugServerInfo'', F_globalDebugServerInfo)]"

definition SelectServer_actions :: "string list" where
  "SelectServer_actions =
     [''serverSelectedFunc'', ''serversListUpdateFunc'', ''tornjakServerInfoUpdateFunc'',
      ''serverInfoUpdateFunc'', ''agentsListUpdateFunc'', ''tornjakMessageFunc'']"

definition ServerManagement_declared :: "string list" where
  "ServerManagement_declared =
     [''serversListUpdateFunc'', ''globalServersList'']"

definition ServerManagement_state :: "(string \<times> store_field) list" where
  [js_unfold]: "ServerManagement_state =
     [(''globalServersList'', F_globalServersList)]"

definition ServerManagement_actions :: "string list" where
  "ServerManagement_actions =
     [''serversListUpdateFunc'']"

definition SpireHealthCheck_declared :: "string list" where
  "SpireHealthCheck_declared =
     [''spireHealthCheckFunc'', ''globalSpireHealthCheck'', ''spireHealthCheckingFunc'',
      ''globalSpireHealthChecking'', ''spireHealthCheckRefreshTimeFunc'', ''globalSpireHealthTime'']"

definition SpireHealthCheck_state :: "(string \<times> store_field) list" where
  [js_unfold]: "SpireHealthCheck_state =
     [(''globalSpireHealthCheck'', F_globalSpireHealthCheck),
      (''globalSpireHealthChecking'', F_globalSpireHealthChecking),
      (''globalSpireHealthTime'', F_globalSpireHealthTime)]"

definition SpireHealthCheck_actions :: "string list" where
  "SpireHealthCheck_actions =
     [''spireHealthCheckFunc'', ''spireHealthCheckingFunc'', ''spireHealthCheckRefreshTimeFunc'']"

definition TornjakServerInfo_declared :: "string list" where
  "TornjakServerInfo_declared =
     [''spireDebugServerInfoUpdateFunc'', ''globalDebugServerInfo'',
      ''tornjakServerInfoUpdateFunc'', ''tornjakMessageFunc'', ''globalServerSelected'',
      ''globalTornjakServerInfo'', ''globalErrorMessage'']"

definition TornjakServerInfo_state :: "(string \<times> store_field) list" where
  [js_unfold]: "TornjakServerInfo_state =
     [(''globalServerSelected'', F_globalServerSelected),
      (''globalServerInfo'', F_globalServerInfo),
      (''globalTornjakServerInfo'', F_globalTornjakServerInfo),
      (''globalErrorMessage'', F_globalErrorMessage),
      (''globalDebugServerInfo'', F_globalDebugServerInfo)]"

definition TornjakServerInfo_actions :: "string list" where
  "TornjakServerInfo_actions =
     [''serverSelectedFunc'', ''tornjakServerInfoUpdateFunc'', ''serverInfoUpdateFunc'',
      ''tornjakMessageFunc'']"

definition WorkLoadAttestor_declared :: "string list" where
  "WorkLoadAttestor_declared =
     [''agentsListUpdateFunc'', ''agentworkloadSelectorInfoFunc'', ''spiffeid'',
      ''globalServerSelected'', ''globalAgentsList'', ''globalWorkloadSelectorInfo'', ''agentData'']"

definition WorkLoadAttestor_state :: "(string \<times> store_field) list" where
  [js_unfold]: "WorkLoadAttestor_state =
     [(''globalServerSelected'', F_globalServerSelected),
      (''globalAgentsList'', F_globalAgentsList),
      (''globalWorkloadSelectorInfo'', F_globalWorkloadSelectorInfo)]"

definition WorkLoadAttestor_actions :: "string list" where
  "WorkLoadAttestor_actions =
     [''agentsListUpdateFunc'', ''agentworkloadSelectorInfoFunc'']"

definition AgentsListTable_declared :: "string list" where
  "AgentsListTable_declared =
     [''agentsListUpdateFunc'', ''globalAgentsList'', ''globalAgentsWorkLoadAttestorInfo'',
      ''globalServerSelected'', ''data'', ''id'']"

definition AgentsListTable_state :: "(string \<times> store_field) list" where
  [js_unfold]: "AgentsListTable_state =
     [(''globalServerSelected'', F_globalServerSelected),
      (''globalAgentsList'', F_globalAgentsList),
      (''globalAgentsWorkLoadAttestorInfo'', F_globalAgentsWorkLoadAttestorInfo)]"

definition AgentsListTable_actions :: "string list" where
  "AgentsListTable_actions =
     [''agentsListUpdateFunc'']"

definition ClustersListTable_declared :: "string list" where
  "ClustersListTable_declared =
     [''clustersListUpdateFunc'', ''data'', ''id'', ''globalClustersList'',
      ''globalServerSelected'']"

definition ClustersListTable_state :: "(string \<times> store_field) list" where
  [js_unfold]: "ClustersListTable_state =
     [(''globalServerSelected'', F_globalServerSelected),
      (''globalClustersList'', F_globalClustersList)]"

definition ClustersListTable_actions :: "string list" where
  "ClustersListTable_actions =
     [''clustersListUpdateFunc'']"

definition EntriesListTable_declared :: "string list" where
  "EntriesListTable_declared =
     [''entriesListUpdateFunc'', ''data'', ''id'', ''globalEntriesList'', ''globalServerSelected'']"

definition EntriesListTable_state :: "(string \<times> store_field) list" where
  [js_unfold]: "EntriesListTable_state =
     [(''globalServerSelected'', F_globalServerSelected),
      (''globalEntriesList'', F_globalEntriesList)]"

definition EntriesListTable_actions :: "string list" where
  "EntriesListTable_actions =
     [''entriesListUpdateFunc'']"

definition FederationsListTable_declared :: "string list" where
  "FederationsListTable_declared =
     [''federationsListUpdateFunc'', ''data'', ''id'', ''globalFederationsList'',
      ''globalServerSelected'']"

definition FederationsListTable_state :: "(string \<times> store_field) list" where
  [js_unfold]: "FederationsListTable_state =
     [(''globalServerSelected'', F_globalServerSelected),
      (''globalFederationsList'', F_globalFederationsList)]"

definition FederationsListTable_actions :: "string list" where
  "FederationsListTable_actions =
     [''federationsListUpdateFunc'']"

definition ServersListTable_declared :: "string list" where
  "ServersListTable_declared =
     [''serversListUpdateFunc'', ''data'', ''id'', ''globalServersList'', ''globalServerSelected'']"

definition ServersListTable_state :: "(string \<times> store_field) list" where
  [js_unfold]: "ServersListTable_state =
     [(''globalServerSelected'', F_globalServerSelected),
      (''globalServersList'', F_globalServersList)]"

definition ServersListTable_actions :: "string list" where
  "ServersListTable_actions =
     [''serversListUpdateFunc'']"

definition AgentsDashBoardTable_declared :: "string list" where
  "AgentsDashBoardTable_declared =
     [''filterByCluster'', ''filterByAgentId'', ''globalClickedDashboardTable'', ''numRows'',
      ''globalAgents'', ''globalEntries'']"

definition AgentsDashBoardTable_state :: "(string \<times> store_field) list" where
  [js_unfold]: "AgentsDashBoardTable_state =
     [(''globalAgents'', S_agents), (''globalEntries'', S_entries),
      (''globalClickedDashboardTable'', F_globalClickedDashboardTable)]"

definition AgentsDashBoardTable_actions :: "string list" where
  "AgentsDashBoardTable_actions =
     []"

definition EntriesDashBoardTable_declared :: "string list" where
  "EntriesDashBoardTable_declared =
     [''filterByCluster'', ''filterByAgentId'', ''globalClickedDashboardTable'', ''numRows'',
      ''globalAgents'', ''globalEntries'']"

definition EntriesDashBoardTable_state :: "(string \<times> store_field) list" where
  [js_unfold]: "EntriesDashBoardTable_state =
     [(''globalAgents'', S_agents), (''globalEntries'', S_entries),
      (''globalClickedDashboardTable'', F_globalClickedDashboardTable)]"

definition EntriesDashBoardTable_actions :: "string list" where
  "EntriesDashBoardTable_actions =
     []"

definition ClustersDashboardTable_declared :: "string list" where
  "ClustersDashboardTable_declared =
     [''filterByCluster'', ''filterByAgentId'', ''globalClickedDashboardTable'', ''numRows'',
      ''globalClustersList'', ''globalAgents'', ''globalEntries'']"

definition ClustersDashboardTable_state :: "(string \<times> store_field) list" where
  [js_unfold]: "ClustersDashboardTable_state =
     [(''globalClustersList'', F_globalClustersList), (''globalAgents'', S_agents),
      (''globalEntries'', S_entries)]"

definition ClustersDashboardTable_actions :: "string list" where
  "ClustersDashboardTable_actions =
     []"

definition AgentsPieChart_declared :: "string list" where
  "AgentsPieChart_declared =
     [''globalAgents'', ''globalEntries'']"

definition AgentsPieChart_state :: "(string \<times> store_field) list" where
  [js_unfold]: "AgentsPieChart_state =
     [(''globalAgents'', S_agents), (''globalEntries'', S_entries)]"

definition AgentsPieChart_actions :: "string list" where
  "AgentsPieChart_actions =
     []"

definition ClustersPieChart_declared :: "string list" where
  "ClustersPieChart_declared =
     [''globalClustersList'']"

definition ClustersPieChart_state :: "(string \<times> store_field) list" where
  [js_unfold]: "ClustersPieChart_state =
     [(''globalClustersList'', F_globalClustersList)]"

definition ClustersPieChart_actions :: "string list" where
  "ClustersPieChart_actions =
     []"

definition TableDashboard_declared :: "string list" where
  "TableDashboard_declared =
     [''clickedDashboardTableFunc'', ''globalClickedDashboardTable'', ''numRows'', ''title'',
      ''columns'', ''data'']"

definition TableDashboard_state :: "(string \<times> store_field) list" where
  [js_unfold]: "TableDashboard_state =
     [(''globalClickedDashboardTable'', F_globalClickedDashboardTable)]"

definition TableDashboard_actions :: "string list" where
  "TableDashboard_actions =
     [''clickedDashboardTableFunc'']"

definition TornjakDashboard_declared :: "string list" where
  "TornjakDashboard_declared =
     [''agentsListUpdateFunc'', ''agentworkloadSelectorInfoFunc'', ''clustersListUpdateFunc'',
      ''entriesListUpdateFunc'', ''globalAgents'', ''globalClickedDashboardTable'',
      ''globalDebugServerInfo'', ''globalServerSelected'', ''globalTornjakServerInfo'',
      ''serverInfoUpdateFunc'', ''tornjakMessageFunc'']"

definition TornjakDashboard_state :: "(string \<times> store_field) list" where
  [js_unfold]: "TornjakDashboard_state =
     [(''globalServerSelected'', F_globalServerSelected),
      (''globalClustersList'', F_globalClustersList),
      (''globalTornjakServerInfo'', F_globalTornjakServerInfo),
      (''globalErrorMessage'', F_globalErrorMessage), (''globalAgents'', S_agents),
      (''globalEntries'', F_globalEntriesList),
      (''globalClickedDashboardTable'', F_globalClickedDashboardTable),
      (''globalDebugServerInfo'', F_globalDebugServerInfo)]"

definition TornjakDashboard_actions :: "string list" where
  "TornjakDashboard_actions =
     [''entriesListUpdateFunc'', ''agentsListUpdateFunc'', ''agentworkloadSelectorInfoFunc'',
      ''clustersListUpdateFunc'', ''tornjakMessageFunc'', ''serverInfoUpdateFunc'',
      ''serverSelectedFunc'', ''tornjakServerInfoUpdateFunc'', ''selectorInfoFunc'',
      ''clickedDashboardTableFunc'']"

definition DashboardDetails_declared :: "string list" where
  "DashboardDetails_declared =
     [''globalClickedDashboardTable'', ''selectedData'']"

definition DashboardDetails_state :: "(string \<times> store_field) list" where
  [js_unfold]: "DashboardDetails_state =
     [(''globalClickedDashboardTable'', F_globalClickedDashboardTable)]"

definition DashboardDetails_actions :: "string list" where
  "DashboardDetails_actions =
     []"

definition DashboardDetailsRender_declared :: "string list" where
  "DashboardDetailsRender_declared =
     [''agentsListUpdateFunc'', ''agentworkloadSelectorInfoFunc'', ''clickedDashboardTableFunc'',
      ''clustersListUpdateFunc'', ''entriesListUpdateFunc'', ''globalDebugServerInfo'',
      ''globalServerSelected'', ''globalTornjakServerInfo'', ''params'', ''serverInfoUpdateFunc'',
      ''tornjakMessageFunc'', ''tornjakServerInfoUpdateFunc'']"

definition DashboardDetailsRender_state :: "(string \<times> store_field) list" where
  [js_unfold]: "DashboardDetailsRender_state =
     [(''globalServerInfo'', F_globalServerInfo),
      (''globalTornjakServerInfo'', F_globalTornjakServerInfo),
      (''globalClustersList'', F_globalClustersList), (''globalAgentsList'', F_globalAgentsList),
      (''globalEntriesList'', F_globalEntriesList),
      (''globalAgentsWorkLoadAttestorInfo'', F_globalAgentsWorkLoadAttestorInfo),
      (''globalDebugServerInfo'', F_globalDebugServerInfo)]"

definition DashboardDetailsRender_actions :: "string list" where
  "DashboardDetailsRender_actions =
     [''serverSelectedFunc'', ''clustersListUpdateFunc'', ''agentsListUpdateFunc'',
      ''entriesListUpdateFunc'', ''tornjakServerInfoUpdateFunc'', ''serverInfoUpdateFunc'',
      ''selectorInfoFunc'', ''tornjakMessageFunc'', ''workloadSelectorInfoFunc'',
      ''agentworkloadSelectorInfoFunc'', ''clusterTypeInfoFunc'', ''clickedDashboardTableFunc'']"

definition RenderOnAdminRole_declared :: "string list" where
  "RenderOnAdminRole_declared =
     [''globalUserRoles'', ''children'']"

definition RenderOnAdminRole_state :: "(string \<times> store_field) list" where
  [js_unfold]: "RenderOnAdminRole_state =
     [(''globalUserRoles'', F_globalUserRoles)]"

definition RenderOnAdminRole_actions :: "string list" where
  "RenderOnAdminRole_actions =
     []"

record wiring =
  w_component :: string
  w_declared :: "string list"
  w_state :: "(string \<times> store_field) list"
  w_actions :: "string list"
  w_own :: "string list"

definition wirings :: "wiring list" where
  "wirings =
     [\<lparr>w_component = ''AgentList'', w_declared = AgentList_declared, w_state = AgentList_state,
        w_actions = AgentList_actions, w_own = []\<rparr>,
      \<lparr>w_component = ''EntryList'', w_declared = EntryList_declared, w_state = EntryList_state,
        w_actions = EntryList_actions, w_own = []\<rparr>,
      \<lparr>w_component = ''ClusterList'', w_declared = ClusterList_declared, w_state = ClusterList_state,
        w_actions = ClusterList_actions, w_own = []\<rparr>,
      \<lparr>w_component = ''FederationList'', w_declared = FederationList_declared, w_state = FederationList_state,
        w_actions = FederationList_actions, w_own = []\<rparr>,
      \<lparr>w_component = ''ClusterCreate'', w_declared = ClusterCreate_declared, w_state = ClusterCreate_state,
        w_actions = ClusterCreate_actions, w_own = [''clusterTypeList'', ''agentsList'']\<rparr>,
      \<lparr>w_component = ''ClusterEdit'', w_declared = ClusterEdit_declared, w_state = ClusterEdit_state,
        w_actions = ClusterEdit_actions, w_own = [''clusterTypeList'', ''agentsList'']\<rparr>,
      \<lparr>w_component = ''ClusterManagement'', w_declared = ClusterManagement_declared, w_state = ClusterManagement_state,
        w_actions = ClusterManagement_actions, w_own = []\<rparr>,
      \<lparr>w_component = ''CreateJoinToken'', w_declared = CreateJoinToken_declared, w_state = CreateJoinToken_state,
        w_actions = CreateJoinToken_actions, w_own = []\<rparr>,
      \<lparr>w_component = ''CreateEntry'', w_declared = CreateEntry_declared, w_state = CreateEntry_state,
        w_actions = CreateEntry_actions, w_own = []\<rparr>,
      \<lparr>w_component = ''CreateEntryJson'', w_declared = CreateEntryJson_declared, w_state = CreateEntryJson_state,
        w_actions = CreateEntryJson_actions, w_own = [''ParentIdList'']\<rparr>,
      \<lparr>w_component = ''EntryExpiryFeatures'', w_declared = EntryExpiryFeatures_declared, w_state = EntryExpiryFeatures_state,
        w_actions = EntryExpiryFeatures_actions, w_own = []\<rparr>,
      \<lparr>w_component = ''FederationCreate'', w_declared = FederationCreate_declared, w_state = FederationCreate_state,
        w_actions = FederationCreate_actions, w_own = []\<rparr>,
      \<lparr>w_component = ''TrustBundleCreate'', w_declared = TrustBundleCreate_declared, w_state = TrustBundleCreate_state,
        w_actions = TrustBundleCreate_actions, w_own = []\<rparr>,
      \<lparr>w_component = ''NavigationBar'', w_declared = NavigationBar_declared, w_state = NavigationBar_state,
        w_actions = NavigationBar_actions, w_own = []\<rparr>,
      \<lparr>w_component = ''SelectServer'', w_declared = SelectServer_declared, w_state = SelectServer_state,
        w_actions = SelectServer_actions, w_own = []\<rparr>,
      \<lparr>w_component = ''ServerManagement'', w_declared = ServerManagement_declared, w_state = ServerManagement_state,
        w_actions = ServerManagement_actions, w_own = []\<rparr>,
      \<lparr>w_component = ''SpireHealthCheck'', w_declared = SpireHealthCheck_declared, w_state = SpireHealthCheck_state,
        w_actions = SpireHealthCheck_actions, w_own = []\<rparr>,
      \<lparr>w_component = ''TornjakServerInfo'', w_declared = TornjakServerInfo_declared, w_state = TornjakServerInfo_state,
        w_actions = TornjakServerInfo_actions, w_own = []\<rparr>,
      \<lparr>w_component = ''WorkLoadAttestor'', w_declared = WorkLoadAttestor_declared, w_state = WorkLoadAttestor_state,
        w_actions = WorkLoadAttestor_actions, w_own = [''spiffeid'', ''agentData'']\<rparr>,
      \<lparr>w_component = ''AgentsListTable'', w_declared = AgentsListTable_declared, w_state = AgentsListTable_state,
        w_actions = AgentsListTable_actions, w_own = [''data'', ''id'']\<rparr>,
      \<lparr>w_component = ''ClustersListTable'', w_declared = ClustersListTable_declared, w_state = ClustersListTable_state,
        w_actions = ClustersListTable_actions, w_own = [''data'', ''id'']\<rparr>,
      \<lparr>w_component = ''EntriesListTable'', w_declared = EntriesListTable_declared, w_state = EntriesListTable_state,
        w_actions = EntriesListTable_actions, w_own = [''data'', ''id'']\<rparr>,
      \<lparr>w_component = ''FederationsListTable'', w_declared = FederationsListTable_declared, w_state = FederationsListTable_state,
        w_actions = FederationsListTable_actions, w_own = [''data'', ''id'']\<rparr>,
      \<lparr>w_component = ''ServersListTable'', w_declared = ServersListTable_declared, w_state = ServersListTable_state,
        w_actions = ServersListTable_actions, w_own = [''data'', ''id'']\<rparr>,
      \<lparr>w_component = ''AgentsDashBoardTable'', w_declared = AgentsDashBoardTable_declared, w_state = AgentsDashBoardTable_state,
        w_actions = AgentsDashBoardTable_actions, w_own = [''filterByCluster'', ''filterByAgentId'', ''numRows'']\<rparr>,
      \<lparr>w_component = ''EntriesDashBoardTable'', w_declared = EntriesDashBoardTable_declared, w_state = EntriesDashBoardTable_state,
        w_actions = EntriesDashBoardTable_actions, w_own = [''filterByCluster'', ''filterByAgentId'', ''numRows'']\<rparr>,
      \<lparr>w_component = ''ClustersDashboardTable'', w_declared = ClustersDashboardTable_declared, w_state = ClustersDashboardTable_state,
        w_actions = ClustersDashboardTable_actions, w_own = [''filterByCluster'', ''filterByAgentId'', ''numRows'']\<rparr>,
      \<lparr>w_component = ''AgentsPieChart'', w_declared = AgentsPieChart_declared, w_state = AgentsPieChart_state,
        w_actions = AgentsPieChart_actions, w_own = []\<rparr>,
      \<lparr>w_component = ''ClustersPieChart'', w_declared = ClustersPieChart_declared, w_state = ClustersPieChart_state,
        w_actions = ClustersPieChart_actions, w_own = []\<rparr>,
      \<lparr>w_component = ''TableDashboard'', w_declared = TableDashboard_declared, w_state = TableDashboard_state,
        w_actions = TableDashboard_actions, w_own = [''numRows'', ''title'', ''columns'', ''data'']\<rparr>,
      \<lparr>w_component = ''TornjakDashboard'', w_declared = TornjakDashboard_declared, w_state = TornjakDashboard_state,
        w_actions = TornjakDashboard_actions, w_own = []\<rparr>,
      \<lparr>w_component = ''DashboardDetails'', w_declared = DashboardDetails_declared, w_state = DashboardDetails_state,
        w_actions = DashboardDetails_actions, w_own = [''selectedData'']\<rparr>,
      \<lparr>w_component = ''DashboardDetailsRender'', w_declared = DashboardDetailsRender_declared, w_state = DashboardDetailsRender_state,
        w_actions = DashboardDetailsRender_actions, w_own = [''params'']\<rparr>,
      \<lparr>w_component = ''RenderOnAdminRole'', w_declared = RenderOnAdminRole_declared, w_state = RenderOnAdminRole_state,
        w_actions = RenderOnAdminRole_actions, w_own = [''children'']\<rparr>]"

section \<open>Nothing is missing\<close>

definition missing_props :: "wiring \<Rightarrow> string list" where
  "missing_props w =
     filter (\<lambda>p. p \<notin> set (map fst (w_state w)) \<union> set (w_actions w) \<union> set (w_own w)) (w_declared w)"

text \<open>Every property the connected components declare, or read where they are written in
  JavaScript, comes from the store, from an action or from a parent, except three: the server
  information page is not given the action that would store the debug information, the details page not
  the selected server, and the table of clusters not the clicked table, which it does not use.\<close>

lemma wiring_complete:
  "List.map_filter (\<lambda>w. if missing_props w = [] then None else Some (w_component w, missing_props w)) wirings =
     [(''TornjakServerInfo'', [''spireDebugServerInfoUpdateFunc'']),
      (''ClustersDashboardTable'', [''globalClickedDashboardTable'']),
      (''DashboardDetailsRender'', [''globalServerSelected''])]"
  by code_simp

section \<open>Nothing else is read\<close>

text \<open>An operation respects a component's wiring when it gives the same for any two stores that agree in
  the fields the component is connected to.\<close>

definition agree :: "(string \<times> store_field) list \<Rightarrow> RootState \<Rightarrow> RootState \<Rightarrow> bool" where
  "agree fs p q \<longleftrightarrow> list_all (\<lambda>(_, f). same_field f p q) fs"

definition reads_only :: "(string \<times> store_field) list \<Rightarrow> (RootState \<Rightarrow> 'r) \<Rightarrow> bool" where
  "reads_only fs f \<longleftrightarrow> (\<forall>p q. agree fs p q \<longrightarrow> f p = f q)"

lemma reads_onlyI: "(\<And>p q. agree fs p q \<Longrightarrow> f p = f q) \<Longrightarrow> reads_only fs f"
  by (simp add: reads_only_def)


lemma lists_respect:
  "reads_only AgentList_state (agent_list_mount env)"
  "reads_only AgentList_state (agent_list_update env b1 b2)"
  "reads_only AgentList_state agentList"
  "reads_only EntryList_state (entry_list_mount env)"
  "reads_only EntryList_state (entry_list_update env b1 b2)"
  "reads_only EntryList_state entryList"
  "reads_only ClusterList_state (cluster_list_mount env)"
  "reads_only ClusterList_state (cluster_list_update env prev b1)"
  "reads_only ClusterList_state clusterList"
  "reads_only FederationList_state federationList"
  "reads_only FederationList_state (federation_list_mount env)"
  "reads_only FederationList_state (federation_list_update b1)"
  by (rule reads_onlyI; simp add: agree_def Let_def AgentList_state_def EntryList_state_def ClusterList_state_def
      FederationList_state_def agent_list_mount_def agent_list_update_def agentList_def entry_list_mount_def
      entry_list_update_def entryList_def cluster_list_mount_def cluster_list_update_def clusterList_def
      federationList_def federation_list_mount_def federation_list_update_def)+








end
