(* ===== verification/Spec2Isabelle.thy ===== *)
theory Spec2Isabelle
  imports DetailsPage UploadProps ClusterProps StoreProps FederationForms Health ServerProps AccessProps
    ClusterPages ServerPages EntryPages Updates ManagerMode ListPages DashboardPages
    FederationPages Export Wiring
begin

text \<open>
  Tornjak's front end (src/frontend/src): a React and Redux application with which an operator looks
  at a SPIRE server (agents, registration entries, clusters, federations) and changes it, through
  the Tornjak API (local mode) or through a manager that knows several servers (manager mode).

  \<^bold>\<open>Parts and how they interact.\<close>
  A component has a state of its own, handlers for the user's input and callbacks for replies. It reads
  the store (\<open>RootState\<close>, the props of every component here) and dispatches actions; reducers
  compute the next store. A call to the back end is two definitions: \<open>f\<close>, what is sent, and \<open>f_done\<close>,
  what its callbacks do with any outcome. What a handler does outside its state is a list of effects
  (dispatch, toast, alert, request, scroll, reload), in order. A handler runs with the state and props of
  the last render, as React 18 batches updates; what the user or the network does in between is free.

  \<^bold>\<open>Ground.\<close>
  TJ_Prelude (\<open>undefined\<close>, \<open>null\<close> and values; computations that may throw; loops over them), JsString,
  JsNumber, JsUri (the strings, numbers and URL functions of JavaScript that the code calls, with
  their round trips), ApiTypes (components/types.ts), AppData (data/data.ts), Backend (env.ts,
  helpers.ts, is_manager.ts, apiConfig.ts, error-api.tsx and the outcome of a request).

  \<^bold>\<open>The store.\<close>
  ReduxStore has the slices, actions and reducers of redux/ and the session storage copy. The locale
  \<open>store_cell\<close> states that a field is written by one action type and touched by no other; it
  is interpreted on every field, and what follows for a sequence of dispatches is used throughout.
  StoreProps puts it together.

  \<^bold>\<open>The back end as the front end sees it.\<close>
  ApiHelpers and ApiLists are tornjak-api-helpers.tsx; Requests composes the calls into a step relation
  (requests sent, replies in any order, servers selected in between) with its reachable states.

  \<^bold>\<open>SPIFFE ids and entries.\<close>
  SpiffeHelper is spiffe-helper.tsx with its in-place defaulting; SpiffeId the parsing and printing of
  ids and selectors (locale \<open>id_codec\<close>, interpreted on both); SpiffeProps that the one-pass association of
  entries with agents agrees with the direct one, and what is counted.

  \<^bold>\<open>Forms.\<close>
  EntryCreate, EntrySubmit, EntryProps, EntryOffers (entry-create.tsx); EntryExpiry
  (entry-expiry-features.tsx); EntryUpload, UploadProps (entry-create-json.tsx, over a heap of arrays,
  since the store and the editor share one); JoinToken (agent-create-join-token.tsx); ClusterForms,
  ClusterProps (cluster-create, -edit, -management, -list); FederationForms (federation-create, -list,
  trustbundle-create). The locale \<open>form_guard\<close> states when a form posts; it is interpreted on the forms for
  entries and clusters. The properties say what is posted, under which conditions, and what the user is told.

  \<^bold>\<open>Views.\<close>
  TornjakHelper and Dashboard (tornjak-helper.tsx, the dashboard's tables and charts), DetailsPage (the
  link to a row's page, the page and its filters), Tables, TableActions, TableProps (tables/, agent-list,
  entry-list; locale \<open>row_table\<close>: a request names the item of the row, interpreted on the tables of agents,
  entries, clusters and servers), Servers, ServerProps (server-management, select-server,
  tornjak-server-info, work-load-attestor-modal), Health (spire-health-check: the pending timers are part
  of the state), Access, AccessProps (App.tsx, RenderOnAdminRole, NavDropdown, navbar, KeycloakAuth), Shell
  (index.tsx, the sidebar as it opens and closes, navbar-header-toolbar, render-cell-expand with its
  listeners, PieChart, the columns of the dashboard), DashboardPages (the grids, the charts, the text of a
  details page, what its titles do, the tabs of the drawer).

  \<^bold>\<open>Pages.\<close>
  Page says what a \<open>render\<close> returns here: the controls in order, each with the function from what the user
  enters to the event it causes, and the notices. \<open>page_reach\<close> are the states a user and the replies can
  bring a page into, through the controls on it alone. ClusterPages, ServerPages, EntryPages,
  FederationPages and ListPages give the pages of the forms and lists; their properties say what holds on
  every such state: what is posted, which notices can appear, that a link never throws, that a file of
  federations is posted as it was uploaded but for its endpoints. Lemmas say that the numbered cells are
  the fields meant. The locale \<open>form_field\<close>, a field holds what was entered last, is interpreted on the
  seven fields of the registration form.

  \<^bold>\<open>Between the components.\<close>
  Updates: the \<open>componentDidUpdate\<close> calls of a form, and the dispatches they make, come to an end
  (\<open>settle\<close>, a \<open>partial_function\<close> for which enough steps are shown to exist). ManagerMode: the pages opened in
  manager mode and the replies they can get, as a step relation on the store. Wiring: for each connected
  component the properties it declares, the fields its \<open>mapStateToProps\<close> selects and the actions it is
  given; the operations of the other theories, which take the whole store, read only those fields.
  Export: the file of selected entries, written by their table and read by the page of entries, posts
  exactly those entries.
  This theory ends with what spans the tables: a deletion in one, seen in every view.

  \<^bold>\<open>Parameters.\<close>
  The packages are arguments: url-join (\<open>urljoin\<close>), moment (the result of parsing), JSON.parse and
  JSON.stringify, base64, the text of a date, jwt-decode, Keycloak, the matching of an address by the router.
  Where a property relies on one, its hypothesis says so: parsing reads back what was printed, a
  route matches its own address. The outcome of a request is an input that may be anything.

  \<^bold>\<open>Bounds.\<close>
  Characters are code units below 256, so letter case and white space are those of Latin-1. Numbers are
  exact rationals with NaN and the infinities; the rounding of doubles is not modelled. No definition needs
  fuel: every loop of the code runs over a list or counts down. The one thing that goes on for ever, the health
  check, is a step relation over any number of steps.

  \<^bold>\<open>Not modelled.\<close>
  Styles, layout, helper texts and placeholders; the drawing of charts and the table and menu widgets
  (carbon, MUI), which sort, search and select; icons; logging to the console; the components Agent,
  Entry, Cluster and Federation of the list pages, which only carry their data to the table and are never
  rendered; the constructors that bind handlers; the test helpers; the build.
  The back end in Go is on the other side of the requests. Data of the API has the declared types:
  only the fields that the JSON can leave out and the code tests for are optional.
\<close>

section \<open>From a deletion to every view\<close>

lemma dispatched_entry_deletion:
  "dispatched (deleteEntry_done env ids (Val es) (Resolved st tx d)) =
     [GLOBAL_ENTRIES_LIST (Val (filter (\<lambda>e. entry_id e \<notin> set ids) es))]"
  by (auto simp: deleteEntry_done_def localEntryDelete_done_def local_delete_def do_dispatch_def
      entriesListUpdateFunc_def report_results_def Let_def entry_delete_failed_def unexpected_format_def
      split: jsval.splits option.splits sum.splits)

lemma dash_entry_ids:
  assumes "dash_entryList now date_text unfiltered props = Inr rows"
    and "globalEntriesList (st_entries props) = Val es" and "globalAgentsList (st_agents props) = Val as"
  shows "map er_id rows = map entry_id es"
proof -
  have *: "mapE (entry_row_of now date_text (Val as) infos es') xs = Inr rs \<Longrightarrow> map er_id rs = map entry_id xs"
    for infos es' xs rs
    by (induction xs arbitrary: rs) (auto simp: workloadEntry_def elim!: bindE_InrE)
  with assms show ?thesis
    by (auto simp: dash_entryList_def simp del: entry_row_of_def elim!: bindE_InrE)
qed

text \<open>C12. A local deletion of selected rows is the same everywhere: once the reply is there, the table of
  entries and the dashboard's table of entries, computed again from the store, both show the rows
  that were not selected, in the same order; whatever the reply says about the single entries.\<close>

theorem deleted_entries_leave_views:
  assumes "globalEntriesList (st_entries props) = Val es" and "globalAgentsList (st_agents props) = Val as"
    and "prepare_rows (entry_table_row_of now js) es = Inr rows"
    and "props' = dispatches props (dispatched (deleteEntry_done env (entry_ids (nths rows I)) (Val es) (Resolved st tx d)))"
    and "entryList props' = Inr data"
    and "prepareTableData (entry_table_row_of now' js) data rows = Inr rows'"
    and "dash_entryList now' date_text unfiltered props' = Inr dash"
  shows "map et_id rows' = filter (\<lambda>i. i \<notin> set (map et_id (nths rows I))) (map et_id rows) \<and>
    map er_id dash = map et_id rows'"
proof -
  let ?rest = "filter (\<lambda>e. entry_id e \<notin> set (entry_ids (nths rows I))) es"
  have s: "globalEntriesList (st_entries props') = Val ?rest" "globalAgentsList (st_agents props') = Val as"
    using assms(1,2,4) by (simp_all add: dispatched_entry_deletion dispatches_def
        globalEntriesList_cell.get_dispatch globalAgentsList_cell.get_dispatch)
  then have "prepare_rows (entry_table_row_of now' js) ?rest = Inr rows'"
    using assms(5,6) by (auto simp: entryList_def prepareTableData_def)
  then have r: "map et_id rows' = map entry_id ?rest"
    using entry_rows.prepared [of now' js ?rest rows'] by (simp add: map_of_refs)
  have "map et_id rows = map entry_id es"
    using entry_rows.prepared [OF assms(3)] by (simp add: map_of_refs)
  then have "map entry_id ?rest = filter (\<lambda>i. i \<notin> set (map et_id (nths rows I))) (map et_id rows)"
    by (simp add: filter_map comp_def entry_ids_def)
  then show ?thesis using r dash_entry_ids [OF assms(7) s] by simp
qed

lemma first_agents:
  "globalAgentsList (st_agents (createStore (\<lambda>_. None) None)) = Val []"
  "globalAgentsWorkLoadAttestorInfo (st_agents (createStore (\<lambda>_. None) None)) = Val []"
  by (simp_all add: createStore_def loadFromLocalStorage_def dispatch_defs agents_initialState_def)

lemma deleted_entries_leave_views_witness:
  "\<exists>rows props' data rows' dash.
     prepare_rows (entry_table_row_of 0 (\<lambda>_. [])) [table_entry ''i'', table_entry ''j''] = Inr rows \<and>
     entryList props' = Inr data \<and> prepareTableData (entry_table_row_of 0 (\<lambda>_. [])) data rows = Inr rows' \<and>
     dash_entryList 0 (\<lambda>_. []) unfiltered props' = Inr dash \<and> map er_id dash = [''j'']"
proof -
  let ?es = "[table_entry ''i'', table_entry ''j'']"
  let ?row = "entry_table_row_of 0 (\<lambda>_. [])"
  let ?props = "dispatch (createStore (\<lambda>_. None) None) (GLOBAL_ENTRIES_LIST (Val ?es))"
  let ?out = "Resolved 200 [] (Val (Some [Val (Some ''i'')])) :: delete_reply jsval outcome"
  have s: "globalEntriesList (st_entries ?props) = Val ?es" "globalAgentsList (st_agents ?props) = Val []"
    by (simp_all add: globalEntriesList_cell.get_dispatch globalAgentsList_cell.get_dispatch first_agents)
  have "\<exists>rows. prepare_rows ?row ?es = Inr rows \<and> map et_id rows = [''i'', ''j''] \<and>
      entry_ids (nths rows {0}) = [''i'']"
    by (simp add: prepare_rows_def entry_table_row_of_def table_entry_def id_cell_def entry_ids_def nths_Cons)
  then obtain rows where rows: "prepare_rows ?row ?es = Inr rows" "map et_id rows = [''i'', ''j'']"
    "entry_ids (nths rows {0}) = [''i'']" by (elim exE conjE) (rule that)
  define props' where "props' = dispatches ?props (dispatched (deleteEntry_done manager_env
    (entry_ids (nths rows {0})) (Val ?es) ?out))"
  have p: "globalEntriesList (st_entries props') = Val [table_entry ''j'']"
    "globalAgentsList (st_agents props') = Val []"
    "globalAgentsWorkLoadAttestorInfo (st_agents props') = globalAgentsWorkLoadAttestorInfo (st_agents ?props)"
    using s by (simp_all add: props'_def rows(3) dispatched_entry_deletion dispatches_def table_entry_def
        globalEntriesList_cell.get_dispatch globalAgentsList_cell.get_dispatch
        globalAgentsWorkLoadAttestorInfo_cell.get_dispatch)
  have i: "globalAgentsWorkLoadAttestorInfo (st_agents ?props) = Val []"
    by (simp add: globalAgentsWorkLoadAttestorInfo_cell.get_dispatch first_agents)
  have d: "entryList props' = Inr (Rows [table_entry ''j''])" using p by (simp add: entryList_def)
  obtain rows' where r: "prepareTableData ?row (Rows [table_entry ''j'']) rows = Inr rows'"
    by (simp add: prepareTableData_def prepare_rows_def entry_table_row_of_def table_entry_def id_cell_def)
  have "\<not> isl (entry_row_of 0 (\<lambda>_. []) (Val []) (Val []) [table_entry ''j''] (table_entry ''j''))"
    by code_simp
  then obtain row where "entry_row_of 0 (\<lambda>_. []) (Val []) (Val []) [table_entry ''j''] (table_entry ''j'') = Inr row"
    unfolding isl_def by (metis sum.exhaust)
  then have dash: "dash_entryList 0 (\<lambda>_. []) unfiltered props' = Inr [row]"
    using p i by (simp add: dash_entryList_def del: entry_row_of_def)
  have v: "map et_id rows' = filter (\<lambda>i. i \<notin> set (map et_id (nths rows {0}))) (map et_id rows) \<and>
      map er_id [row] = map et_id rows'"
    by (rule deleted_entries_leave_views [OF s rows(1) props'_def d r dash])
  moreover have "map et_id (nths rows {0}) = [''i'']" using rows(3) by (simp add: entry_ids_def)
  ultimately have "map er_id [row] = filter (\<lambda>i. i \<notin> set [''i'']) [''i'', ''j'']"
    by (simp only: rows(2))
  then have e: "map er_id [row] = [''j'']" by simp
  show ?thesis
    by (rule exI [of _ rows], rule exI [of _ props'], rule exI, rule exI, rule exI [of _ "[row]"], intro conjI)
      (rule rows(1) d r dash e)+
qed

end
